(* ===== verification/Prelude.thy ===== *)
theory Prelude
  imports Main "HOL-Library.Word"
begin

text \<open>
  What every component of the development shares: the machine integers of the code, the
  status codes of UEFI, the outcome of running a piece of C or Rust, little-endian byte
  encodings, and byte ranges of a memory or a flash device.
\<close>

named_theorems status_simps \<open>facts that decide status codes\<close>
named_theorems range_simps \<open>facts on byte ranges of an addressable store\<close>
named_theorems layout_simps \<open>facts on the byte layout of headers and frames\<close>

unbundle bit_operations_syntax

section \<open>Machine integers\<close>

type_synonym u8 = "8 word"
type_synonym u16 = "16 word"
type_synonym u32 = "32 word"
type_synonym u64 = "64 word"

text \<open>
  The build target is AArch64, so \<open>UINTN\<close>, \<open>EFI_LBA\<close> and pointers are 64 bits wide.
  \<open>u32_to_u64\<close> is the implicit zero extension of a \<open>UINT32\<close> in such an expression.
\<close>

abbreviation u32_to_u64 :: "u32 \<Rightarrow> u64" where
  "u32_to_u64 w \<equiv> ucast w"

lemma unat_bound: "unat (w :: 'a::len word) < 2 ^ LENGTH('a)"
  by (rule unsigned_less)

lemma unat_u32_to_u64 [simp]: "unat (u32_to_u64 w) = unat w"
  proof -
  have "unat w < 2 ^ 64"
    using unat_bound [of w] by simp
  then show ?thesis
    by (simp add: unsigned_ucast_eq take_bit_nat_eq_self)
qed

lemma ucast_u32_to_u64 [simp]: "(ucast (u32_to_u64 w) :: u32) = w"
  by transfer simp

lemma u32_to_u64_inject [simp]: "u32_to_u64 a = u32_to_u64 b \<longleftrightarrow> a = b"
proof
  assume "u32_to_u64 a = u32_to_u64 b"
  then have "unat (u32_to_u64 a) = unat (u32_to_u64 b)"
    by (rule arg_cong)
  then have "unat a = unat b"
    by (simp only: unat_u32_to_u64)
  then show "a = b"
    using word_unat_eq_iff by blast
qed simp

lemma unat_add_no_wrap:
  fixes a b :: "'a::len word"
  assumes "unat a + unat b < 2 ^ LENGTH('a)"
  shows "unat (a + b) = unat a + unat b"
  using assms by (simp add: unat_word_ariths)

lemma unat_mult_no_wrap:
  fixes a b :: "'a::len word"
  assumes "unat a * unat b < 2 ^ LENGTH('a)"
  shows "unat (a * b) = unat a * unat b"
  using assms by (simp add: unat_word_ariths)

lemma unat_two_power: "k < LENGTH('a) \<Longrightarrow> unat (2 ^ k :: 'a::len word) = 2 ^ k"
  by (metis mod_less nat_power_eq of_nat_numeral of_nat_power power_strict_increasing_iff
      rel_simps(49) semiring_norm(76) unat_of_nat)

section \<open>Status codes and outcomes\<close>

text \<open>
  The status codes the code names. A library that is not part of the repository may also
  return a warning or an error the code does not name. \<open>EFI_ERROR\<close> is the test on the
  sign bit: success and warnings are not errors.
\<close>

datatype efi_status =
    EFI_SUCCESS
  | EFI_WARNING nat
  | EFI_INVALID_PARAMETER
  | EFI_UNSUPPORTED
  | EFI_BAD_BUFFER_SIZE
  | EFI_DEVICE_ERROR
  | EFI_WRITE_PROTECTED
  | EFI_OUT_OF_RESOURCES
  | EFI_NO_MEDIA
  | EFI_MEDIA_CHANGED
  | EFI_NOT_FOUND
  | EFI_ACCESS_DENIED
  | EFI_OTHER_ERROR nat

fun EFI_ERROR :: "efi_status \<Rightarrow> bool" where
  "EFI_ERROR EFI_SUCCESS = False"
| "EFI_ERROR (EFI_WARNING _) = False"
| "EFI_ERROR _ = True"

lemma not_error_success [status_simps]: "\<not> EFI_ERROR s \<Longrightarrow> s = EFI_SUCCESS \<or> (\<exists>n. s = EFI_WARNING n)"
  by (cases s) auto

text \<open>
  What running a function can come to: it returns a value; it stops in an \<open>ASSERT\<close>, a Rust
  panic or another deliberate halt; or it has undefined behaviour (a NULL or
  out-of-bounds access, a division by zero in C).
\<close>

datatype 'a outcome = Ret 'a | Halted | Undef

fun obind :: "'a outcome \<Rightarrow> ('a \<Rightarrow> 'b outcome) \<Rightarrow> 'b outcome" where
  "obind (Ret x) f = f x"
| "obind Halted f = Halted"
| "obind Undef f = Undef"

lemma obind_Ret_iff: "obind m f = Ret y \<longleftrightarrow> (\<exists>x. m = Ret x \<and> f x = Ret y)"
  by (cases m) auto

lemma obind_assoc: "obind (obind m f) g = obind m (\<lambda>x. obind (f x) g)"
  by (cases m) auto

section \<open>Little-endian encodings\<close>

fun le_enc :: "nat \<Rightarrow> nat \<Rightarrow> u8 list" where
  "le_enc 0 v = []"
| "le_enc (Suc n) v = of_nat (v mod 256) # le_enc n (v div 256)"

fun le_val :: "u8 list \<Rightarrow> nat" where
  "le_val [] = 0"
| "le_val (b # bs) = unat b + 256 * le_val bs"

lemma length_le_enc [simp]: "length (le_enc n v) = n"
  by (induction n arbitrary: v) auto

lemma le_val_le_enc: "le_val (le_enc n v) = v mod 256 ^ n"
proof (induction n arbitrary: v)
  case 0
  then show ?case by simp
next
  case (Suc n)
  have "unat (of_nat (v mod 256) :: u8) = v mod 256"
    by (simp add: unat_of_nat)
  with Suc show ?case
    by (simp add: mod_mult2_eq)
qed

lemma le_val_bound: "le_val bs < 256 ^ length bs"
proof (induction bs)
  case Nil
  then show ?case by simp
next
  case (Cons b bs)
  have "unat b < 256"
    using unat_bound [of b] by simp
  with Cons show ?case by simp
qed

lemma le_val_le_enc16 [simp]: "of_nat (le_val (le_enc 2 (unat w))) = (w :: u16)"
  using unat_bound [of w] by (simp add: le_val_le_enc)

lemma le_val_le_enc32 [simp]: "of_nat (le_val (le_enc 4 (unat w))) = (w :: u32)"
  using unat_bound [of w] by (simp add: le_val_le_enc)

lemma le_val_le_enc64 [simp]: "of_nat (le_val (le_enc 8 (unat w))) = (w :: u64)"
  using unat_bound [of w] by (simp add: le_val_le_enc)

section \<open>Slices of a byte string\<close>

definition slice :: "nat \<Rightarrow> nat \<Rightarrow> 'a list \<Rightarrow> 'a list" where
  "slice off n xs = take n (drop off xs)"

lemma length_slice [simp]: "length (slice off n xs) = min n (length xs - off)"
  by (simp add: slice_def)

lemma slice_append_skip [layout_simps]: "length xs \<le> off \<Longrightarrow> slice off n (xs @ ys) = slice (off - length xs) n ys"
  by (simp add: slice_def)

lemma slice_append_hit [layout_simps]: "length xs = n \<Longrightarrow> slice 0 n (xs @ ys) = xs"
  by (simp add: slice_def)

lemma slice_append_inside: "off + n \<le> length xs \<Longrightarrow> slice off n (xs @ ys) = slice off n xs"
  by (simp add: slice_def)

lemma slice_Cons_skip [layout_simps]: "0 < off \<Longrightarrow> slice off n (x # xs) = slice (off - 1) n xs"
  by (simp add: slice_def drop_Cons')

lemma slice_all [layout_simps]: "length xs = n \<Longrightarrow> slice 0 n xs = xs"
  by (simp add: slice_def)

lemma slice_update_outside:
  "i < off \<or> off + n \<le> i \<Longrightarrow> slice off n (xs[i := x]) = slice off n xs"
  by (rule nth_equalityI) (auto simp: slice_def)

lemma take_split_pair:
  assumes "j + 1 < n" "n \<le> length xs"
  shows "take n xs = take j xs @ [xs ! j, xs ! (j + 1)] @ slice (j + 2) (n - j - 2) xs"
proof -
  have "drop j xs = xs ! j # xs ! (j + 1) # drop (j + 2) xs"
    using assms by (simp add: Cons_nth_drop_Suc)
  moreover have "take n xs = take j xs @ take (n - j) (drop j xs)"
    using assms take_add [of j "n - j" xs] by simp
  moreover have "n - j = Suc (Suc (n - j - 2))"
    using assms by simp
  ultimately show ?thesis
    by (metis slice_def take_Suc_Cons append_Cons append_Nil)
qed

section \<open>Byte-addressed contents\<close>

text \<open>
  The contents of a device as a function from byte offsets. \<open>read_range\<close> and
  \<open>write_range\<close> are the transfers of a byte string; \<open>fill_range\<close> sets a range to one
  byte.
\<close>

type_synonym content = "nat \<Rightarrow> u8"

definition read_range :: "content \<Rightarrow> nat \<Rightarrow> nat \<Rightarrow> u8 list" where
  "read_range c a n = map c [a ..< a + n]"

definition write_range :: "content \<Rightarrow> nat \<Rightarrow> u8 list \<Rightarrow> content" where
  "write_range c a bs = (\<lambda>i. if a \<le> i \<and> i < a + length bs then bs ! (i - a) else c i)"

definition fill_range :: "content \<Rightarrow> nat \<Rightarrow> nat \<Rightarrow> u8 \<Rightarrow> content" where
  "fill_range c a n b = (\<lambda>i. if a \<le> i \<and> i < a + n then b else c i)"

lemma length_read_range [simp]: "length (read_range c a n) = n"
  by (simp add: read_range_def)

lemma read_range_0 [simp]: "read_range c a 0 = []"
  by (simp add: read_range_def)

lemma nth_read_range [range_simps]: "i < n \<Longrightarrow> read_range c a n ! i = c (a + i)"
  by (simp add: read_range_def)

lemma read_write_same [range_simps]: "read_range (write_range c a bs) a (length bs) = bs"
  by (rule nth_equalityI) (auto simp: read_range_def write_range_def)

lemma read_write_prefix [range_simps]:
  "length bs \<le> n \<Longrightarrow> read_range (write_range c a bs) a n = bs @ read_range c (a + length bs) (n - length bs)"
  by (rule nth_equalityI) (auto simp: read_range_def write_range_def nth_append)

lemma read_write_disjoint [range_simps]:
  "a + n \<le> b \<or> b + length bs \<le> a \<Longrightarrow> read_range (write_range c b bs) a n = read_range c a n"
  by (auto simp: read_range_def write_range_def)

lemma read_fill_inside [range_simps]:
  "b \<le> a \<Longrightarrow> a + n \<le> b + m \<Longrightarrow> read_range (fill_range c b m x) a n = replicate n x"
  by (rule nth_equalityI) (auto simp: read_range_def fill_range_def)

lemma read_fill_disjoint [range_simps]:
  "a + n \<le> b \<or> b + m \<le> a \<Longrightarrow> read_range (fill_range c b m x) a n = read_range c a n"
  by (auto simp: read_range_def fill_range_def)

lemma write_range_outside [range_simps]:
  "i < a \<or> a + length bs \<le> i \<Longrightarrow> write_range c a bs i = c i"
  by (auto simp: write_range_def)

lemma fill_range_outside [range_simps]: "i < a \<or> a + n \<le> i \<Longrightarrow> fill_range c a n x i = c i"
  by (auto simp: fill_range_def)

lemma read_range_cong: "(\<And>i. a \<le> i \<Longrightarrow> i < a + n \<Longrightarrow> c i = c' i) \<Longrightarrow> read_range c a n = read_range c' a n"
  by (simp add: read_range_def)

lemma slice_read_range [range_simps]:
  "off + n \<le> m \<Longrightarrow> slice off n (read_range c a m) = read_range c (a + off) n"
  by (simp add: slice_def read_range_def take_map drop_map add.assoc)

end
