(* ===== verification/Nor_Flash_Instance.thy ===== *)
theory Nor_Flash_Instance
  imports Prelude
begin

text \<open>
  The data of the NOR flash driver (\<^verbatim>\<open>NorFlashStmmRuntimeDxe\<close>) and its view of
  \<^verbatim>\<open>NorFlashLib\<close>.

  The structures are those that the template \<^verbatim>\<open>mNorFlashInstanceTemplate\<close> in
  NorFlashStmmRuntimeDxe.c initialises field by field. \<^verbatim>\<open>NorFlashLib\<close> itself lives in
  a git submodule that is not part of this repository: it is a parameter, the record
  \<open>nor_flash_lib\<close> of the functions the driver calls, over an arbitrary device state.
  \<open>nor_flash_contract\<close> states what the callers rely on.
\<close>

section \<open>Structures\<close>

record efi_block_io_media =
  MediaId :: u32
  RemovableMedia :: bool
  MediaPresent :: bool
  LogicalPartition :: bool
  ReadOnly :: bool
  WriteCaching :: bool
  BlockSize :: u32
  IoAlign :: u32
  LastBlock :: u64
  LowestAlignedLba :: u64
  LogicalBlocksPerPhysicalBlock :: u32

text \<open>
  The protocol structures hold function pointers and, for Block I/O, a pointer to the media
  structure; a pointer is its address and 0 is NULL.
\<close>

record efi_block_io_protocol =
  BlkRevision :: u64
  BlkMedia :: u64
  BlkReset :: u64
  BlkReadBlocks :: u64
  BlkWriteBlocks :: u64
  BlkFlushBlocks :: u64

record efi_disk_io_protocol =
  DskRevision :: u64
  DskReadDisk :: u64
  DskWriteDisk :: u64

record efi_fvb_protocol =
  FvpGetAttributes :: u64
  FvpSetAttributes :: u64
  FvpGetPhysicalAddress :: u64
  FvpGetBlockSize :: u64
  FvpRead :: u64
  FvpWrite :: u64
  FvpEraseBlocks :: u64
  FvpParentHandle :: u64

record nor_flash_device_path =
  VendorGuid :: "u8 list"
  DevicePathIndex :: u8

record xspi_access_info =
  AccBaseAddress :: u64
  AccDmaBaseAddress :: u64
  AccSize :: u64
  AccRemappedOffset :: u64

record nor_flash_instance =
  Signature :: u64
  Handle :: u64
  DeviceBaseAddress :: u64
  Size :: u64
  ShadowBuffer :: u64
  Media :: efi_block_io_media
  BlockIoProtocol :: efi_block_io_protocol
  DiskIoProtocol :: efi_disk_io_protocol
  DevicePath :: nor_flash_device_path
  AccessInfo :: xspi_access_info
  RegionBaseAddress :: u64
  Blocks :: u64
  StartLba :: u64
  FvbProtocol :: efi_fvb_protocol

text \<open>The block size as the driver widens it, and as a number.\<close>

abbreviation block_size :: "nor_flash_instance \<Rightarrow> u64" where
  "block_size I \<equiv> u32_to_u64 (BlockSize (Media I))"

abbreviation bsize :: "nor_flash_instance \<Rightarrow> nat" where
  "bsize I \<equiv> unat (BlockSize (Media I))"

section \<open>The flash library\<close>

text \<open>
  The calls of the driver into \<^verbatim>\<open>NorFlashLib\<close>, with the argument order of the calls. A buffer is
  the byte string the pointer argument points to; a read returns the buffer's new contents.
  \<open>'d\<close> is the state of the device and of everything the library keeps.
\<close>

record 'd nor_flash_lib =
  NorFlashRead :: "nor_flash_instance \<Rightarrow> u64 \<Rightarrow> u64 \<Rightarrow> u64 \<Rightarrow> u8 list \<Rightarrow> 'd \<Rightarrow> efi_status \<times> u8 list \<times> 'd"
  NorFlashWrite :: "nor_flash_instance \<Rightarrow> u64 \<Rightarrow> u64 \<Rightarrow> u64 \<Rightarrow> u8 list \<Rightarrow> 'd \<Rightarrow> efi_status \<times> 'd"
  NorFlashReadBlocks :: "nor_flash_instance \<Rightarrow> u64 \<Rightarrow> u64 \<Rightarrow> u8 list \<Rightarrow> 'd \<Rightarrow> efi_status \<times> u8 list \<times> 'd"
  NorFlashWriteBlocks :: "nor_flash_instance \<Rightarrow> u64 \<Rightarrow> u64 \<Rightarrow> u8 list \<Rightarrow> 'd \<Rightarrow> efi_status \<times> 'd"
  NorFlashErase :: "nor_flash_instance \<Rightarrow> u64 \<Rightarrow> u64 \<Rightarrow> 'd \<Rightarrow> efi_status \<times> 'd"
  NorFlashReset :: "nor_flash_instance \<Rightarrow> 'd \<Rightarrow> efi_status \<times> 'd"

definition flash_addr :: "nor_flash_instance \<Rightarrow> u64 \<Rightarrow> u64 \<Rightarrow> nat" where
  "flash_addr I lba off = unat lba * bsize I + unat off"

text \<open>
  The documented behaviour, over a view \<open>c\<close> of the device state as byte contents: a transfer
  that does not fail moves exactly the bytes asked for, to or from \<open>lba\<close>'s block at
  the given offset; an erase that does not fail leaves 0xFF; reads and resets change no contents;
  a write or an erase that fails leaves everything outside the blocks it touches alone.
\<close>

definition touched :: "nor_flash_instance \<Rightarrow> nat \<Rightarrow> nat \<Rightarrow> nat \<Rightarrow> bool" where
  "touched I a n i \<longleftrightarrow>
     a div bsize I * bsize I \<le> i \<and> i < (a + n + bsize I - 1) div bsize I * bsize I"

definition same_outside :: "nor_flash_instance \<Rightarrow> nat \<Rightarrow> nat \<Rightarrow> content \<Rightarrow> content \<Rightarrow> bool" where
  "same_outside I a n c c' \<longleftrightarrow> (\<forall>i. \<not> touched I a n i \<longrightarrow> c' i = c i)"

definition read_contract :: "'d nor_flash_lib \<Rightarrow> ('d \<Rightarrow> content) \<Rightarrow> bool" where
  "read_contract L c \<longleftrightarrow>
     (\<forall>I lba off n buf d s buf' d'. NorFlashRead L I lba off n buf d = (s, buf', d') \<longrightarrow>
        unat n \<le> length buf \<longrightarrow>
        c d' = c d \<and> length buf' = length buf \<and>
        (\<not> EFI_ERROR s \<longrightarrow>
           buf' = read_range (c d) (flash_addr I lba off) (unat n) @ drop (unat n) buf)) \<and>
     (\<forall>I lba n buf d s buf' d'. NorFlashReadBlocks L I lba n buf d = (s, buf', d') \<longrightarrow>
        unat n \<le> length buf \<longrightarrow>
        c d' = c d \<and> length buf' = length buf \<and>
        (\<not> EFI_ERROR s \<longrightarrow>
           buf' = read_range (c d) (flash_addr I lba 0) (unat n) @ drop (unat n) buf))"

definition write_contract :: "'d nor_flash_lib \<Rightarrow> ('d \<Rightarrow> content) \<Rightarrow> bool" where
  "write_contract L c \<longleftrightarrow>
     (\<forall>I lba off n buf d s d'. NorFlashWrite L I lba off n buf d = (s, d') \<longrightarrow>
        unat n \<le> length buf \<longrightarrow>
        same_outside I (flash_addr I lba off) (unat n) (c d) (c d') \<and>
        (\<not> EFI_ERROR s \<longrightarrow>
           c d' = write_range (c d) (flash_addr I lba off) (take (unat n) buf))) \<and>
     (\<forall>I lba n buf d s d'. NorFlashWriteBlocks L I lba n buf d = (s, d') \<longrightarrow>
        unat n \<le> length buf \<longrightarrow>
        same_outside I (flash_addr I lba 0) (unat n) (c d) (c d') \<and>
        (\<not> EFI_ERROR s \<longrightarrow>
           c d' = write_range (c d) (flash_addr I lba 0) (take (unat n) buf)))"

definition erase_contract :: "'d nor_flash_lib \<Rightarrow> ('d \<Rightarrow> content) \<Rightarrow> bool" where
  "erase_contract L c \<longleftrightarrow>
     (\<forall>I lba n d s d'. NorFlashErase L I lba n d = (s, d') \<longrightarrow> bsize I dvd unat n \<longrightarrow>
        same_outside I (flash_addr I lba 0) (unat n) (c d) (c d') \<and>
        (\<not> EFI_ERROR s \<longrightarrow> c d' = fill_range (c d) (flash_addr I lba 0) (unat n) 0xFF)) \<and>
     (\<forall>I d s d'. NorFlashReset L I d = (s, d') \<longrightarrow> c d' = c d)"

definition nor_flash_contract :: "'d nor_flash_lib \<Rightarrow> ('d \<Rightarrow> content) \<Rightarrow> bool" where
  "nor_flash_contract L c \<longleftrightarrow> read_contract L c \<and> write_contract L c \<and> erase_contract L c"

text \<open>The consequences the component proofs use, one per call.\<close>

lemma NorFlashRead_contract:
  assumes "nor_flash_contract L c" "NorFlashRead L I lba off n buf d = (s, buf', d')"
    and "unat n \<le> length buf"
  shows "c d' = c d" "length buf' = length buf"
    and "\<not> EFI_ERROR s \<Longrightarrow>
      buf' = read_range (c d) (flash_addr I lba off) (unat n) @ drop (unat n) buf"
  using assms unfolding nor_flash_contract_def read_contract_def by blast+

lemma NorFlashReadBlocks_contract:
  assumes "nor_flash_contract L c" "NorFlashReadBlocks L I lba n buf d = (s, buf', d')"
    and "unat n \<le> length buf"
  shows "c d' = c d" "length buf' = length buf"
    and "\<not> EFI_ERROR s \<Longrightarrow>
      buf' = read_range (c d) (flash_addr I lba 0) (unat n) @ drop (unat n) buf"
  using assms unfolding nor_flash_contract_def read_contract_def by blast+

lemma NorFlashWrite_contract:
  assumes "nor_flash_contract L c" "NorFlashWrite L I lba off n buf d = (s, d')"
    and "unat n \<le> length buf"
  shows "same_outside I (flash_addr I lba off) (unat n) (c d) (c d')"
    and "\<not> EFI_ERROR s \<Longrightarrow>
      c d' = write_range (c d) (flash_addr I lba off) (take (unat n) buf)"
  using assms unfolding nor_flash_contract_def write_contract_def by blast+

lemma NorFlashWriteBlocks_contract:
  assumes "nor_flash_contract L c" "NorFlashWriteBlocks L I lba n buf d = (s, d')"
    and "unat n \<le> length buf"
  shows "same_outside I (flash_addr I lba 0) (unat n) (c d) (c d')"
    and "\<not> EFI_ERROR s \<Longrightarrow>
      c d' = write_range (c d) (flash_addr I lba 0) (take (unat n) buf)"
  using assms unfolding nor_flash_contract_def write_contract_def by blast+

lemma NorFlashErase_contract:
  assumes "nor_flash_contract L c" "NorFlashErase L I lba n d = (s, d')"
    and "bsize I dvd unat n"
  shows "same_outside I (flash_addr I lba 0) (unat n) (c d) (c d')"
    and "\<not> EFI_ERROR s \<Longrightarrow> c d' = fill_range (c d) (flash_addr I lba 0) (unat n) 0xFF"
  using assms unfolding nor_flash_contract_def erase_contract_def by blast+

lemma NorFlashReset_contract:
  assumes "nor_flash_contract L c" "NorFlashReset L I d = (s, d')"
  shows "c d' = c d"
  using assms unfolding nor_flash_contract_def erase_contract_def by blast

section \<open>An array device that satisfies the contract\<close>

text \<open>
  The contract can be met: a device whose state is its contents, that refuses a transfer past
  the instance's size and an erase that is not a whole number of blocks. The witnesses of
  the properties that rest on the contract use it; no definition of the driver depends on it.
\<close>

definition in_device :: "nor_flash_instance \<Rightarrow> nat \<Rightarrow> nat \<Rightarrow> bool" where
  "in_device I a n \<longleftrightarrow> 0 < bsize I \<and> a + n \<le> unat (Size I)"

definition array_read :: "nor_flash_instance \<Rightarrow> nat \<Rightarrow> nat \<Rightarrow> u8 list \<Rightarrow> content \<Rightarrow> efi_status \<times> u8 list \<times> content" where
  "array_read I a n buf c =
     (if in_device I a n then (EFI_SUCCESS, read_range c a n @ drop n buf, c)
      else (EFI_INVALID_PARAMETER, buf, c))"

definition array_write :: "nor_flash_instance \<Rightarrow> nat \<Rightarrow> u8 list \<Rightarrow> content \<Rightarrow> efi_status \<times> content" where
  "array_write I a bs c =
     (if in_device I a (length bs) then (EFI_SUCCESS, write_range c a bs)
      else (EFI_INVALID_PARAMETER, c))"

definition array_erase :: "nor_flash_instance \<Rightarrow> nat \<Rightarrow> nat \<Rightarrow> content \<Rightarrow> efi_status \<times> content" where
  "array_erase I a n c =
     (if in_device I a n \<and> bsize I dvd n then (EFI_SUCCESS, fill_range c a n 0xFF)
      else (EFI_INVALID_PARAMETER, c))"

definition array_lib :: "content nor_flash_lib" where
  "array_lib =
     \<lparr>NorFlashRead = (\<lambda>I lba off n buf. array_read I (flash_addr I lba off) (unat n) buf),
      NorFlashWrite = (\<lambda>I lba off n buf. array_write I (flash_addr I lba off) (take (unat n) buf)),
      NorFlashReadBlocks = (\<lambda>I lba n buf. array_read I (flash_addr I lba 0) (unat n) buf),
      NorFlashWriteBlocks = (\<lambda>I lba n buf. array_write I (flash_addr I lba 0) (take (unat n) buf)),
      NorFlashErase = (\<lambda>I lba n. array_erase I (flash_addr I lba 0) (unat n)),
      NorFlashReset = (\<lambda>I c. (EFI_SUCCESS, c))\<rparr>"

definition blank_flash :: content where
  "blank_flash = (\<lambda>_. 0xFF)"

lemma untouched_outside_range:
  assumes "0 < bsize I" "\<not> touched I a n i"
  shows "i < a \<or> a + n \<le> i"
proof -
  have "a div bsize I * bsize I \<le> a"
    by simp
  moreover have "a + n \<le> (a + n + bsize I - 1) div bsize I * bsize I"
  proof -
    let ?m = "a + n + bsize I - 1"
    have "?m = ?m div bsize I * bsize I + ?m mod bsize I"
      by simp
    moreover have "?m mod bsize I < bsize I"
      using assms(1) by simp
    ultimately show ?thesis by linarith
  qed
  ultimately show ?thesis
    using assms(2) unfolding touched_def by linarith
qed

lemma same_outside_refl [simp]: "same_outside I a n c c"
  by (simp add: same_outside_def)

lemma same_outside_write:
  "0 < bsize I \<Longrightarrow> same_outside I a (length bs) c (write_range c a bs)"
  using untouched_outside_range by (auto simp: same_outside_def intro!: write_range_outside)

lemma same_outside_write_take:
  "0 < bsize I \<Longrightarrow> n \<le> length buf \<Longrightarrow> same_outside I a n c (write_range c a (take n buf))"
  using same_outside_write [of I a "take n buf" c] by simp

lemma same_outside_fill:
  "0 < bsize I \<Longrightarrow> same_outside I a n c (fill_range c a n b)"
  using untouched_outside_range by (auto simp: same_outside_def intro!: fill_range_outside)

lemma array_lib_contract: "nor_flash_contract array_lib (\<lambda>c. c)"
proof -
  have "read_contract array_lib (\<lambda>c. c)"
    by (auto simp: read_contract_def array_lib_def array_read_def split: if_splits)
  moreover have "write_contract array_lib (\<lambda>c. c)"
    unfolding write_contract_def
    by (auto simp: array_lib_def array_write_def in_device_def
        intro: same_outside_write_take split: if_splits)
  moreover have "erase_contract array_lib (\<lambda>c. c)"
    by (auto simp: erase_contract_def array_lib_def array_erase_def in_device_def
        intro: same_outside_fill split: if_splits)
  ultimately show ?thesis
    by (simp add: nor_flash_contract_def)
qed

end
