(* ===== verification/Edk2.thy ===== *)
theory Edk2
  imports Nor_Flash_Instance
begin

text \<open>
  What the driver takes from EDK II and does not define itself: named constants, platform
  configuration database values, library routines of \<^verbatim>\<open>BaseLib\<close> and the memory pool.
  EDK II is a git submodule that is not part of this repository, so constants and routines are
  fields of parameter records, and \<open>edk2_documented\<close> is what their documentation says.
\<close>

section \<open>Constants and routines\<close>

text \<open>\<open>fvb2_flag\<close> names the attribute bits of \<^verbatim>\<open>EFI_FVB_ATTRIBUTES_2\<close> that the code uses.\<close>

datatype fvb2_flag =
    EFI_FVB2_READ_ENABLED_CAP
  | EFI_FVB2_READ_STATUS
  | EFI_FVB2_STICKY_WRITE
  | EFI_FVB2_ERASE_POLARITY
  | EFI_FVB2_WRITE_STATUS
  | EFI_FVB2_WRITE_ENABLED_CAP

record edk2 =
  gEfiSystemNvDataFvGuid :: "u8 list"
  gEfiVariableGuid :: "u8 list"
  gEfiAuthenticatedVariableGuid :: "u8 list"
  gCixNorFlashDevicePathGuid :: "u8 list"
  EFI_FVH_SIGNATURE :: u32
  EFI_FVH_REVISION :: u8
  fvb2_bit :: "fvb2_flag \<Rightarrow> u32"
  VARIABLE_STORE_FORMATTED :: u8
  VARIABLE_STORE_HEALTHY :: u8
  CalculateSum16 :: "u8 list \<Rightarrow> nat \<Rightarrow> u16 outcome"
  CalculateCheckSum16 :: "u8 list \<Rightarrow> nat \<Rightarrow> u16 outcome"
  DivU64x32Remainder :: "u64 \<Rightarrow> u32 \<Rightarrow> (u64 \<times> u32) outcome"

text \<open>
  The sum of the little-endian 16-bit elements of a buffer, carries dropped, which
  \<^verbatim>\<open>CalculateSum16\<close> documents; \<^verbatim>\<open>CalculateCheckSum16\<close> is its two's complement.
\<close>

fun sum16 :: "u8 list \<Rightarrow> u16" where
  "sum16 (a # b # bs) = of_nat (le_val [a, b]) + sum16 bs"
| "sum16 _ = 0"

text \<open>
  The documented behaviour. The buffer is the object the pointer argument points into: a sum
  over more bytes than the object has reads past it. An odd length is not documented.
\<close>

definition edk2_documented :: "edk2 \<Rightarrow> bool" where
  "edk2_documented K \<longleftrightarrow>
     length (gEfiSystemNvDataFvGuid K) = 16 \<and>
     length (gEfiVariableGuid K) = 16 \<and>
     length (gEfiAuthenticatedVariableGuid K) = 16 \<and>
     (\<forall>bs n. even n \<longrightarrow> CalculateSum16 K bs n =
        (if n \<le> length bs then Ret (sum16 (take n bs)) else Undef)) \<and>
     (\<forall>bs n. even n \<longrightarrow> CalculateCheckSum16 K bs n =
        (if n \<le> length bs then Ret (- sum16 (take n bs)) else Undef)) \<and>
     (\<forall>x y. y \<noteq> 0 \<longrightarrow> DivU64x32Remainder K x y =
        Ret (x div u32_to_u64 y, ucast (x mod u32_to_u64 y)))"

lemma edk2_guid_lengths [layout_simps]:
  "edk2_documented K \<Longrightarrow> length (gEfiSystemNvDataFvGuid K) = 16"
  "edk2_documented K \<Longrightarrow> length (gEfiVariableGuid K) = 16"
  "edk2_documented K \<Longrightarrow> length (gEfiAuthenticatedVariableGuid K) = 16"
  by (auto simp: edk2_documented_def)

lemma CalculateSum16_documented:
  "edk2_documented K \<Longrightarrow> even n \<Longrightarrow>
     CalculateSum16 K bs n = (if n \<le> length bs then Ret (sum16 (take n bs)) else Undef)"
  by (simp add: edk2_documented_def)

lemma CalculateCheckSum16_documented:
  "edk2_documented K \<Longrightarrow> even n \<Longrightarrow> n \<le> length bs \<Longrightarrow>
     CalculateCheckSum16 K bs n = Ret (- sum16 (take n bs))"
  by (simp add: edk2_documented_def)

lemma DivU64x32Remainder_documented:
  "edk2_documented K \<Longrightarrow> y \<noteq> 0 \<Longrightarrow>
     DivU64x32Remainder K x y = Ret (x div u32_to_u64 y, ucast (x mod u32_to_u64 y))"
  by (simp add: edk2_documented_def)

section \<open>Facts on the 16-bit sum\<close>

lemma sum16_append: "even (length xs) \<Longrightarrow> sum16 (xs @ ys) = sum16 xs + sum16 ys"
  by (induction xs rule: sum16.induct) (auto simp: add.assoc)

lemma sum16_le_enc2 [simp]: "sum16 (le_enc 2 (unat w)) = w"
proof -
  have "le_enc 2 (unat w) =
      [of_nat (unat w mod 256), of_nat (unat w div 256 mod 256)]"
    by (simp add: numeral_2_eq_2)
  moreover have "of_nat (le_val (le_enc 2 (unat w))) = w"
    by simp
  ultimately show ?thesis by simp
qed

lemma sum16_replicate_0 [simp]: "sum16 (replicate n 0) = 0"
proof (induction n rule: nat_induct2)
  case (step n)
  then show ?case by (simp add: numeral_2_eq_2)
qed simp_all

lemma le_val_pair_inj:
  assumes "of_nat (le_val [a, b]) = (of_nat (le_val [a', b']) :: u16)"
  shows "a = a' \<and> b = b'"
proof -
  have small: "le_val [x, y] mod 65536 = le_val [x, y]" for x y
    using le_val_bound [of "[x, y]"] by simp
  have "unat (of_nat (le_val [a, b]) :: u16) = unat (of_nat (le_val [a', b']) :: u16)"
    using assms by simp
  then have "le_val [a, b] = le_val [a', b']"
    by (simp only: unat_of_nat) (use small in simp)
  then have eq: "unat a + 256 * unat b = unat a' + 256 * unat b'"
    by simp
  have "unat a < 256" "unat a' < 256"
    using unat_bound [of a] unat_bound [of a'] by simp_all
  then have "unat a = (unat a + 256 * unat b) mod 256"
    and "unat a' = (unat a' + 256 * unat b') mod 256"
    by simp_all
  with eq have low: "unat a = unat a'"
    by (simp only:)
  with eq have "unat b = unat b'"
    by simp
  note low this
  then show ?thesis
    using word_unat_eq_iff by blast
qed

section \<open>Platform configuration values\<close>

text \<open>
  The \<^verbatim>\<open>PcdFlashNvStorage*\<close> values that NorFlashFvb.c and NorFlashStmmRuntimeDxe.c read:
  for each of the three areas of the volume a 64-bit base, a 32-bit base that is used when the
  first is 0, and a size.
\<close>

record nv_pcds =
  PcdFlashNvStorageVariableBase64 :: u64
  PcdFlashNvStorageVariableBase :: u32
  PcdFlashNvStorageVariableSize :: u32
  PcdFlashNvStorageFtwWorkingBase64 :: u64
  PcdFlashNvStorageFtwWorkingBase :: u32
  PcdFlashNvStorageFtwWorkingSize :: u32
  PcdFlashNvStorageFtwSpareBase64 :: u64
  PcdFlashNvStorageFtwSpareBase :: u32
  PcdFlashNvStorageFtwSpareSize :: u32

text \<open>
  The values of this board: \<^verbatim>\<open>SPI_VARIABLE_BASE\<close> and \<^verbatim>\<open>SPI_VARIABLE_SIZE\<close> of O6.dsc in
  the assignments of Sky1Common.dsc.inc. The 32-bit bases are not assigned there.
\<close>

definition SPI_VARIABLE_BASE :: u64 where
  "SPI_VARIABLE_BASE = 0x00380000"

definition SPI_VARIABLE_SIZE :: u32 where
  "SPI_VARIABLE_SIZE = 0x28000"

definition orion_o6_pcds :: nv_pcds where
  "orion_o6_pcds =
     \<lparr>PcdFlashNvStorageVariableBase64 = SPI_VARIABLE_BASE,
      PcdFlashNvStorageVariableBase = 0,
      PcdFlashNvStorageVariableSize = SPI_VARIABLE_SIZE,
      PcdFlashNvStorageFtwWorkingBase64 = SPI_VARIABLE_BASE + u32_to_u64 SPI_VARIABLE_SIZE,
      PcdFlashNvStorageFtwWorkingBase = 0,
      PcdFlashNvStorageFtwWorkingSize = SPI_VARIABLE_SIZE,
      PcdFlashNvStorageFtwSpareBase64 =
        SPI_VARIABLE_BASE + u32_to_u64 SPI_VARIABLE_SIZE + u32_to_u64 SPI_VARIABLE_SIZE,
      PcdFlashNvStorageFtwSpareBase = 0,
      PcdFlashNvStorageFtwSpareSize = SPI_VARIABLE_SIZE\<rparr>"

section \<open>The memory pool\<close>

text \<open>
  The allocation calls return an address the environment chooses, 0 when memory is exhausted.
  \<open>pool_addr p i\<close> is what the \<open>i\<close>-th call returns; \<open>pool_live\<close> lists the blocks allocated and
  not freed.
\<close>

record pool =
  pool_addr :: "nat \<Rightarrow> u64"
  pool_count :: nat
  pool_live :: "u64 list"

definition AllocatePool :: "pool \<Rightarrow> u64 \<times> pool" where
  "AllocatePool p =
     (let a = pool_addr p (pool_count p) in
      (a, p\<lparr>pool_count := Suc (pool_count p),
            pool_live := (if a = 0 then pool_live p else a # pool_live p)\<rparr>))"

definition FreePool :: "u64 \<Rightarrow> pool \<Rightarrow> pool" where
  "FreePool a p = p\<lparr>pool_live := remove1 a (pool_live p)\<rparr>"

lemma FreePool_AllocatePool:
  "AllocatePool p = (a, p') \<Longrightarrow> a \<noteq> 0 \<Longrightarrow> pool_live (FreePool a p') = pool_live p"
  by (auto simp: AllocatePool_def FreePool_def Let_def)

lemma AllocatePool_live:
  "AllocatePool p = (a, p') \<Longrightarrow> pool_live p' = (if a = 0 then pool_live p else a # pool_live p)"
  by (auto simp: AllocatePool_def Let_def)

text \<open>The state of the driver's calls: the flash device and the pool.\<close>

record 'd machine =
  flash :: 'd
  mpool :: pool

section \<open>An instance of the parameters\<close>

text \<open>Values for the witnesses: the documented routines, and GUIDs of 16 bytes.\<close>

definition doc_edk2 :: edk2 where
  "doc_edk2 =
     \<lparr>gEfiSystemNvDataFvGuid = replicate 16 0x8D,
      gEfiVariableGuid = replicate 16 0x16,
      gEfiAuthenticatedVariableGuid = replicate 16 0x78,
      gCixNorFlashDevicePathGuid = replicate 16 0x02,
      EFI_FVH_SIGNATURE = 0x4856465F,
      EFI_FVH_REVISION = 2,
      fvb2_bit = (\<lambda>f. case f of EFI_FVB2_READ_ENABLED_CAP \<Rightarrow> 0x2 | EFI_FVB2_READ_STATUS \<Rightarrow> 0x4
        | EFI_FVB2_STICKY_WRITE \<Rightarrow> 0x200 | EFI_FVB2_ERASE_POLARITY \<Rightarrow> 0x800
        | EFI_FVB2_WRITE_STATUS \<Rightarrow> 0x20 | EFI_FVB2_WRITE_ENABLED_CAP \<Rightarrow> 0x10),
      VARIABLE_STORE_FORMATTED = 0x5A,
      VARIABLE_STORE_HEALTHY = 0xFE,
      CalculateSum16 = (\<lambda>bs n. if n \<le> length bs then Ret (sum16 (take n bs)) else Undef),
      CalculateCheckSum16 = (\<lambda>bs n. if n \<le> length bs then Ret (- sum16 (take n bs)) else Undef),
      DivU64x32Remainder = (\<lambda>x y. Ret (x div u32_to_u64 y, ucast (x mod u32_to_u64 y)))\<rparr>"

lemma doc_edk2_documented: "edk2_documented doc_edk2"
  by (simp add: edk2_documented_def doc_edk2_def)

end
