(* ===== verification/Fvb_Header.thy ===== *)
theory Fvb_Header
  imports Edk2
begin

text \<open>
  The headers of the firmware volume that holds the UEFI variables: what
  \<^verbatim>\<open>InitializeFvAndVariableStoreHeaders\<close> writes at the start of the volume and what
  \<^verbatim>\<open>ValidateFvHeader\<close> accepts (NorFlashFvb.c).

  The headers are byte strings in flash. The structures are records; \<open>fv_header_bytes\<close> and
  \<open>variable_store_header_bytes\<close> are their memory image (the layout of the Platform
  Initialization specification, little endian), and \<open>parse_fv_header\<close> is the cast of a
  buffer to the structure.
\<close>

section \<open>The structures and their memory image\<close>

record efi_firmware_volume_header =
  ZeroVector :: "u8 list"
  FileSystemGuid :: "u8 list"
  FvLength :: u64
  FvSignature :: u32
  FvAttributes :: u32
  HeaderLength :: u16
  Checksum :: u16
  ExtHeaderOffset :: u16
  FvReserved :: u8
  Revision :: u8
  BlockMap :: "(u32 \<times> u32) list"

record variable_store_header =
  VsSignature :: "u8 list"
  VsSize :: u32
  VsFormat :: u8
  VsState :: u8

definition sizeof_fv_header :: nat where
  "sizeof_fv_header = 64"

definition sizeof_block_map_entry :: nat where
  "sizeof_block_map_entry = 8"

definition sizeof_variable_store_header :: nat where
  "sizeof_variable_store_header = 28"

definition HeadersLength :: nat where
  "HeadersLength = sizeof_fv_header + sizeof_block_map_entry + sizeof_variable_store_header"

lemmas sizeof_defs = sizeof_fv_header_def sizeof_block_map_entry_def
  sizeof_variable_store_header_def HeadersLength_def

definition block_map_bytes :: "(u32 \<times> u32) list \<Rightarrow> u8 list" where
  "block_map_bytes m = concat (map (\<lambda>(n, l). le_enc 4 (unat n) @ le_enc 4 (unat l)) m)"

definition fv_header_bytes :: "efi_firmware_volume_header \<Rightarrow> u8 list" where
  "fv_header_bytes h =
     ZeroVector h @ FileSystemGuid h @ le_enc 8 (unat (FvLength h)) @
     le_enc 4 (unat (FvSignature h)) @ le_enc 4 (unat (FvAttributes h)) @
     le_enc 2 (unat (HeaderLength h)) @ le_enc 2 (unat (Checksum h)) @
     le_enc 2 (unat (ExtHeaderOffset h)) @ [FvReserved h] @ [Revision h] @
     block_map_bytes (BlockMap h)"

definition variable_store_header_bytes :: "variable_store_header \<Rightarrow> u8 list" where
  "variable_store_header_bytes v =
     VsSignature v @ le_enc 4 (unat (VsSize v)) @ [VsFormat v] @ [VsState v] @ replicate 6 0"

definition load16 :: "nat \<Rightarrow> u8 list \<Rightarrow> u16" where
  "load16 off bs = of_nat (le_val (slice off 2 bs))"

definition load32 :: "nat \<Rightarrow> u8 list \<Rightarrow> u32" where
  "load32 off bs = of_nat (le_val (slice off 4 bs))"

definition load64 :: "nat \<Rightarrow> u8 list \<Rightarrow> u64" where
  "load64 off bs = of_nat (le_val (slice off 8 bs))"

definition parse_fv_header :: "u8 list \<Rightarrow> efi_firmware_volume_header" where
  "parse_fv_header bs =
     \<lparr>ZeroVector = slice 0 16 bs,
      FileSystemGuid = slice 16 16 bs,
      FvLength = load64 32 bs,
      FvSignature = load32 40 bs,
      FvAttributes = load32 44 bs,
      HeaderLength = load16 48 bs,
      Checksum = load16 50 bs,
      ExtHeaderOffset = load16 52 bs,
      FvReserved = bs ! 54,
      Revision = bs ! 55,
      BlockMap = [(load32 56 bs, load32 60 bs), (load32 64 bs, load32 68 bs)]\<rparr>"

text \<open>A header with fields of the right lengths, and the image of such a header.\<close>

definition wf_fv_header :: "efi_firmware_volume_header \<Rightarrow> bool" where
  "wf_fv_header h \<longleftrightarrow>
     length (ZeroVector h) = 16 \<and> length (FileSystemGuid h) = 16 \<and> length (BlockMap h) = 2"

lemma length_block_map_bytes [simp]: "length (block_map_bytes m) = 8 * length m"
  by (induction m) (auto simp: block_map_bytes_def)

lemma length_fv_header_bytes [simp]:
  "wf_fv_header h \<Longrightarrow> length (fv_header_bytes h) = 72"
  by (simp add: wf_fv_header_def fv_header_bytes_def)

lemma length_variable_store_header_bytes [simp]:
  "length (VsSignature v) = 16 \<Longrightarrow> length (variable_store_header_bytes v) = 28"
  by (simp add: variable_store_header_bytes_def)

lemma parse_fv_header_bytes:
  assumes "wf_fv_header h"
  shows "parse_fv_header (fv_header_bytes h @ rest) = h"
proof -
  from assms have len: "length (ZeroVector h) = 16" "length (FileSystemGuid h) = 16"
    by (simp_all add: wf_fv_header_def)
  from assms obtain n0 l0 n1 l1 where bm: "BlockMap h = [(n0, l0), (n1, l1)]"
    by (auto simp: wf_fv_header_def length_Suc_conv numeral_2_eq_2)
  show ?thesis
    by (simp add: parse_fv_header_def fv_header_bytes_def block_map_bytes_def bm len
        load16_def load32_def load64_def layout_simps nth_append)
qed

section \<open>The configured layout of the volume\<close>

definition nv_base :: "u64 \<Rightarrow> u32 \<Rightarrow> u64" where
  "nv_base base64 base32 = (if base64 \<noteq> 0 then base64 else u32_to_u64 base32)"

definition NvStorageVariableBase :: "nv_pcds \<Rightarrow> u64" where
  "NvStorageVariableBase P =
     nv_base (PcdFlashNvStorageVariableBase64 P) (PcdFlashNvStorageVariableBase P)"

definition NvStorageFtwWorkingBase :: "nv_pcds \<Rightarrow> u64" where
  "NvStorageFtwWorkingBase P =
     nv_base (PcdFlashNvStorageFtwWorkingBase64 P) (PcdFlashNvStorageFtwWorkingBase P)"

definition NvStorageFtwSpareBase :: "nv_pcds \<Rightarrow> u64" where
  "NvStorageFtwSpareBase P =
     nv_base (PcdFlashNvStorageFtwSpareBase64 P) (PcdFlashNvStorageFtwSpareBase P)"

text \<open>
  The length of the volume: three \<open>UINT32\<close> values are added as \<open>UINT32\<close>, and the sum is widened.
\<close>

definition nv_storage_size :: "nv_pcds \<Rightarrow> u32" where
  "nv_storage_size P =
     PcdFlashNvStorageVariableSize P + PcdFlashNvStorageFtwWorkingSize P +
     PcdFlashNvStorageFtwSpareSize P"

text \<open>
  \<open>(Size <= 0) || (Size / BlockSize <= 0)\<close> on unsigned values: the division is only
  evaluated for a nonzero size, and a zero block size then divides by zero.
\<close>

definition lacks_block :: "u32 \<Rightarrow> u32 \<Rightarrow> bool outcome" where
  "lacks_block sz bs =
     (if sz = 0 then Ret True else if bs = 0 then Undef else Ret (sz div bs = 0))"

text \<open>The checks in the order of the code; \<open>Ret False\<close> is a return of \<open>EFI_INVALID_PARAMETER\<close>.\<close>

definition nv_layout_ok :: "nv_pcds \<Rightarrow> u32 \<Rightarrow> bool outcome" where
  "nv_layout_ok P bs =
     (if NvStorageVariableBase P + u32_to_u64 (PcdFlashNvStorageVariableSize P)
         \<noteq> NvStorageFtwWorkingBase P then Ret False
      else if NvStorageFtwWorkingBase P + u32_to_u64 (PcdFlashNvStorageFtwWorkingSize P)
         \<noteq> NvStorageFtwSpareBase P then Ret False
      else obind (lacks_block (PcdFlashNvStorageVariableSize P) bs) (\<lambda>v. if v then Ret False
      else obind (lacks_block (PcdFlashNvStorageFtwWorkingSize P) bs) (\<lambda>w. if w then Ret False
      else obind (lacks_block (PcdFlashNvStorageFtwSpareSize P) bs) (\<lambda>s. if s then Ret False
      else Ret (NvStorageVariableBase P mod u32_to_u64 bs = 0 \<and>
                NvStorageFtwWorkingBase P mod u32_to_u64 bs = 0 \<and>
                NvStorageFtwSpareBase P mod u32_to_u64 bs = 0)))))"

section \<open>Writing the headers\<close>

definition default_attributes :: "edk2 \<Rightarrow> u32" where
  "default_attributes K =
     (((((fvb2_bit K EFI_FVB2_READ_ENABLED_CAP OR fvb2_bit K EFI_FVB2_READ_STATUS) OR
         fvb2_bit K EFI_FVB2_STICKY_WRITE) OR fvb2_bit K EFI_FVB2_ERASE_POLARITY) OR
       fvb2_bit K EFI_FVB2_WRITE_STATUS) OR fvb2_bit K EFI_FVB2_WRITE_ENABLED_CAP)"

text \<open>The volume header before its checksum is set; fields that are not assigned are zero.\<close>

definition default_fv_header :: "edk2 \<Rightarrow> nv_pcds \<Rightarrow> nor_flash_instance \<Rightarrow> efi_firmware_volume_header" where
  "default_fv_header K P I =
     \<lparr>ZeroVector = replicate 16 0,
      FileSystemGuid = gEfiSystemNvDataFvGuid K,
      FvLength = u32_to_u64 (nv_storage_size P),
      FvSignature = EFI_FVH_SIGNATURE K,
      FvAttributes = default_attributes K,
      HeaderLength = of_nat (sizeof_fv_header + sizeof_block_map_entry),
      Checksum = 0,
      ExtHeaderOffset = 0,
      FvReserved = 0,
      Revision = EFI_FVH_REVISION K,
      BlockMap = [(ucast (Blocks I), BlockSize (Media I)), (0, 0)]\<rparr>"

definition default_variable_store_header :: "edk2 \<Rightarrow> nv_pcds \<Rightarrow> u16 \<Rightarrow> variable_store_header" where
  "default_variable_store_header K P header_length =
     \<lparr>VsSignature = gEfiAuthenticatedVariableGuid K,
      VsSize = PcdFlashNvStorageVariableSize P - ucast header_length,
      VsFormat = VARIABLE_STORE_FORMATTED K,
      VsState = VARIABLE_STORE_HEALTHY K\<rparr>"

text \<open>
  The contents of the \<open>Headers\<close> buffer when it is written. The checksum is computed over
  the volume header while the rest of the buffer is still zero.
\<close>

definition default_headers :: "edk2 \<Rightarrow> nv_pcds \<Rightarrow> nor_flash_instance \<Rightarrow> u8 list outcome" where
  "default_headers K P I =
     (let h = default_fv_header K P I in
      obind (CalculateCheckSum16 K
               (fv_header_bytes h @ replicate sizeof_variable_store_header 0)
               (unat (HeaderLength h)))
        (\<lambda>sum. Ret (fv_header_bytes (h\<lparr>Checksum := sum\<rparr>) @
           variable_store_header_bytes (default_variable_store_header K P (HeaderLength h)))))"

text \<open>
  The function. The buffer is allocated first and its address is not checked, so a failed
  allocation is a store through NULL once the configuration checks have passed. An invalid
  configuration returns without freeing it.
\<close>

definition InitializeFvAndVariableStoreHeaders ::
  "edk2 \<Rightarrow> nv_pcds \<Rightarrow> 'd nor_flash_lib \<Rightarrow> nor_flash_instance \<Rightarrow> 'd machine \<Rightarrow> (efi_status \<times> 'd machine) outcome" where
  "InitializeFvAndVariableStoreHeaders K P L I m =
     (let (headers, p) = AllocatePool (mpool m) in
      obind (nv_layout_ok P (BlockSize (Media I))) (\<lambda>ok.
      if \<not> ok then Ret (EFI_INVALID_PARAMETER, m\<lparr>mpool := p\<rparr>)
      else if headers = 0 then Undef
      else obind (default_headers K P I) (\<lambda>bytes.
        let (status, d) = NorFlashWrite L I (StartLba I) 0 (of_nat HeadersLength) bytes (flash m)
        in Ret (status, m\<lparr>flash := d, mpool := FreePool headers p\<rparr>))))"

section \<open>Validating the headers\<close>

text \<open>
  The checks on the buffer read from flash. The variable store header is looked for at the
  offset the volume header gives: its GUID and its size are read from there, past the end of
  the buffer when the offset is too large.
\<close>

definition check_variable_store :: "edk2 \<Rightarrow> nv_pcds \<Rightarrow> u16 \<Rightarrow> u8 list \<Rightarrow> efi_status outcome" where
  "check_variable_store K P header_length buf =
     (let at = unat header_length in
      if length buf < at + 16 then Undef
      else if slice at 16 buf \<noteq> gEfiVariableGuid K \<and>
              slice at 16 buf \<noteq> gEfiAuthenticatedVariableGuid K then Ret EFI_NOT_FOUND
      else if length buf < at + 20 then Undef
      else if u32_to_u64 (load32 (at + 16) buf) \<noteq>
              u32_to_u64 (PcdFlashNvStorageVariableSize P - ucast header_length)
        then Ret EFI_NOT_FOUND
      else Ret EFI_SUCCESS)"

definition check_fv_header :: "edk2 \<Rightarrow> nv_pcds \<Rightarrow> u8 list \<Rightarrow> efi_status outcome" where
  "check_fv_header K P buf =
     (let h = parse_fv_header buf in
      if Revision h \<noteq> EFI_FVH_REVISION K \<or> FvSignature h \<noteq> EFI_FVH_SIGNATURE K \<or>
         FvLength h \<noteq> u32_to_u64 (nv_storage_size P) then Ret EFI_NOT_FOUND
      else if FileSystemGuid h \<noteq> gEfiSystemNvDataFvGuid K then Ret EFI_NOT_FOUND
      else obind (CalculateSum16 K buf (unat (HeaderLength h))) (\<lambda>sum.
        if sum \<noteq> 0 then Ret EFI_NOT_FOUND
        else check_variable_store K P (HeaderLength h) buf))"

definition ValidateFvHeader ::
  "edk2 \<Rightarrow> nv_pcds \<Rightarrow> 'd nor_flash_lib \<Rightarrow> nor_flash_instance \<Rightarrow> 'd machine \<Rightarrow> (efi_status \<times> 'd machine) outcome" where
  "ValidateFvHeader K P L I m =
     (let (hdr, p) = AllocatePool (mpool m) in
      if hdr = 0 then Ret (EFI_OUT_OF_RESOURCES, m\<lparr>mpool := p\<rparr>)
      else let (status, buf, d) =
          NorFlashRead L I (StartLba I) 0 (of_nat HeadersLength) (replicate HeadersLength 0) (flash m);
          m' = m\<lparr>flash := d, mpool := p\<rparr> in
        if EFI_ERROR status then Ret (status, m')
        else obind (check_fv_header K P buf) (\<lambda>s. Ret (s, m')))"

section \<open>Lemmas on the headers written\<close>

lemma wf_default_fv_header [simp]:
  "edk2_documented K \<Longrightarrow> wf_fv_header (default_fv_header K P I)"
  by (simp add: wf_fv_header_def default_fv_header_def layout_simps)

lemma wf_fv_header_Checksum [simp]: "wf_fv_header (h\<lparr>Checksum := x\<rparr>) = wf_fv_header h"
  by (simp add: wf_fv_header_def)

lemma sum16_fv_header:
  assumes "wf_fv_header h"
  shows "sum16 (fv_header_bytes (h\<lparr>Checksum := x\<rparr>)) =
    sum16 (fv_header_bytes (h\<lparr>Checksum := 0\<rparr>)) + x"
proof -
  define pre where "pre = ZeroVector h @ FileSystemGuid h @ le_enc 8 (unat (FvLength h)) @
     le_enc 4 (unat (FvSignature h)) @ le_enc 4 (unat (FvAttributes h)) @
     le_enc 2 (unat (HeaderLength h))"
  define post where "post = le_enc 2 (unat (ExtHeaderOffset h)) @ [FvReserved h] @ [Revision h] @
     block_map_bytes (BlockMap h)"
  have bytes: "fv_header_bytes (h\<lparr>Checksum := y\<rparr>) = pre @ le_enc 2 (unat y) @ post" for y
    by (simp add: fv_header_bytes_def pre_def post_def)
  have "even (length pre)"
    using assms by (simp add: pre_def wf_fv_header_def)
  then have sums: "sum16 (pre @ le_enc 2 (unat y) @ post) = sum16 pre + (y + sum16 post)" for y
    by (simp add: sum16_append del: le_enc.simps)
  show ?thesis
    unfolding bytes sums by simp
qed

lemma default_headers_eq:
  assumes "edk2_documented K"
  shows "default_headers K P I =
    Ret (fv_header_bytes
           (default_fv_header K P I\<lparr>Checksum := - sum16 (fv_header_bytes (default_fv_header K P I))\<rparr>) @
         variable_store_header_bytes (default_variable_store_header K P 72))"
proof -
  have hl: "HeaderLength (default_fv_header K P I) = 72"
    by (simp add: default_fv_header_def sizeof_defs)
  show ?thesis
    using assms
    by (simp add: default_headers_def Let_def hl CalculateCheckSum16_documented sizeof_defs)
qed

text \<open>Any volume header with the right identity and sum passes the checks before the variable store.\<close>

lemma check_fv_header_intro:
  assumes "edk2_documented K" "even (unat (HeaderLength (parse_fv_header buf)))"
    and "unat (HeaderLength (parse_fv_header buf)) \<le> length buf"
    and "Revision (parse_fv_header buf) = EFI_FVH_REVISION K"
    and "FvSignature (parse_fv_header buf) = EFI_FVH_SIGNATURE K"
    and "FvLength (parse_fv_header buf) = u32_to_u64 (nv_storage_size P)"
    and "FileSystemGuid (parse_fv_header buf) = gEfiSystemNvDataFvGuid K"
    and "sum16 (take (unat (HeaderLength (parse_fv_header buf))) buf) = 0"
  shows "check_fv_header K P buf = check_variable_store K P (HeaderLength (parse_fv_header buf)) buf"
  using assms by (simp add: check_fv_header_def CalculateSum16_documented)

lemma check_default_headers:
  assumes K: "edk2_documented K" and bytes: "default_headers K P I = Ret buf"
  shows "length buf = HeadersLength" "check_fv_header K P buf = Ret EFI_SUCCESS"
proof -
  define h where "h = default_fv_header K P I"
  define h' where "h' = h\<lparr>Checksum := - sum16 (fv_header_bytes h)\<rparr>"
  define v where "v = default_variable_store_header K P 72"
  have buf: "buf = fv_header_bytes h' @ variable_store_header_bytes v"
    using bytes default_headers_eq [OF K, of P I] by (simp add: h_def h'_def v_def)
  have wf: "wf_fv_header h'" and v16: "length (VsSignature v) = 16"
    using K by (simp_all add: h'_def h_def v_def default_variable_store_header_def layout_simps)
  then show "length buf = HeadersLength"
    by (simp add: buf sizeof_defs)
  have parse: "parse_fv_header buf = h'"
    unfolding buf using wf by (rule parse_fv_header_bytes)
  have hl: "HeaderLength h' = 72"
    by (simp add: h'_def h_def default_fv_header_def sizeof_defs)
  have "h = h\<lparr>Checksum := 0\<rparr>"
    by (simp add: h_def default_fv_header_def)
  then have "sum16 (fv_header_bytes h') = 0"
    using sum16_fv_header [of h "- sum16 (fv_header_bytes h)"] wf
    by (simp add: h'_def)
  then have sum: "sum16 (take (unat (HeaderLength h')) buf) = 0"
    using wf by (simp add: buf hl)
  have ids: "Revision h' = EFI_FVH_REVISION K" "FvSignature h' = EFI_FVH_SIGNATURE K"
    "FvLength h' = u32_to_u64 (nv_storage_size P)" "FileSystemGuid h' = gEfiSystemNvDataFvGuid K"
    by (simp_all add: h'_def h_def default_fv_header_def)
  have "72 \<le> length buf"
    using wf v16 by (simp add: buf)
  then have "check_fv_header K P buf = check_variable_store K P 72 buf"
    using check_fv_header_intro [OF K, of buf P] sum by (simp add: parse hl ids)
  also have "\<dots> = Ret EFI_SUCCESS"
  proof -
    have "slice 72 16 buf = VsSignature v"
      using wf v16 by (simp add: buf variable_store_header_bytes_def layout_simps)
    moreover have "load32 88 buf = VsSize v"
      using wf v16 by (simp add: load32_def buf variable_store_header_bytes_def layout_simps)
    moreover have "length buf = 100"
      using wf v16 by (simp add: buf)
    ultimately show ?thesis
      by (simp add: check_variable_store_def v_def default_variable_store_header_def)
  qed
  finally show "check_fv_header K P buf = Ret EFI_SUCCESS" .
qed

section \<open>What validation accepts\<close>

text \<open>The acceptance condition, written without the order of the checks.\<close>

definition volume_headers_valid :: "edk2 \<Rightarrow> nv_pcds \<Rightarrow> u8 list \<Rightarrow> bool" where
  "volume_headers_valid K P buf \<longleftrightarrow>
     (let h = parse_fv_header buf; at = unat (HeaderLength h) in
      Revision h = EFI_FVH_REVISION K \<and> FvSignature h = EFI_FVH_SIGNATURE K \<and>
      FvLength h = u32_to_u64 (nv_storage_size P) \<and>
      FileSystemGuid h = gEfiSystemNvDataFvGuid K \<and>
      at + 20 \<le> length buf \<and> sum16 (take at buf) = 0 \<and>
      slice at 16 buf \<in> {gEfiVariableGuid K, gEfiAuthenticatedVariableGuid K} \<and>
      load32 (at + 16) buf = PcdFlashNvStorageVariableSize P - ucast (HeaderLength h))"

lemma check_variable_store_success:
  "check_variable_store K P hl buf = Ret EFI_SUCCESS \<longleftrightarrow>
     unat hl + 20 \<le> length buf \<and>
     slice (unat hl) 16 buf \<in> {gEfiVariableGuid K, gEfiAuthenticatedVariableGuid K} \<and>
     load32 (unat hl + 16) buf = PcdFlashNvStorageVariableSize P - ucast hl"
  by (auto simp: check_variable_store_def Let_def)

lemma check_variable_store_in_buffer:
  "unat hl + 20 \<le> length buf \<Longrightarrow>
     check_variable_store K P hl buf = Ret EFI_SUCCESS \<or>
     check_variable_store K P hl buf = Ret EFI_NOT_FOUND"
  by (auto simp: check_variable_store_def Let_def)

lemma check_fv_header_success:
  assumes "edk2_documented K" "even (unat (HeaderLength (parse_fv_header buf)))"
  shows "check_fv_header K P buf = Ret EFI_SUCCESS \<longleftrightarrow> volume_headers_valid K P buf"
  using assms
  by (auto simp: check_fv_header_def volume_headers_valid_def Let_def
      CalculateSum16_documented check_variable_store_success split: if_splits)

lemma check_fv_header_not_found:
  assumes "edk2_documented K" "even (unat (HeaderLength (parse_fv_header buf)))"
    and "unat (HeaderLength (parse_fv_header buf)) + 20 \<le> length buf"
    and "\<not> volume_headers_valid K P buf"
  shows "check_fv_header K P buf = Ret EFI_NOT_FOUND"
proof -
  have "check_fv_header K P buf = Ret EFI_SUCCESS \<or> check_fv_header K P buf = Ret EFI_NOT_FOUND"
    using assms(1-3) check_variable_store_in_buffer [OF assms(3), of K P]
    by (auto simp: check_fv_header_def Let_def CalculateSum16_documented)
  with assms check_fv_header_success show ?thesis by blast
qed

text \<open>A validation whose allocation and read succeed comes down to the checks.\<close>

lemma ValidateFvHeader_read:
  assumes "pool_addr (mpool m) (pool_count (mpool m)) \<noteq> 0"
    and "NorFlashRead L I (StartLba I) 0 (of_nat HeadersLength) (replicate HeadersLength 0) (flash m)
         = (s, buf, d)"
    and "\<not> EFI_ERROR s"
  shows "ValidateFvHeader K P L I m =
    obind (check_fv_header K P buf)
      (\<lambda>r. Ret (r, m\<lparr>flash := d, mpool := snd (AllocatePool (mpool m))\<rparr>))"
  using assms by (simp add: ValidateFvHeader_def AllocatePool_def Let_def)

lemma unat_HeadersLength [simp]: "unat (of_nat HeadersLength :: u64) = HeadersLength"
  by (simp add: sizeof_defs)

lemma read_headers_buffer:
  assumes "nor_flash_contract L c"
    and "NorFlashRead L I (StartLba I) 0 (of_nat HeadersLength) (replicate HeadersLength 0) d
         = (s, buf, d')"
  shows "c d' = c d" "length buf = HeadersLength"
    and "\<not> EFI_ERROR s \<Longrightarrow> buf = read_range (c d) (flash_addr I (StartLba I) 0) HeadersLength"
  using NorFlashRead_contract [OF assms] by simp_all

section \<open>Properties\<close>

text \<open>C9: the headers that \<open>InitializeFvAndVariableStoreHeaders\<close> installs are headers that
  \<open>ValidateFvHeader\<close> accepts: after an initialisation that did not fail, a validation whose
  buffer can be allocated and whose flash read does not fail returns success, and leaves the
  contents of the flash alone. This holds for every configuration and every value of the named
  constants.\<close>

theorem initialize_then_validate:
  assumes "edk2_documented K" "nor_flash_contract L c"
    and "InitializeFvAndVariableStoreHeaders K P L I m = Ret (s, m')" "\<not> EFI_ERROR s"
    and "pool_addr (mpool m') (pool_count (mpool m')) \<noteq> 0"
    and "NorFlashRead L I (StartLba I) 0 (of_nat HeadersLength) (replicate HeadersLength 0) (flash m')
         = (s', buf, d)" "\<not> EFI_ERROR s'"
  shows "\<exists>m''. ValidateFvHeader K P L I m' = Ret (EFI_SUCCESS, m'') \<and>
    c (flash m'') = c (flash m')"
proof -
  obtain bytes where bytes: "default_headers K P I = Ret bytes"
    using default_headers_eq [OF assms(1)] by blast
  note hdr = check_default_headers [OF assms(1) bytes]
  obtain d1 where w: "NorFlashWrite L I (StartLba I) 0 (of_nat HeadersLength) bytes (flash m) = (s, d1)"
    and m': "flash m' = d1"
    using assms(3,4) bytes
    by (auto simp: InitializeFvAndVariableStoreHeaders_def Let_def obind_Ret_iff
        split: prod.splits if_splits)
  have "c (flash m') = write_range (c (flash m)) (flash_addr I (StartLba I) 0) bytes"
    using NorFlashWrite_contract(2) [OF assms(2) w] hdr(1) assms(4) m' by simp
  then have "buf = bytes"
    using read_headers_buffer(3) [OF assms(2,6,7)] hdr(1) read_write_same by metis
  then show ?thesis
    using ValidateFvHeader_read [OF assms(5,6,7), of K P] hdr(2)
      read_headers_buffer(1) [OF assms(2,6)] by simp
qed

text \<open>C11: validation decides the acceptance condition. With the buffer allocated and read,
  and a header whose length field is even, \<open>ValidateFvHeader\<close> returns success exactly when
  revision, signature, length and GUID are right, the header sums to zero, and a variable store
  header with a known GUID and the configured size follows inside the buffer; and a rejected
  header whose length field stays inside the buffer gives \<open>EFI_NOT_FOUND\<close>.\<close>

theorem validate_decides:
  assumes "edk2_documented K"
    and "pool_addr (mpool m) (pool_count (mpool m)) \<noteq> 0"
    and "NorFlashRead L I (StartLba I) 0 (of_nat HeadersLength) (replicate HeadersLength 0) (flash m)
         = (s, buf, d)" "\<not> EFI_ERROR s"
    and "even (unat (HeaderLength (parse_fv_header buf)))"
  shows "((\<exists>m'. ValidateFvHeader K P L I m = Ret (EFI_SUCCESS, m')) \<longleftrightarrow> volume_headers_valid K P buf) \<and>
    (unat (HeaderLength (parse_fv_header buf)) + 20 \<le> length buf \<longrightarrow>
      \<not> volume_headers_valid K P buf \<longrightarrow>
      (\<exists>m'. ValidateFvHeader K P L I m = Ret (EFI_NOT_FOUND, m')))"
  using ValidateFvHeader_read [OF assms(2-4), of K P] check_fv_header_success [OF assms(1,5)]
    check_fv_header_not_found [OF assms(1,5)]
  by (auto simp: obind_Ret_iff)

text \<open>C20: the checksum protects the header. If the checks accept a buffer whose header length is
  even, then replacing any aligned 16-bit word of the header, other than the length field itself
  (word 24), by a different one makes them return \<open>EFI_NOT_FOUND\<close>.\<close>

theorem corrupt_word_rejected:
  assumes "edk2_documented K" "length buf = HeadersLength"
    and "check_fv_header K P buf = Ret EFI_SUCCESS"
    and "even (unat (HeaderLength (parse_fv_header buf)))"
    and "2 * k + 1 < unat (HeaderLength (parse_fv_header buf))" "k \<noteq> 24"
    and "(x, y) \<noteq> (buf ! (2 * k), buf ! (2 * k + 1))"
  shows "check_fv_header K P (buf[2 * k := x, 2 * k + 1 := y]) = Ret EFI_NOT_FOUND"
proof -
  define buf' where "buf' = buf[2 * k := x, 2 * k + 1 := y]"
  define n where "n = unat (HeaderLength (parse_fv_header buf))"
  have n: "even n" "2 * k + 1 < n" "n \<le> length buf" "sum16 (take n buf) = 0"
    using assms(1,3-5) check_fv_header_success by (auto simp: n_def volume_headers_valid_def Let_def)
  have split: "take n bs = take (2 * k) bs @ [bs ! (2 * k), bs ! (2 * k + 1)] @ slice (2 * k + 2) (n - 2 * k - 2) bs"
    if "length bs = length buf" for bs :: "u8 list"
    using that n by (intro take_split_pair) simp_all
  have same: "take (2 * k) buf' = take (2 * k) buf"
      "slice (2 * k + 2) (n - 2 * k - 2) buf' = slice (2 * k + 2) (n - 2 * k - 2) buf"
    by (simp_all add: buf'_def slice_def)
  have at: "buf' ! (2 * k) = x" "buf' ! (2 * k + 1) = y"
    using n by (simp_all add: buf'_def)
  have sum: "sum16 (take n bs) = sum16 (take (2 * k) bs) +
      (of_nat (le_val [bs ! (2 * k), bs ! (2 * k + 1)]) + sum16 (slice (2 * k + 2) (n - 2 * k - 2) bs))"
    if "length bs = length buf" for bs
    unfolding split [OF that] using n that by (simp add: sum16_append)
  have "length buf' = length buf"
    by (simp add: buf'_def)
  note new = sum [OF this, unfolded same at]
  have "of_nat (le_val [x, y]) \<noteq> (of_nat (le_val [buf ! (2 * k), buf ! (2 * k + 1)]) :: u16)"
    using le_val_pair_inj assms(7) by blast
  then have "sum16 (take n buf') \<noteq> sum16 (take n buf)"
    unfolding new sum [OF refl] by (simp only: add_left_cancel add_right_cancel not_False_eq_True)
  then have "\<not> volume_headers_valid K P buf'" if "unat (HeaderLength (parse_fv_header buf')) = n"
    using n that by (auto simp: volume_headers_valid_def Let_def)
  moreover have hl: "HeaderLength (parse_fv_header buf') = HeaderLength (parse_fv_header buf)"
  proof -
    have "2 * k < 48 \<or> 48 + 2 \<le> 2 * k" "2 * k + 1 < 48 \<or> 48 + 2 \<le> 2 * k + 1"
      using assms(6) by arith+
    then have "slice 48 2 buf' = slice 48 2 buf"
      by (simp only: buf'_def slice_update_outside)
    then show ?thesis
      by (simp add: parse_fv_header_def load16_def)
  qed
  moreover have "n + 20 \<le> length buf'"
    using assms(1,3,4) check_fv_header_success by (auto simp: n_def buf'_def volume_headers_valid_def Let_def)
  ultimately show ?thesis
    using check_fv_header_not_found [OF assms(1), of buf' P] assms(4)
    unfolding buf'_def [symmetric] by (simp add: n_def)
qed

text \<open>An invalid storage configuration is refused before anything is written. When the checks on
  the configured areas fail, \<open>InitializeFvAndVariableStoreHeaders\<close> returns
  \<open>EFI_INVALID_PARAMETER\<close> with the device state untouched; the buffer it allocated first is
  then still allocated, while a call that gets past the checks frees it.\<close>

theorem initialize_checks_layout:
  assumes "edk2_documented K" "AllocatePool (mpool m) = (a, p)"
    and "InitializeFvAndVariableStoreHeaders K P L I m = Ret (s, m')"
  shows "case nv_layout_ok P (BlockSize (Media I)) of
      Ret False \<Rightarrow> s = EFI_INVALID_PARAMETER \<and> flash m' = flash m \<and>
        pool_live (mpool m') = (if a = 0 then [] else [a]) @ pool_live (mpool m)
    | Ret True \<Rightarrow> a \<noteq> 0 \<and> pool_live (mpool m') = pool_live (mpool m) \<and>
        (\<exists>bytes. default_headers K P I = Ret bytes \<and>
          NorFlashWrite L I (StartLba I) 0 (of_nat HeadersLength) bytes (flash m) = (s, flash m'))
    | _ \<Rightarrow> False"
proof (cases "nv_layout_ok P (BlockSize (Media I))")
  case (Ret ok)
  obtain bytes where bytes: "default_headers K P I = Ret bytes"
    using default_headers_eq [OF assms(1)] by blast
  show ?thesis
  proof (cases ok)
    case True
    with Ret bytes show ?thesis
      using assms(2,3) FreePool_AllocatePool [OF assms(2)]
      by (auto simp: InitializeFvAndVariableStoreHeaders_def Let_def split: if_splits prod.splits)
  next
    case False
    with Ret show ?thesis
      using assms(2,3) AllocatePool_live [OF assms(2)]
      by (auto simp: InitializeFvAndVariableStoreHeaders_def)
  qed
qed (use assms(2,3) in \<open>simp_all add: InitializeFvAndVariableStoreHeaders_def\<close>)

text \<open>The checks pin the geometry down. A configuration they accept, whose areas end below
  \<open>2^64\<close>, has the variable, FTW working and FTW spare areas contiguous in this order, each at
  a block boundary and at least one block long, and the first two a whole number of blocks.\<close>

theorem layout_geometry:
  assumes "nv_layout_ok P bs = Ret True"
    and "unat (NvStorageVariableBase P) + unat (PcdFlashNvStorageVariableSize P) +
         unat (PcdFlashNvStorageFtwWorkingSize P) < 2 ^ 64"
  shows "unat (NvStorageFtwWorkingBase P) =
      unat (NvStorageVariableBase P) + unat (PcdFlashNvStorageVariableSize P) \<and>
    unat (NvStorageFtwSpareBase P) =
      unat (NvStorageFtwWorkingBase P) + unat (PcdFlashNvStorageFtwWorkingSize P) \<and>
    unat bs dvd unat (NvStorageVariableBase P) \<and>
    unat bs dvd unat (PcdFlashNvStorageVariableSize P) \<and>
    unat bs dvd unat (PcdFlashNvStorageFtwWorkingSize P) \<and>
    0 < unat bs \<and> unat bs \<le> unat (PcdFlashNvStorageVariableSize P) \<and>
    unat bs \<le> unat (PcdFlashNvStorageFtwWorkingSize P) \<and>
    unat bs \<le> unat (PcdFlashNvStorageFtwSpareSize P)"
proof -
  let ?v = "NvStorageVariableBase P" and ?w = "NvStorageFtwWorkingBase P" and ?s = "NvStorageFtwSpareBase P"
  have eqs: "?w = ?v + u32_to_u64 (PcdFlashNvStorageVariableSize P)"
      "?s = ?w + u32_to_u64 (PcdFlashNvStorageFtwWorkingSize P)"
    using assms(1) by (auto simp: nv_layout_ok_def split: if_splits)
  have w: "unat ?w = unat ?v + unat (PcdFlashNvStorageVariableSize P)"
    unfolding eqs(1) using assms(2) by (subst unat_add_no_wrap) auto
  have s: "unat ?s = unat ?w + unat (PcdFlashNvStorageFtwWorkingSize P)"
    unfolding eqs(2) using assms(2) w by (subst unat_add_no_wrap) auto
  have mods: "?v mod u32_to_u64 bs = 0" "?w mod u32_to_u64 bs = 0" "?s mod u32_to_u64 bs = 0"
    using assms(1) by (auto simp: nv_layout_ok_def obind_Ret_iff split: if_splits)
  have dvd: "unat bs dvd unat x" if "x mod u32_to_u64 bs = 0" for x :: u64
    using arg_cong [OF that, of unat] by (simp add: unat_mod dvd_eq_mod_eq_0)
  have v: "unat bs dvd unat ?v"
    using mods(1) by (rule dvd)
  have vs: "unat bs dvd unat (PcdFlashNvStorageVariableSize P)"
    using v dvd [OF mods(2)] w by (metis dvd_add_right_iff)
  have ws: "unat bs dvd unat (PcdFlashNvStorageFtwWorkingSize P)"
    using dvd [OF mods(2)] dvd [OF mods(3)] s by (metis dvd_add_right_iff)
  have block: "0 < unat bs \<and> unat bs \<le> unat z" if "lacks_block z bs = Ret False" for z
  proof -
    have "bs \<noteq> 0" "z div bs \<noteq> 0"
      using that by (auto simp: lacks_block_def split: if_splits)
    then have "unat z div unat bs \<noteq> 0"
      by (metis unat_div unat_eq_zero)
    then show ?thesis
      by (auto simp: div_eq_0_iff)
  qed
  have "0 < unat bs \<and> unat bs \<le> unat (PcdFlashNvStorageVariableSize P) \<and>
      unat bs \<le> unat (PcdFlashNvStorageFtwWorkingSize P) \<and>
      unat bs \<le> unat (PcdFlashNvStorageFtwSpareSize P)"
    using assms(1) block by (auto simp: nv_layout_ok_def obind_Ret_iff split: if_splits)
  then show ?thesis
    using w s v vs ws by blast
qed

text \<open>C39: the length field of the header in flash is not checked before it is used. A volume
  header that passes the identity checks and whose even length field is larger than the buffer
  sends \<open>CalculateSum16\<close> past the end of the buffer: the validation has undefined behaviour.\<close>

theorem validate_overread:
  assumes "edk2_documented K"
    and "pool_addr (mpool m) (pool_count (mpool m)) \<noteq> 0"
    and "NorFlashRead L I (StartLba I) 0 (of_nat HeadersLength) (replicate HeadersLength 0) (flash m)
         = (s, buf, d)" "\<not> EFI_ERROR s"
    and "parse_fv_header buf = h"
    and "Revision h = EFI_FVH_REVISION K" "FvSignature h = EFI_FVH_SIGNATURE K"
      "FvLength h = u32_to_u64 (nv_storage_size P)" "FileSystemGuid h = gEfiSystemNvDataFvGuid K"
    and "even (unat (HeaderLength h))" "length buf < unat (HeaderLength h)"
  shows "ValidateFvHeader K P L I m = Undef"
  using ValidateFvHeader_read [OF assms(2-4), of K P] assms(1,5-)
  by (simp add: check_fv_header_def Let_def CalculateSum16_documented)

text \<open>Every validation that allocates its buffer and returns leaves that buffer allocated, whatever
  it returns: the pool grows by one block per call.\<close>

lemma validate_leaks_buffer:
  assumes "AllocatePool (mpool m) = (a, p)" "a \<noteq> 0"
    and "ValidateFvHeader K P L I m = Ret (s, m')"
  shows "pool_live (mpool m') = a # pool_live (mpool m)"
  using assms AllocatePool_live [OF assms(1)]
  by (auto simp: ValidateFvHeader_def Let_def obind_Ret_iff split: prod.splits if_splits)

section \<open>Witnesses\<close>

text \<open>
  The witnesses run the functions on this board's configuration: 4 KB blocks on an 8 MB
  device, the volume at block 0x380, an erased flash and a pool that never runs out.
\<close>

definition orion_instance :: nor_flash_instance where
  "orion_instance =
     \<lparr>Signature = 0, Handle = 0, DeviceBaseAddress = 0x10000000, Size = 0x800000, ShadowBuffer = 0x9000,
      Media = \<lparr>MediaId = 0, RemovableMedia = False, MediaPresent = True, LogicalPartition = False,
        ReadOnly = False, WriteCaching = False, BlockSize = 0x1000, IoAlign = 4, LastBlock = 0x7FF,
        LowestAlignedLba = 0, LogicalBlocksPerPhysicalBlock = 1\<rparr>,
      BlockIoProtocol = \<lparr>BlkRevision = 0, BlkMedia = 0x8040, BlkReset = 0, BlkReadBlocks = 0,
        BlkWriteBlocks = 0, BlkFlushBlocks = 0\<rparr>,
      DiskIoProtocol = \<lparr>DskRevision = 0, DskReadDisk = 0, DskWriteDisk = 0\<rparr>,
      DevicePath = \<lparr>VendorGuid = replicate 16 0x02, DevicePathIndex = 0\<rparr>,
      AccessInfo = \<lparr>AccBaseAddress = 0x10000000, AccDmaBaseAddress = 0, AccSize = 0x4000000,
        AccRemappedOffset = 0\<rparr>,
      RegionBaseAddress = 0x10380000, Blocks = 0x78, StartLba = 0x380,
      FvbProtocol = \<lparr>FvpGetAttributes = 0, FvpSetAttributes = 0, FvpGetPhysicalAddress = 0,
        FvpGetBlockSize = 0, FvpRead = 0, FvpWrite = 0, FvpEraseBlocks = 0, FvpParentHandle = 0\<rparr>\<rparr>"

definition orion_machine :: "content machine" where
  "orion_machine =
     \<lparr>flash = (\<lambda>_. 0xFF),
      mpool = \<lparr>pool_addr = (\<lambda>n. of_nat (0x8000 + 0x1000 * n)), pool_count = 0, pool_live = []\<rparr>\<rparr>"

lemma orion_instance_simps [simp]:
  "BlockSize (Media orion_instance) = 0x1000" "Size orion_instance = 0x800000"
  "StartLba orion_instance = 0x380" "Blocks orion_instance = 0x78"
  "ReadOnly (Media orion_instance) = False" "MediaId (Media orion_instance) = 0"
  "MediaPresent (Media orion_instance) = True" "IoAlign (Media orion_instance) = 4"
  "BlkMedia (BlockIoProtocol orion_instance) = 0x8040"
  by (simp_all add: orion_instance_def)

lemma orion_layout_ok: "nv_layout_ok orion_o6_pcds 0x1000 = Ret True"
  by (simp add: nv_layout_ok_def lacks_block_def orion_o6_pcds_def SPI_VARIABLE_BASE_def
      SPI_VARIABLE_SIZE_def NvStorageVariableBase_def NvStorageFtwWorkingBase_def
      NvStorageFtwSpareBase_def nv_base_def)

lemma orion_pool [simp]:
  "pool_addr (mpool orion_machine) n = of_nat (0x8000 + 0x1000 * n)"
  "pool_count (mpool orion_machine) = 0" "pool_live (mpool orion_machine) = []"
  by (simp_all add: orion_machine_def)

lemma orion_AllocatePool [simp]:
  "AllocatePool (mpool orion_machine) =
     (0x8000, mpool orion_machine\<lparr>pool_count := 1, pool_live := [0x8000]\<rparr>)"
  by (simp add: AllocatePool_def orion_machine_def)

lemma orion_read_headers:
  "NorFlashRead array_lib orion_instance (StartLba orion_instance) 0 (of_nat HeadersLength)
     (replicate HeadersLength 0) c = (EFI_SUCCESS, read_range c 0x380000 HeadersLength, c)"
  by (simp add: array_lib_def array_read_def in_device_def flash_addr_def sizeof_defs)

lemma orion_write_headers:
  "length bytes = HeadersLength \<Longrightarrow>
   NorFlashWrite array_lib orion_instance (StartLba orion_instance) 0 (of_nat HeadersLength) bytes c =
     (EFI_SUCCESS, write_range c 0x380000 bytes)"
  by (simp add: array_lib_def array_write_def in_device_def flash_addr_def sizeof_defs)

lemma orion_initialize:
  obtains m bytes where
    "InitializeFvAndVariableStoreHeaders doc_edk2 orion_o6_pcds array_lib orion_instance orion_machine
       = Ret (EFI_SUCCESS, m)"
    "default_headers doc_edk2 orion_o6_pcds orion_instance = Ret bytes"
    "flash m = write_range (\<lambda>_. 0xFF) 0x380000 bytes"
    "pool_addr (mpool m) (pool_count (mpool m)) = 0x9000" "pool_live (mpool m) = []"
proof -
  obtain bytes where bytes: "default_headers doc_edk2 orion_o6_pcds orion_instance = Ret bytes"
    using default_headers_eq [OF doc_edk2_documented] by blast
  define m where "m = orion_machine\<lparr>flash := write_range (\<lambda>_. 0xFF) 0x380000 bytes,
    mpool := FreePool 0x8000 (mpool orion_machine\<lparr>pool_count := 1, pool_live := [0x8000]\<rparr>)\<rparr>"
  have "flash orion_machine = (\<lambda>_. 0xFF)"
    by (simp add: orion_machine_def)
  then have "InitializeFvAndVariableStoreHeaders doc_edk2 orion_o6_pcds array_lib orion_instance orion_machine
       = Ret (EFI_SUCCESS, m)"
    using bytes orion_write_headers [OF check_default_headers(1) [OF doc_edk2_documented bytes]]
    by (simp add: InitializeFvAndVariableStoreHeaders_def orion_layout_ok m_def)
  then show ?thesis
    using bytes by (rule that) (simp_all add: m_def FreePool_def)
qed

theorem initialize_then_validate_witness:
  "\<exists>m m'. InitializeFvAndVariableStoreHeaders doc_edk2 orion_o6_pcds array_lib orion_instance orion_machine
       = Ret (EFI_SUCCESS, m) \<and>
     ValidateFvHeader doc_edk2 orion_o6_pcds array_lib orion_instance m = Ret (EFI_SUCCESS, m')"
proof -
  obtain m bytes where m:
    "InitializeFvAndVariableStoreHeaders doc_edk2 orion_o6_pcds array_lib orion_instance orion_machine
       = Ret (EFI_SUCCESS, m)"
    "pool_addr (mpool m) (pool_count (mpool m)) = 0x9000"
    by (rule orion_initialize)
  show ?thesis
    using initialize_then_validate [OF doc_edk2_documented array_lib_contract m(1) _ _ orion_read_headers]
      m by auto
qed

theorem validate_decides_witness:
  "\<exists>m'. ValidateFvHeader doc_edk2 orion_o6_pcds array_lib orion_instance (orion_machine\<lparr>flash := \<lambda>_. 0\<rparr>)
     = Ret (EFI_NOT_FOUND, m')"
proof -
  define buf where "buf = read_range (\<lambda>_. 0) 0x380000 HeadersLength"
  have len: "length buf = 100" and zero: "buf = replicate 100 0"
    by (auto simp: buf_def sizeof_defs nth_read_range intro: nth_equalityI)
  have hl: "HeaderLength (parse_fv_header buf) = 0" and sig: "FvSignature (parse_fv_header buf) = 0"
    by (simp_all add: parse_fv_header_def load16_def load32_def slice_def zero numeral_eq_Suc)
  have "\<not> volume_headers_valid doc_edk2 orion_o6_pcds buf"
    by (simp add: volume_headers_valid_def Let_def sig) (simp add: doc_edk2_def)
  moreover have "NorFlashRead array_lib orion_instance (StartLba orion_instance) 0 (of_nat HeadersLength)
      (replicate HeadersLength 0) (flash (orion_machine\<lparr>flash := \<lambda>_. 0\<rparr>)) = (EFI_SUCCESS, buf, \<lambda>_. 0)"
  proof -
    have "flash (orion_machine\<lparr>flash := \<lambda>_. 0\<rparr>) = (\<lambda>_. 0)"
      by simp
    then show ?thesis
      unfolding buf_def by (simp only: orion_read_headers)
  qed
  note validate_decides [OF doc_edk2_documented _ this, of orion_o6_pcds]
  ultimately show ?thesis
    by (simp add: hl len)
qed

theorem corrupt_word_rejected_witness:
  "\<exists>buf. default_headers doc_edk2 orion_o6_pcds orion_instance = Ret buf \<and>
     check_fv_header doc_edk2 orion_o6_pcds (buf[2 * 0 := 1, 2 * 0 + 1 := 0]) = Ret EFI_NOT_FOUND"
proof -
  let ?h = "default_fv_header doc_edk2 orion_o6_pcds orion_instance"
  let ?h' = "?h\<lparr>Checksum := - sum16 (fv_header_bytes ?h)\<rparr>"
  obtain rest where bytes: "default_headers doc_edk2 orion_o6_pcds orion_instance =
      Ret (fv_header_bytes ?h' @ rest)"
    using default_headers_eq [OF doc_edk2_documented] by blast
  have "parse_fv_header (fv_header_bytes ?h' @ rest) = ?h'"
    by (rule parse_fv_header_bytes) (simp add: doc_edk2_documented)
  then have hl: "HeaderLength (parse_fv_header (fv_header_bytes ?h' @ rest)) = 72"
    by (simp add: default_fv_header_def sizeof_defs)
  have "(fv_header_bytes ?h' @ rest) ! 0 = 0"
    by (simp add: fv_header_bytes_def default_fv_header_def nth_append)
  then have diff: "(1, 0) \<noteq> ((fv_header_bytes ?h' @ rest) ! (2 * 0), (fv_header_bytes ?h' @ rest) ! (2 * 0 + 1))"
    by simp
  note hdr = check_default_headers [OF doc_edk2_documented bytes]
  have "check_fv_header doc_edk2 orion_o6_pcds ((fv_header_bytes ?h' @ rest)[2 * 0 := 1, 2 * 0 + 1 := 0])
      = Ret EFI_NOT_FOUND"
    by (rule corrupt_word_rejected [OF doc_edk2_documented hdr _ _ _ diff]) (simp_all add: hl)
  with bytes show ?thesis by blast
qed

theorem initialize_checks_layout_witness:
  "\<exists>m. InitializeFvAndVariableStoreHeaders doc_edk2 orion_o6_pcds array_lib orion_instance orion_machine
       = Ret (EFI_SUCCESS, m) \<and> pool_live (mpool m) = pool_live (mpool orion_machine)"
proof -
  obtain m bytes where m:
    "InitializeFvAndVariableStoreHeaders doc_edk2 orion_o6_pcds array_lib orion_instance orion_machine
       = Ret (EFI_SUCCESS, m)"
    by (rule orion_initialize)
  show ?thesis
    using initialize_checks_layout [OF doc_edk2_documented orion_AllocatePool m] m
    by (simp add: orion_layout_ok)
qed

theorem layout_geometry_witness:
  "unat (NvStorageFtwWorkingBase orion_o6_pcds) = 0x380000 + 0x28000 \<and>
   0x1000 dvd unat (PcdFlashNvStorageVariableSize orion_o6_pcds)"
  using layout_geometry [OF orion_layout_ok]
  by (simp add: orion_o6_pcds_def SPI_VARIABLE_BASE_def SPI_VARIABLE_SIZE_def
      NvStorageVariableBase_def nv_base_def)

text \<open>
  A header whose length field says 102: the identity checks pass and the sum runs past the
  100-byte buffer.
\<close>

theorem validate_overread_witness:
  "\<exists>c. ValidateFvHeader doc_edk2 orion_o6_pcds array_lib orion_instance (orion_machine\<lparr>flash := c\<rparr>) = Undef"
proof -
  define h where "h = default_fv_header doc_edk2 orion_o6_pcds orion_instance\<lparr>HeaderLength := 102\<rparr>"
  define c where "c = write_range (\<lambda>_. 0xFF) 0x380000 (fv_header_bytes h)"
  have wf: "wf_fv_header h"
    using wf_default_fv_header [OF doc_edk2_documented] by (simp add: h_def wf_fv_header_def)
  have fields: "Revision h = EFI_FVH_REVISION doc_edk2" "FvSignature h = EFI_FVH_SIGNATURE doc_edk2"
      "FvLength h = u32_to_u64 (nv_storage_size orion_o6_pcds)"
      "FileSystemGuid h = gEfiSystemNvDataFvGuid doc_edk2" "unat (HeaderLength h) = 102"
    by (simp_all add: h_def default_fv_header_def)
  have buf: "read_range c 0x380000 HeadersLength = fv_header_bytes h @ read_range (\<lambda>_. 0xFF) 0x380048 28"
    using wf by (simp add: c_def read_write_prefix sizeof_defs)
  have parse: "parse_fv_header (read_range c 0x380000 HeadersLength) = h"
    unfolding buf using wf by (rule parse_fv_header_bytes)
  have "NorFlashRead array_lib orion_instance (StartLba orion_instance) 0 (of_nat HeadersLength)
      (replicate HeadersLength 0) (flash (orion_machine\<lparr>flash := c\<rparr>))
      = (EFI_SUCCESS, read_range c 0x380000 HeadersLength, c)"
    by (subst orion_read_headers) simp
  then have "ValidateFvHeader doc_edk2 orion_o6_pcds array_lib orion_instance (orion_machine\<lparr>flash := c\<rparr>) = Undef"
    by (rule validate_overread [OF doc_edk2_documented _ _ _ parse fields(1-4), rotated])
      (simp_all add: fields(5) sizeof_defs)
  then show ?thesis by blast
qed

end
