(* ===== verification/Requests.thy ===== *)
theory Requests
  imports Prelude
begin

text \<open>
  Components that serve requests: a protocol of the driver and a message handler of the secure
  services are called again and again by clients that may do so in any order. \<open>reaches\<close> is the
  states a server can be brought to, \<open>run_requests\<close> the executable run of a given sequence, and
  the locale \<open>request_server\<close> the contract under which what one request keeps is kept by
  any sequence of them.
\<close>

inductive reaches :: "('r \<Rightarrow> 'd \<Rightarrow> 'd outcome) \<Rightarrow> ('r \<Rightarrow> bool) \<Rightarrow> 'd \<Rightarrow> 'd \<Rightarrow> bool"
  for serve ok where
  start: "reaches serve ok d d"
| serve: "reaches serve ok d d' \<Longrightarrow> ok r \<Longrightarrow> serve r d' = Ret d'' \<Longrightarrow> reaches serve ok d d''"

inductive_cases reachesE: "reaches serve ok d d'"

fun run_requests :: "('r \<Rightarrow> 'd \<Rightarrow> 'd outcome) \<Rightarrow> 'r list \<Rightarrow> 'd \<Rightarrow> 'd outcome" where
  "run_requests serve [] d = Ret d"
| "run_requests serve (r # rs) d = obind (serve r d) (run_requests serve rs)"

lemma reaches_trans:
  assumes "reaches serve ok d d'" "reaches serve ok d' d''"
  shows "reaches serve ok d d''"
  using assms(2,1) by induction (auto intro: reaches.serve)

lemma reaches_first: "ok r \<Longrightarrow> serve r d = Ret d' \<Longrightarrow> reaches serve ok d' d'' \<Longrightarrow> reaches serve ok d d''"
  by (rule reaches_trans [OF reaches.serve [OF reaches.start]])

lemma run_requests_reaches:
  "run_requests serve rs d = Ret d' \<Longrightarrow> \<forall>r \<in> set rs. ok r \<Longrightarrow> reaches serve ok d d'"
  by (induction rs arbitrary: d) (auto simp: obind_Ret_iff intro: reaches.start reaches_first)

lemma run_requests_append:
  "run_requests serve (rs @ rs') d = obind (run_requests serve rs d) (run_requests serve rs')"
  by (induction rs arbitrary: d) (auto simp: obind_assoc intro: arg_cong2 [where f = obind])

lemma reaches_run_requests:
  "reaches serve ok d d' \<Longrightarrow> \<exists>rs. (\<forall>r \<in> set rs. ok r) \<and> run_requests serve rs d = Ret d'"
proof (induction rule: reaches.induct)
  case (start d)
  then show ?case by (intro exI [of _ "[]"]) simp
next
  case (serve d d' r d'')
  then obtain rs where "\<forall>r \<in> set rs. ok r" "run_requests serve rs d = Ret d'"
    by blast
  with serve.hyps show ?case
    by (intro exI [of _ "rs @ [r]"]) (auto simp: run_requests_append)
qed

text \<open>
  The contract of a server: a relation between the states before and after that is reflexive and
  transitive, and that every acceptable request keeps. The lemmas are the client's: the
  relation holds between any two states that requests connect.
\<close>

locale request_server =
  fixes serve :: "'r \<Rightarrow> 'd \<Rightarrow> 'd outcome"
    and ok :: "'r \<Rightarrow> bool"
    and keeps :: "'d \<Rightarrow> 'd \<Rightarrow> bool"
  assumes keeps_refl: "keeps d d"
    and keeps_trans: "keeps d d' \<Longrightarrow> keeps d' d'' \<Longrightarrow> keeps d d''"
    and serve_keeps: "ok r \<Longrightarrow> serve r d = Ret d' \<Longrightarrow> keeps d d'"
begin

lemma reaches_keeps: "reaches serve ok d d' \<Longrightarrow> keeps d d'"
  by (induction rule: reaches.induct) (blast intro: keeps_refl keeps_trans serve_keeps)+

lemma run_keeps:
  assumes "run_requests serve rs d = Ret d'" "\<forall>r \<in> set rs. ok r"
  shows "keeps d d'"
  by (rule reaches_keeps [OF run_requests_reaches [OF assms]])

end

text \<open>
  Two servers on the same state, such as two protocols of one driver, whose requests come in any
  order: together they are a server that keeps what both keep.
\<close>

locale server_pair =
  first: request_server serve ok keeps + second: request_server serve' ok' keeps
  for serve :: "'r \<Rightarrow> 'd \<Rightarrow> 'd outcome" and ok :: "'r \<Rightarrow> bool" and keeps :: "'d \<Rightarrow> 'd \<Rightarrow> bool"
    and serve' :: "'q \<Rightarrow> 'd \<Rightarrow> 'd outcome" and ok' :: "'q \<Rightarrow> bool"

sublocale server_pair \<subseteq> both: request_server "case_sum serve serve'" "case_sum ok ok'" keeps
proof unfold_locales
  show "keeps d d" for d
    by (rule first.keeps_refl)
  show "keeps d d' \<Longrightarrow> keeps d' d'' \<Longrightarrow> keeps d d''" for d d' d''
    by (rule first.keeps_trans)
  show "case_sum ok ok' r \<Longrightarrow> case_sum serve serve' r d = Ret d' \<Longrightarrow> keeps d d'" for r d d'
    by (cases r) (auto intro: first.serve_keeps second.serve_keeps)
qed

section \<open>Refinement of a specification\<close>

text \<open>
  Requests with replies. \<open>run_replies\<close> collects the replies of a sequence of requests;
  \<open>spec_run\<close> is a run of a nondeterministic specification over its own state, one step per
  request. A server simulates the specification when every acceptable request that is served
  is a step of it, under an abstraction of the states; then every run is a run of it.
\<close>

fun run_replies :: "('r \<Rightarrow> 'd \<Rightarrow> ('o \<times> 'd) outcome) \<Rightarrow> 'r list \<Rightarrow> 'd \<Rightarrow> ('o list \<times> 'd) outcome" where
  "run_replies call [] d = Ret ([], d)"
| "run_replies call (r # rs) d =
     obind (call r d) (\<lambda>(out, d). obind (run_replies call rs d) (\<lambda>(outs, d). Ret (out # outs, d)))"

inductive spec_run :: "('r \<Rightarrow> 'a \<Rightarrow> 'o \<Rightarrow> 'a \<Rightarrow> bool) \<Rightarrow> 'r list \<Rightarrow> 'a \<Rightarrow> 'o list \<Rightarrow> 'a \<Rightarrow> bool" for step where
  spec_stop: "spec_run step [] a [] a"
| spec_step: "step r a out a' \<Longrightarrow> spec_run step rs a' outs a'' \<Longrightarrow> spec_run step (r # rs) a (out # outs) a''"

inductive_simps spec_run_simps [simp]:
  "spec_run step [] a outs a'" "spec_run step (r # rs) a outs a''"

lemma spec_run_appendD:
  "spec_run step (rs @ rs') a outs a'' \<Longrightarrow>
     \<exists>outs1 outs2 a'. outs = outs1 @ outs2 \<and> spec_run step rs a outs1 a' \<and> spec_run step rs' a' outs2 a''"
proof (induction rs arbitrary: a outs)
  case (Cons r rs)
  then obtain out outs0 b where "outs = out # outs0" "step r a out b" "spec_run step (rs @ rs') b outs0 a''"
    by auto
  with Cons.IH show ?case
    by (metis append_Cons spec_run.spec_step)
qed auto

lemma spec_run_snocD:
  assumes "spec_run step (rs @ [r]) a (outs @ [out]) a''"
  shows "\<exists>a'. spec_run step rs a outs a' \<and> step r a' out a''"
proof -
  obtain o1 o2 a' where "outs @ [out] = o1 @ o2" "spec_run step rs a o1 a'" "spec_run step [r] a' o2 a''"
    using spec_run_appendD [OF assms] by blast
  then show ?thesis by auto
qed

text \<open>What every step of a run keeps, the run keeps.\<close>

lemma spec_run_keeps:
  assumes "spec_run step rs a outs a'"
    and "\<And>r a out a'. r \<in> set rs \<Longrightarrow> step r a out a' \<Longrightarrow> f a' = f a"
  shows "f a' = f a"
  using assms
proof (induction rule: spec_run.induct)
  case (spec_step r a out a' rs outs a'')
  have "f a'' = f a'"
    by (rule spec_step.IH) (use spec_step.prems in auto)
  also have "f a' = f a"
    by (rule spec_step.prems [OF _ spec_step.hyps(1)]) simp
  finally show ?case .
qed simp

lemma run_replies_returns:
  assumes "\<And>r d. r \<in> set rs \<Longrightarrow> \<exists>out d'. call r d = Ret (out, d')"
  shows "\<exists>outs d'. run_replies call rs d = Ret (outs, d')"
  using assms
proof (induction rs arbitrary: d)
  case (Cons r rs)
  then obtain out d1 where "call r d = Ret (out, d1)"
    by fastforce
  moreover obtain outs d2 where "run_replies call rs d1 = Ret (outs, d2)"
    using Cons by fastforce
  ultimately show ?case by simp
qed simp

locale simulation =
  fixes call :: "'r \<Rightarrow> 'd \<Rightarrow> ('o \<times> 'd) outcome"
    and ok :: "'r \<Rightarrow> bool"
    and step :: "'r \<Rightarrow> 'a \<Rightarrow> 'o \<Rightarrow> 'a \<Rightarrow> bool"
    and abs :: "'d \<Rightarrow> 'a"
  assumes call_step: "ok r \<Longrightarrow> call r d = Ret (out, d') \<Longrightarrow> step r (abs d) out (abs d')"
begin

lemma run_refines:
  "run_replies call rs d = Ret (outs, d') \<Longrightarrow> \<forall>r \<in> set rs. ok r \<Longrightarrow> spec_run step rs (abs d) outs (abs d')"
proof (induction rs arbitrary: d outs)
  case (Cons r rs)
  then obtain out outs' d1 where r: "call r d = Ret (out, d1)" and rs: "run_replies call rs d1 = Ret (outs', d')"
    and outs: "outs = out # outs'"
    by (auto simp: obind_Ret_iff)
  from Cons have "step r (abs d) out (abs d1)" "spec_run step rs (abs d1) outs' (abs d')"
    using call_step [OF _ r] rs by simp_all
  with outs show ?case by auto
qed simp

end

end
