(* ===== verification/Fvb_Protocol.thy ===== *)
theory Fvb_Protocol
  imports Fvb_Header Requests
begin

text \<open>
  The Firmware Volume Block protocol of NorFlashFvb.c: attributes, block size, reading, writing
  and erasing blocks of the variable volume. Outputs the code stores through pointers are
  returned; a pointer target the code leaves alone is returned unchanged. The library functions
  and their device state are the parameters of \<^verbatim>\<open>Nor_Flash_Instance\<close>.
\<close>

section \<open>Attributes and geometry\<close>

definition FvbGetAttributes :: "edk2 \<Rightarrow> nor_flash_instance \<Rightarrow> efi_status \<times> u32" where
  "FvbGetAttributes K I =
     (let attributes =
        ((fvb2_bit K EFI_FVB2_READ_ENABLED_CAP OR fvb2_bit K EFI_FVB2_READ_STATUS) OR
          fvb2_bit K EFI_FVB2_STICKY_WRITE) OR fvb2_bit K EFI_FVB2_ERASE_POLARITY in
      (EFI_SUCCESS,
       if \<not> ReadOnly (Media I)
       then (attributes OR fvb2_bit K EFI_FVB2_WRITE_STATUS) OR fvb2_bit K EFI_FVB2_WRITE_ENABLED_CAP
       else attributes))"

definition FvbSetAttributes :: "u32 \<Rightarrow> efi_status \<times> u32" where
  "FvbSetAttributes attributes = (EFI_UNSUPPORTED, attributes)"

definition FvbGetPhysicalAddress :: "u64 \<Rightarrow> efi_status \<times> u64" where
  "FvbGetPhysicalAddress address = (EFI_UNSUPPORTED, address)"

definition FvbGetBlockSize :: "nor_flash_instance \<Rightarrow> u64 \<Rightarrow> u64 \<times> u64 \<Rightarrow> efi_status \<times> u64 \<times> u64" where
  "FvbGetBlockSize I lba out =
     (if Blocks I \<le> lba then (EFI_INVALID_PARAMETER, out)
      else (EFI_SUCCESS, block_size I, Blocks I - lba))"

section \<open>Reading and writing\<close>

text \<open>
  \<open>FvbRead\<close> computes \<open>EFI_BAD_BUFFER_SIZE\<close> into \<open>Status\<close> after a truncated read, and then
  returns the constant \<open>EFI_SUCCESS\<close>. The second component of the result is \<open>*NumBytes\<close>.
\<close>

definition FvbRead ::
  "'d nor_flash_lib \<Rightarrow> nor_flash_instance \<Rightarrow> u64 \<Rightarrow> u64 \<Rightarrow> u64 \<Rightarrow> u8 list \<Rightarrow> 'd \<Rightarrow> efi_status \<times> u64 \<times> u8 list \<times> 'd" where
  "FvbRead L I lba off num buf d =
     (let bs = block_size I in
      if bs \<le> off \<or> bs < num then (EFI_BAD_BUFFER_SIZE, 0, buf, d)
      else let spaned = bs < off + num in
      if num = 0 then (EFI_BAD_BUFFER_SIZE, num, buf, d)
      else if num mod bs \<noteq> 0 then
        let num = (if spaned then u32_to_u64 (ucast (bs - off)) else num);
            (status, buf, d) = NorFlashRead L I (StartLba I + lba) off num buf d in
        if EFI_ERROR status then (EFI_DEVICE_ERROR, num, buf, d)
        else (EFI_SUCCESS, num, buf, d)
      else
        let (status, buf, d) = NorFlashReadBlocks L I (StartLba I + lba) bs buf d in
        if EFI_ERROR status then (EFI_DEVICE_ERROR, num, buf, d)
        else (EFI_SUCCESS, num, buf, d))"

definition FvbWrite ::
  "'d nor_flash_lib \<Rightarrow> nor_flash_instance \<Rightarrow> u64 \<Rightarrow> u64 \<Rightarrow> u64 \<Rightarrow> u8 list \<Rightarrow> 'd \<Rightarrow> efi_status \<times> u64 \<times> 'd" where
  "FvbWrite L I lba off num buf d =
     (if ReadOnly (Media I) then (EFI_ACCESS_DENIED, num, d)
      else let bs = block_size I in
      if bs \<le> off \<or> bs < num then (EFI_BAD_BUFFER_SIZE, 0, d)
      else let spaned = bs < num + off in
      if num = 0 then (EFI_BAD_BUFFER_SIZE, num, d)
      else if num mod bs \<noteq> 0 then
        let num = (if spaned then u32_to_u64 (ucast (bs - off)) else num);
            (status, d) = NorFlashWrite L I (StartLba I + lba) off num buf d in
        if EFI_ERROR status then (status, num, d)
        else if spaned then (EFI_BAD_BUFFER_SIZE, num, d)
        else (status, num, d)
      else
        let (status, d) = NorFlashWriteBlocks L I (StartLba I + lba) bs buf d in
        if EFI_ERROR status then (EFI_DEVICE_ERROR, num, d)
        else (status, num, d))"

section \<open>Erasing\<close>

text \<open>
  The variable arguments are the list of 64-bit values that follow \<open>This\<close>: pairs of a first
  block and a number of blocks, ended by the terminator. Reading past the values passed is
  undefined. The list is walked twice: once to check all ranges, once to erase them.
\<close>

definition EFI_LBA_LIST_TERMINATOR :: u64 where
  "EFI_LBA_LIST_TERMINATOR = 0xFFFFFFFFFFFFFFFF"

fun erase_check :: "nor_flash_instance \<Rightarrow> u64 list \<Rightarrow> efi_status outcome" where
  "erase_check I [] = Undef"
| "erase_check I [lba] = (if lba = EFI_LBA_LIST_TERMINATOR then Ret EFI_SUCCESS else Undef)"
| "erase_check I (lba # num # args) =
     (if lba = EFI_LBA_LIST_TERMINATOR then Ret EFI_SUCCESS
      else if num = 0 \<or> Blocks I < lba + num then Ret EFI_INVALID_PARAMETER
      else erase_check I args)"

fun erase_loop ::
  "'d nor_flash_lib \<Rightarrow> nor_flash_instance \<Rightarrow> efi_status \<Rightarrow> u64 list \<Rightarrow> 'd \<Rightarrow> (efi_status \<times> 'd) outcome" where
  "erase_loop L I status [] d = Undef"
| "erase_loop L I status [lba] d =
     (if lba = EFI_LBA_LIST_TERMINATOR then Ret (status, d) else Undef)"
| "erase_loop L I status (lba # num # args) d =
     (if lba = EFI_LBA_LIST_TERMINATOR then Ret (status, d)
      else let (status, d) = NorFlashErase L I (StartLba I + lba) (num * block_size I) d in
        if EFI_ERROR status then Ret (EFI_DEVICE_ERROR, d)
        else erase_loop L I status args d)"

definition FvbEraseBlocks ::
  "'d nor_flash_lib \<Rightarrow> nor_flash_instance \<Rightarrow> u64 list \<Rightarrow> 'd \<Rightarrow> (efi_status \<times> 'd) outcome" where
  "FvbEraseBlocks L I args d =
     (if ReadOnly (Media I) then Ret (EFI_ACCESS_DENIED, d)
      else obind (erase_check I args) (\<lambda>status.
        if status = EFI_INVALID_PARAMETER then Ret (status, d)
        else erase_loop L I EFI_SUCCESS args d))"

text \<open>\<open>FvbVirtualNotifyEvent\<close> converts the variable base address with the runtime library's function.\<close>

definition FvbVirtualNotifyEvent :: "(u64 \<Rightarrow> u64) \<Rightarrow> u64 \<Rightarrow> u64" where
  "FvbVirtualNotifyEvent EfiConvertPointer mFlashNvStorageVariableBase =
     EfiConvertPointer mFlashNvStorageVariableBase"

section \<open>Requests within one block\<close>

text \<open>The bytes of the device that block \<open>k\<close> occupies, and the volume's.\<close>

definition in_block :: "nor_flash_instance \<Rightarrow> nat \<Rightarrow> nat \<Rightarrow> bool" where
  "in_block I k i \<longleftrightarrow> k * bsize I \<le> i \<and> i < Suc k * bsize I"

definition in_volume :: "nor_flash_instance \<Rightarrow> nat \<Rightarrow> bool" where
  "in_volume I i \<longleftrightarrow> unat (StartLba I) * bsize I \<le> i \<and>
     i < (unat (StartLba I) + unat (Blocks I)) * bsize I"

lemma touched_block:
  assumes "off < bsize I" "0 < n" "off + n \<le> bsize I"
  shows "touched I (k * bsize I + off) n i \<longleftrightarrow> in_block I k i"
proof -
  have "(k * bsize I + off) div bsize I = k"
    using assms(1) by simp
  moreover have "(k * bsize I + off + n + bsize I - 1) div bsize I = Suc k"
  proof -
    have "k * bsize I + off + n + bsize I - 1 = (off + n - 1) + Suc k * bsize I"
      using assms(2) by (simp add: algebra_simps)
    moreover have "off + n - 1 < bsize I"
      using assms by linarith
    ultimately show ?thesis
      by (simp del: mult_Suc)
  qed
  ultimately show ?thesis
    by (simp only: touched_def in_block_def)
qed

lemma touched_blocks:
  assumes "0 < bsize I" "0 < n"
  shows "touched I (k * bsize I) (n * bsize I) i \<longleftrightarrow> k * bsize I \<le> i \<and> i < (k + n) * bsize I"
proof -
  have "(k * bsize I + n * bsize I + bsize I - 1) div bsize I = k + n"
  proof -
    have "k * bsize I + n * bsize I + bsize I - 1 = (bsize I - 1) + (k + n) * bsize I"
      using assms(1) by (simp add: algebra_simps)
    moreover have "(bsize I - 1 + (k + n) * bsize I) div bsize I = (k + n) + (bsize I - 1) div bsize I"
      using assms(1) by (intro div_mult_self1) simp
    moreover have "(bsize I - 1) div bsize I = 0"
      using assms(1) by (intro div_less) simp
    ultimately show ?thesis
      by (simp only: add_0_right)
  qed
  then show ?thesis
    using assms(1) by (simp add: touched_def)
qed

text \<open>The number of bytes a request moves, in numbers: truncated at the end of the block.\<close>

lemma unat_truncated:
  assumes "off < block_size I"
  shows "unat (u32_to_u64 (ucast (block_size I - off))) = bsize I - unat off"
proof -
  have le: "off \<le> block_size I"
    using assms by simp
  have sub: "unat (block_size I - off) = bsize I - unat off"
    by (simp add: unat_sub [OF le])
  have "bsize I - unat off < 2 ^ 32"
    using unat_bound [of "BlockSize (Media I)"] by simp
  then have "unat (ucast (block_size I - off) :: u32) = bsize I - unat off"
    by (simp add: unsigned_ucast_eq sub take_bit_nat_eq_self)
  then show ?thesis by simp
qed

lemma spaned_iff:
  assumes "off < block_size I" "num \<le> block_size I"
  shows "block_size I < off + num \<longleftrightarrow> bsize I < unat off + unat num"
proof -
  have "unat off < bsize I" "unat num \<le> bsize I"
    using assms by (simp_all add: word_less_nat_alt word_le_nat_alt)
  moreover have "bsize I < 2 ^ 32"
    using unat_bound [of "BlockSize (Media I)"] by simp
  ultimately have "unat (off + num) = unat off + unat num"
    by (intro unat_add_no_wrap) simp
  then show ?thesis
    by (simp add: word_less_nat_alt)
qed

section \<open>The branches of reading and writing\<close>

text \<open>The device block a volume-relative block number names.\<close>

abbreviation device_block :: "nor_flash_instance \<Rightarrow> u64 \<Rightarrow> nat" where
  "device_block I lba \<equiv> unat (StartLba I + lba)"

lemma flash_addr_device_block:
  "flash_addr I (StartLba I + lba) off = device_block I lba * bsize I + unat off"
  by (simp add: flash_addr_def)

definition clipped :: "nor_flash_instance \<Rightarrow> u64 \<Rightarrow> u64 \<Rightarrow> u64" where
  "clipped I off num =
     (if block_size I < off + num then u32_to_u64 (ucast (block_size I - off)) else num)"

lemma unat_clipped:
  assumes "off < block_size I" "num \<le> block_size I"
  shows "unat (clipped I off num) = min (unat num) (bsize I - unat off)"
  using assms unat_truncated [OF assms(1)] spaned_iff [OF assms]
  by (auto simp: clipped_def)

lemma clipped_same:
  "off < block_size I \<Longrightarrow> num \<le> block_size I \<Longrightarrow> unat off + unat num \<le> bsize I \<Longrightarrow>
   clipped I off num = num"
  by (simp add: clipped_def spaned_iff)

lemma mod_block_size:
  assumes "num \<le> block_size I" "num \<noteq> 0"
  shows "num mod block_size I \<noteq> 0 \<longleftrightarrow> num \<noteq> block_size I"
proof (cases "num = block_size I")
  case False
  with assms have "num < block_size I"
    by (metis order_le_less)
  then show ?thesis
    using False assms(2) by (simp add: mod_word_less)
qed simp

lemma FvbRead_partial:
  assumes "off < block_size I" "num < block_size I" "num \<noteq> 0"
  shows "FvbRead L I lba off num buf d =
    (case NorFlashRead L I (StartLba I + lba) off (clipped I off num) buf d of (s, buf', d') \<Rightarrow>
      (if EFI_ERROR s then EFI_DEVICE_ERROR else EFI_SUCCESS, clipped I off num, buf', d'))"
proof -
  have "\<not> (block_size I \<le> off \<or> block_size I < num)" "num mod block_size I \<noteq> 0"
    using assms mod_block_size [of num I] by auto
  then show ?thesis
    using assms(3) by (simp add: FvbRead_def clipped_def Let_def split: prod.split)
qed

lemma FvbRead_full:
  assumes "off < block_size I" "num = block_size I"
  shows "FvbRead L I lba off num buf d =
    (case NorFlashReadBlocks L I (StartLba I + lba) num buf d of (s, buf', d') \<Rightarrow>
      (if EFI_ERROR s then EFI_DEVICE_ERROR else EFI_SUCCESS, num, buf', d'))"
proof -
  have "num \<noteq> 0"
    using assms by auto
  with assms show ?thesis
    by (auto simp: FvbRead_def Let_def not_le split: prod.splits)
qed

lemma FvbWrite_partial:
  assumes "\<not> ReadOnly (Media I)" "off < block_size I" "num < block_size I" "num \<noteq> 0"
  shows "FvbWrite L I lba off num buf d =
    (case NorFlashWrite L I (StartLba I + lba) off (clipped I off num) buf d of (s, d') \<Rightarrow>
      (if \<not> EFI_ERROR s \<and> block_size I < off + num then EFI_BAD_BUFFER_SIZE else s,
       clipped I off num, d'))"
proof -
  have "\<not> (block_size I \<le> off \<or> block_size I < num)" "num mod block_size I \<noteq> 0"
    using assms mod_block_size [of num I] by auto
  then show ?thesis
    using assms(1,4)
    by (simp add: FvbWrite_def clipped_def Let_def add.commute [of num off] split: prod.split)
qed

lemma FvbWrite_full:
  assumes "\<not> ReadOnly (Media I)" "off < block_size I" "num = block_size I"
  shows "FvbWrite L I lba off num buf d =
    (case NorFlashWriteBlocks L I (StartLba I + lba) num buf d of (s, d') \<Rightarrow>
      (if EFI_ERROR s then EFI_DEVICE_ERROR else s, num, d'))"
proof -
  have "num \<noteq> 0"
    using assms by auto
  with assms show ?thesis
    by (auto simp: FvbWrite_def Let_def not_le split: prod.splits)
qed

text \<open>A request the guards refuse never reaches the library.\<close>

lemma FvbRead_refused:
  "block_size I \<le> off \<or> block_size I < num \<or> num = 0 \<Longrightarrow>
   \<exists>n. FvbRead L I lba off num buf d = (EFI_BAD_BUFFER_SIZE, n, buf, d)"
  by (auto simp: FvbRead_def Let_def)

lemma FvbWrite_refused:
  "ReadOnly (Media I) \<or> block_size I \<le> off \<or> block_size I < num \<or> num = 0 \<Longrightarrow>
   \<exists>s n. EFI_ERROR s \<and> FvbWrite L I lba off num buf d = (s, n, d)"
  by (auto simp: FvbWrite_def Let_def)

lemma transfer_cases:
  obtains (refused) "block_size I \<le> off \<or> block_size I < num \<or> num = 0"
  | (partial) "off < block_size I" "num < block_size I" "num \<noteq> 0"
  | (full) "off < block_size I" "num = block_size I" "num \<noteq> 0"
  by (metis linorder_less_linear linorder_not_less)

text \<open>The bounds of a request in numbers.\<close>

lemma request_bounds:
  assumes "off < block_size I" "num \<le> block_size I" "num \<noteq> 0"
  shows "unat off < bsize I" "unat num \<le> bsize I" "0 < unat num"
  using assms by (auto simp: word_less_nat_alt word_le_nat_alt unat_gt_0)

section \<open>Contents after a request\<close>

text \<open>Reading never changes the contents; writing changes at most the block addressed.\<close>

lemma FvbRead_contents:
  assumes "nor_flash_contract L c" "unat num \<le> length buf"
    and "FvbRead L I lba off num buf d = (s, n, buf', d')"
  shows "c d' = c d" "length buf' = length buf"
proof -
  have "c d' = c d \<and> length buf' = length buf"
  proof (cases rule: transfer_cases [of I off num])
    case refused
    then show ?thesis
      using FvbRead_refused [of I off num L lba buf d] assms(3) by auto
  next
    case partial
    then have "unat (clipped I off num) \<le> length buf"
      using assms(2) by (simp add: unat_clipped)
    then show ?thesis
      using partial assms(3) NorFlashRead_contract(1,2) [OF assms(1)]
      by (auto simp: FvbRead_partial split: prod.splits)
  next
    case full
    then show ?thesis
      using assms(2,3) NorFlashReadBlocks_contract(1,2) [OF assms(1)]
      by (auto simp: FvbRead_full split: prod.splits)
  qed
  then show "c d' = c d" "length buf' = length buf" by simp_all
qed

lemma FvbWrite_contents:
  assumes "nor_flash_contract L c" "unat num \<le> length buf"
    and "FvbWrite L I lba off num buf d = (s, n, d')" "\<not> in_block I (device_block I lba) i"
  shows "c d' i = c d i"
proof (cases "ReadOnly (Media I)")
  case True
  then show ?thesis
    using FvbWrite_refused [of I off num L lba buf d] assms(3) by auto
next
  case rw: False
  show ?thesis
  proof (cases rule: transfer_cases [of I off num])
    case refused
    then show ?thesis
      using FvbWrite_refused [of I off num L lba buf d] assms(3) by auto
  next
    case partial
    obtain s0 d0 where w: "NorFlashWrite L I (StartLba I + lba) off (clipped I off num) buf d = (s0, d0)"
      by fastforce
    have "num \<le> block_size I"
      using partial by simp
    note b = request_bounds [OF partial(1) this partial(3)]
    have n: "unat (clipped I off num) \<le> length buf" "0 < unat (clipped I off num)"
        "unat off + unat (clipped I off num) \<le> bsize I"
      using partial assms(2) b by (auto simp: unat_clipped min_def)
    have "same_outside I (flash_addr I (StartLba I + lba) off) (unat (clipped I off num)) (c d) (c d0)"
      by (rule NorFlashWrite_contract(1) [OF assms(1) w n(1)])
    then show ?thesis
      using assms(3,4) partial rw w touched_block [OF b(1) n(2,3)]
      by (auto simp: FvbWrite_partial same_outside_def flash_addr_device_block)
  next
    case full
    obtain s0 d0 where w: "NorFlashWriteBlocks L I (StartLba I + lba) num buf d = (s0, d0)"
      by fastforce
    have "num \<le> block_size I"
      using full by simp
    note b = request_bounds [OF full(1) this full(3)]
    have "same_outside I (flash_addr I (StartLba I + lba) 0) (unat num) (c d) (c d0)"
      by (rule NorFlashWriteBlocks_contract(1) [OF assms(1) w assms(2)])
    then show ?thesis
      using assms(3,4) full rw w b touched_block [of 0 I "unat num" "device_block I lba" i]
      by (auto simp: FvbWrite_full same_outside_def flash_addr_def)
  qed
qed

text \<open>A request that stays in its block moves exactly the bytes asked for.\<close>

lemma FvbRead_within:
  assumes "nor_flash_contract L c" "unat num \<le> length buf"
    and "0 < unat num" "unat off < bsize I" "unat off + unat num \<le> bsize I"
    and "FvbRead L I lba off num buf d = (s, n, buf', d')"
  shows "n = num" "s = EFI_SUCCESS \<Longrightarrow>
    buf' = read_range (c d) (device_block I lba * bsize I + unat off) (unat num) @ drop (unat num) buf"
proof -
  have w: "off < block_size I" "num \<le> block_size I" "num \<noteq> 0"
    using assms(3-5) by (auto simp: word_less_nat_alt word_le_nat_alt)
  have "n = num \<and> (s = EFI_SUCCESS \<longrightarrow>
    buf' = read_range (c d) (device_block I lba * bsize I + unat off) (unat num) @ drop (unat num) buf)"
  proof (cases "num = block_size I")
    case True
    then have "off = 0"
      using assms(5) by (simp add: unat_eq_zero)
    then show ?thesis
      using assms(6) True w NorFlashReadBlocks_contract(3) [OF assms(1) _ assms(2)]
      by (auto simp: FvbRead_full flash_addr_def split: prod.splits if_splits)
  next
    case False
    then have "num < block_size I"
      using w by (metis order_le_less)
    then show ?thesis
      using assms(6) w clipped_same [OF w(1,2) assms(5)] NorFlashRead_contract(3) [OF assms(1) _ assms(2)]
      by (auto simp: FvbRead_partial flash_addr_def split: prod.splits if_splits)
  qed
  then show "n = num" "s = EFI_SUCCESS \<Longrightarrow>
    buf' = read_range (c d) (device_block I lba * bsize I + unat off) (unat num) @ drop (unat num) buf"
    by blast+
qed

lemma FvbWrite_within:
  assumes "nor_flash_contract L c" "unat num \<le> length buf" "\<not> ReadOnly (Media I)"
    and "0 < unat num" "unat off < bsize I" "unat off + unat num \<le> bsize I"
    and "FvbWrite L I lba off num buf d = (s, n, d')"
  shows "n = num" "\<not> EFI_ERROR s \<Longrightarrow>
    c d' = write_range (c d) (device_block I lba * bsize I + unat off) (take (unat num) buf)"
proof -
  have w: "off < block_size I" "num \<le> block_size I" "num \<noteq> 0"
    using assms(4-6) by (auto simp: word_less_nat_alt word_le_nat_alt)
  have "n = num \<and> (\<not> EFI_ERROR s \<longrightarrow>
    c d' = write_range (c d) (device_block I lba * bsize I + unat off) (take (unat num) buf))"
  proof (cases "num = block_size I")
    case True
    then have "off = 0"
      using assms(6) by (simp add: unat_eq_zero)
    then show ?thesis
      using assms(3,7) True w NorFlashWriteBlocks_contract(2) [OF assms(1) _ assms(2)]
      by (auto simp: FvbWrite_full flash_addr_def split: prod.splits if_splits)
  next
    case False
    then have "num < block_size I"
      using w by (metis order_le_less)
    moreover have "\<not> block_size I < off + num"
      using spaned_iff [OF w(1,2)] assms(6) by simp
    ultimately show ?thesis
      using assms(3,7) w clipped_same [OF w(1,2) assms(6)] NorFlashWrite_contract(2) [OF assms(1) _ assms(2)]
      by (auto simp: FvbWrite_partial flash_addr_def split: prod.splits if_splits)
  qed
  then show "n = num" "\<not> EFI_ERROR s \<Longrightarrow>
    c d' = write_range (c d) (device_block I lba * bsize I + unat off) (take (unat num) buf)"
    by blast+
qed

section \<open>Erasing a list of ranges\<close>

text \<open>The ranges an argument list names, up to its terminator, and whether it has one.\<close>

fun erase_ranges :: "u64 list \<Rightarrow> (u64 \<times> u64) list" where
  "erase_ranges (lba # num # args) =
     (if lba = EFI_LBA_LIST_TERMINATOR then [] else (lba, num) # erase_ranges args)"
| "erase_ranges _ = []"

fun erase_terminated :: "u64 list \<Rightarrow> bool" where
  "erase_terminated [] = False"
| "erase_terminated [lba] = (lba = EFI_LBA_LIST_TERMINATOR)"
| "erase_terminated (lba # num # args) = (lba = EFI_LBA_LIST_TERMINATOR \<or> erase_terminated args)"

definition bad_range :: "nor_flash_instance \<Rightarrow> u64 \<times> u64 \<Rightarrow> bool" where
  "bad_range I r \<longleftrightarrow> snd r = 0 \<or> Blocks I < fst r + snd r"

text \<open>The contents once all ranges are erased.\<close>

definition erase_spec :: "nor_flash_instance \<Rightarrow> (u64 \<times> u64) list \<Rightarrow> content \<Rightarrow> content" where
  "erase_spec I rs c = fold (\<lambda>(lba, num) c. fill_range c
     ((unat (StartLba I) + unat lba) * bsize I) (unat num * bsize I) 0xFF) rs c"

text \<open>The volume lies inside the 64-bit address range, and a range does not wrap around.\<close>

definition volume_fits :: "nor_flash_instance \<Rightarrow> bool" where
  "volume_fits I \<longleftrightarrow> 0 < bsize I \<and> (unat (StartLba I) + unat (Blocks I)) * bsize I < 2 ^ 64"

definition no_wrap :: "u64 \<times> u64 \<Rightarrow> bool" where
  "no_wrap r \<longleftrightarrow> unat (fst r) + unat (snd r) < 2 ^ 64"

lemma erase_check_terminated:
  "erase_terminated args \<Longrightarrow> erase_check I args =
     Ret (if \<exists>r \<in> set (erase_ranges args). bad_range I r then EFI_INVALID_PARAMETER else EFI_SUCCESS)"
proof (induction I args rule: erase_check.induct)
  case (3 I lba num args)
  show ?case
  proof (cases "lba = EFI_LBA_LIST_TERMINATOR \<or> num = 0 \<or> Blocks I < lba + num")
    case True
    then show ?thesis by (auto simp: bad_range_def)
  next
    case False
    with 3 show ?thesis by (simp add: bad_range_def)
  qed
qed simp_all

lemma erase_check_success:
  "erase_check I args = Ret EFI_SUCCESS \<Longrightarrow>
     erase_terminated args \<and> (\<forall>r \<in> set (erase_ranges args). \<not> bad_range I r)"
  by (induction I args rule: erase_check.induct) (auto simp: bad_range_def split: if_splits)

lemma erase_loop_returns: "erase_terminated args \<Longrightarrow> \<exists>r. erase_loop L I s args d = Ret r"
  by (induction L I s args d rule: erase_loop.induct) (auto simp: Let_def split: prod.splits)

lemma good_range_bounds:
  assumes "volume_fits I" "no_wrap (lba, num)" "\<not> bad_range I (lba, num)"
  shows "0 < unat num" "unat lba + unat num \<le> unat (Blocks I)"
    and "unat (StartLba I + lba) = unat (StartLba I) + unat lba"
    and "unat (num * block_size I) = unat num * bsize I"
proof -
  have fits: "0 < bsize I" "(unat (StartLba I) + unat (Blocks I)) * bsize I < 2 ^ 64"
    using assms(1) by (auto simp: volume_fits_def)
  show n: "0 < unat num"
    using assms(3) by (simp add: bad_range_def unat_gt_0)
  have "unat (lba + num) = unat lba + unat num"
    using assms(2) by (intro unat_add_no_wrap) (simp add: no_wrap_def)
  then show b: "unat lba + unat num \<le> unat (Blocks I)"
    using assms(3) by (simp add: bad_range_def not_less word_le_nat_alt)
  have "unat (StartLba I) + unat (Blocks I) \<le> (unat (StartLba I) + unat (Blocks I)) * bsize I"
    using fits(1) by simp
  then have "unat (StartLba I) + unat lba < 2 ^ 64"
    using fits(2) b by linarith
  then show "unat (StartLba I + lba) = unat (StartLba I) + unat lba"
    by (intro unat_add_no_wrap) simp
  have "unat num * bsize I \<le> (unat (StartLba I) + unat (Blocks I)) * bsize I"
    using b by (intro mult_le_mono1) linarith
  then have "unat num * bsize I < 2 ^ 64"
    using fits(2) by (rule order_le_less_trans)
  then show "unat (num * block_size I) = unat num * bsize I"
    using unat_mult_no_wrap [of num "block_size I"] by simp
qed

text \<open>The bytes of the device that a range of blocks occupies.\<close>

definition in_range :: "nor_flash_instance \<Rightarrow> u64 \<times> u64 \<Rightarrow> nat \<Rightarrow> bool" where
  "in_range I r i \<longleftrightarrow> (unat (StartLba I) + unat (fst r)) * bsize I \<le> i \<and>
     i < (unat (StartLba I) + unat (fst r) + unat (snd r)) * bsize I"

lemma range_in_volume:
  assumes "volume_fits I" "no_wrap r" "\<not> bad_range I r" "in_range I r i"
  shows "in_volume I i"
proof -
  have b: "unat (fst r) + unat (snd r) \<le> unat (Blocks I)"
    using good_range_bounds(2) [OF assms(1), of "fst r" "snd r"] assms(2,3) by simp
  have "(unat (StartLba I) + unat (fst r) + unat (snd r)) * bsize I \<le>
      (unat (StartLba I) + unat (Blocks I)) * bsize I"
    using b by (intro mult_le_mono1) linarith
  moreover have "unat (StartLba I) * bsize I \<le> (unat (StartLba I) + unat (fst r)) * bsize I"
    by (intro mult_le_mono1) simp
  ultimately show ?thesis
    using assms(4) unfolding in_range_def in_volume_def by linarith
qed

lemma erase_range_effect:
  assumes "nor_flash_contract L c" "volume_fits I" "no_wrap (lba, num)" "\<not> bad_range I (lba, num)"
    and "NorFlashErase L I (StartLba I + lba) (num * block_size I) d = (s, d')"
  shows "\<not> in_range I (lba, num) i \<Longrightarrow> c d' i = c d i"
    and "\<not> EFI_ERROR s \<Longrightarrow> c d' = erase_spec I [(lba, num)] (c d)"
proof -
  note b = good_range_bounds [OF assms(2-4)]
  have fits: "0 < bsize I"
    using assms(2) by (simp add: volume_fits_def)
  have addr: "flash_addr I (StartLba I + lba) 0 = (unat (StartLba I) + unat lba) * bsize I"
    by (simp add: flash_addr_def b(3))
  have dvd: "bsize I dvd unat (num * block_size I)"
    by (simp add: b(4))
  note e = NorFlashErase_contract [OF assms(1,5) dvd, unfolded addr b(4)]
  show "\<not> EFI_ERROR s \<Longrightarrow> c d' = erase_spec I [(lba, num)] (c d)"
    using e(2) by (simp add: erase_spec_def)
  assume "\<not> in_range I (lba, num) i"
  then have "\<not> touched I ((unat (StartLba I) + unat lba) * bsize I) (unat num * bsize I) i"
    unfolding in_range_def touched_blocks [OF fits b(1)] by simp
  then show "c d' i = c d i"
    using e(1) by (simp add: same_outside_def)
qed

lemma erase_loop_effect:
  assumes "nor_flash_contract L c" "volume_fits I"
    and "erase_loop L I s0 args d = Ret (s, d')"
    and "\<forall>r \<in> set (erase_ranges args). no_wrap r \<and> \<not> bad_range I r"
  shows "(\<forall>i. (\<forall>r \<in> set (erase_ranges args). \<not> in_range I r i) \<longrightarrow> c d' i = c d i) \<and>
    (\<not> EFI_ERROR s \<longrightarrow> c d' = erase_spec I (erase_ranges args) (c d)) \<and>
    (s = s0 \<or> \<not> EFI_ERROR s \<or> s = EFI_DEVICE_ERROR)"
  using assms
proof (induction L I s0 args d arbitrary: s d' rule: erase_loop.induct)
  case (3 L I status lba num args d)
  show ?case
  proof (cases "lba = EFI_LBA_LIST_TERMINATOR")
    case True
    with "3.prems" show ?thesis by (simp add: erase_spec_def)
  next
    case False
    obtain s1 d1 where e: "NorFlashErase L I (StartLba I + lba) (num * block_size I) d = (s1, d1)"
      by fastforce
    have r: "no_wrap (lba, num)" "\<not> bad_range I (lba, num)"
      using "3.prems"(4) False by auto
    note eff = erase_range_effect [OF "3.prems"(1,2) r e]
    show ?thesis
    proof (cases "EFI_ERROR s1")
      case True
      with "3.prems"(3) False e eff(1) show ?thesis by simp
    next
      case ok: False
      have "(\<forall>i. (\<forall>r \<in> set (erase_ranges args). \<not> in_range I r i) \<longrightarrow> c d' i = c d1 i) \<and>
          (\<not> EFI_ERROR s \<longrightarrow> c d' = erase_spec I (erase_ranges args) (c d1)) \<and>
          (s = s1 \<or> \<not> EFI_ERROR s \<or> s = EFI_DEVICE_ERROR)"
        using "3.IH" [OF False e [symmetric] refl ok] "3.prems" False e ok by simp
      then show ?thesis
        using False eff ok by (auto simp: erase_spec_def)
    qed
  qed
qed (auto simp: erase_spec_def split: if_splits)

lemma erase_check_statuses:
  "erase_check I args = Ret s \<Longrightarrow> s = EFI_SUCCESS \<or> s = EFI_INVALID_PARAMETER \<and>
     (\<exists>r \<in> set (erase_ranges args). bad_range I r)"
  by (induction I args rule: erase_check.induct) (auto simp: bad_range_def split: if_splits)

text \<open>The outcomes of \<open>FvbEraseBlocks\<close>, for ranges that do not wrap around.\<close>

lemma FvbEraseBlocks_cases:
  assumes "nor_flash_contract L c" "volume_fits I"
    and "FvbEraseBlocks L I args d = Ret (s, d')"
    and "\<forall>r \<in> set (erase_ranges args). no_wrap r"
  obtains (denied) "ReadOnly (Media I)" "s = EFI_ACCESS_DENIED" "d' = d"
  | (invalid) "\<not> ReadOnly (Media I)" "\<exists>r \<in> set (erase_ranges args). bad_range I r"
      "s = EFI_INVALID_PARAMETER" "d' = d"
  | (erased) "\<not> ReadOnly (Media I)" "\<forall>r \<in> set (erase_ranges args). no_wrap r \<and> \<not> bad_range I r"
      "\<not> EFI_ERROR s" "c d' = erase_spec I (erase_ranges args) (c d)"
  | (failed) "\<not> ReadOnly (Media I)" "\<forall>r \<in> set (erase_ranges args). no_wrap r \<and> \<not> bad_range I r"
      "s = EFI_DEVICE_ERROR" "\<forall>i. (\<forall>r \<in> set (erase_ranges args). \<not> in_range I r i) \<longrightarrow> c d' i = c d i"
proof (cases "ReadOnly (Media I)")
  case True
  with assms(3) that(1) show ?thesis by (auto simp: FvbEraseBlocks_def)
next
  case rw: False
  with assms(3) obtain s0 where s0: "erase_check I args = Ret s0"
    by (cases "erase_check I args") (auto simp: FvbEraseBlocks_def)
  show ?thesis
  proof (cases "s0 = EFI_INVALID_PARAMETER")
    case True
    with s0 rw assms(3) that(2) erase_check_statuses [OF s0] show ?thesis by (auto simp: FvbEraseBlocks_def)
  next
    case False
    then have good: "\<forall>r \<in> set (erase_ranges args). no_wrap r \<and> \<not> bad_range I r"
      using erase_check_statuses [OF s0] s0 erase_check_success assms(4) by blast
    have "erase_loop L I EFI_SUCCESS args d = Ret (s, d')"
      using s0 False rw assms(3) by (simp add: FvbEraseBlocks_def)
    note erase_loop_effect [OF assms(1,2) this good]
    then show ?thesis
      using that(3,4) rw good by (cases "EFI_ERROR s") auto
  qed
qed

lemma erase_spec_outside:
  "\<forall>r \<in> set rs. \<not> in_range I r i \<Longrightarrow> erase_spec I rs v i = v i"
proof (induction rs arbitrary: v)
  case (Cons r rs)
  have "erase_spec I (r # rs) v i = fill_range v ((unat (StartLba I) + unat (fst r)) * bsize I)
      (unat (snd r) * bsize I) 0xFF i"
    using Cons by (simp add: erase_spec_def split_def)
  also have "\<dots> = v i"
    using Cons.prems by (auto simp: fill_range_def in_range_def algebra_simps)
  finally show ?case .
qed (simp add: erase_spec_def)

lemma FvbEraseBlocks_ranges:
  assumes "nor_flash_contract L c" "volume_fits I"
    and "FvbEraseBlocks L I args d = Ret (s, d')"
    and "\<forall>r \<in> set (erase_ranges args). no_wrap r"
    and "\<forall>r \<in> set (erase_ranges args). no_wrap r \<and> \<not> bad_range I r \<longrightarrow> \<not> in_range I r i"
  shows "c d' i = c d i"
  using assms(1-4) by (cases rule: FvbEraseBlocks_cases) (use assms(5) erase_spec_outside in auto)

lemma FvbEraseBlocks_effect:
  assumes "nor_flash_contract L c" "volume_fits I"
    and "FvbEraseBlocks L I args d = Ret (s, d')"
    and "\<forall>r \<in> set (erase_ranges args). no_wrap r"
  shows "(\<forall>i. \<not> in_volume I i \<longrightarrow> c d' i = c d i) \<and>
    (\<not> EFI_ERROR s \<longrightarrow> c d' = erase_spec I (erase_ranges args) (c d))"
proof -
  have "c d' i = c d i" if "\<not> in_volume I i" for i
    by (rule FvbEraseBlocks_ranges [OF assms]) (use that range_in_volume [OF assms(2)] in blast)
  moreover have "c d' = erase_spec I (erase_ranges args) (c d)" if "\<not> EFI_ERROR s"
    using assms by (cases rule: FvbEraseBlocks_cases) (use that in auto)
  ultimately show ?thesis by blast
qed

section \<open>Properties\<close>

text \<open>What a write stores is what a read returns. For a request inside one block that does
  not fail on a writable volume, a read of the same bytes that succeeds afterwards fills the
  buffer with the bytes written, and both report the full number of bytes.\<close>

theorem fvb_write_read:
  assumes "nor_flash_contract L c" "\<not> ReadOnly (Media I)"
    and "0 < unat num" "unat off < bsize I" "unat off + unat num \<le> bsize I"
    and "unat num \<le> length buf" "unat num \<le> length rbuf"
    and "FvbWrite L I lba off num buf d = (s, n, d')" "\<not> EFI_ERROR s"
    and "FvbRead L I lba off num rbuf d' = (EFI_SUCCESS, rn, rbuf', d'')"
  shows "n = num \<and> rn = num \<and> take (unat num) rbuf' = take (unat num) buf \<and> c d'' = c d'"
  using FvbWrite_within [OF assms(1,6,2,3,4,5,8)] FvbRead_within [OF assms(1,7,3,4,5,10)]
    FvbRead_contents [OF assms(1,7,10)] assms(6,9)
    read_write_same [of "c d" "device_block I lba * bsize I + unat off" "take (unat num) buf"]
  by simp

text \<open>A write touches one block. Whatever the arguments, the outcome and the error, a call of
  \<open>FvbWrite\<close> leaves every byte outside the block it addresses as it was.\<close>

theorem fvb_write_stays_in_block:
  assumes "nor_flash_contract L c" "unat num \<le> length buf"
    and "FvbWrite L I lba off num buf d = (s, n, d')" "\<not> in_block I (device_block I lba) i"
  shows "c d' i = c d i"
  using assms by (rule FvbWrite_contents)

text \<open>Requests across the end of a block are cut off there. A request of less than a block
  that would pass the end of the block moves the bytes up to the end and sets the byte count to
  their number. \<open>FvbWrite\<close> then returns \<open>EFI_BAD_BUFFER_SIZE\<close>, as the protocol documents;
  \<open>FvbRead\<close> returns \<open>EFI_SUCCESS\<close>.\<close>

theorem fvb_truncated_requests:
  assumes "\<not> ReadOnly (Media I)"
    and "unat off < bsize I" "unat num < bsize I" "bsize I < unat off + unat num"
    and "NorFlashWrite L I (StartLba I + lba) off part buf d = (ws, wd)" "\<not> EFI_ERROR ws"
    and "NorFlashRead L I (StartLba I + lba) off part rbuf d = (rs, rbuf', rd)" "\<not> EFI_ERROR rs"
    and "unat part = bsize I - unat off"
  shows "FvbWrite L I lba off num buf d = (EFI_BAD_BUFFER_SIZE, part, wd) \<and>
    FvbRead L I lba off num rbuf d = (EFI_SUCCESS, part, rbuf', rd)"
proof -
  have w: "off < block_size I" "num < block_size I" "num \<noteq> 0"
    using assms(2-4) by (auto simp: word_less_nat_alt)
  have sp: "block_size I < off + num"
    using spaned_iff [of off I num] w assms(4) by auto
  have "unat (clipped I off num) = unat part"
    using w assms(3,4,9) by (simp add: unat_clipped)
  then have "clipped I off num = part"
    using word_unat_eq_iff by blast
  then show ?thesis
    using w sp assms(1,5-8) by (simp add: FvbWrite_partial FvbRead_partial)
qed

text \<open>A request of exactly one block ignores the offset. With a nonzero offset inside the
  block, a read or a write of \<open>BlockSize\<close> bytes is not cut off at the end of the block but
  becomes a transfer of the whole block from its start, reported with the full byte count: a
  write overwrites the bytes before the offset.\<close>

theorem fvb_full_block_ignores_offset:
  assumes "nor_flash_contract L c" "\<not> ReadOnly (Media I)"
    and "off < block_size I" "num = block_size I" "bsize I \<le> length buf"
    and "FvbWrite L I lba off num buf d = (s, n, d')" "\<not> EFI_ERROR s"
  shows "n = num \<and>
    c d' = write_range (c d) (device_block I lba * bsize I) (take (bsize I) buf) \<and>
    FvbWrite L I lba off num buf d = FvbWrite L I lba 0 num buf d \<and>
    FvbRead L I lba off num rbuf d = FvbRead L I lba 0 num rbuf d"
proof -
  have zero: "0 < block_size I"
    using assms(3) by (metis word_gt_0 word_zero_le order_le_less_trans order_less_irrefl)
  then have len: "unat num \<le> length buf"
    using assms(4,5) by simp
  show ?thesis
    using assms(2-4,6,7) zero NorFlashWriteBlocks_contract(2) [OF assms(1) _ len]
    by (auto simp: FvbWrite_full FvbRead_full flash_addr_def split: prod.splits if_splits)
qed

text \<open>Erasing is all or nothing in its checks. For any terminated argument list, a
  write-protected volume gives \<open>EFI_ACCESS_DENIED\<close>, and a list with an empty range or a range
  past the last block gives \<open>EFI_INVALID_PARAMETER\<close>, both before any block is erased; otherwise
  the ranges are erased in order, and the call returns.\<close>

theorem fvb_erase_checks_first:
  assumes "erase_terminated args"
  shows "FvbEraseBlocks L I args d =
      (if ReadOnly (Media I) then Ret (EFI_ACCESS_DENIED, d)
       else if \<exists>r \<in> set (erase_ranges args). bad_range I r then Ret (EFI_INVALID_PARAMETER, d)
       else erase_loop L I EFI_SUCCESS args d) \<and>
    (\<exists>r. FvbEraseBlocks L I args d = Ret r)"
  using assms erase_loop_returns [OF assms] by (auto simp: FvbEraseBlocks_def erase_check_terminated)

text \<open>Erasing stays in the volume and erases what was asked. For a volume inside the 64-bit
  address range and ranges whose end does not wrap around, no byte outside the volume changes,
  even when the call fails half-way, and a call that does not fail leaves the contents with
  exactly the listed blocks set to 0xFF.\<close>

theorem fvb_erase_blocks:
  assumes "nor_flash_contract L c" "volume_fits I"
    and "FvbEraseBlocks L I args d = Ret (s, d')"
    and "\<forall>r \<in> set (erase_ranges args). no_wrap r"
  shows "(\<forall>i. \<not> in_volume I i \<longrightarrow> c d' i = c d i) \<and>
    (\<not> EFI_ERROR s \<longrightarrow> c d' = erase_spec I (erase_ranges args) (c d))"
  using assms by (rule FvbEraseBlocks_effect)

text \<open>The range check can be passed by wrapping around. A range of three blocks that starts at
  block \<open>2^64 - 2\<close> ends, modulo \<open>2^64\<close>, at block 1, so it passes the check of every nonempty
  volume; the blocks then erased begin two blocks before the volume. The library call that
  erases them is the only one made, and its success is the call's.\<close>

theorem fvb_erase_wraparound:
  assumes "nor_flash_contract L c" "\<not> ReadOnly (Media I)"
    and "1 \<le> unat (Blocks I)" "2 \<le> unat (StartLba I)"
    and "NorFlashErase L I (StartLba I - 2) (3 * block_size I) d = (EFI_SUCCESS, d')"
  shows "FvbEraseBlocks L I [0xFFFFFFFFFFFFFFFE, 3, EFI_LBA_LIST_TERMINATOR] d = Ret (EFI_SUCCESS, d') \<and>
    (\<forall>i. (unat (StartLba I) - 2) * bsize I \<le> i \<and> i < unat (StartLba I) * bsize I \<longrightarrow>
      \<not> in_volume I i \<and> c d' i = 0xFF)"
proof -
  have one: "\<not> Blocks I < 0xFFFFFFFFFFFFFFFE + 3"
    using assms(3) by (simp add: word_less_nat_alt)
  have neg: "StartLba I + 0xFFFFFFFFFFFFFFFE = StartLba I - 2"
  proof -
    have "(0xFFFFFFFFFFFFFFFE :: u64) = - 2"
      by simp
    then show ?thesis by (simp only: diff_conv_add_uminus)
  qed
  have "NorFlashErase L I (StartLba I + 0xFFFFFFFFFFFFFFFE) (3 * block_size I) d = (EFI_SUCCESS, d')"
    using assms(5) unfolding neg .
  then have run: "FvbEraseBlocks L I [0xFFFFFFFFFFFFFFFE, 3, EFI_LBA_LIST_TERMINATOR] d = Ret (EFI_SUCCESS, d')"
    using assms(2) one by (simp add: FvbEraseBlocks_def EFI_LBA_LIST_TERMINATOR_def)
  have len: "unat (3 * block_size I) = 3 * bsize I"
  proof -
    have "bsize I < 2 ^ 32"
      using unat_bound [of "BlockSize (Media I)"] by simp
    then show ?thesis
      by (subst unat_mult_no_wrap) simp_all
  qed
  have lba: "unat (StartLba I - 2) = unat (StartLba I) - 2"
    using assms(4) by (simp add: unat_sub word_le_nat_alt)
  have "c d' = fill_range (c d) (flash_addr I (StartLba I - 2) 0) (3 * bsize I) 0xFF"
    using NorFlashErase_contract(2) [OF assms(1,5)] len by simp
  moreover have addr: "flash_addr I (StartLba I - 2) 0 = (unat (StartLba I) - 2) * bsize I"
    by (simp add: flash_addr_def lba)
  moreover have "unat (StartLba I) * bsize I \<le> (unat (StartLba I) - 2) * bsize I + 3 * bsize I"
  proof -
    have "unat (StartLba I) \<le> (unat (StartLba I) - 2) + 3"
      by simp
    then have "unat (StartLba I) * bsize I \<le> ((unat (StartLba I) - 2) + 3) * bsize I"
      by (rule mult_le_mono1)
    then show ?thesis
      by (simp only: add_mult_distrib)
  qed
  ultimately have "c d' i = 0xFF"
    if "(unat (StartLba I) - 2) * bsize I \<le> i" "i < unat (StartLba I) * bsize I" for i
    using that by (simp add: fill_range_def)
  moreover have "\<not> in_volume I i" if "i < unat (StartLba I) * bsize I" for i
    using that by (simp add: in_volume_def)
  ultimately show ?thesis
    using run by blast
qed

section \<open>Any sequence of requests\<close>

text \<open>
  The volume's driver runs whatever requests its clients make. \<open>fvb_serve\<close> is one request; an
  interpretation of the server contract says what any sequence of them keeps.
\<close>

datatype fvb_request =
    ReadRequest u64 u64 u64 "u8 list"
  | WriteRequest u64 u64 u64 "u8 list"
  | EraseRequest "u64 list"

fun fvb_serve :: "'d nor_flash_lib \<Rightarrow> nor_flash_instance \<Rightarrow> fvb_request \<Rightarrow> 'd \<Rightarrow> 'd outcome" where
  "fvb_serve L I (ReadRequest lba off num buf) d =
     (case FvbRead L I lba off num buf d of (_, _, _, d') \<Rightarrow> Ret d')"
| "fvb_serve L I (WriteRequest lba off num buf) d =
     (case FvbWrite L I lba off num buf d of (_, _, d') \<Rightarrow> Ret d')"
| "fvb_serve L I (EraseRequest args) d = obind (FvbEraseBlocks L I args d) (\<lambda>(_, d'). Ret d')"

text \<open>The caller's buffer holds as many bytes as the request says.\<close>

fun buffer_ok :: "fvb_request \<Rightarrow> bool" where
  "buffer_ok (ReadRequest lba off num buf) = (unat num \<le> length buf)"
| "buffer_ok (WriteRequest lba off num buf) = (unat num \<le> length buf)"
| "buffer_ok (EraseRequest args) = True"

text \<open>The request names blocks of the volume: a written block lies in it, an erased range does not wrap.\<close>

fun addresses_volume :: "nor_flash_instance \<Rightarrow> fvb_request \<Rightarrow> bool" where
  "addresses_volume I (ReadRequest lba off num buf) = True"
| "addresses_volume I (WriteRequest lba off num buf) = (lba < Blocks I)"
| "addresses_volume I (EraseRequest args) = (\<forall>r \<in> set (erase_ranges args). no_wrap r)"

lemma device_block_in_volume:
  assumes "volume_fits I" "lba < Blocks I"
  shows "device_block I lba = unat (StartLba I) + unat lba"
proof -
  have "unat (StartLba I) + unat (Blocks I) \<le> (unat (StartLba I) + unat (Blocks I)) * bsize I"
    using assms(1) by (simp add: volume_fits_def)
  moreover have "Suc (unat lba) \<le> unat (Blocks I)"
    using assms(2) by (simp add: word_less_nat_alt)
  ultimately have "unat (StartLba I) + unat lba < 2 ^ 64"
    using assms(1) unfolding volume_fits_def by linarith
  then show ?thesis
    by (intro unat_add_no_wrap) simp
qed

lemma block_in_volume:
  assumes "volume_fits I" "lba < Blocks I" "in_block I (device_block I lba) i"
  shows "in_volume I i"
proof -
  have lba: "Suc (unat lba) \<le> unat (Blocks I)"
    using assms(2) by (simp add: word_less_nat_alt)
  note block = device_block_in_volume [OF assms(1,2)]
  have "unat (StartLba I) * bsize I \<le> device_block I lba * bsize I"
    unfolding block by (intro mult_le_mono1) simp
  moreover have "Suc (device_block I lba) * bsize I \<le> (unat (StartLba I) + unat (Blocks I)) * bsize I"
    unfolding block using lba by (intro mult_le_mono1) simp
  ultimately show ?thesis
    using assms(3) unfolding in_block_def in_volume_def by linarith
qed

text \<open>One request keeps the bytes outside the volume, and a write-protected volume altogether.\<close>

lemma fvb_serve_outside:
  assumes "nor_flash_contract L c" "volume_fits I" "buffer_ok r" "addresses_volume I r"
    and "fvb_serve L I r d = Ret d'" "\<not> in_volume I i"
  shows "c d' i = c d i"
proof (cases r)
  case (ReadRequest lba off num buf)
  with assms show ?thesis
    using FvbRead_contents(1) [OF assms(1)] by (auto split: prod.splits)
next
  case (WriteRequest lba off num buf)
  then have "\<not> in_block I (device_block I lba) i"
    using block_in_volume [OF assms(2)] assms(4,6) by auto
  with WriteRequest assms show ?thesis
    using FvbWrite_contents [OF assms(1)] by (auto split: prod.splits)
next
  case (EraseRequest args)
  with assms show ?thesis
    using FvbEraseBlocks_effect [OF assms(1,2)] by (auto simp: obind_Ret_iff)
qed

lemma fvb_serve_read_only:
  assumes "nor_flash_contract L c" "ReadOnly (Media I)" "buffer_ok r" "fvb_serve L I r d = Ret d'"
  shows "c d' = c d"
proof (cases r)
  case (ReadRequest lba off num buf)
  with assms show ?thesis
    using FvbRead_contents(1) [OF assms(1)] by (auto split: prod.splits)
next
  case (WriteRequest lba off num buf)
  with assms show ?thesis
    using FvbWrite_refused [of I off num L lba buf d] by auto
next
  case (EraseRequest args)
  with assms show ?thesis
    by (auto simp: FvbEraseBlocks_def)
qed

interpretation isolated_volume: request_server "fvb_serve L I"
    "\<lambda>r. (nor_flash_contract L c \<and> volume_fits I) \<and> buffer_ok r \<and> addresses_volume I r"
    "\<lambda>d d'. \<forall>i. \<not> in_volume I i \<longrightarrow> c d' i = c d i" for L I c
  by unfold_locales (auto intro: fvb_serve_outside)

text \<open>The volume is isolated. Whatever sequence of read, write and erase requests is served,
  successfully or not, the bytes of the flash outside the variable volume keep their values,
  as long as the requests name blocks of the volume.\<close>

theorem fvb_volume_isolated:
  assumes "nor_flash_contract L c" "volume_fits I"
    and "reaches (fvb_serve L I) (\<lambda>r. buffer_ok r \<and> addresses_volume I r) d d'"
    and "\<not> in_volume I i"
  shows "c d' i = c d i"
  using isolated_volume.reaches_keeps [where L = L and c = c and I = I and d = d and d' = d'] assms by simp

text \<open>The block map. \<open>FvbGetBlockSize\<close> reports the media's block size and the number of blocks
  from the given one to the end of the volume, and refuses a block past the end without
  touching the outputs; reported blocks stay inside the volume.\<close>

theorem fvb_block_map:
  "FvbGetBlockSize I lba out =
     (if unat lba < unat (Blocks I)
      then (EFI_SUCCESS, block_size I, Blocks I - lba) else (EFI_INVALID_PARAMETER, out)) \<and>
   (unat lba < unat (Blocks I) \<longrightarrow> unat lba + unat (Blocks I - lba) = unat (Blocks I))"
  by (auto simp: FvbGetBlockSize_def word_le_nat_alt not_le unat_sub)

text \<open>Attributes. The attributes \<open>FvbGetAttributes\<close> reports of a writable volume are those that
  \<open>InitializeFvAndVariableStoreHeaders\<close> puts in the volume header; with the flags being
  different bits, a write-protected volume reports them without the two write flags.\<close>

theorem fvb_attributes:
  assumes "\<forall>f g. f \<noteq> g \<longrightarrow> fvb2_bit K f AND fvb2_bit K g = 0"
  shows "FvbGetAttributes K I =
    (EFI_SUCCESS,
     if ReadOnly (Media I)
     then FvAttributes (default_fv_header K P I) AND
       NOT (fvb2_bit K EFI_FVB2_WRITE_STATUS OR fvb2_bit K EFI_FVB2_WRITE_ENABLED_CAP)
     else FvAttributes (default_fv_header K P I))"
proof -
  let ?w = "fvb2_bit K EFI_FVB2_WRITE_STATUS OR fvb2_bit K EFI_FVB2_WRITE_ENABLED_CAP"
  have free: "fvb2_bit K f AND NOT ?w = fvb2_bit K f"
    if "f \<noteq> EFI_FVB2_WRITE_STATUS" "f \<noteq> EFI_FVB2_WRITE_ENABLED_CAP" for f
  proof (rule bit_eqI)
    fix n
    have "\<not> (bit (fvb2_bit K f) n \<and> bit (fvb2_bit K g) n)" if "f \<noteq> g" for g
      using assms that bit_and_iff [of "fvb2_bit K f" "fvb2_bit K g" n] by auto
    then show "bit (fvb2_bit K f AND NOT ?w) n = bit (fvb2_bit K f) n"
      using that by (auto simp: bit_simps dest: bit_imp_le_length)
  qed
  have "(a OR b) AND NOT ?w = (a AND NOT ?w) OR (b AND NOT ?w)" for a b :: u32
    by (rule bit.conj_disj_distrib2)
  moreover have "fvb2_bit K EFI_FVB2_WRITE_STATUS AND NOT ?w = 0"
      "fvb2_bit K EFI_FVB2_WRITE_ENABLED_CAP AND NOT ?w = 0"
    by (auto intro!: bit_eqI simp: bit_simps)
  ultimately have "default_attributes K AND NOT ?w = snd (FvbGetAttributes K I)" if "ReadOnly (Media I)"
    using that by (simp only: default_attributes_def free FvbGetAttributes_def Let_def fvb2_flag.distinct
        not_False_eq_True not_True_eq_False if_False if_True snd_conv or.right_neutral)
  then show ?thesis
    by (auto simp: FvbGetAttributes_def default_fv_header_def default_attributes_def)
qed

section \<open>Witnesses\<close>

text \<open>The board's volume on the array device.\<close>

lemma orion_volume_fits: "volume_fits orion_instance"
  by (simp add: volume_fits_def)

lemma orion_write:
  "FvbWrite array_lib orion_instance 2 0x10 4 [1, 2, 3, 4] c =
     (EFI_SUCCESS, 4, write_range c 0x382010 [1, 2, 3, 4])"
  by (simp add: FvbWrite_def array_lib_def array_write_def in_device_def flash_addr_def)

theorem fvb_write_read_witness:
  "\<exists>rbuf d. FvbRead array_lib orion_instance 2 0x10 4 [0, 0, 0, 0] (write_range blank_flash 0x382010 [1, 2, 3, 4])
     = (EFI_SUCCESS, 4, rbuf, d) \<and> take 4 rbuf = [1, 2, 3, 4]"
proof -
  obtain rbuf where r: "FvbRead array_lib orion_instance 2 0x10 4 [0, 0, 0, 0]
      (write_range blank_flash 0x382010 [1, 2, 3, 4]) = (EFI_SUCCESS, 4, rbuf, write_range blank_flash 0x382010 [1, 2, 3, 4])"
    by (simp add: FvbRead_def array_lib_def array_read_def in_device_def flash_addr_def)
  show ?thesis
    using fvb_write_read [OF array_lib_contract _ _ _ _ _ _ orion_write _ r] r by simp
qed

theorem fvb_write_stays_in_block_witness:
  "write_range blank_flash 0x382010 [1, 2, 3, 4] 0x381FFF = blank_flash 0x381FFF"
  by (rule fvb_write_stays_in_block [OF array_lib_contract _ orion_write]) (simp_all add: in_block_def)

theorem fvb_truncated_requests_witness:
  "FvbWrite array_lib orion_instance 2 0xFFE 4 [1, 2, 3, 4] blank_flash
     = (EFI_BAD_BUFFER_SIZE, 2, write_range blank_flash 0x382FFE [1, 2]) \<and>
   FvbRead array_lib orion_instance 2 0xFFE 4 [0, 0, 0, 0] blank_flash
     = (EFI_SUCCESS, 2, read_range blank_flash 0x382FFE 2 @ [0, 0], blank_flash)"
  by (rule fvb_truncated_requests [where ws = EFI_SUCCESS and rs = EFI_SUCCESS])
    (simp_all add: array_lib_def array_write_def array_read_def in_device_def flash_addr_def)

theorem fvb_full_block_ignores_offset_witness:
  "\<exists>buf. length buf = 0x1000 \<and> FvbWrite array_lib orion_instance 2 0x10 0x1000 buf blank_flash =
     FvbWrite array_lib orion_instance 2 0 0x1000 buf blank_flash"
proof -
  define buf where "buf = replicate 0x1000 (7 :: u8)"
  have len: "length buf = 0x1000"
    by (simp add: buf_def)
  then have w: "FvbWrite array_lib orion_instance 2 0x10 0x1000 buf blank_flash =
      (EFI_SUCCESS, 0x1000, write_range blank_flash 0x382000 buf)"
    by (simp add: FvbWrite_def array_lib_def array_write_def in_device_def flash_addr_def)
  have "FvbWrite array_lib orion_instance 2 0x10 0x1000 buf blank_flash =
      FvbWrite array_lib orion_instance 2 0 0x1000 buf blank_flash"
    by (rule fvb_full_block_ignores_offset
        [where rbuf = buf, OF array_lib_contract _ _ _ _ w, THEN conjunct2, THEN conjunct2, THEN conjunct1])
      (simp_all add: len)
  with len show ?thesis by blast
qed

theorem fvb_erase_checks_first_witness:
  "FvbEraseBlocks array_lib orion_instance [0, 1, 0x77, 2, EFI_LBA_LIST_TERMINATOR] blank_flash
     = Ret (EFI_INVALID_PARAMETER, blank_flash)"
  using fvb_erase_checks_first [of "[0, 1, 0x77, 2, EFI_LBA_LIST_TERMINATOR]" array_lib orion_instance blank_flash]
  by (simp add: EFI_LBA_LIST_TERMINATOR_def bad_range_def)

lemma orion_erase:
  "FvbEraseBlocks array_lib orion_instance [5, 3, EFI_LBA_LIST_TERMINATOR] c =
     Ret (EFI_SUCCESS, fill_range c 0x385000 0x3000 0xFF)"
  by (simp add: FvbEraseBlocks_def EFI_LBA_LIST_TERMINATOR_def array_lib_def array_erase_def
      in_device_def flash_addr_def)

theorem fvb_erase_blocks_witness:
  "fill_range blank_flash 0x385000 0x3000 0xFF = erase_spec orion_instance [(5, 3)] blank_flash"
  using fvb_erase_blocks [OF array_lib_contract orion_volume_fits orion_erase]
  by (simp add: EFI_LBA_LIST_TERMINATOR_def no_wrap_def)

theorem fvb_erase_wraparound_witness:
  "FvbEraseBlocks array_lib orion_instance [0xFFFFFFFFFFFFFFFE, 3, EFI_LBA_LIST_TERMINATOR] blank_flash =
     Ret (EFI_SUCCESS, fill_range blank_flash 0x37E000 0x3000 0xFF)"
proof -
  have "NorFlashErase array_lib orion_instance (StartLba orion_instance - 2)
      (3 * block_size orion_instance) blank_flash = (EFI_SUCCESS, fill_range blank_flash 0x37E000 0x3000 0xFF)"
    by (simp add: array_lib_def array_erase_def in_device_def flash_addr_def)
  from fvb_erase_wraparound [OF array_lib_contract _ _ _ this] show ?thesis
    by simp
qed

theorem fvb_volume_isolated_witness:
  "write_range (\<lambda>_. 0) 0x382010 [1, 2, 3, 4] 0x37FFFF = 0"
proof -
  have "reaches (fvb_serve array_lib orion_instance)
      (\<lambda>r. buffer_ok r \<and> addresses_volume orion_instance r)
      (\<lambda>_. 0) (write_range (\<lambda>_. 0) 0x382010 [1, 2, 3, 4])"
    by (rule reaches.serve [OF reaches.start, of _ "WriteRequest 2 0x10 4 [1, 2, 3, 4]"])
      (simp_all add: orion_write)
  from fvb_volume_isolated [OF array_lib_contract orion_volume_fits this, where i = "0x37FFFF"]
  show ?thesis
    by (simp add: in_volume_def)
qed

theorem fvb_block_map_witness:
  "FvbGetBlockSize orion_instance 0x70 (0, 0) = (EFI_SUCCESS, 0x1000, 8)"
  using fvb_block_map [of orion_instance "0x70" "(0, 0)"] by simp

theorem fvb_attributes_witness:
  "FvbGetAttributes doc_edk2 (orion_instance\<lparr>Media := (Media orion_instance)\<lparr>ReadOnly := True\<rparr>\<rparr>)
     = (EFI_SUCCESS, 0xA06)"
proof -
  have "\<forall>f g. f \<noteq> g \<longrightarrow> fvb2_bit doc_edk2 f AND fvb2_bit doc_edk2 g = 0"
  proof (intro allI impI)
    fix f g :: fvb2_flag
    assume "f \<noteq> g"
    then show "fvb2_bit doc_edk2 f AND fvb2_bit doc_edk2 g = 0"
      by (cases f; cases g) (simp_all add: doc_edk2_def)
  qed
  from fvb_attributes [OF this, where P = orion_o6_pcds] show ?thesis
    by (simp add: default_fv_header_def default_attributes_def doc_edk2_def)
qed

end
