(* ===== verification/Block_Io.thy ===== *)
theory Block_Io
  imports Fvb_Protocol
begin

text \<open>
  The Block I/O protocol of NorFlashBlockIoDxe.c. Block numbers count from the start of the
  device, not of the variable volume. The media structure is reached through the protocol's
  \<open>Media\<close> pointer: \<open>media_mem\<close> is the memory it points into, and an address that holds no media
  structure (NULL, or a stale one) cannot be read.
\<close>

section \<open>The operations\<close>

type_synonym media_mem = "u64 \<Rightarrow> efi_block_io_media option"

definition load_media :: "media_mem \<Rightarrow> u64 \<Rightarrow> efi_block_io_media outcome" where
  "load_media mem a = (if a = 0 then Undef else case mem a of None \<Rightarrow> Undef | Some M \<Rightarrow> Ret M)"

text \<open>
  \<open>This\<close> is the instance the protocol is part of, \<open>None\<close> for NULL. A debug build reads the
  media structure in \<open>NorFlashBlockIoReset\<close> to print it.
\<close>

definition NorFlashBlockIoReset ::
  "'d nor_flash_lib \<Rightarrow> bool \<Rightarrow> media_mem \<Rightarrow> nor_flash_instance \<Rightarrow> bool \<Rightarrow> 'd \<Rightarrow> (efi_status \<times> 'd) outcome" where
  "NorFlashBlockIoReset L debug mem I ExtendedVerification d =
     (if debug
      then obind (load_media mem (BlkMedia (BlockIoProtocol I))) (\<lambda>_. Ret (NorFlashReset L I d))
      else Ret (NorFlashReset L I d))"

fun NorFlashBlockIoReadBlocks ::
  "'d nor_flash_lib \<Rightarrow> media_mem \<Rightarrow> nor_flash_instance option \<Rightarrow> u32 \<Rightarrow> u64 \<Rightarrow> u64 \<Rightarrow> u64 \<Rightarrow> u8 list \<Rightarrow> 'd \<Rightarrow>
     (efi_status \<times> u8 list \<times> 'd) outcome" where
  "NorFlashBlockIoReadBlocks L mem None media_id lba nbytes addr buf d = Ret (EFI_INVALID_PARAMETER, buf, d)"
| "NorFlashBlockIoReadBlocks L mem (Some I) media_id lba nbytes addr buf d =
     (if BlkMedia (BlockIoProtocol I) = 0 then Ret (EFI_INVALID_PARAMETER, buf, d)
      else obind (load_media mem (BlkMedia (BlockIoProtocol I))) (\<lambda>M.
        if \<not> MediaPresent M then Ret (EFI_NO_MEDIA, buf, d)
        else if MediaId M \<noteq> media_id then Ret (EFI_MEDIA_CHANGED, buf, d)
        else if 2 < IoAlign M \<and> addr AND u32_to_u64 (IoAlign M - 1) \<noteq> 0
          then Ret (EFI_INVALID_PARAMETER, buf, d)
        else Ret (NorFlashReadBlocks L I lba nbytes buf d)))"

fun NorFlashBlockIoWriteBlocks ::
  "'d nor_flash_lib \<Rightarrow> media_mem \<Rightarrow> nor_flash_instance option \<Rightarrow> u32 \<Rightarrow> u64 \<Rightarrow> u64 \<Rightarrow> u8 list \<Rightarrow> 'd \<Rightarrow>
     (efi_status \<times> 'd) outcome" where
  "NorFlashBlockIoWriteBlocks L mem None media_id lba nbytes buf d = Undef"
| "NorFlashBlockIoWriteBlocks L mem (Some I) media_id lba nbytes buf d =
     obind (load_media mem (BlkMedia (BlockIoProtocol I))) (\<lambda>M.
       if \<not> MediaPresent M then Ret (EFI_NO_MEDIA, d)
       else if MediaId M \<noteq> media_id then Ret (EFI_MEDIA_CHANGED, d)
       else if ReadOnly M then Ret (EFI_WRITE_PROTECTED, d)
       else Ret (NorFlashWriteBlocks L I lba nbytes buf d))"

definition NorFlashBlockIoFlushBlocks :: "'d \<Rightarrow> efi_status \<times> 'd" where
  "NorFlashBlockIoFlushBlocks d = (EFI_SUCCESS, d)"

section \<open>The linked instance\<close>

text \<open>
  \<open>NorFlashCreateInstance\<close> points the protocol at the instance's own media structure. While the
  pointer is good, the operations see that structure.
\<close>

definition media_linked :: "media_mem \<Rightarrow> nor_flash_instance \<Rightarrow> bool" where
  "media_linked mem I \<longleftrightarrow> BlkMedia (BlockIoProtocol I) \<noteq> 0 \<and>
     mem (BlkMedia (BlockIoProtocol I)) = Some (Media I)"

lemma load_media_linked: "media_linked mem I \<Longrightarrow> load_media mem (BlkMedia (BlockIoProtocol I)) = Ret (Media I)"
  by (simp add: load_media_def media_linked_def)

text \<open>For an alignment that is a power of two the mask test is the divisibility test.\<close>

lemma mask_test_mod:
  assumes "IoAlign M = 2 ^ k" "k < 32"
  shows "addr AND u32_to_u64 (IoAlign M - 1) \<noteq> 0 \<longleftrightarrow> \<not> unat (IoAlign M) dvd unat addr"
proof -
  have "u32_to_u64 (2 ^ k - 1) = mask k"
  proof -
    have "(2 ^ k - 1 :: u32) = mask k"
      by (simp add: mask_eq_exp_minus_1)
    moreover have "u32_to_u64 (mask k) = mask k"
      using assms(2) by (intro bit_eqI) (auto simp: bit_simps)
    ultimately show ?thesis
      by (simp only:)
  qed
  then have "addr AND u32_to_u64 (IoAlign M - 1) = take_bit k addr"
    by (simp add: assms(1) take_bit_eq_mask)
  moreover have "unat (take_bit k addr) = unat addr mod 2 ^ k"
    by (simp only: unsigned_take_bit_eq) (simp add: take_bit_eq_mod)
  moreover have "unat (IoAlign M) = 2 ^ k"
    using assms by (simp add: unat_two_power)
  ultimately show ?thesis
    by (metis dvd_eq_mod_eq_0 unat_eq_zero)
qed

lemma read_blocks_linked:
  assumes "media_linked mem I"
  shows "NorFlashBlockIoReadBlocks L mem (Some I) media_id lba n addr buf d = Ret
    (if \<not> MediaPresent (Media I) then (EFI_NO_MEDIA, buf, d)
     else if MediaId (Media I) \<noteq> media_id then (EFI_MEDIA_CHANGED, buf, d)
     else if 2 < IoAlign (Media I) \<and> addr AND u32_to_u64 (IoAlign (Media I) - 1) \<noteq> 0
       then (EFI_INVALID_PARAMETER, buf, d)
     else NorFlashReadBlocks L I lba n buf d)"
proof -
  have "BlkMedia (BlockIoProtocol I) \<noteq> 0"
    using assms by (simp add: media_linked_def)
  then show ?thesis
    using load_media_linked [OF assms] by simp
qed

lemma write_blocks_linked:
  assumes "media_linked mem I"
  shows "NorFlashBlockIoWriteBlocks L mem (Some I) media_id lba n buf d = Ret
    (if \<not> MediaPresent (Media I) then (EFI_NO_MEDIA, d)
     else if MediaId (Media I) \<noteq> media_id then (EFI_MEDIA_CHANGED, d)
     else if ReadOnly (Media I) then (EFI_WRITE_PROTECTED, d)
     else NorFlashWriteBlocks L I lba n buf d)"
  using load_media_linked [OF assms] by simp

section \<open>Requests\<close>

datatype block_io_request =
    BlkResetRequest bool
  | BlkReadRequest u32 u64 u64 u64 "u8 list"
  | BlkWriteRequest u32 u64 u64 "u8 list"
  | BlkFlushRequest

fun block_io_serve ::
  "'d nor_flash_lib \<Rightarrow> bool \<Rightarrow> media_mem \<Rightarrow> nor_flash_instance \<Rightarrow> block_io_request \<Rightarrow> 'd \<Rightarrow> 'd outcome" where
  "block_io_serve L debug mem I (BlkResetRequest v) d =
     obind (NorFlashBlockIoReset L debug mem I v d) (\<lambda>(_, d'). Ret d')"
| "block_io_serve L debug mem I (BlkReadRequest media_id lba n addr buf) d =
     obind (NorFlashBlockIoReadBlocks L mem (Some I) media_id lba n addr buf d) (\<lambda>(_, _, d'). Ret d')"
| "block_io_serve L debug mem I (BlkWriteRequest media_id lba n buf) d =
     obind (NorFlashBlockIoWriteBlocks L mem (Some I) media_id lba n buf d) (\<lambda>(_, d'). Ret d')"
| "block_io_serve L debug mem I BlkFlushRequest d = Ret (snd (NorFlashBlockIoFlushBlocks d))"

fun block_buffer_ok :: "block_io_request \<Rightarrow> bool" where
  "block_buffer_ok (BlkReadRequest media_id lba n addr buf) = (unat n \<le> length buf)"
| "block_buffer_ok (BlkWriteRequest media_id lba n buf) = (unat n \<le> length buf)"
| "block_buffer_ok _ = True"

lemma block_io_serve_read_only:
  assumes "nor_flash_contract L c" "media_linked mem I" "ReadOnly (Media I)"
    and "block_buffer_ok r" "block_io_serve L debug mem I r d = Ret d'"
  shows "c d' = c d"
proof (cases r)
  case (BlkResetRequest v)
  have "c (snd (NorFlashReset L I d)) = c d"
    by (rule NorFlashReset_contract [OF assms(1) surjective_pairing])
  with BlkResetRequest assms(2,5) show ?thesis
    by (auto simp: NorFlashBlockIoReset_def load_media_linked split: if_splits prod.splits)
next
  case (BlkReadRequest media_id lba n addr buf)
  obtain s b e where "NorFlashReadBlocks L I lba n buf d = (s, b, e)"
    by (cases "NorFlashReadBlocks L I lba n buf d")
  moreover from this have "c e = c d"
    using NorFlashReadBlocks_contract(1) [OF assms(1)] assms(4) BlkReadRequest by simp
  ultimately show ?thesis
    using BlkReadRequest assms(5)
    by (simp only: block_io_serve.simps read_blocks_linked [OF assms(2)]) (auto split: if_splits)
next
  case (BlkWriteRequest media_id lba n buf)
  with assms(3,5) show ?thesis
    by (simp only: block_io_serve.simps write_blocks_linked [OF assms(2)]) (auto split: if_splits)
next
  case BlkFlushRequest
  with assms(5) show ?thesis by (simp add: NorFlashBlockIoFlushBlocks_def)
qed

lemma block_io_serve_returns:
  assumes "media_linked mem I"
  shows "\<exists>d'. block_io_serve L debug mem I r d = Ret d'"
  using load_media_linked [OF assms]
  by (cases r) (auto simp: NorFlashBlockIoReset_def read_blocks_linked [OF assms] write_blocks_linked [OF assms]
      NorFlashBlockIoFlushBlocks_def simp del: NorFlashBlockIoReadBlocks.simps NorFlashBlockIoWriteBlocks.simps
      split: prod.splits)

text \<open>Block requests change only the blocks that a write with the current media id touches.\<close>

fun block_io_touches :: "nor_flash_instance \<Rightarrow> block_io_request \<Rightarrow> nat \<Rightarrow> bool" where
  "block_io_touches I (BlkWriteRequest media_id lba n buf) i = touched I (flash_addr I lba 0) (unat n) i"
| "block_io_touches I _ i = False"

lemma block_io_serve_outside:
  assumes "nor_flash_contract L c" "media_linked mem I" "block_buffer_ok r"
    and "block_io_serve L debug mem I r d = Ret d'" "\<not> block_io_touches I r i"
  shows "c d' i = c d i"
proof (cases r)
  case (BlkResetRequest v)
  with assms(4) have "NorFlashReset L I d = (fst (NorFlashReset L I d), d')"
    by (auto simp: NorFlashBlockIoReset_def obind_Ret_iff split: if_splits)
  with NorFlashReset_contract [OF assms(1)] show ?thesis by metis
next
  case (BlkReadRequest media_id lba n addr buf)
  with assms show ?thesis
    using NorFlashReadBlocks_contract(1) [OF assms(1)]
    by (auto simp: read_blocks_linked [OF assms(2)] simp del: NorFlashBlockIoReadBlocks.simps
        split: if_splits prod.splits)
next
  case (BlkWriteRequest media_id lba n buf)
  with assms show ?thesis
    using NorFlashWriteBlocks_contract(1) [OF assms(1)]
    by (auto simp: write_blocks_linked [OF assms(2)] same_outside_def simp del: NorFlashBlockIoWriteBlocks.simps
        split: if_splits prod.splits)
next
  case BlkFlushRequest
  with assms(4) show ?thesis
    by (simp add: NorFlashBlockIoFlushBlocks_def)
qed

section \<open>Properties\<close>

text \<open>Which block reads are served. With a good media pointer and a power-of-two alignment, a
  call of \<open>NorFlashBlockIoReadBlocks\<close> returns: \<open>EFI_NO_MEDIA\<close> without media, then
  \<open>EFI_MEDIA_CHANGED\<close> for another media id, then \<open>EFI_INVALID_PARAMETER\<close> when the alignment
  is above 2 and does not divide the buffer address, all without touching device or buffer;
  otherwise the library's answer for these blocks. A NULL protocol or media pointer is refused.\<close>

theorem block_read_guards:
  assumes "media_linked mem I" "IoAlign (Media I) = 2 ^ k" "k < 32"
  shows "NorFlashBlockIoReadBlocks L mem (Some I) media_id lba n addr buf d = Ret
      (if \<not> MediaPresent (Media I) then (EFI_NO_MEDIA, buf, d)
       else if MediaId (Media I) \<noteq> media_id then (EFI_MEDIA_CHANGED, buf, d)
       else if 1 < k \<and> \<not> 2 ^ k dvd unat addr then (EFI_INVALID_PARAMETER, buf, d)
       else NorFlashReadBlocks L I lba n buf d) \<and>
    NorFlashBlockIoReadBlocks L mem None media_id lba n addr buf d = Ret (EFI_INVALID_PARAMETER, buf, d)"
proof -
  have "2 < IoAlign (Media I) \<longleftrightarrow> 1 < k"
  proof -
    have "unat (IoAlign (Media I)) = 2 ^ k"
      using assms(2,3) by (simp add: unat_two_power)
    then have "2 < IoAlign (Media I) \<longleftrightarrow> (2 :: nat) ^ 1 < 2 ^ k"
      by (simp add: word_less_nat_alt)
    also have "\<dots> \<longleftrightarrow> 1 < k"
      by (rule power_strict_increasing_iff) simp
    finally show ?thesis .
  qed
  moreover have "unat (IoAlign (Media I)) = 2 ^ k"
    using assms(2,3) by (simp add: unat_two_power)
  ultimately show ?thesis
    using mask_test_mod [OF assms(2,3)] by (subst read_blocks_linked [OF assms(1)]) simp
qed

text \<open>Blocks written are blocks read. On a present, writable device with the right media id, a
  block write that does not fail stores the buffer at the block, and an aligned read of it
  that succeeds returns the same bytes and changes nothing.\<close>

theorem block_write_read:
  assumes "nor_flash_contract L c" "media_linked mem I"
    and "unat n \<le> length buf" "unat n \<le> length rbuf"
    and "NorFlashBlockIoWriteBlocks L mem (Some I) media_id lba n buf d = Ret (ws, d')" "\<not> EFI_ERROR ws"
    and "NorFlashBlockIoReadBlocks L mem (Some I) media_id lba n addr rbuf d' = Ret (EFI_SUCCESS, rbuf', d'')"
  shows "take (unat n) rbuf' = take (unat n) buf \<and> c d'' = c d' \<and>
    c d' = write_range (c d) (unat lba * bsize I) (take (unat n) buf)"
proof -
  have w: "NorFlashWriteBlocks L I lba n buf d = (ws, d')"
    using assms(5,6) unfolding write_blocks_linked [OF assms(2)] by (auto split: if_splits)
  have r: "NorFlashReadBlocks L I lba n rbuf d' = (EFI_SUCCESS, rbuf', d'')"
    using assms(7) unfolding read_blocks_linked [OF assms(2)] by (auto split: if_splits)
  show ?thesis
    using NorFlashWriteBlocks_contract(2) [OF assms(1) w assms(3,6)]
      NorFlashReadBlocks_contract(1,3) [OF assms(1) r assms(4)] assms(3)
      read_write_same [of "c d" "unat lba * bsize I" "take (unat n) buf"]
    by (simp add: flash_addr_def)
qed

section \<open>Witnesses\<close>

definition orion_media :: media_mem where
  "orion_media = [0x8040 \<mapsto> Media orion_instance]"

lemma orion_linked: "media_linked orion_media orion_instance"
  by (simp add: media_linked_def orion_media_def)

theorem block_read_guards_witness:
  "NorFlashBlockIoReadBlocks array_lib orion_media (Some orion_instance) 0 1 4 0x9002 [0, 0, 0, 0] blank_flash
     = Ret (EFI_INVALID_PARAMETER, [0, 0, 0, 0], blank_flash)"
  using block_read_guards [OF orion_linked, of 2 array_lib 0 1 4 "0x9002" "[0, 0, 0, 0]" blank_flash] by simp

theorem block_write_read_witness:
  "\<exists>rbuf d. NorFlashBlockIoReadBlocks array_lib orion_media (Some orion_instance) 0 1 4 0x9000 [0, 0, 0, 0]
     (write_range blank_flash 0x1000 [1, 2, 3, 4]) = Ret (EFI_SUCCESS, rbuf, d) \<and> take 4 rbuf = [1, 2, 3, 4]"
proof -
  have w: "NorFlashBlockIoWriteBlocks array_lib orion_media (Some orion_instance) 0 1 4 [1, 2, 3, 4] blank_flash
      = Ret (EFI_SUCCESS, write_range blank_flash 0x1000 [1, 2, 3, 4])"
    unfolding write_blocks_linked [OF orion_linked]
    by (simp add: array_lib_def array_write_def in_device_def flash_addr_def)
  obtain rbuf d where r: "NorFlashBlockIoReadBlocks array_lib orion_media (Some orion_instance) 0 1 4 0x9000
      [0, 0, 0, 0] (write_range blank_flash 0x1000 [1, 2, 3, 4]) = Ret (EFI_SUCCESS, rbuf, d)"
    unfolding read_blocks_linked [OF orion_linked]
    by (simp add: array_lib_def array_read_def in_device_def flash_addr_def)
  show ?thesis
    using block_write_read [OF array_lib_contract orion_linked _ _ w _ r] r by simp
qed

end
