(* ===== verification/Disk_Io.thy ===== *)
theory Disk_Io
  imports Block_Io
begin

text \<open>
  The Disk I/O protocol of NorFlashDiskIoDxe.c: byte offsets into the whole device, split
  into a block and an offset in it. The split uses the library division
  \<^verbatim>\<open>DivU64x32Remainder\<close>, so a block size of 0 is whatever that routine does.
\<close>

section \<open>The operations\<close>

definition NorFlashDiskIoReadDisk ::
  "edk2 \<Rightarrow> 'd nor_flash_lib \<Rightarrow> nor_flash_instance \<Rightarrow> u32 \<Rightarrow> u64 \<Rightarrow> u64 \<Rightarrow> u8 list \<Rightarrow> 'd \<Rightarrow>
     (efi_status \<times> u8 list \<times> 'd) outcome" where
  "NorFlashDiskIoReadDisk K L I media_id disk_offset nbytes buf d =
     (if media_id \<noteq> MediaId (Media I) then Ret (EFI_MEDIA_CHANGED, buf, d)
      else obind (DivU64x32Remainder K disk_offset (BlockSize (Media I))) (\<lambda>(lba, block_offset).
        Ret (NorFlashRead L I lba (u32_to_u64 block_offset) nbytes buf d)))"

definition NorFlashDiskIoWriteDisk ::
  "edk2 \<Rightarrow> 'd nor_flash_lib \<Rightarrow> nor_flash_instance \<Rightarrow> u32 \<Rightarrow> u64 \<Rightarrow> u64 \<Rightarrow> u8 list \<Rightarrow> 'd \<Rightarrow>
     (efi_status \<times> 'd) outcome" where
  "NorFlashDiskIoWriteDisk K L I media_id disk_offset nbytes buf d =
     (if media_id \<noteq> MediaId (Media I) then Ret (EFI_MEDIA_CHANGED, d)
      else obind (DivU64x32Remainder K disk_offset (BlockSize (Media I))) (\<lambda>(lba, block_offset).
        Ret (NorFlashWrite L I lba (u32_to_u64 block_offset) nbytes buf d)))"

section \<open>The split of a disk offset\<close>

text \<open>Quotient and remainder by the block size address the byte at the disk offset itself.\<close>

lemma flash_addr_disk_offset:
  assumes "BlockSize (Media I) \<noteq> 0"
  shows "flash_addr I (off div block_size I) (u32_to_u64 (ucast (off mod block_size I))) = unat off"
proof -
  have pos: "0 < bsize I"
    using assms by (simp add: unat_gt_0)
  have "unat (off mod block_size I) = unat off mod bsize I"
    by (simp add: unat_mod)
  moreover have "unat off mod bsize I < 2 ^ 32"
    using mod_less_divisor [OF pos, of "unat off"] unat_bound [of "BlockSize (Media I)"] by simp
  ultimately have "unat (ucast (off mod block_size I) :: u32) = unat off mod bsize I"
    by (simp add: unsigned_ucast_eq take_bit_nat_eq_self)
  then show ?thesis
    by (simp add: flash_addr_def unat_div)
qed

lemma disk_read_eq:
  assumes "edk2_documented K" "BlockSize (Media I) \<noteq> 0" "media_id = MediaId (Media I)"
  shows "NorFlashDiskIoReadDisk K L I media_id off n buf d =
    Ret (NorFlashRead L I (off div block_size I) (u32_to_u64 (ucast (off mod block_size I))) n buf d)"
  using assms by (simp add: NorFlashDiskIoReadDisk_def DivU64x32Remainder_documented)

lemma disk_write_eq:
  assumes "edk2_documented K" "BlockSize (Media I) \<noteq> 0" "media_id = MediaId (Media I)"
  shows "NorFlashDiskIoWriteDisk K L I media_id off n buf d =
    Ret (NorFlashWrite L I (off div block_size I) (u32_to_u64 (ucast (off mod block_size I))) n buf d)"
  using assms by (simp add: NorFlashDiskIoWriteDisk_def DivU64x32Remainder_documented)

text \<open>A stale media id is refused on every disk request, even when the block size is 0.\<close>

lemma disk_media_changed:
  assumes "media_id \<noteq> MediaId (Media I)"
  shows "NorFlashDiskIoReadDisk K L I media_id off n buf d = Ret (EFI_MEDIA_CHANGED, buf, d)"
    and "NorFlashDiskIoWriteDisk K L I media_id off n buf d = Ret (EFI_MEDIA_CHANGED, d)"
  using assms by (simp_all add: NorFlashDiskIoReadDisk_def NorFlashDiskIoWriteDisk_def)

text \<open>The effect of a request on the contents.\<close>

lemma disk_read_contents:
  assumes "edk2_documented K" "nor_flash_contract L c" "BlockSize (Media I) \<noteq> 0"
    and "unat n \<le> length buf" "NorFlashDiskIoReadDisk K L I media_id off n buf d = Ret (s, buf', d')"
  shows "c d' = c d" "s = EFI_SUCCESS \<Longrightarrow> buf' = read_range (c d) (unat off) (unat n) @ drop (unat n) buf"
proof -
  have "c d' = c d \<and> (s = EFI_SUCCESS \<longrightarrow> buf' = read_range (c d) (unat off) (unat n) @ drop (unat n) buf)"
  proof (cases "media_id = MediaId (Media I)")
    case True
    have r: "NorFlashRead L I (off div block_size I) (u32_to_u64 (ucast (off mod block_size I))) n buf d
        = (s, buf', d')"
      by (rule assms(5) [unfolded disk_read_eq [OF assms(1,3) True] outcome.inject])
    show ?thesis
      using NorFlashRead_contract(1,3) [OF assms(2) r assms(4)] flash_addr_disk_offset [OF assms(3), of off]
      by auto
  next
    case False
    then show ?thesis
      using assms(5) by (auto simp: disk_media_changed)
  qed
  then show "c d' = c d" "s = EFI_SUCCESS \<Longrightarrow> buf' = read_range (c d) (unat off) (unat n) @ drop (unat n) buf"
    by blast+
qed

lemma disk_write_contents:
  assumes "edk2_documented K" "nor_flash_contract L c" "BlockSize (Media I) \<noteq> 0"
    and "unat n \<le> length buf" "NorFlashDiskIoWriteDisk K L I media_id off n buf d = Ret (s, d')"
  shows "same_outside I (unat off) (unat n) (c d) (c d')"
    and "\<not> EFI_ERROR s \<Longrightarrow> c d' = write_range (c d) (unat off) (take (unat n) buf)"
proof -
  have "same_outside I (unat off) (unat n) (c d) (c d') \<and>
    (\<not> EFI_ERROR s \<longrightarrow> c d' = write_range (c d) (unat off) (take (unat n) buf))"
  proof (cases "media_id = MediaId (Media I)")
    case True
    have w: "NorFlashWrite L I (off div block_size I) (u32_to_u64 (ucast (off mod block_size I))) n buf d
        = (s, d')"
      by (rule assms(5) [unfolded disk_write_eq [OF assms(1,3) True] outcome.inject])
    show ?thesis
      using NorFlashWrite_contract [OF assms(2) w assms(4)] flash_addr_disk_offset [OF assms(3), of off]
      by auto
  next
    case False
    then show ?thesis
      using assms(5) by (auto simp: disk_media_changed)
  qed
  then show "same_outside I (unat off) (unat n) (c d) (c d')"
    and "\<not> EFI_ERROR s \<Longrightarrow> c d' = write_range (c d) (unat off) (take (unat n) buf)"
    by blast+
qed

section \<open>Requests\<close>

datatype disk_io_request =
    DskReadRequest u32 u64 u64 "u8 list"
  | DskWriteRequest u32 u64 u64 "u8 list"

fun disk_io_serve ::
  "edk2 \<Rightarrow> 'd nor_flash_lib \<Rightarrow> nor_flash_instance \<Rightarrow> disk_io_request \<Rightarrow> 'd \<Rightarrow> 'd outcome" where
  "disk_io_serve K L I (DskReadRequest media_id off n buf) d =
     obind (NorFlashDiskIoReadDisk K L I media_id off n buf d) (\<lambda>(_, _, d'). Ret d')"
| "disk_io_serve K L I (DskWriteRequest media_id off n buf) d =
     obind (NorFlashDiskIoWriteDisk K L I media_id off n buf d) (\<lambda>(_, d'). Ret d')"

fun disk_buffer_ok :: "disk_io_request \<Rightarrow> bool" where
  "disk_buffer_ok (DskReadRequest media_id off n buf) = (unat n \<le> length buf)"
| "disk_buffer_ok (DskWriteRequest media_id off n buf) = (unat n \<le> length buf)"

lemma disk_io_serve_returns:
  assumes "edk2_documented K" "BlockSize (Media I) \<noteq> 0"
  shows "\<exists>d'. disk_io_serve K L I r d = Ret d'"
proof (cases r)
  case (DskReadRequest media_id off n buf)
  show ?thesis
    by (cases "media_id = MediaId (Media I)")
      (auto simp: DskReadRequest disk_read_eq [OF assms] disk_media_changed split: prod.splits)
next
  case (DskWriteRequest media_id off n buf)
  show ?thesis
    by (cases "media_id = MediaId (Media I)")
      (auto simp: DskWriteRequest disk_write_eq [OF assms] disk_media_changed split: prod.splits)
qed

fun disk_io_touches :: "nor_flash_instance \<Rightarrow> disk_io_request \<Rightarrow> nat \<Rightarrow> bool" where
  "disk_io_touches I (DskWriteRequest media_id off n buf) i = touched I (unat off) (unat n) i"
| "disk_io_touches I (DskReadRequest media_id off n buf) i = False"

lemma disk_io_serve_outside:
  assumes "edk2_documented K" "nor_flash_contract L c" "BlockSize (Media I) \<noteq> 0" "disk_buffer_ok r"
    and "disk_io_serve K L I r d = Ret d'" "\<not> disk_io_touches I r i"
  shows "c d' i = c d i"
proof (cases r)
  case (DskReadRequest media_id off n buf)
  with assms disk_read_contents(1) [OF assms(1-3)] show ?thesis
    by (auto simp: obind_Ret_iff)
next
  case (DskWriteRequest media_id off n buf)
  with assms disk_write_contents(1) [OF assms(1-3)] show ?thesis
    by (fastforce simp: obind_Ret_iff same_outside_def)
qed

section \<open>Properties\<close>

text \<open>C24: the disk is a byte array. A disk write that does not fail stores its bytes at the disk
  offset, wherever the block boundaries are, and a disk read of any range that succeeds
  afterwards returns the contents with exactly these bytes replaced.\<close>

theorem disk_is_byte_array:
  assumes "edk2_documented K" "nor_flash_contract L c" "BlockSize (Media I) \<noteq> 0"
    and "unat n \<le> length buf" "unat rn \<le> length rbuf"
    and "NorFlashDiskIoWriteDisk K L I media_id off n buf d = Ret (ws, d')" "\<not> EFI_ERROR ws"
    and "NorFlashDiskIoReadDisk K L I media_id' roff rn rbuf d' = Ret (EFI_SUCCESS, rbuf', d'')"
  shows "take (unat rn) rbuf' =
      read_range (write_range (c d) (unat off) (take (unat n) buf)) (unat roff) (unat rn) \<and> c d'' = c d'"
  using disk_write_contents(2) [OF assms(1-4,6,7)] disk_read_contents [OF assms(1-3,5,8)] by simp

text \<open>The disk path has no write protection. A disk write on read-only media behaves as on
  writable media: when the library carries the write out, the contents change, where the
  function's documentation has \<open>EFI_WRITE_PROTECTED\<close> and the other two protocols refuse.\<close>

theorem disk_write_ignores_protection:
  assumes "edk2_documented K" "nor_flash_contract L c" "BlockSize (Media I) \<noteq> 0" "ReadOnly (Media I)"
    and "media_linked mem I" "MediaPresent (Media I)" "media_id = MediaId (Media I)" "unat n \<le> length buf"
    and "NorFlashWrite L I (off div block_size I) (u32_to_u64 (ucast (off mod block_size I))) n buf d = (s, d')"
    and "\<not> EFI_ERROR s"
  shows "NorFlashDiskIoWriteDisk K L I media_id off n buf d = Ret (s, d') \<and>
    c d' = write_range (c d) (unat off) (take (unat n) buf) \<and>
    NorFlashBlockIoWriteBlocks L mem (Some I) media_id lba n buf d = Ret (EFI_WRITE_PROTECTED, d) \<and>
    FvbWrite L I lba foff n buf d = (EFI_ACCESS_DENIED, n, d)"
proof -
  have w: "NorFlashDiskIoWriteDisk K L I media_id off n buf d = Ret (s, d')"
    by (simp only: disk_write_eq [OF assms(1,3,7)] assms(9))
  moreover have "NorFlashBlockIoWriteBlocks L mem (Some I) media_id lba n buf d = Ret (EFI_WRITE_PROTECTED, d)"
    by (subst write_blocks_linked [OF assms(5)]) (simp add: assms(4,6,7))
  moreover have "FvbWrite L I lba foff n buf d = (EFI_ACCESS_DENIED, n, d)"
    by (simp add: FvbWrite_def assms(4))
  ultimately show ?thesis
    using disk_write_contents(2) [OF assms(1-3,8) w assms(10)] by blast
qed

section \<open>Witnesses\<close>

lemma orion_disk_write:
  "NorFlashDiskIoWriteDisk doc_edk2 array_lib orion_instance 0 0x1FFE 4 [1, 2, 3, 4] c =
     Ret (EFI_SUCCESS, write_range c 0x1FFE [1, 2, 3, 4])"
  by (subst disk_write_eq [OF doc_edk2_documented])
    (simp_all add: array_lib_def array_write_def in_device_def flash_addr_def)

theorem disk_is_byte_array_witness:
  "\<exists>rbuf d. NorFlashDiskIoReadDisk doc_edk2 array_lib orion_instance 0 0x2000 2 [0, 0]
     (write_range blank_flash 0x1FFE [1, 2, 3, 4]) = Ret (EFI_SUCCESS, rbuf, d) \<and> take 2 rbuf = [3, 4]"
proof -
  obtain rbuf d where r: "NorFlashDiskIoReadDisk doc_edk2 array_lib orion_instance 0 0x2000 2 [0, 0]
     (write_range blank_flash 0x1FFE [1, 2, 3, 4]) = Ret (EFI_SUCCESS, rbuf, d)"
    by (subst (asm) disk_read_eq [OF doc_edk2_documented])
      (simp_all add: array_lib_def array_read_def in_device_def flash_addr_def)
  have "read_range (write_range blank_flash 0x1FFE [1, 2, 3, 4]) 0x2000 2 = [3, 4]"
    by (simp add: read_range_def write_range_def upt_rec)
  with r show ?thesis
    using disk_is_byte_array [OF doc_edk2_documented array_lib_contract _ _ _ orion_disk_write _ r] by simp
qed

theorem disk_write_ignores_protection_witness:
  "\<exists>I. ReadOnly (Media I) \<and> NorFlashDiskIoWriteDisk doc_edk2 array_lib I 0 0x1FFE 4 [1, 2, 3, 4] blank_flash =
     Ret (EFI_SUCCESS, write_range blank_flash 0x1FFE [1, 2, 3, 4])"
proof -
  define I where "I = orion_instance\<lparr>Media := (Media orion_instance)\<lparr>ReadOnly := True\<rparr>\<rparr>"
  have simps: "ReadOnly (Media I)" "BlockSize (Media I) = 0x1000" "Size I = 0x800000" "MediaPresent (Media I)"
      "MediaId (Media I) = 0" "media_linked [0x8040 \<mapsto> Media I] I"
    by (simp_all add: I_def media_linked_def)
  have "NorFlashDiskIoWriteDisk doc_edk2 array_lib I 0 0x1FFE 4 [1, 2, 3, 4] blank_flash =
      Ret (EFI_SUCCESS, write_range blank_flash 0x1FFE [1, 2, 3, 4])"
    by (rule disk_write_ignores_protection
        [OF doc_edk2_documented array_lib_contract _ simps(1,6,4), THEN conjunct1])
      (simp_all add: simps array_lib_def array_write_def in_device_def flash_addr_def)
  with simps(1) show ?thesis by blast
qed

end
