(* ===== verification/Nor_Flash_Driver.thy ===== *)
theory Nor_Flash_Driver
  imports Disk_Io
begin

text \<open>
  The driver proper, NorFlashStmmRuntimeDxe.c: the instance template and the device table, the
  creation of an instance, the start of its variable volume, the entry point and the two event
  handlers. The state holds the global variables, the instances by address, the array of
  instance pointers cell by cell, the flash and the pool, and a log of the service calls.
\<close>

section \<open>Environment and state\<close>

text \<open>The functions whose addresses the template stores.\<close>

datatype driver_function =
    Fn_NorFlashBlockIoReset | Fn_NorFlashBlockIoReadBlocks | Fn_NorFlashBlockIoWriteBlocks
  | Fn_NorFlashBlockIoFlushBlocks | Fn_NorFlashDiskIoReadDisk | Fn_NorFlashDiskIoWriteDisk
  | Fn_FvbGetAttributes | Fn_FvbSetAttributes | Fn_FvbGetPhysicalAddress | Fn_FvbGetBlockSize
  | Fn_FvbRead | Fn_FvbWrite | Fn_FvbEraseBlocks

datatype nor_protocol =
    DevicePathProtocol | FlashBlockIoProtocol | FlashDiskIoProtocol
  | FirmwareVolumeBlockProtocol | XspiInfoProtocol

datatype event_handler = FvbVirtualNotify | NorFlashVirtualNotify

text \<open>The calls of the boot and DXE services, with the arguments the driver chooses.\<close>

datatype service_call =
    InstallNvVarStoreFormatted
  | CreateAddressChangeEvent event_handler
  | InstallProtocols u64 "nor_protocol list"
  | RegisterProtocolNotify nat
  | SetMemorySpaceAttributes u64 u64
  | RemoveMemorySpace u64 u64

text \<open>
  What the environment decides: constants of headers outside this repository, the boot mode, the
  platform initialisation of the controller, whether assertions are compiled in, and the
  status and the new handle of each service call, by its position in the log.
\<close>

record 'd boot_env =
  asserts_enabled :: bool
  GetBootModeHob :: u32
  BOOT_WITH_DEFAULT_SETTINGS :: u32
  XSPI_FLASH_DIRECT_MMIO_ADDR :: u64
  XSPI_FLASH_DMA_MMIO_ADDR :: u64
  NOR_FLASH_SIGNATURE :: u64
  EFI_BLOCK_IO_PROTOCOL_REVISION2 :: u64
  EFI_DISK_IO_PROTOCOL_REVISION :: u64
  PcdNorFlashNvramAddr :: u32
  PcdNorFlashNvramSize :: u32
  function_address :: "driver_function \<Rightarrow> u64"
  media_offset :: u64
  service_status :: "nat \<Rightarrow> efi_status"
  service_handle :: "nat \<Rightarrow> u64"
  NorFlashPlatformInitialization :: "'d \<Rightarrow> efi_status \<times> 'd"

record 'd driver =
  dmach :: "'d machine"
  mFlashNvStorageVariableBase :: u64
  mNorFlashDeviceCount :: u32
  mNorFlashInstances :: u64
  cells :: "u64 \<Rightarrow> u64 option"
  heap :: "u64 \<Rightarrow> nor_flash_instance option"
  calls :: "service_call list"

definition call_service :: "'d boot_env \<Rightarrow> service_call \<Rightarrow> 'd driver \<Rightarrow> efi_status \<times> 'd driver" where
  "call_service E call s = (service_status E (length (calls s)), s\<lparr>calls := calls s @ [call]\<rparr>)"

definition assert_efi_error :: "'d boot_env \<Rightarrow> efi_status \<Rightarrow> 'a outcome \<Rightarrow> 'a outcome" where
  "assert_efi_error E status r = (if asserts_enabled E \<and> EFI_ERROR status then Halted else r)"

definition alloc :: "'d driver \<Rightarrow> u64 \<times> 'd driver" where
  "alloc s = (let (a, p) = AllocatePool (mpool (dmach s)) in (a, s\<lparr>dmach := (dmach s)\<lparr>mpool := p\<rparr>\<rparr>))"

definition load_instance :: "'d driver \<Rightarrow> u64 \<Rightarrow> nor_flash_instance outcome" where
  "load_instance s a = (if a = 0 then Undef else case heap s a of None \<Rightarrow> Undef | Some I \<Rightarrow> Ret I)"

definition load_cell :: "'d driver \<Rightarrow> u64 \<Rightarrow> u64 outcome" where
  "load_cell s x = (if x = 0 then Undef else case cells s x of None \<Rightarrow> Undef | Some a \<Rightarrow> Ret a)"

section \<open>Tables\<close>

definition mNorFlashInstanceTemplate :: "'d boot_env \<Rightarrow> nor_flash_instance" where
  "mNorFlashInstanceTemplate E =
     \<lparr>Signature = NOR_FLASH_SIGNATURE E, Handle = 0,
      DeviceBaseAddress = XSPI_FLASH_DIRECT_MMIO_ADDR E, Size = 0x1000000, ShadowBuffer = 0,
      Media = \<lparr>MediaId = 0, RemovableMedia = False, MediaPresent = True, LogicalPartition = False,
        ReadOnly = False, WriteCaching = False, BlockSize = 0x1000, IoAlign = 4, LastBlock = 0xFFF,
        LowestAlignedLba = 0, LogicalBlocksPerPhysicalBlock = 1\<rparr>,
      BlockIoProtocol = \<lparr>BlkRevision = EFI_BLOCK_IO_PROTOCOL_REVISION2 E, BlkMedia = 0,
        BlkReset = function_address E Fn_NorFlashBlockIoReset,
        BlkReadBlocks = function_address E Fn_NorFlashBlockIoReadBlocks,
        BlkWriteBlocks = function_address E Fn_NorFlashBlockIoWriteBlocks,
        BlkFlushBlocks = function_address E Fn_NorFlashBlockIoFlushBlocks\<rparr>,
      DiskIoProtocol = \<lparr>DskRevision = EFI_DISK_IO_PROTOCOL_REVISION E,
        DskReadDisk = function_address E Fn_NorFlashDiskIoReadDisk,
        DskWriteDisk = function_address E Fn_NorFlashDiskIoWriteDisk\<rparr>,
      DevicePath = \<lparr>VendorGuid = replicate 16 0, DevicePathIndex = 0\<rparr>,
      AccessInfo = \<lparr>AccBaseAddress = XSPI_FLASH_DIRECT_MMIO_ADDR E,
        AccDmaBaseAddress = XSPI_FLASH_DMA_MMIO_ADDR E, AccSize = 0x4000000, AccRemappedOffset = 0\<rparr>,
      RegionBaseAddress = XSPI_FLASH_DIRECT_MMIO_ADDR E, Blocks = 0, StartLba = 0,
      FvbProtocol = \<lparr>FvpGetAttributes = function_address E Fn_FvbGetAttributes,
        FvpSetAttributes = function_address E Fn_FvbSetAttributes,
        FvpGetPhysicalAddress = function_address E Fn_FvbGetPhysicalAddress,
        FvpGetBlockSize = function_address E Fn_FvbGetBlockSize,
        FvpRead = function_address E Fn_FvbRead, FvpWrite = function_address E Fn_FvbWrite,
        FvpEraseBlocks = function_address E Fn_FvbEraseBlocks, FvpParentHandle = 0\<rparr>\<rparr>"

record nor_flash_region =
  RgnDeviceBaseAddress :: u64
  RgnDeviceSize :: u32
  RgnRegionBaseAddress :: u64
  RgnRegionSize :: u32
  RgnBlockSize :: u32

definition mNorFlashDevices :: "'d boot_env \<Rightarrow> nor_flash_region list" where
  "mNorFlashDevices E =
     [\<lparr>RgnDeviceBaseAddress = XSPI_FLASH_DIRECT_MMIO_ADDR E, RgnDeviceSize = 0x800000,
       RgnRegionBaseAddress = u32_to_u64 (PcdNorFlashNvramAddr E),
       RgnRegionSize = PcdNorFlashNvramSize E, RgnBlockSize = 0x1000\<rparr>]"

section \<open>The memory space of the flash\<close>

definition FlashMemoryInitEventNotify :: "'d boot_env \<Rightarrow> nor_flash_region \<Rightarrow> 'd driver \<Rightarrow> 'd driver outcome" where
  "FlashMemoryInitEventNotify E r s =
     (let (status, s) = call_service E
        (SetMemorySpaceAttributes (RgnDeviceBaseAddress r) (u32_to_u64 (RgnDeviceSize r))) s in
      if EFI_ERROR status then
        let (_, s) = call_service E
          (RemoveMemorySpace (RgnDeviceBaseAddress r) (u32_to_u64 (RgnDeviceSize r))) s in
        assert_efi_error E status (Ret s)
      else Ret s)"

section \<open>Starting the variable volume\<close>

text \<open>Where the volume is, from the configuration and the instance's device.\<close>

definition located_instance :: "nv_pcds \<Rightarrow> nor_flash_instance \<Rightarrow> nor_flash_instance" where
  "located_instance P I =
     (let base = NvStorageVariableBase P + DeviceBaseAddress I in
      I\<lparr>RegionBaseAddress := base,
        StartLba := (base - DeviceBaseAddress I) div block_size I,
        Blocks := u32_to_u64 (nv_storage_size P div BlockSize (Media I))\<rparr>)"

text \<open>Publishing the formatted store and registering for the address change, once the headers are valid.\<close>

definition publish_volume :: "'d boot_env \<Rightarrow> 'd driver \<Rightarrow> (efi_status \<times> 'd driver) outcome" where
  "publish_volume E s =
     (let (status, s) = call_service E InstallNvVarStoreFormatted s in
      assert_efi_error E status
        (let (status, s) = call_service E (CreateAddressChangeEvent FvbVirtualNotify) s in
         assert_efi_error E status (Ret (status, s))))"

definition NorFlashFvbInitialize ::
  "'d boot_env \<Rightarrow> edk2 \<Rightarrow> nv_pcds \<Rightarrow> 'd nor_flash_lib \<Rightarrow> u64 \<Rightarrow> 'd driver \<Rightarrow> (efi_status \<times> 'd driver) outcome" where
  "NorFlashFvbInitialize E K P L a s =
     (if asserts_enabled E \<and> a = 0 then Halted
      else obind (load_instance s a) (\<lambda>I.
      if BlockSize (Media I) = 0 then Undef
      else let I = located_instance P I;
               s = s\<lparr>mFlashNvStorageVariableBase := RegionBaseAddress I, heap := (heap s)(a \<mapsto> I)\<rparr> in
      obind
        (if GetBootModeHob E = BOOT_WITH_DEFAULT_SETTINGS E then Ret (EFI_INVALID_PARAMETER, s)
         else obind (ValidateFvHeader K P L I (dmach s)) (\<lambda>(status, m). Ret (status, s\<lparr>dmach := m\<rparr>)))
        (\<lambda>(status, s).
        if EFI_ERROR status then Ret (status, s) else publish_volume E s)))"

section \<open>Creating an instance\<close>

text \<open>The instance before its shadow buffer is allocated; \<open>a\<close> is its address.\<close>

definition fresh_instance ::
  "'d boot_env \<Rightarrow> edk2 \<Rightarrow> u64 \<Rightarrow> u64 \<Rightarrow> u64 \<Rightarrow> u32 \<Rightarrow> u32 \<Rightarrow> nor_flash_instance" where
  "fresh_instance E K a device_base nbytes index bs =
     (let T = mNorFlashInstanceTemplate E in
      T\<lparr>DeviceBaseAddress := device_base,
        Size := nbytes,
        Media := (Media T)\<lparr>MediaId := index, BlockSize := bs, LastBlock := nbytes div u32_to_u64 bs - 1\<rparr>,
        BlockIoProtocol := (BlockIoProtocol T)\<lparr>BlkMedia := a + media_offset E\<rparr>,
        DevicePath := \<lparr>VendorGuid = gCixNorFlashDevicePathGuid K, DevicePathIndex = ucast index\<rparr>,
        AccessInfo := \<lparr>AccBaseAddress = XSPI_FLASH_DIRECT_MMIO_ADDR E,
          AccDmaBaseAddress = XSPI_FLASH_DMA_MMIO_ADDR E, AccSize = 0x4000000, AccRemappedOffset = 0\<rparr>\<rparr>)"

definition instance_protocols :: "bool \<Rightarrow> nor_protocol list" where
  "instance_protocols fvb =
     (if fvb
      then [DevicePathProtocol, FlashBlockIoProtocol, FlashDiskIoProtocol, FirmwareVolumeBlockProtocol,
            XspiInfoProtocol]
      else [DevicePathProtocol, FlashBlockIoProtocol, FlashDiskIoProtocol, XspiInfoProtocol])"

text \<open>
  \<open>slot\<close> is the address of the cell that receives the instance. Installing protocols on the NULL
  handle of a new instance creates the handle.
\<close>

definition NorFlashCreateInstance ::
  "'d boot_env \<Rightarrow> edk2 \<Rightarrow> nv_pcds \<Rightarrow> 'd nor_flash_lib \<Rightarrow> u64 \<Rightarrow> u64 \<Rightarrow> u64 \<Rightarrow> u32 \<Rightarrow> u32 \<Rightarrow> u64 \<Rightarrow> 'd driver \<Rightarrow>
     (efi_status \<times> 'd driver) outcome" where
  "NorFlashCreateInstance E K P L device_base region_base nbytes index bs slot s =
     (if slot = 0 then Ret (EFI_INVALID_PARAMETER, s)
      else let (a, s) = alloc s in
      if a = 0 then Ret (EFI_OUT_OF_RESOURCES, s)
      else if bs = 0 then Undef
      else let I = fresh_instance E K a device_base nbytes index bs;
               (b, s) = alloc s;
               s = s\<lparr>heap := (heap s)(a \<mapsto> I\<lparr>ShadowBuffer := b\<rparr>)\<rparr> in
      if b = 0 then Ret (EFI_OUT_OF_RESOURCES, s)
      else obind (NorFlashFvbInitialize E K P L a s) (\<lambda>(status, s).
        obind (load_instance s a) (\<lambda>I.
        let handle = service_handle E (length (calls s));
            (status, s) = call_service E (InstallProtocols a (instance_protocols (\<not> EFI_ERROR status))) s in
        if EFI_ERROR status
        then Ret (status, s\<lparr>dmach := (dmach s)\<lparr>mpool := FreePool a (mpool (dmach s))\<rparr>,
                             heap := (heap s)(a := None)\<rparr>)
        else Ret (status, s\<lparr>heap := (heap s)(a \<mapsto> I\<lparr>Handle := handle\<rparr>),
                             cells := (cells s)(slot \<mapsto> a)\<rparr>))))"

section \<open>The entry point\<close>

text \<open>The array of instance pointers is allocated and not initialised.\<close>

definition array_cell :: "u64 \<Rightarrow> nat \<Rightarrow> u64" where
  "array_cell base i = base + 8 * of_nat i"

definition uninitialised_cells :: "u64 \<Rightarrow> nat \<Rightarrow> (u64 \<Rightarrow> u64 option) \<Rightarrow> u64 \<Rightarrow> u64 option" where
  "uninitialised_cells base n f = (\<lambda>x. if x \<in> set (map (array_cell base) [0 ..< n]) then None else f x)"

fun create_instances ::
  "'d boot_env \<Rightarrow> edk2 \<Rightarrow> nv_pcds \<Rightarrow> 'd nor_flash_lib \<Rightarrow> nat \<Rightarrow> nor_flash_region list \<Rightarrow> 'd driver \<Rightarrow> 'd driver outcome" where
  "create_instances E K P L i [] s = Ret s"
| "create_instances E K P L i (r # rs) s =
     (let (_, s) = call_service E (RegisterProtocolNotify i) s in
      obind (NorFlashCreateInstance E K P L (RgnDeviceBaseAddress r) (RgnRegionBaseAddress r)
               (u32_to_u64 (RgnDeviceSize r)) (of_nat i) (RgnBlockSize r)
               (array_cell (mNorFlashInstances s) i) s)
        (\<lambda>(_, s). create_instances E K P L (Suc i) rs s))"

definition NorFlashInitialise ::
  "'d boot_env \<Rightarrow> edk2 \<Rightarrow> nv_pcds \<Rightarrow> 'd nor_flash_lib \<Rightarrow> 'd driver \<Rightarrow> (efi_status \<times> 'd driver) outcome" where
  "NorFlashInitialise E K P L s =
     (let (status, d) = NorFlashPlatformInitialization E (flash (dmach s));
          s = s\<lparr>dmach := (dmach s)\<lparr>flash := d\<rparr>\<rparr> in
      if EFI_ERROR status then Ret (status, s)
      else let n = length (mNorFlashDevices E);
               (arr, s) = alloc s;
               s = s\<lparr>mNorFlashDeviceCount := of_nat n, mNorFlashInstances := arr,
                     cells := uninitialised_cells arr n (cells s)\<rparr> in
      obind (create_instances E K P L 0 (mNorFlashDevices E) s) (\<lambda>s.
        let (status, s) = call_service E (CreateAddressChangeEvent NorFlashVirtualNotify) s in
        assert_efi_error E status (Ret (status, s))))"

section \<open>The virtual address change\<close>

definition convert_instance :: "(u64 \<Rightarrow> u64) \<Rightarrow> nor_flash_instance \<Rightarrow> nor_flash_instance" where
  "convert_instance EfiConvertPointer I =
     I\<lparr>DeviceBaseAddress := EfiConvertPointer (DeviceBaseAddress I),
       RegionBaseAddress := EfiConvertPointer (RegionBaseAddress I),
       BlockIoProtocol := (BlockIoProtocol I)
         \<lparr>BlkFlushBlocks := EfiConvertPointer (BlkFlushBlocks (BlockIoProtocol I)),
          BlkReadBlocks := EfiConvertPointer (BlkReadBlocks (BlockIoProtocol I)),
          BlkReset := EfiConvertPointer (BlkReset (BlockIoProtocol I)),
          BlkWriteBlocks := EfiConvertPointer (BlkWriteBlocks (BlockIoProtocol I))\<rparr>,
       DiskIoProtocol := (DiskIoProtocol I)
         \<lparr>DskReadDisk := EfiConvertPointer (DskReadDisk (DiskIoProtocol I)),
          DskWriteDisk := EfiConvertPointer (DskWriteDisk (DiskIoProtocol I))\<rparr>,
       FvbProtocol := (FvbProtocol I)
         \<lparr>FvpEraseBlocks := EfiConvertPointer (FvpEraseBlocks (FvbProtocol I)),
          FvpGetAttributes := EfiConvertPointer (FvpGetAttributes (FvbProtocol I)),
          FvpGetBlockSize := EfiConvertPointer (FvpGetBlockSize (FvbProtocol I)),
          FvpGetPhysicalAddress := EfiConvertPointer (FvpGetPhysicalAddress (FvbProtocol I)),
          FvpRead := EfiConvertPointer (FvpRead (FvbProtocol I)),
          FvpSetAttributes := EfiConvertPointer (FvpSetAttributes (FvbProtocol I)),
          FvpWrite := EfiConvertPointer (FvpWrite (FvbProtocol I))\<rparr>,
       ShadowBuffer := (if ShadowBuffer I \<noteq> 0 then EfiConvertPointer (ShadowBuffer I) else ShadowBuffer I)\<rparr>"

fun convert_loop :: "(u64 \<Rightarrow> u64) \<Rightarrow> nat \<Rightarrow> nat \<Rightarrow> 'd driver \<Rightarrow> 'd driver outcome" where
  "convert_loop conv 0 i s = Ret s"
| "convert_loop conv (Suc n) i s =
     obind (load_cell s (array_cell (mNorFlashInstances s) i)) (\<lambda>a.
     obind (load_instance s a) (\<lambda>I.
     convert_loop conv n (Suc i) (s\<lparr>heap := (heap s)(a \<mapsto> convert_instance conv I)\<rparr>)))"

definition NorFlashVirtualNotifyEvent :: "(u64 \<Rightarrow> u64) \<Rightarrow> 'd driver \<Rightarrow> 'd driver outcome" where
  "NorFlashVirtualNotifyEvent EfiConvertPointer s =
     convert_loop EfiConvertPointer (unat (mNorFlashDeviceCount s)) 0 s"

section \<open>What the steps do\<close>

lemma call_service_simps [simp]:
  "fst (call_service E call s) = service_status E (length (calls s))"
  "snd (call_service E call s) = s\<lparr>calls := calls s @ [call]\<rparr>"
  by (simp_all add: call_service_def)

lemma assert_efi_error_Ret [simp]:
  "assert_efi_error E status r = Ret x \<longleftrightarrow> \<not> (asserts_enabled E \<and> EFI_ERROR status) \<and> r = Ret x"
  by (simp add: assert_efi_error_def)

lemma load_instance_Ret: "load_instance s a = Ret I \<longleftrightarrow> a \<noteq> 0 \<and> heap s a = Some I"
  by (auto simp: load_instance_def split: option.splits)

lemma load_cell_Ret: "load_cell s x = Ret a \<longleftrightarrow> x \<noteq> 0 \<and> cells s x = Some a"
  by (auto simp: load_cell_def split: option.splits)

text \<open>A validation that does not fail has read and accepted the headers.\<close>

lemma check_fv_header_status: "check_fv_header K P buf = Ret r \<Longrightarrow> r = EFI_SUCCESS \<or> r = EFI_NOT_FOUND"
  by (auto simp: check_fv_header_def check_variable_store_def Let_def obind_Ret_iff split: if_splits)

lemma ValidateFvHeader_accepts:
  assumes "ValidateFvHeader K P L I m = Ret (r, m')" "\<not> EFI_ERROR r"
  obtains s buf d where
    "NorFlashRead L I (StartLba I) 0 (of_nat HeadersLength) (replicate HeadersLength 0) (flash m) = (s, buf, d)"
    "\<not> EFI_ERROR s" "check_fv_header K P buf = Ret EFI_SUCCESS" "r = EFI_SUCCESS" "flash m' = d"
proof -
  obtain s buf d where r:
    "NorFlashRead L I (StartLba I) 0 (of_nat HeadersLength) (replicate HeadersLength 0) (flash m) = (s, buf, d)"
    by (cases "NorFlashRead L I (StartLba I) 0 (of_nat HeadersLength) (replicate HeadersLength 0) (flash m)")
  have nonzero: "pool_addr (mpool m) (pool_count (mpool m)) \<noteq> 0"
    using assms by (auto simp: ValidateFvHeader_def AllocatePool_def Let_def)
  have ok: "\<not> EFI_ERROR s"
    using assms nonzero r by (auto simp: ValidateFvHeader_def AllocatePool_def Let_def)
  then obtain q where q: "check_fv_header K P buf = Ret q" "r = q" "flash m' = d"
    using assms(1) ValidateFvHeader_read [OF nonzero r ok, of K P] by (auto simp: obind_Ret_iff)
  with assms(2) have "q = EFI_SUCCESS"
    using check_fv_header_status [OF q(1)] by auto
  with r ok q show ?thesis by (intro that) simp_all
qed

lemma publish_volume_effect:
  "publish_volume E s = Ret (status, s') \<Longrightarrow>
     s' = s\<lparr>calls := calls s @ [InstallNvVarStoreFormatted, CreateAddressChangeEvent FvbVirtualNotify]\<rparr>"
  by (auto simp: publish_volume_def call_service_def)

text \<open>Starting the volume: the instance is located whatever happens, and success means validated headers.\<close>

lemma NorFlashFvbInitialize_effect:
  assumes "NorFlashFvbInitialize E K P L a s = Ret (status, s')"
  obtains I where "heap s a = Some I" "heap s' = (heap s)(a \<mapsto> located_instance P I)"
    "cells s' = cells s" "mNorFlashInstances s' = mNorFlashInstances s"
    "mNorFlashDeviceCount s' = mNorFlashDeviceCount s"
    "calls s' = calls s \<or>
       calls s' = calls s @ [InstallNvVarStoreFormatted, CreateAddressChangeEvent FvbVirtualNotify]"
    "\<not> EFI_ERROR status \<Longrightarrow> GetBootModeHob E \<noteq> BOOT_WITH_DEFAULT_SETTINGS E \<and>
       ValidateFvHeader K P L (located_instance P I) (dmach s) = Ret (EFI_SUCCESS, dmach s') \<and>
       calls s' = calls s @ [InstallNvVarStoreFormatted, CreateAddressChangeEvent FvbVirtualNotify]"
proof -
  obtain I where I: "heap s a = Some I" "a \<noteq> 0"
    using assms by (auto simp: NorFlashFvbInitialize_def obind_Ret_iff load_instance_Ret split: if_splits)
  define s1 where "s1 = s\<lparr>mFlashNvStorageVariableBase := RegionBaseAddress (located_instance P I),
    heap := (heap s)(a \<mapsto> located_instance P I)\<rparr>"
  have s1: "heap s1 = (heap s)(a \<mapsto> located_instance P I)" "cells s1 = cells s" "dmach s1 = dmach s"
      "mNorFlashInstances s1 = mNorFlashInstances s" "mNorFlashDeviceCount s1 = mNorFlashDeviceCount s"
      "calls s1 = calls s"
    by (simp_all add: s1_def)
  have run: "obind
      (if GetBootModeHob E = BOOT_WITH_DEFAULT_SETTINGS E then Ret (EFI_INVALID_PARAMETER, s1)
       else obind (ValidateFvHeader K P L (located_instance P I) (dmach s)) (\<lambda>(st, m). Ret (st, s1\<lparr>dmach := m\<rparr>)))
      (\<lambda>(st, s). if EFI_ERROR st then Ret (st, s) else publish_volume E s) = Ret (status, s')"
    using assms I by (simp add: NorFlashFvbInitialize_def load_instance_def s1_def Let_def split: if_splits)
  show ?thesis
  proof (cases "GetBootModeHob E = BOOT_WITH_DEFAULT_SETTINGS E")
    case True
    with run have "status = EFI_INVALID_PARAMETER" "s' = s1" by simp_all
    with s1 I show ?thesis by (intro that [of I]) simp_all
  next
    case False
    with run obtain st m where v: "ValidateFvHeader K P L (located_instance P I) (dmach s) = Ret (st, m)"
      and fin: "(if EFI_ERROR st then Ret (st, s1\<lparr>dmach := m\<rparr>) else publish_volume E (s1\<lparr>dmach := m\<rparr>))
          = Ret (status, s')"
      by (auto simp: obind_Ret_iff)
    show ?thesis
    proof (cases "EFI_ERROR st")
      case True
      with fin have "status = st" "s' = s1\<lparr>dmach := m\<rparr>" by simp_all
      with True s1 I show ?thesis by (intro that [of I]) simp_all
    next
      case ok: False
      have "s' = (s1\<lparr>dmach := m\<rparr>)\<lparr>calls := calls s1 @
          [InstallNvVarStoreFormatted, CreateAddressChangeEvent FvbVirtualNotify]\<rparr>"
        using fin ok publish_volume_effect by fastforce
      moreover have "st = EFI_SUCCESS"
        by (rule ValidateFvHeader_accepts [OF v ok])
      ultimately show ?thesis
        using s1 I v False by (intro that [of I]) simp_all
    qed
  qed
qed

text \<open>And the other way round: what it takes for the volume to start.\<close>

lemma NorFlashFvbInitialize_starts:
  assumes "a \<noteq> 0" "heap s a = Some I" "BlockSize (Media I) \<noteq> 0"
    and "GetBootModeHob E \<noteq> BOOT_WITH_DEFAULT_SETTINGS E"
    and "ValidateFvHeader K P L (located_instance P I) (dmach s) = Ret (EFI_SUCCESS, m)"
    and "\<forall>n < length (calls s) + 2. \<not> EFI_ERROR (service_status E n)"
  shows "NorFlashFvbInitialize E K P L a s = Ret (service_status E (Suc (length (calls s))),
    s\<lparr>mFlashNvStorageVariableBase := NvStorageVariableBase P + DeviceBaseAddress I,
      heap := (heap s)(a \<mapsto> located_instance P I), dmach := m,
      calls := calls s @ [InstallNvVarStoreFormatted, CreateAddressChangeEvent FvbVirtualNotify]\<rparr>)"
  using assms
  by (simp add: NorFlashFvbInitialize_def publish_volume_def load_instance_def call_service_def
      assert_efi_error_def Let_def)
    (simp add: located_instance_def Let_def)

lemma located_instance_simps [simp]:
  "Media (located_instance P I) = Media I" "Size (located_instance P I) = Size I"
  "BlockIoProtocol (located_instance P I) = BlockIoProtocol I"
  "DeviceBaseAddress (located_instance P I) = DeviceBaseAddress I"
  "ShadowBuffer (located_instance P I) = ShadowBuffer I"
  by (simp_all add: located_instance_def Let_def)

lemma fresh_instance_simps [simp]:
  "BlockSize (Media (fresh_instance E K a base n i bs)) = bs"
  "MediaId (Media (fresh_instance E K a base n i bs)) = i"
  "ReadOnly (Media (fresh_instance E K a base n i bs)) = False"
  "Size (fresh_instance E K a base n i bs) = n"
  "DeviceBaseAddress (fresh_instance E K a base n i bs) = base"
  "BlkMedia (BlockIoProtocol (fresh_instance E K a base n i bs)) = a + media_offset E"
  by (simp_all add: fresh_instance_def mNorFlashInstanceTemplate_def Let_def)

lemma alloc_simps [simp]:
  "heap (snd (alloc s)) = heap s" "cells (snd (alloc s)) = cells s" "calls (snd (alloc s)) = calls s"
  "mNorFlashInstances (snd (alloc s)) = mNorFlashInstances s"
  "mNorFlashDeviceCount (snd (alloc s)) = mNorFlashDeviceCount s"
  "flash (dmach (snd (alloc s))) = flash (dmach s)"
  by (simp_all add: alloc_def Let_def case_prod_beta)

lemma alloc_pool:
  "fst (alloc s) = pool_addr (mpool (dmach s)) (pool_count (mpool (dmach s)))"
  "pool_addr (mpool (dmach (snd (alloc s)))) = pool_addr (mpool (dmach s))"
  "pool_count (mpool (dmach (snd (alloc s)))) = Suc (pool_count (mpool (dmach s)))"
  by (simp_all add: alloc_def AllocatePool_def Let_def)

text \<open>The ways a creation ends: before the instance is in place, or at the installation of its protocols.\<close>

lemma NorFlashCreateInstance_cases:
  fixes E :: "'d boot_env"
  assumes "NorFlashCreateInstance E K P L base rb n i bs slot s = Ret (status, s')"
  obtains
    (refused) "EFI_ERROR status" "cells s' = cells s" "calls s' = calls s"
      "mNorFlashInstances s' = mNorFlashInstances s" "mNorFlashDeviceCount s' = mNorFlashDeviceCount s"
  | (installed) a b st and t :: "'d driver" and I where
      "slot \<noteq> 0" "a \<noteq> 0" "b \<noteq> 0" "bs \<noteq> 0"
      "I = located_instance P (fresh_instance E K a base n i bs\<lparr>ShadowBuffer := b\<rparr>)"
      "heap t = (heap s)(a \<mapsto> I)" "cells t = cells s" "mNorFlashInstances t = mNorFlashInstances s"
      "mNorFlashDeviceCount t = mNorFlashDeviceCount s"
      "\<not> EFI_ERROR st \<Longrightarrow> GetBootModeHob E \<noteq> BOOT_WITH_DEFAULT_SETTINGS E \<and>
         (\<exists>m. flash m = flash (dmach s) \<and> ValidateFvHeader K P L I m = Ret (EFI_SUCCESS, dmach t))"
      "calls t = calls s \<or>
         calls t = calls s @ [InstallNvVarStoreFormatted, CreateAddressChangeEvent FvbVirtualNotify]"
      "status = service_status E (length (calls t))"
      "calls s' = calls t @ [InstallProtocols a (instance_protocols (\<not> EFI_ERROR st))]"
      "mNorFlashInstances s' = mNorFlashInstances s" "mNorFlashDeviceCount s' = mNorFlashDeviceCount s"
      "EFI_ERROR status \<Longrightarrow> cells s' = cells s \<and> heap s' a = None"
      "\<not> EFI_ERROR status \<Longrightarrow> cells s' = (cells s)(slot \<mapsto> a) \<and>
         heap s' a = Some (I\<lparr>Handle := service_handle E (length (calls t))\<rparr>)"
proof -
  define a where "a = fst (alloc s)"
  define b where "b = fst (alloc (snd (alloc s)))"
  define F where "F = fresh_instance E K a base n i bs\<lparr>ShadowBuffer := b\<rparr>"
  define s2 where "s2 = (snd (alloc (snd (alloc s))))\<lparr>heap := (heap s)(a \<mapsto> F)\<rparr>"
  have s2: "heap s2 = (heap s)(a \<mapsto> F)" "cells s2 = cells s" "calls s2 = calls s"
      "mNorFlashInstances s2 = mNorFlashInstances s" "mNorFlashDeviceCount s2 = mNorFlashDeviceCount s"
      "flash (dmach s2) = flash (dmach s)"
    by (simp_all add: s2_def)
  consider "slot = 0" | "slot \<noteq> 0" "a = 0" | "slot \<noteq> 0" "a \<noteq> 0" "b = 0" | "slot \<noteq> 0" "a \<noteq> 0" "b \<noteq> 0"
    by blast
  then show ?thesis
  proof cases
    case 4
    obtain st t where init: "NorFlashFvbInitialize E K P L a s2 = Ret (st, t)" and bs: "bs \<noteq> 0"
      using assms 4
      by (auto simp: NorFlashCreateInstance_def case_prod_beta Let_def obind_Ret_iff
          simp flip: a_def b_def F_def s2_def split: if_splits)
    obtain G where G: "heap s2 a = Some G" "heap t = (heap s2)(a \<mapsto> located_instance P G)"
      "cells t = cells s2" "mNorFlashInstances t = mNorFlashInstances s2"
      "mNorFlashDeviceCount t = mNorFlashDeviceCount s2"
      "calls t = calls s2 \<or>
         calls t = calls s2 @ [InstallNvVarStoreFormatted, CreateAddressChangeEvent FvbVirtualNotify]"
      and ok: "\<not> EFI_ERROR st \<Longrightarrow> GetBootModeHob E \<noteq> BOOT_WITH_DEFAULT_SETTINGS E \<and>
       ValidateFvHeader K P L (located_instance P G) (dmach s2) = Ret (EFI_SUCCESS, dmach t) \<and>
       calls t = calls s2 @ [InstallNvVarStoreFormatted, CreateAddressChangeEvent FvbVirtualNotify]"
      using NorFlashFvbInitialize_effect [OF init] by metis
    have GF: "G = F"
      using G(1) s2(1) by simp
    have ld: "load_instance t a = Ret (located_instance P F)"
      using 4 G GF by (simp add: load_instance_def)
    have fin: "(status, s') =
        (let status = service_status E (length (calls t));
             u = t\<lparr>calls := calls t @ [InstallProtocols a (instance_protocols (\<not> EFI_ERROR st))]\<rparr>
         in if EFI_ERROR status
            then (status, u\<lparr>dmach := (dmach u)\<lparr>mpool := FreePool a (mpool (dmach u))\<rparr>, heap := (heap u)(a := None)\<rparr>)
            else (status, u\<lparr>heap := (heap u)(a \<mapsto> (located_instance P F)\<lparr>Handle := service_handle E (length (calls t))\<rparr>),
                             cells := (cells u)(slot \<mapsto> a)\<rparr>))"
      using assms 4 bs init ld
      by (auto simp: NorFlashCreateInstance_def case_prod_beta Let_def
          simp flip: a_def b_def F_def s2_def split: if_splits)
    show ?thesis
      by (rule installed [of a b "located_instance P F" t st])
        (use 4 bs G ok s2 fin GF in \<open>auto simp: F_def Let_def split: if_splits\<close>)
  qed (rule refused, use assms in \<open>auto simp: NorFlashCreateInstance_def case_prod_beta Let_def
      simp flip: a_def b_def split: if_splits\<close>)+
qed

text \<open>The creation that succeeds with a started volume, in full.\<close>

lemma NorFlashCreateInstance_publishes:
  assumes "slot \<noteq> 0" "bs \<noteq> 0" "alloc s = (a, s1)" "a \<noteq> 0" "alloc s1 = (b, s2)" "b \<noteq> 0"
    and "GetBootModeHob E \<noteq> BOOT_WITH_DEFAULT_SETTINGS E"
      "\<forall>n < length (calls s) + 3. \<not> EFI_ERROR (service_status E n)"
    and "I = located_instance P (fresh_instance E K a base n i bs\<lparr>ShadowBuffer := b\<rparr>)"
    and "ValidateFvHeader K P L I (dmach s2) = Ret (EFI_SUCCESS, m)"
  shows "NorFlashCreateInstance E K P L base rb n i bs slot s =
    Ret (service_status E (length (calls s) + 2),
      s2\<lparr>mFlashNvStorageVariableBase := NvStorageVariableBase P + base,
        heap := (heap s)(a \<mapsto> I\<lparr>Handle := service_handle E (length (calls s) + 2)\<rparr>), dmach := m,
        cells := (cells s)(slot \<mapsto> a),
        calls := calls s @ [InstallNvVarStoreFormatted, CreateAddressChangeEvent FvbVirtualNotify,
          InstallProtocols a (instance_protocols True)]\<rparr>)"
proof -
  let ?F = "fresh_instance E K a base n i bs\<lparr>ShadowBuffer := b\<rparr>"
  have frames: "heap s2 = heap s" "cells s2 = cells s" "calls s2 = calls s"
    using alloc_simps [of s] alloc_simps [of s1] assms(3,5) by simp_all
  have "NorFlashFvbInitialize E K P L a (s2\<lparr>heap := (heap s2)(a \<mapsto> ?F)\<rparr>) = Ret (service_status E (Suc (length (calls s2))),
    s2\<lparr>heap := (heap s2)(a \<mapsto> ?F)\<rparr>
     \<lparr>mFlashNvStorageVariableBase := NvStorageVariableBase P + base,
      heap := (heap s2)(a \<mapsto> ?F, a \<mapsto> located_instance P ?F), dmach := m,
      calls := calls s2 @ [InstallNvVarStoreFormatted, CreateAddressChangeEvent FvbVirtualNotify]\<rparr>)"
    by (subst NorFlashFvbInitialize_starts [where I = ?F and m = m])
      (use assms(2,4,7-10) frames in simp_all)
  with assms(1-6,8,9) frames show ?thesis
    by (simp add: NorFlashCreateInstance_def load_instance_def call_service_def)
qed

text \<open>The conversion visits each cell of the array once.\<close>

lemma convert_loop_effect:
  assumes "\<And>j. i \<le> j \<Longrightarrow> j < i + n \<Longrightarrow> load_cell s (array_cell (mNorFlashInstances s) j) = Ret (addr j)"
    and "\<And>j. i \<le> j \<Longrightarrow> j < i + n \<Longrightarrow> addr j \<noteq> 0 \<and> heap s (addr j) \<noteq> None"
    and "inj_on addr {i ..< i + n}"
  shows "convert_loop conv n i s = Ret (s\<lparr>heap := (\<lambda>x.
    if x \<in> addr ` {i ..< i + n} then map_option (convert_instance conv) (heap s x) else heap s x)\<rparr>)"
  using assms
proof (induction n arbitrary: i s)
  case (Suc n)
  obtain I where I: "heap s (addr i) = Some I" "addr i \<noteq> 0"
    using Suc.prems(2) [of i] by auto
  define s1 where "s1 = s\<lparr>heap := (heap s)(addr i \<mapsto> convert_instance conv I)\<rparr>"
  have range: "{i ..< i + Suc n} = insert i {Suc i ..< Suc i + n}"
    by auto
  have fresh: "addr i \<notin> addr ` {Suc i ..< Suc i + n}"
    using Suc.prems(3) unfolding range by (simp only: inj_on_insert) auto
  have "convert_loop conv n (Suc i) s1 = Ret (s1\<lparr>heap := (\<lambda>x.
      if x \<in> addr ` {Suc i ..< Suc i + n} then map_option (convert_instance conv) (heap s1 x) else heap s1 x)\<rparr>)"
  proof (rule Suc.IH)
    fix j
    assume j: "Suc i \<le> j" "j < Suc i + n"
    show "load_cell s1 (array_cell (mNorFlashInstances s1) j) = Ret (addr j)"
      using Suc.prems(1) [of j] j by (simp add: s1_def load_cell_Ret)
    show "addr j \<noteq> 0 \<and> heap s1 (addr j) \<noteq> None"
      using Suc.prems(2) [of j] j by (simp add: s1_def)
  next
    show "inj_on addr {Suc i ..< Suc i + n}"
      using Suc.prems(3) unfolding range by (simp only: inj_on_insert)
  qed
  moreover have "convert_loop conv (Suc n) i s = convert_loop conv n (Suc i) s1"
    using Suc.prems(1) [of i] I by (simp add: load_instance_def s1_def)
  moreover have "(\<lambda>x. if x \<in> addr ` {Suc i ..< Suc i + n} then map_option (convert_instance conv) (heap s1 x) else heap s1 x)
      = (\<lambda>x. if x \<in> addr ` {i ..< i + Suc n} then map_option (convert_instance conv) (heap s x) else heap s x)"
  proof -
    have split: "x \<in> addr ` {i ..< i + Suc n} \<longleftrightarrow> x = addr i \<or> x \<in> addr ` {Suc i ..< Suc i + n}" for x
      unfolding range by simp
    show ?thesis
      unfolding split using fresh I by (auto simp: s1_def fun_eq_iff)
  qed
  ultimately show ?case
    by (simp add: s1_def)
qed simp

lemma NorFlashVirtualNotifyEvent_effect:
  assumes "\<forall>i < unat (mNorFlashDeviceCount s).
      load_cell s (array_cell (mNorFlashInstances s) i) = Ret (addr i) \<and> addr i \<noteq> 0 \<and> heap s (addr i) \<noteq> None"
    and "inj_on addr {0 ..< unat (mNorFlashDeviceCount s)}"
  shows "NorFlashVirtualNotifyEvent conv s = Ret (s\<lparr>heap := (\<lambda>x.
    if x \<in> addr ` {0 ..< unat (mNorFlashDeviceCount s)}
    then map_option (convert_instance conv) (heap s x) else heap s x)\<rparr>)"
  using assms convert_loop_effect [of 0 "unat (mNorFlashDeviceCount s)" s addr conv]
  by (simp add: NorFlashVirtualNotifyEvent_def)

section \<open>Properties\<close>

text \<open>The driver places the volume where the configuration says. For a configuration the layout
  checks accept, whose size does not overflow and that lies inside the device, the located
  instance's first block starts exactly at the configured base, its blocks cover the volume up to
  less than one block, it fits the 64-bit address range and stays inside the device; and the
  region base address is the base in the device's address window.\<close>

theorem driver_locates_volume:
  assumes "nv_layout_ok P (BlockSize (Media I)) = Ret True"
    and "unat (PcdFlashNvStorageVariableSize P) + unat (PcdFlashNvStorageFtwWorkingSize P) +
         unat (PcdFlashNvStorageFtwSpareSize P) = volume" "volume < 2 ^ 32"
    and "unat (NvStorageVariableBase P) + volume \<le> unat (Size I)"
    and "located_instance P I = J"
  shows "unat (StartLba J) * bsize J = unat (NvStorageVariableBase P) \<and>
    unat (Blocks J) * bsize J \<le> volume \<and> volume < (unat (Blocks J) + 1) * bsize J \<and>
    volume_fits J \<and> (unat (StartLba J) + unat (Blocks J)) * bsize J \<le> unat (Size J) \<and>
    RegionBaseAddress J = NvStorageVariableBase P + DeviceBaseAddress J"
proof -
  let ?v = "NvStorageVariableBase P" and ?b = "bsize I"
  have J: "StartLba J = ?v div block_size I" "Blocks J = u32_to_u64 (nv_storage_size P div BlockSize (Media I))"
      "bsize J = ?b" "Size J = Size I" "RegionBaseAddress J = ?v + DeviceBaseAddress J"
    using assms(5) by (auto simp: located_instance_def Let_def)
  have mod: "?v mod block_size I = 0" and pos: "0 < ?b"
    using assms(1) by (auto simp: nv_layout_ok_def lacks_block_def obind_Ret_iff unat_gt_0 split: if_splits)
  have start: "unat (StartLba J) * ?b = unat ?v"
    using arg_cong [OF mod, of unat] by (simp add: J(1) unat_div unat_mod mod_0_imp_dvd dvd_div_mult_self)
  have "unat (nv_storage_size P) = volume"
  proof -
    have "unat (PcdFlashNvStorageVariableSize P + PcdFlashNvStorageFtwWorkingSize P) =
        unat (PcdFlashNvStorageVariableSize P) + unat (PcdFlashNvStorageFtwWorkingSize P)"
      using assms(2,3) by (intro unat_add_no_wrap) simp
    then show ?thesis
      unfolding nv_storage_size_def using assms(2,3) by (subst unat_add_no_wrap) simp_all
  qed
  then have blocks: "unat (Blocks J) = volume div ?b"
    by (simp add: J(2) unat_div)
  have below: "unat (Blocks J) * ?b \<le> volume" and above: "volume < (unat (Blocks J) + 1) * ?b"
    using div_mult_mod_eq [of volume ?b] mod_less_divisor [OF pos, of volume] unfolding blocks add_mult_distrib
    by linarith+
  have in_device: "(unat (StartLba J) + unat (Blocks J)) * ?b \<le> unat (Size I)"
    using start below assms(4) by (simp add: add_mult_distrib)
  also have "unat (Size I) < 2 ^ 64"
    using unat_bound [of "Size I"] by simp
  finally have "volume_fits J"
    using pos by (simp add: volume_fits_def J(3))
  then show ?thesis
    using start below above in_device J(3-5) by simp
qed

text \<open>C12: the firmware volume protocol is published on valid volumes only. If creating an instance
  installs the protocol, the boot mode was not the one for default settings and the bytes in
  flash at the start of the configured volume passed every check of the header and the
  variable store (for a header length that can be summed).\<close>

theorem fvb_published_only_if_valid:
  assumes "edk2_documented K" "nor_flash_contract L c"
    and "NorFlashCreateInstance E K P L base rb n i bs slot s = Ret (status, s')"
    and "InstallProtocols a (instance_protocols True) \<in> set (calls s') - set (calls s)"
    and "read_range (c (flash (dmach s))) (unat (NvStorageVariableBase P) div unat bs * unat bs) HeadersLength = buf"
  shows "GetBootModeHob E \<noteq> BOOT_WITH_DEFAULT_SETTINGS E \<and> check_fv_header K P buf = Ret EFI_SUCCESS \<and>
    (even (unat (HeaderLength (parse_fv_header buf))) \<longrightarrow> volume_headers_valid K P buf)"
  using assms(3)
proof (cases rule: NorFlashCreateInstance_cases)
  case refused
  with assms(4) show ?thesis by simp
next
  case (installed a' b st t I)
  have "instance_protocols False \<noteq> instance_protocols True"
    by (simp add: instance_protocols_def)
  then have ok: "\<not> EFI_ERROR st"
    using assms(4) installed(11,13) by (cases "EFI_ERROR st") auto
  from installed(10) [OF this] obtain m where m: "flash m = flash (dmach s)"
    "ValidateFvHeader K P L I m = Ret (EFI_SUCCESS, dmach t)" and mode: "GetBootModeHob E \<noteq> BOOT_WITH_DEFAULT_SETTINGS E"
    by blast
  obtain q qb d where r: "NorFlashRead L I (StartLba I) 0 (of_nat HeadersLength) (replicate HeadersLength 0) (flash m)
      = (q, qb, d)" "\<not> EFI_ERROR q" and chk: "check_fv_header K P qb = Ret EFI_SUCCESS"
    by (rule ValidateFvHeader_accepts [OF m(2)]) simp
  have "flash_addr I (StartLba I) 0 = unat (NvStorageVariableBase P) div unat bs * unat bs"
    unfolding installed(5) by (simp add: flash_addr_def located_instance_def Let_def unat_div)
  then have "qb = buf"
    using read_headers_buffer(3) [OF assms(2) r] m(1) assms(5) by simp
  with chk mode show ?thesis
    using check_fv_header_success [OF assms(1), of qb P] by blast
qed

text \<open>C34: an instance that could not be created is used nevertheless. When the creation of the
  board's one instance fails, the entry point still returns the status of the event
  registration that follows, and the instance's cell of the pointer array, never written, is
  dereferenced at the virtual address change.\<close>

theorem failed_instance_faults:
  assumes "NorFlashPlatformInitialization E (flash (dmach s)) = (st, d)" "\<not> EFI_ERROR st"
    and "alloc (s\<lparr>dmach := (dmach s)\<lparr>flash := d\<rparr>\<rparr>) = (arr, s1)"
    and "s2 = s1\<lparr>mNorFlashDeviceCount := 1, mNorFlashInstances := arr,
           cells := uninitialised_cells arr 1 (cells s1), calls := calls s1 @ [RegisterProtocolNotify 0]\<rparr>"
    and "NorFlashCreateInstance E K P L (XSPI_FLASH_DIRECT_MMIO_ADDR E) (u32_to_u64 (PcdNorFlashNvramAddr E))
           0x800000 0 0x1000 (array_cell arr 0) s2 = Ret (status, s3)" "EFI_ERROR status"
    and "service_status E (length (calls s3)) = EFI_SUCCESS"
  shows "\<exists>s'. NorFlashInitialise E K P L s = Ret (EFI_SUCCESS, s') \<and>
    NorFlashVirtualNotifyEvent conv s' = Undef"
proof -
  define s' where "s' = s3\<lparr>calls := calls s3 @ [CreateAddressChangeEvent NorFlashVirtualNotify]\<rparr>"
  have "NorFlashInitialise E K P L s = Ret (EFI_SUCCESS, s')"
    using assms(1,2,3,5,7)
    by (simp add: NorFlashInitialise_def mNorFlashDevices_def call_service_def assert_efi_error_def
        assms(4) s'_def)
  moreover have "mNorFlashInstances s3 = arr" "mNorFlashDeviceCount s3 = 1" "cells s3 (array_cell arr 0) = None"
    using assms(5)
    by (cases rule: NorFlashCreateInstance_cases;
        use assms(4,6) in \<open>simp add: uninitialised_cells_def\<close>)+
  then have "NorFlashVirtualNotifyEvent conv s' = Undef"
    by (simp add: NorFlashVirtualNotifyEvent_def s'_def load_cell_def)
  ultimately show ?thesis by blast
qed

text \<open>The media pointer is left behind. The address change converts the functions of the Block I/O
  protocol but not its media pointer. When the memory of the media structure is reachable at its
  converted address only, a block read and a block write then dereference an address that
  holds nothing.\<close>

theorem media_pointer_not_converted:
  assumes "BlkMedia (BlockIoProtocol I) \<noteq> 0" "convert_instance conv I = J"
    and "mem (conv (BlkMedia (BlockIoProtocol I))) = Some (Media J)" "mem (BlkMedia (BlockIoProtocol I)) = None"
  shows "BlkReadBlocks (BlockIoProtocol J) = conv (BlkReadBlocks (BlockIoProtocol I)) \<and>
    BlkMedia (BlockIoProtocol J) = BlkMedia (BlockIoProtocol I) \<and>
    NorFlashBlockIoReadBlocks L mem (Some J) media_id lba n a buf d = Undef \<and>
    NorFlashBlockIoWriteBlocks L mem (Some J) media_id lba n buf d = Undef"
  using assms by (auto simp: convert_instance_def load_media_def)

section \<open>Witnesses\<close>

text \<open>The board's device at 0x10000000 with a pool that never runs out, and one that is empty.\<close>

definition orion_env :: "content boot_env" where
  "orion_env =
     \<lparr>asserts_enabled = True, GetBootModeHob = 0, BOOT_WITH_DEFAULT_SETTINGS = 4,
      XSPI_FLASH_DIRECT_MMIO_ADDR = 0x10000000, XSPI_FLASH_DMA_MMIO_ADDR = 0x20000000,
      NOR_FLASH_SIGNATURE = 0x6E6F7230, EFI_BLOCK_IO_PROTOCOL_REVISION2 = 0x20001,
      EFI_DISK_IO_PROTOCOL_REVISION = 0x10000, PcdNorFlashNvramAddr = 0x380000,
      PcdNorFlashNvramSize = 0x78000, function_address = (\<lambda>_. 0x7000), media_offset = 0x28,
      service_status = (\<lambda>_. EFI_SUCCESS), service_handle = (\<lambda>n. of_nat (0x6000 + n)),
      NorFlashPlatformInitialization = (\<lambda>d. (EFI_SUCCESS, d))\<rparr>"

definition orion_driver :: "content machine \<Rightarrow> content driver" where
  "orion_driver m =
     \<lparr>dmach = m, mFlashNvStorageVariableBase = 0, mNorFlashDeviceCount = 0, mNorFlashInstances = 0,
      cells = (\<lambda>_. None), heap = (\<lambda>_. None), calls = []\<rparr>"

lemma orion_env_simps [simp]:
  "GetBootModeHob orion_env = 0" "BOOT_WITH_DEFAULT_SETTINGS orion_env = 4"
  "service_status orion_env n = EFI_SUCCESS" "service_handle orion_env n = of_nat (0x6000 + n)"
  "NorFlashPlatformInitialization orion_env d = (EFI_SUCCESS, d)"
  "XSPI_FLASH_DIRECT_MMIO_ADDR orion_env = 0x10000000" "media_offset orion_env = 0x28"
  by (simp_all add: orion_env_def)

lemma orion_driver_simps [simp]:
  "dmach (orion_driver m) = m" "cells (orion_driver m) = (\<lambda>_. None)" "heap (orion_driver m) = (\<lambda>_. None)"
  "calls (orion_driver m) = []"
  by (simp_all add: orion_driver_def)

theorem driver_locates_volume_witness:
  "unat (StartLba (located_instance orion_o6_pcds orion_instance)) * 0x1000 = 0x380000 \<and>
   unat (Blocks (located_instance orion_o6_pcds orion_instance)) = 0x78"
proof -
  have "nv_layout_ok orion_o6_pcds (BlockSize (Media orion_instance)) = Ret True"
    using orion_layout_ok by simp
  note v = driver_locates_volume [OF this refl _ _ refl]
  have v0: "unat (NvStorageVariableBase orion_o6_pcds) = 0x380000"
    "unat (PcdFlashNvStorageVariableSize orion_o6_pcds) = 0x28000"
    "unat (PcdFlashNvStorageFtwWorkingSize orion_o6_pcds) = 0x28000"
    "unat (PcdFlashNvStorageFtwSpareSize orion_o6_pcds) = 0x28000"
    by (simp_all add: orion_o6_pcds_def SPI_VARIABLE_BASE_def SPI_VARIABLE_SIZE_def NvStorageVariableBase_def
        nv_base_def)
  show ?thesis
    using v by (simp add: v0)
qed

theorem fvb_published_only_if_valid_witness:
  "\<exists>s s' a buf. NorFlashCreateInstance orion_env doc_edk2 orion_o6_pcds array_lib 0x10000000 0 0x800000 0 0x1000
       0x8000 s = Ret (EFI_SUCCESS, s') \<and>
     InstallProtocols a (instance_protocols True) \<in> set (calls s') \<and>
     check_fv_header doc_edk2 orion_o6_pcds buf = Ret EFI_SUCCESS"
proof -
  obtain bytes where bytes: "default_headers doc_edk2 orion_o6_pcds orion_instance = Ret bytes"
    using default_headers_eq [OF doc_edk2_documented] by blast
  note hdr = check_default_headers [OF doc_edk2_documented bytes]
  define d where "d = write_range (\<lambda>_. 0xFF) 0x380000 bytes"
  define s where "s = orion_driver \<lparr>flash = d,
    mpool = \<lparr>pool_addr = (\<lambda>_. 0x8000), pool_count = 0, pool_live = []\<rparr>\<rparr>"
  define s1 where "s1 = snd (alloc s)"
  define s2 where "s2 = snd (alloc s1)"
  define I where "I = located_instance orion_o6_pcds
    (fresh_instance orion_env doc_edk2 0x8000 0x10000000 0x800000 0 0x1000\<lparr>ShadowBuffer := 0x8000\<rparr>)"
  have base: "NvStorageVariableBase orion_o6_pcds = 0x380000"
    by (simp add: NvStorageVariableBase_def nv_base_def orion_o6_pcds_def SPI_VARIABLE_BASE_def)
  have content: "read_range d 0x380000 HeadersLength = bytes"
    using read_write_same hdr(1) unfolding d_def by metis
  have allocs: "alloc s = (0x8000, s1)" "alloc s1 = (0x8000, s2)"
    by (simp_all add: s1_def s2_def s_def alloc_def AllocatePool_def orion_driver_def)
  have pool: "pool_addr (mpool (dmach s2)) (pool_count (mpool (dmach s2))) \<noteq> 0" and flash: "flash (dmach s2) = d"
    by (simp_all add: s2_def s1_def alloc_pool s_def)
  have "NorFlashRead array_lib I (StartLba I) 0 (of_nat HeadersLength) (replicate HeadersLength 0) (flash (dmach s2))
      = (EFI_SUCCESS, bytes, d)"
    unfolding flash using content
    by (simp add: I_def located_instance_def base array_lib_def array_read_def in_device_def flash_addr_def
        sizeof_defs)
  from ValidateFvHeader_read [OF pool this] obtain m where
    v: "ValidateFvHeader doc_edk2 orion_o6_pcds array_lib I (dmach s2) = Ret (EFI_SUCCESS, m)"
    using hdr(2) by simp
  obtain s' where create: "NorFlashCreateInstance orion_env doc_edk2 orion_o6_pcds array_lib 0x10000000 0 0x800000 0 0x1000
      0x8000 s = Ret (EFI_SUCCESS, s')"
    and log: "calls s' = calls s @ [InstallNvVarStoreFormatted, CreateAddressChangeEvent FvbVirtualNotify,
          InstallProtocols 0x8000 (instance_protocols True)]"
    by (subst (asm) NorFlashCreateInstance_publishes [OF _ _ allocs(1) _ allocs(2) _ _ _ I_def v]) simp_all
  have "GetBootModeHob orion_env \<noteq> BOOT_WITH_DEFAULT_SETTINGS orion_env \<and>
    check_fv_header doc_edk2 orion_o6_pcds bytes = Ret EFI_SUCCESS \<and>
    (even (unat (HeaderLength (parse_fv_header bytes))) \<longrightarrow> volume_headers_valid doc_edk2 orion_o6_pcds bytes)"
    by (rule fvb_published_only_if_valid [OF doc_edk2_documented array_lib_contract create, where a = "0x8000"])
      (simp_all add: log s_def base content)
  moreover have "InstallProtocols 0x8000 (instance_protocols True) \<in> set (calls s')"
    by (simp add: log)
  ultimately show ?thesis
    using create by blast
qed

text \<open>With no memory for the instance the creation fails and the board's boot goes on.\<close>

theorem failed_instance_faults_witness:
  "\<exists>m s'. NorFlashInitialise orion_env doc_edk2 orion_o6_pcds array_lib (orion_driver m) = Ret (EFI_SUCCESS, s') \<and>
     NorFlashVirtualNotifyEvent (\<lambda>x. x) s' = Undef"
proof -
  define m :: "content machine" where
    "m = \<lparr>flash = (\<lambda>_. 0xFF), mpool = \<lparr>pool_addr = (\<lambda>n. if n = 0 then 0x8000 else 0), pool_count = 0, pool_live = []\<rparr>\<rparr>"
  define s1 where "s1 = snd (alloc (orion_driver m))"
  define s2 where "s2 = s1\<lparr>mNorFlashDeviceCount := 1, mNorFlashInstances := 0x8000,
    cells := uninitialised_cells 0x8000 1 (cells s1), calls := calls s1 @ [RegisterProtocolNotify 0]\<rparr>"
  have arr: "alloc (orion_driver m\<lparr>dmach := (dmach (orion_driver m))\<lparr>flash := flash m\<rparr>\<rparr>) = (0x8000, s1)"
    by (simp add: s1_def orion_driver_def alloc_def AllocatePool_def m_def)
  have create: "NorFlashCreateInstance orion_env doc_edk2 orion_o6_pcds array_lib (XSPI_FLASH_DIRECT_MMIO_ADDR orion_env)
      (u32_to_u64 (PcdNorFlashNvramAddr orion_env)) 0x800000 0 0x1000 (array_cell 0x8000 0) s2
      = Ret (EFI_OUT_OF_RESOURCES, snd (alloc s2))"
    by (simp add: NorFlashCreateInstance_def array_cell_def s2_def s1_def orion_driver_def alloc_def
        AllocatePool_def m_def Let_def)
  have "\<exists>s'. NorFlashInitialise orion_env doc_edk2 orion_o6_pcds array_lib (orion_driver m) = Ret (EFI_SUCCESS, s') \<and>
     NorFlashVirtualNotifyEvent (\<lambda>x. x) s' = Undef"
    by (rule failed_instance_faults [where st = EFI_SUCCESS, OF _ _ arr s2_def create]) simp_all
  then show ?thesis by blast
qed

theorem media_pointer_not_converted_witness:
  "NorFlashBlockIoReadBlocks array_lib
     [0x18040 \<mapsto> Media (convert_instance (\<lambda>x. x + 0x10000) orion_instance)]
     (Some (convert_instance (\<lambda>x. x + 0x10000) orion_instance)) 0 1 4 0x9000 [0, 0, 0, 0] blank_flash = Undef"
  by (rule media_pointer_not_converted [OF _ refl, THEN conjunct2, THEN conjunct2, THEN conjunct1]) simp_all

end
