(* ===== verification/Fvb_Volume.thy ===== *)
theory Fvb_Volume
  imports Fvb_Protocol
begin

text \<open>
  What a client of the Firmware Volume Block protocol may rely on, as an abstract volume: bytes
  counted from the start of the volume, and a step per request with the reply the client gets.
  A step that fails leaves part of the volume unspecified. The operations of NorFlashFvb.c
  refine it, and facts on sequences of requests are read off the volume.
\<close>

section \<open>The abstract volume\<close>

text \<open>A reply: the status and, for transfers, the byte count and the client's buffer afterwards.\<close>

datatype fvb_reply =
    ReadReply efi_status nat "u8 list"
  | WriteReply efi_status nat
  | EraseReply efi_status

definition volume_of :: "nor_flash_instance \<Rightarrow> content \<Rightarrow> content" where
  "volume_of I v = (\<lambda>i. v (unat (StartLba I) * bsize I + i))"

text \<open>Which bytes of its block a transfer moves: all for a full block, else up to the end.\<close>

definition extent :: "nor_flash_instance \<Rightarrow> nat \<Rightarrow> nat \<Rightarrow> nat \<times> nat" where
  "extent I off num = (if num = bsize I then (0, num) else (off, min num (bsize I - off)))"

definition valid_transfer :: "nor_flash_instance \<Rightarrow> u64 \<Rightarrow> u64 \<Rightarrow> bool" where
  "valid_transfer I off num \<longleftrightarrow> unat off < bsize I \<and> 0 < unat num \<and> unat num \<le> bsize I"

definition volume_erase :: "nor_flash_instance \<Rightarrow> (u64 \<times> u64) list \<Rightarrow> content \<Rightarrow> content" where
  "volume_erase I rs v = fold (\<lambda>(lba, num) v. fill_range v (unat lba * bsize I) (unat num * bsize I) 0xFF) rs v"

definition volume_range :: "nor_flash_instance \<Rightarrow> u64 \<times> u64 \<Rightarrow> nat \<Rightarrow> bool" where
  "volume_range I r i \<longleftrightarrow> unat (fst r) * bsize I \<le> i \<and> i < (unat (fst r) + unat (snd r)) * bsize I"

inductive volume_step :: "nor_flash_instance \<Rightarrow> fvb_request \<Rightarrow> content \<Rightarrow> fvb_reply \<Rightarrow> content \<Rightarrow> bool" for I where
  read_refused: "\<not> valid_transfer I off num \<Longrightarrow>
     volume_step I (ReadRequest lba off num buf) v (ReadReply EFI_BAD_BUFFER_SIZE 0 buf) v"
| read_done: "valid_transfer I off num \<Longrightarrow> extent I (unat off) (unat num) = (a, n) \<Longrightarrow>
     volume_step I (ReadRequest lba off num buf) v
       (ReadReply EFI_SUCCESS n (read_range v (unat lba * bsize I + a) n @ drop n buf)) v"
| read_failed: "valid_transfer I off num \<Longrightarrow> length buf' = length buf \<Longrightarrow>
     volume_step I (ReadRequest lba off num buf) v (ReadReply EFI_DEVICE_ERROR n buf') v"
| write_denied: "ReadOnly (Media I) \<Longrightarrow>
     volume_step I (WriteRequest lba off num buf) v (WriteReply EFI_ACCESS_DENIED (unat num)) v"
| write_refused: "\<not> ReadOnly (Media I) \<Longrightarrow> \<not> valid_transfer I off num \<Longrightarrow>
     volume_step I (WriteRequest lba off num buf) v (WriteReply EFI_BAD_BUFFER_SIZE 0) v"
| write_done: "\<not> ReadOnly (Media I) \<Longrightarrow> valid_transfer I off num \<Longrightarrow>
     extent I (unat off) (unat num) = (a, n) \<Longrightarrow>
     (if n < unat num then s = EFI_BAD_BUFFER_SIZE else \<not> EFI_ERROR s) \<Longrightarrow>
     volume_step I (WriteRequest lba off num buf) v (WriteReply s n)
       (write_range v (unat lba * bsize I + a) (take n buf))"
| write_failed: "\<not> ReadOnly (Media I) \<Longrightarrow> valid_transfer I off num \<Longrightarrow> EFI_ERROR s \<Longrightarrow>
     \<forall>i. \<not> in_block I (unat lba) i \<longrightarrow> v' i = v i \<Longrightarrow>
     volume_step I (WriteRequest lba off num buf) v (WriteReply s n) v'"
| erase_denied: "ReadOnly (Media I) \<Longrightarrow> volume_step I (EraseRequest args) v (EraseReply EFI_ACCESS_DENIED) v"
| erase_invalid: "\<not> ReadOnly (Media I) \<Longrightarrow> \<exists>r \<in> set (erase_ranges args). bad_range I r \<Longrightarrow>
     volume_step I (EraseRequest args) v (EraseReply EFI_INVALID_PARAMETER) v"
| erase_done: "\<not> ReadOnly (Media I) \<Longrightarrow> \<forall>r \<in> set (erase_ranges args). \<not> bad_range I r \<Longrightarrow> \<not> EFI_ERROR s \<Longrightarrow>
     volume_step I (EraseRequest args) v (EraseReply s) (volume_erase I (erase_ranges args) v)"
| erase_failed: "\<not> ReadOnly (Media I) \<Longrightarrow> \<forall>r \<in> set (erase_ranges args). \<not> bad_range I r \<Longrightarrow>
     \<forall>i. (\<forall>r \<in> set (erase_ranges args). \<not> volume_range I r i) \<longrightarrow> v' i = v i \<Longrightarrow>
     volume_step I (EraseRequest args) v (EraseReply EFI_DEVICE_ERROR) v'"

inductive_cases read_stepE: "volume_step I (ReadRequest lba off num buf) v out v'"
inductive_cases write_stepE: "volume_step I (WriteRequest lba off num buf) v out v'"
inductive_cases erase_stepE: "volume_step I (EraseRequest args) v out v'"

text \<open>The steps depend on the instance by its geometry only.\<close>

lemma volume_step_geometry:
  assumes "volume_step I r v out v'" "Media J = Media I" "Blocks J = Blocks I"
  shows "volume_step J r v out v'"
proof -
  have same: "valid_transfer J = valid_transfer I" "extent J = extent I" "volume_erase J = volume_erase I"
      "volume_range J = volume_range I" "bad_range J = bad_range I" "in_block J = in_block I"
    using assms(2,3) by (simp_all add: fun_eq_iff valid_transfer_def extent_def volume_erase_def volume_range_def
        bad_range_def in_block_def)
  note steps = volume_step.intros [of J, unfolded same assms(2)]
  show ?thesis
    using assms(1) by cases (metis steps)+
qed

section \<open>The requests as calls with replies\<close>

fun fvb_call ::
  "'d nor_flash_lib \<Rightarrow> nor_flash_instance \<Rightarrow> fvb_request \<Rightarrow> 'd \<Rightarrow> (fvb_reply \<times> 'd) outcome" where
  "fvb_call L I (ReadRequest lba off num buf) d =
     (case FvbRead L I lba off num buf d of (s, n, buf', d') \<Rightarrow> Ret (ReadReply s (unat n) buf', d'))"
| "fvb_call L I (WriteRequest lba off num buf) d =
     (case FvbWrite L I lba off num buf d of (s, n, d') \<Rightarrow> Ret (WriteReply s (unat n), d'))"
| "fvb_call L I (EraseRequest args) d =
     obind (FvbEraseBlocks L I args d) (\<lambda>(s, d'). Ret (EraseReply s, d'))"

lemma fvb_serve_call: "fvb_serve L I r d = obind (fvb_call L I r d) (\<lambda>(_, d'). Ret d')"
  by (cases r) (auto simp: obind_assoc split: prod.splits intro!: arg_cong2 [where f = obind])

text \<open>The request names blocks of the volume, and ranges that do not wrap around.\<close>

fun names_volume :: "nor_flash_instance \<Rightarrow> fvb_request \<Rightarrow> bool" where
  "names_volume I (ReadRequest lba off num buf) = (lba < Blocks I)"
| "names_volume I (WriteRequest lba off num buf) = (lba < Blocks I)"
| "names_volume I (EraseRequest args) = (\<forall>r \<in> set (erase_ranges args). no_wrap r)"

text \<open>The argument list of an erase request is terminated.\<close>

fun request_terminated :: "fvb_request \<Rightarrow> bool" where
  "request_terminated (EraseRequest args) = erase_terminated args"
| "request_terminated _ = True"

section \<open>Refinement\<close>

lemma volume_of_write:
  "volume_of I (write_range v ((unat (StartLba I) + k) * bsize I + a) bs) =
     write_range (volume_of I v) (k * bsize I + a) bs"
  by (auto simp: volume_of_def write_range_def fun_eq_iff add_mult_distrib)

lemma read_volume_of:
  "read_range (volume_of I v) (k * bsize I + a) n = read_range v ((unat (StartLba I) + k) * bsize I + a) n"
  by (rule nth_equalityI) (auto simp: volume_of_def read_range_def add_mult_distrib add.assoc)

lemma volume_of_fill:
  "volume_of I (fill_range v ((unat (StartLba I) + k) * bsize I) n b) =
     fill_range (volume_of I v) (k * bsize I) n b"
  by (auto simp: volume_of_def fill_range_def fun_eq_iff add_mult_distrib)

lemma volume_of_erase: "volume_of I (erase_spec I rs v) = volume_erase I rs (volume_of I v)"
  by (induction rs arbitrary: v) (auto simp: erase_spec_def volume_erase_def volume_of_fill)

lemma volume_of_in_block:
  "in_block I (unat (StartLba I) + k) (unat (StartLba I) * bsize I + i) = in_block I k i"
  by (auto simp: in_block_def add_mult_distrib)

lemma volume_of_in_range:
  "in_range I r (unat (StartLba I) * bsize I + i) = volume_range I r i"
  by (auto simp: in_range_def volume_range_def add_mult_distrib)

lemma valid_transfer_words:
  "valid_transfer I off num \<longleftrightarrow> off < block_size I \<and> num \<le> block_size I \<and> num \<noteq> 0"
  by (auto simp: valid_transfer_def word_less_nat_alt word_le_nat_alt unat_gt_0)

lemma extent_words:
  assumes "off < block_size I" "num \<le> block_size I"
  shows "extent I (unat off) (unat num) =
    (if num = block_size I then (0, unat num) else (unat off, unat (clipped I off num)))"
proof -
  have "unat num = bsize I \<longleftrightarrow> num = block_size I"
    by (metis unat_u32_to_u64 word_unat_eq_iff)
  then show ?thesis
    using unat_clipped [OF assms] by (simp add: extent_def)
qed

lemma FvbRead_refused_reply:
  assumes "\<not> valid_transfer I off num"
  shows "\<exists>n. unat n = 0 \<and> FvbRead L I lba off num buf d = (EFI_BAD_BUFFER_SIZE, n, buf, d)"
  using assms unfolding valid_transfer_words by (auto simp: FvbRead_def Let_def not_less not_le)

lemma FvbWrite_refused_reply:
  assumes "\<not> ReadOnly (Media I)" "\<not> valid_transfer I off num"
  shows "\<exists>n. unat n = 0 \<and> FvbWrite L I lba off num buf d = (EFI_BAD_BUFFER_SIZE, n, d)"
  using assms unfolding valid_transfer_words by (auto simp: FvbWrite_def Let_def not_less not_le)

lemma FvbRead_step:
  assumes "nor_flash_contract L c" "volume_fits I" "lba < Blocks I" "unat num \<le> length buf"
    and "FvbRead L I lba off num buf d = (s, n, buf', d')"
  shows "volume_step I (ReadRequest lba off num buf) (volume_of I (c d)) (ReadReply s (unat n) buf')
    (volume_of I (c d'))"
proof (cases "valid_transfer I off num")
  case False
  with assms(5) FvbRead_refused_reply [of I off num L lba buf d] read_refused show ?thesis by fastforce
next
  case True
  then have w: "off < block_size I" "num \<le> block_size I" "num \<noteq> 0"
    by (simp_all add: valid_transfer_words)
  note same = FvbRead_contents [OF assms(1,4,5)]
  note block = device_block_in_volume [OF assms(2,3)]
  obtain a m where e: "extent I (unat off) (unat num) = (a, m)"
    by (cases "extent I (unat off) (unat num)")
  have "s = EFI_DEVICE_ERROR \<or> s = EFI_SUCCESS \<and> unat n = m \<and>
      buf' = read_range (c d) ((unat (StartLba I) + unat lba) * bsize I + a) m @ drop m buf"
  proof (cases "num = block_size I")
    case full: True
    obtain s0 b0 d0 where r: "NorFlashReadBlocks L I (StartLba I + lba) num buf d = (s0, b0, d0)"
      by (cases "NorFlashReadBlocks L I (StartLba I + lba) num buf d")
    note NorFlashReadBlocks_contract(3) [OF assms(1) r assms(4), unfolded flash_addr_device_block block]
    then show ?thesis
      using assms(5) [unfolded FvbRead_full [OF w(1) full]] e r full extent_words [OF w(1,2)]
      by (auto split: if_splits)
  next
    case False
    with w(2) have less: "num < block_size I"
      by (metis order_le_less)
    have len: "unat (clipped I off num) \<le> length buf"
      using assms(4) unat_clipped [OF w(1,2)] by simp
    obtain s0 b0 d0 where r: "NorFlashRead L I (StartLba I + lba) off (clipped I off num) buf d = (s0, b0, d0)"
      by (cases "NorFlashRead L I (StartLba I + lba) off (clipped I off num) buf d")
    note NorFlashRead_contract(3) [OF assms(1) r len, unfolded flash_addr_device_block block]
    then show ?thesis
      using assms(5) [unfolded FvbRead_partial [OF w(1) less w(3)]] e r False extent_words [OF w(1,2)]
      by (auto split: if_splits)
  qed
  then show ?thesis
  proof (elim disjE conjE)
    assume "s = EFI_SUCCESS" "unat n = m"
      and "buf' = read_range (c d) ((unat (StartLba I) + unat lba) * bsize I + a) m @ drop m buf"
    then show ?thesis
      using read_done [OF True e, of lba buf "volume_of I (c d)", unfolded read_volume_of] same(1) by simp
  qed (simp add: same(1) read_failed [OF True same(2)])
qed

lemma FvbWrite_step:
  assumes "nor_flash_contract L c" "volume_fits I" "lba < Blocks I" "unat num \<le> length buf"
    and "FvbWrite L I lba off num buf d = (s, n, d')"
  shows "volume_step I (WriteRequest lba off num buf) (volume_of I (c d)) (WriteReply s (unat n))
    (volume_of I (c d'))"
proof (cases "ReadOnly (Media I)")
  case True
  with assms(5) write_denied show ?thesis by (auto simp: FvbWrite_def)
next
  case rw: False
  show ?thesis
  proof (cases "valid_transfer I off num")
    case False
    with assms(5) rw FvbWrite_refused_reply [of I off num L lba buf d] write_refused show ?thesis by fastforce
  next
    case True
    then have w: "off < block_size I" "num \<le> block_size I" "num \<noteq> 0"
      by (simp_all add: valid_transfer_words)
    note block = device_block_in_volume [OF assms(2,3)]
    obtain a m where e: "extent I (unat off) (unat num) = (a, m)"
      by (cases "extent I (unat off) (unat num)")
    let ?done = "unat n = m \<and> (if m < unat num then s = EFI_BAD_BUFFER_SIZE else \<not> EFI_ERROR s) \<and>
      c d' = write_range (c d) ((unat (StartLba I) + unat lba) * bsize I + a) (take m buf)"
    have full: "?done \<or> EFI_ERROR s" if full: "num = block_size I"
    proof -
      obtain s0 d0 where r: "NorFlashWriteBlocks L I (StartLba I + lba) num buf d = (s0, d0)"
        by (cases "NorFlashWriteBlocks L I (StartLba I + lba) num buf d")
      note NorFlashWriteBlocks_contract(2) [OF assms(1) r assms(4), unfolded flash_addr_device_block block]
      then show ?thesis
        using assms(5) [unfolded FvbWrite_full [OF rw w(1) full]] e r full extent_words [OF w(1,2)]
        by (auto split: if_splits)
    qed
    have part: "?done \<or> EFI_ERROR s" if part: "num \<noteq> block_size I"
    proof -
      have less: "num < block_size I"
        using w(2) part by (metis order_le_less)
      have m: "a = unat off" "m = unat (clipped I off num)"
        using e part extent_words [OF w(1,2)] by simp_all
      have len: "m \<le> length buf"
        using m assms(4) unat_clipped [OF w(1,2)] by simp
      have cut: "m < unat num \<longleftrightarrow> block_size I < off + num"
        using m unat_clipped [OF w(1,2)] spaned_iff [OF w(1,2)] request_bounds(1) [OF w] by auto
      obtain s0 d0 where r: "NorFlashWrite L I (StartLba I + lba) off (clipped I off num) buf d = (s0, d0)"
        by (cases "NorFlashWrite L I (StartLba I + lba) off (clipped I off num) buf d")
      note NorFlashWrite_contract(2) [OF assms(1) r len [unfolded m(2)], unfolded flash_addr_device_block block]
      then show ?thesis
        using assms(5) [unfolded FvbWrite_partial [OF rw w(1) less w(3)]] r m cut by (auto split: if_splits)
    qed
    have outside: "\<forall>i. \<not> in_block I (unat lba) i \<longrightarrow> volume_of I (c d') i = volume_of I (c d) i"
      using FvbWrite_contents [OF assms(1,4,5)] block by (auto simp: volume_of_def volume_of_in_block)
    from full part consider "?done" | "EFI_ERROR s" by blast
    then show ?thesis
    proof cases
      case 1
      then show ?thesis
        using write_done [OF rw True e, of s lba buf "volume_of I (c d)"] by (simp add: volume_of_write)
    next
      case 2
      then show ?thesis
        by (rule write_failed [OF rw True _ outside])
    qed
  qed
qed

lemma FvbEraseBlocks_step:
  assumes "nor_flash_contract L c" "volume_fits I" "\<forall>r \<in> set (erase_ranges args). no_wrap r"
    and "FvbEraseBlocks L I args d = Ret (s, d')"
  shows "volume_step I (EraseRequest args) (volume_of I (c d)) (EraseReply s) (volume_of I (c d'))"
  using assms(1,2,4,3)
proof (cases rule: FvbEraseBlocks_cases)
  case denied
  then show ?thesis by (simp add: erase_denied)
next
  case invalid
  then show ?thesis by (simp add: erase_invalid)
next
  case erased
  then show ?thesis by (simp add: volume_of_erase erase_done)
next
  case failed
  then have "\<forall>i. (\<forall>r \<in> set (erase_ranges args). \<not> volume_range I r i) \<longrightarrow>
      volume_of I (c d') i = volume_of I (c d) i"
    by (simp add: volume_of_def volume_of_in_range)
  with failed show ?thesis by (simp add: erase_failed)
qed

interpretation volume: simulation "fvb_call L I"
    "\<lambda>r. (nor_flash_contract L c \<and> volume_fits I) \<and> buffer_ok r \<and> names_volume I r"
    "volume_step I" "\<lambda>d. volume_of I (c d)" for L I c
proof unfold_locales
  fix r d out d'
  assume "(nor_flash_contract L c \<and> volume_fits I) \<and> buffer_ok r \<and> names_volume I r"
    and "fvb_call L I r d = Ret (out, d')"
  then show "volume_step I r (volume_of I (c d)) out (volume_of I (c d'))"
    by (cases r) (auto simp: obind_Ret_iff split: prod.splits
      intro: FvbRead_step FvbWrite_step FvbEraseBlocks_step)
qed

lemma fvb_call_returns: "request_terminated r \<Longrightarrow> \<exists>out d'. fvb_call L I r d = Ret (out, d')"
proof (cases r)
  case (EraseRequest args)
  moreover assume "request_terminated r"
  ultimately show ?thesis
    using erase_loop_returns [of args L I EFI_SUCCESS d]
    by (auto simp: FvbEraseBlocks_def erase_check_terminated)
qed (auto split: prod.splits)

section \<open>What the volume keeps\<close>

text \<open>A request that addresses no part of a block leaves the block as it is.\<close>

fun leaves_block :: "nor_flash_instance \<Rightarrow> u64 \<Rightarrow> fvb_request \<Rightarrow> bool" where
  "leaves_block I b (ReadRequest lba off num buf) = True"
| "leaves_block I b (WriteRequest lba off num buf) = (lba \<noteq> b)"
| "leaves_block I b (EraseRequest args) =
     (\<forall>(lba, num) \<in> set (erase_ranges args). \<not> (unat lba \<le> unat b \<and> unat b < unat lba + unat num))"

definition block_bytes :: "nor_flash_instance \<Rightarrow> u64 \<Rightarrow> content \<Rightarrow> u8 list" where
  "block_bytes I b v = read_range v (unat b * bsize I) (bsize I)"

lemma block_bytes_cong:
  "(\<And>i. in_block I (unat b) i \<Longrightarrow> v' i = v i) \<Longrightarrow> block_bytes I b v' = block_bytes I b v"
  by (auto simp: block_bytes_def in_block_def intro!: read_range_cong)

lemma in_block_unique: "in_block I k i \<Longrightarrow> in_block I l i \<Longrightarrow> k = l"
proof -
  have "i div bsize I = k" if "in_block I k i" for k
    using that by (simp add: in_block_def div_nat_eqI mult.commute)
  then show "in_block I k i \<Longrightarrow> in_block I l i \<Longrightarrow> k = l" by blast
qed

lemma in_other_block: "in_block I (unat b) i \<Longrightarrow> lba \<noteq> b \<Longrightarrow> \<not> in_block I (unat lba) i"
  using in_block_unique [of I "unat b" i "unat lba"] by (auto simp: word_unat_eq_iff)

lemma extent_bounds:
  "valid_transfer I off num \<Longrightarrow> extent I (unat off) (unat num) = (a, n) \<Longrightarrow> a + n \<le> bsize I"
  by (auto simp: valid_transfer_def extent_def split: if_splits)

lemma write_in_block:
  assumes "a + length bs \<le> bsize I" "\<not> in_block I k i"
  shows "write_range v (k * bsize I + a) bs i = v i"
  using assms by (auto simp: write_range_def in_block_def)

lemma range_blocks:
  assumes "in_block I b i" "volume_range I r i"
  shows "unat (fst r) \<le> b \<and> b < unat (fst r) + unat (snd r)"
proof -
  have "unat (fst r) * bsize I < Suc b * bsize I" "b * bsize I < (unat (fst r) + unat (snd r)) * bsize I"
    using assms unfolding in_block_def volume_range_def by linarith+
  then show ?thesis
    by (simp only: mult_less_cancel2 less_Suc_eq_le)
qed

lemma volume_erase_outside:
  "\<forall>r \<in> set rs. \<not> volume_range I r i \<Longrightarrow> volume_erase I rs v i = v i"
proof (induction rs arbitrary: v)
  case (Cons r rs)
  have "volume_erase I (r # rs) v i = fill_range v (unat (fst r) * bsize I) (unat (snd r) * bsize I) 0xFF i"
    using Cons by (simp add: volume_erase_def split_def)
  also have "\<dots> = v i"
    using Cons.prems by (auto simp: fill_range_def volume_range_def add_mult_distrib)
  finally show ?case .
qed (simp add: volume_erase_def)

lemma leaves_block_ranges:
  assumes "leaves_block I b (EraseRequest args)" "in_block I (unat b) i"
  shows "\<forall>r \<in> set (erase_ranges args). \<not> volume_range I r i"
  using assms(1) range_blocks [OF assms(2)] by fastforce

lemma step_keeps_block:
  assumes "volume_step I r v out v'" "leaves_block I b r"
  shows "block_bytes I b v' = block_bytes I b v"
proof (rule block_bytes_cong)
  fix i
  assume i: "in_block I (unat b) i"
  from assms show "v' i = v i"
  proof (cases rule: volume_step.cases)
    case (write_done off num a n s lba buf)
    then have "\<not> in_block I (unat lba) i"
      using assms(2) in_other_block [OF i] by auto
    moreover have "a + length (take n buf) \<le> bsize I"
      using extent_bounds [OF write_done(5,6)] by simp
    ultimately show ?thesis
      using write_done(3) write_in_block by simp
  next
    case (write_failed off num s lba n buf)
    then show ?thesis
      using assms(2) in_other_block [OF i] by auto
  next
    case (erase_done args s)
    then show ?thesis
      using assms(2) leaves_block_ranges [OF _ i] by (simp add: volume_erase_outside del: leaves_block.simps)
  next
    case (erase_failed args)
    then show ?thesis
      using assms(2) leaves_block_ranges [OF _ i] by (simp del: leaves_block.simps)
  qed simp_all
qed

lemma run_keeps_block:
  assumes "spec_run (volume_step I) rs v outs v'" "\<forall>r \<in> set rs. leaves_block I b r"
  shows "block_bytes I b v' = block_bytes I b v"
  by (rule spec_run_keeps [OF assms(1)]) (use assms(2) step_keeps_block in blast)

text \<open>A write and a later read of the same bytes, when the block is left alone in between.\<close>

lemma write_then_read:
  assumes "volume_step I (WriteRequest lba off num buf) v (WriteReply ws wn) v1" "\<not> EFI_ERROR ws"
    and "block_bytes I lba v2 = block_bytes I lba v1"
    and "volume_step I (ReadRequest lba off num rbuf) v2 (ReadReply EFI_SUCCESS rn rbuf') v3"
    and "unat num \<le> length buf"
  shows "wn = unat num \<and> rn = unat num \<and> take (unat num) rbuf' = take (unat num) buf"
proof -
  obtain a where a: "valid_transfer I off num" "extent I (unat off) (unat num) = (a, unat num)" "wn = unat num"
    and v1: "v1 = write_range v (unat lba * bsize I + a) (take (unat num) buf)"
    using assms(1,2) by (auto elim!: write_stepE simp: extent_def split: if_splits)
  have rbuf: "rn = unat num" "rbuf' = read_range v2 (unat lba * bsize I + a) (unat num) @ drop (unat num) rbuf"
    using assms(4) a(1,2) by (auto elim!: read_stepE)
  have "a + unat num \<le> bsize I"
    by (rule extent_bounds [OF a(1,2)])
  then have "read_range v2 (unat lba * bsize I + a) (unat num) = slice a (unat num) (block_bytes I lba v2)"
    by (simp add: block_bytes_def range_simps)
  also have "\<dots> = slice a (unat num) (block_bytes I lba v1)"
    by (simp only: assms(3))
  also have "\<dots> = read_range v1 (unat lba * bsize I + a) (unat num)"
    using \<open>a + unat num \<le> bsize I\<close> by (simp add: block_bytes_def range_simps)
  also have "\<dots> = take (unat num) buf"
  proof -
    have "length (take (unat num) buf) = unat num"
      using assms(5) by simp
    with read_write_same [of v "unat lba * bsize I + a" "take (unat num) buf"] show ?thesis
      by (simp only: v1)
  qed
  finally show ?thesis
    using rbuf a(3) assms(5) by simp
qed

section \<open>Properties\<close>

text \<open>The protocol implements the abstract volume. For every sequence of read, write and erase
  requests that name blocks of the volume, the statuses, byte counts and buffers the client gets
  back are those of a run of the abstract volume, from the bytes in flash before to the bytes in
  flash after; and a sequence whose erase lists are terminated is served to the end.\<close>

theorem fvb_refines_volume:
  assumes "nor_flash_contract L c" "volume_fits I"
    and "\<forall>r \<in> set rs. buffer_ok r \<and> names_volume I r \<and> request_terminated r"
  shows "\<exists>replies d'. run_replies (fvb_call L I) rs d = Ret (replies, d') \<and>
    spec_run (volume_step I) rs (volume_of I (c d)) replies (volume_of I (c d'))"
proof -
  obtain replies d' where run: "run_replies (fvb_call L I) rs d = Ret (replies, d')"
    using run_replies_returns [of rs "fvb_call L I"] assms(3) fvb_call_returns by metis
  with volume.run_refines [OF run, of c] assms show ?thesis by auto
qed

text \<open>What is written stays. Bytes written inside one block by a write that does not fail are what
  a read of them that succeeds returns, whatever requests that leave the block alone are served in
  between, with whatever outcome.\<close>

theorem fvb_write_survives:
  assumes "nor_flash_contract L c" "volume_fits I"
    and "\<forall>r \<in> set (WriteRequest lba off num buf # rs @ [ReadRequest lba off num rbuf]).
      buffer_ok r \<and> names_volume I r"
    and "\<forall>r \<in> set rs. leaves_block I lba r"
    and "run_replies (fvb_call L I) (WriteRequest lba off num buf # rs @ [ReadRequest lba off num rbuf]) d =
      Ret (WriteReply ws wn # replies @ [ReadReply EFI_SUCCESS rn rbuf'], d')" "\<not> EFI_ERROR ws"
  shows "wn = unat num \<and> rn = unat num \<and> take (unat num) rbuf' = take (unat num) buf"
proof -
  obtain v v1 v2 v3 where w: "volume_step I (WriteRequest lba off num buf) v (WriteReply ws wn) v1"
    and mid: "spec_run (volume_step I) rs v1 replies v2"
    and r: "volume_step I (ReadRequest lba off num rbuf) v2 (ReadReply EFI_SUCCESS rn rbuf') v3"
    using volume.run_refines [OF assms(5), of c] assms(1-3) by (auto dest: spec_run_snocD)
  show ?thesis
    by (rule write_then_read [OF w assms(6) run_keeps_block [OF mid assms(4)] r]) (use assms(3) in simp)
qed

section \<open>Witnesses\<close>

text \<open>A write, the erasure of other blocks, and a read, on the array device.\<close>

definition sample_requests :: "fvb_request list" where
  "sample_requests = [EraseRequest [5, 3, EFI_LBA_LIST_TERMINATOR]]"

lemma orion_read:
  "FvbRead array_lib orion_instance 2 0x10 4 [0, 0, 0, 0] v = (EFI_SUCCESS, 4, read_range v 0x382010 4, v)"
  by (simp add: FvbRead_def array_lib_def array_read_def in_device_def flash_addr_def)

lemma sample_requests_run:
  "\<exists>rbuf d. run_replies (fvb_call array_lib orion_instance)
      (WriteRequest 2 0x10 4 [1, 2, 3, 4] # sample_requests @ [ReadRequest 2 0x10 4 [0, 0, 0, 0]]) blank_flash =
    Ret (WriteReply EFI_SUCCESS 4 # [EraseReply EFI_SUCCESS] @ [ReadReply EFI_SUCCESS 4 rbuf], d)"
  by (simp add: sample_requests_def orion_write orion_erase orion_read)

theorem fvb_refines_volume_witness:
  "\<exists>replies v. spec_run (volume_step orion_instance)
     [WriteRequest 2 0x10 4 [1, 2, 3, 4], EraseRequest [5, 3, EFI_LBA_LIST_TERMINATOR]]
     (volume_of orion_instance blank_flash) replies v"
  using fvb_refines_volume [OF array_lib_contract orion_volume_fits,
      of "[WriteRequest 2 0x10 4 [1, 2, 3, 4], EraseRequest [5, 3, EFI_LBA_LIST_TERMINATOR]]" blank_flash]
  by (auto simp: EFI_LBA_LIST_TERMINATOR_def no_wrap_def)

theorem fvb_write_survives_witness:
  "\<exists>rbuf d. run_replies (fvb_call array_lib orion_instance)
      (WriteRequest 2 0x10 4 [1, 2, 3, 4] # sample_requests @ [ReadRequest 2 0x10 4 [0, 0, 0, 0]]) blank_flash =
    Ret (WriteReply EFI_SUCCESS 4 # [EraseReply EFI_SUCCESS] @ [ReadReply EFI_SUCCESS 4 rbuf], d) \<and>
    take 4 rbuf = [1, 2, 3, 4]"
proof -
  obtain rbuf d where run: "run_replies (fvb_call array_lib orion_instance)
      (WriteRequest 2 0x10 4 [1, 2, 3, 4] # sample_requests @ [ReadRequest 2 0x10 4 [0, 0, 0, 0]]) blank_flash =
    Ret (WriteReply EFI_SUCCESS 4 # [EraseReply EFI_SUCCESS] @ [ReadReply EFI_SUCCESS 4 rbuf], d)"
    using sample_requests_run by blast
  have "4 = unat (4 :: u64) \<and> 4 = unat (4 :: u64) \<and> take (unat (4 :: u64)) rbuf = take (unat (4 :: u64)) [1, 2, 3, 4]"
    by (rule fvb_write_survives [OF array_lib_contract orion_volume_fits _ _ run])
      (simp_all add: sample_requests_def EFI_LBA_LIST_TERMINATOR_def no_wrap_def)
  then have "take 4 rbuf = [1, 2, 3, 4]"
    by simp
  with run show ?thesis by blast
qed

end
