(* ===== verification/Nor_Flash_Boot.thy ===== *)
theory Nor_Flash_Boot
  imports Nor_Flash_Driver Fvb_Volume
begin

text \<open>
  From reset to the variable volume: the entry point of the driver run on the board's one device,
  and what a boot after a reset finds. The witnesses run the entry point on the board's
  configuration, with an array of bytes for the flash.
\<close>

section \<open>From reset to the variable volume\<close>

text \<open>The call of the entry point on the board's one device, reduced to the creation of its instance.\<close>

lemma NorFlashInitialise_one:
  assumes "NorFlashPlatformInitialization E (flash (dmach s)) = (EFI_SUCCESS, d)"
    and "alloc (s\<lparr>dmach := (dmach s)\<lparr>flash := d\<rparr>\<rparr>) = (arr, s1)"
    and "s2 = s1\<lparr>mNorFlashDeviceCount := 1, mNorFlashInstances := arr,
           cells := uninitialised_cells arr 1 (cells s1), calls := calls s1 @ [RegisterProtocolNotify 0]\<rparr>"
    and "NorFlashCreateInstance E K P L (XSPI_FLASH_DIRECT_MMIO_ADDR E) (u32_to_u64 (PcdNorFlashNvramAddr E))
           0x800000 0 0x1000 arr s2 = Ret (status, s3)"
    and "asserts_enabled E \<longrightarrow> \<not> EFI_ERROR (service_status E (length (calls s3)))"
  shows "NorFlashInitialise E K P L s =
    Ret (service_status E (length (calls s3)), s3\<lparr>calls := calls s3 @ [CreateAddressChangeEvent NorFlashVirtualNotify]\<rparr>)"
  using assms
  by (simp add: NorFlashInitialise_def mNorFlashDevices_def call_service_def assert_efi_error_def array_cell_def)

text \<open>What the entry point has allocated, and left alone, when it starts the one instance.\<close>

lemma boot_setup:
  assumes "\<forall>n. pool_addr (mpool (dmach s)) n \<noteq> 0"
  obtains arr s1 s2 a s3 b s4 where "alloc (s\<lparr>dmach := (dmach s)\<lparr>flash := d\<rparr>\<rparr>) = (arr, s1)"
    "s2 = s1\<lparr>mNorFlashDeviceCount := 1, mNorFlashInstances := arr,
       cells := uninitialised_cells arr 1 (cells s1), calls := calls s1 @ [RegisterProtocolNotify 0]\<rparr>"
    "alloc s2 = (a, s3)" "alloc s3 = (b, s4)" "arr \<noteq> 0" "a \<noteq> 0" "b \<noteq> 0"
    "pool_addr (mpool (dmach s4)) (pool_count (mpool (dmach s4))) \<noteq> 0" "flash (dmach s4) = d"
    "calls s2 = calls s @ [RegisterProtocolNotify 0]" "mNorFlashInstances s4 = arr"
    "a = pool_addr (mpool (dmach s)) (Suc (pool_count (mpool (dmach s))))"
proof -
  define s0 where "s0 = s\<lparr>dmach := (dmach s)\<lparr>flash := d\<rparr>\<rparr>"
  define arr where "arr = fst (alloc s0)"
  define s1 where "s1 = snd (alloc s0)"
  define s2 where "s2 = s1\<lparr>mNorFlashDeviceCount := 1, mNorFlashInstances := arr,
    cells := uninitialised_cells arr 1 (cells s1), calls := calls s1 @ [RegisterProtocolNotify 0]\<rparr>"
  define a where "a = fst (alloc s2)"
  define s3 where "s3 = snd (alloc s2)"
  define b where "b = fst (alloc s3)"
  define s4 where "s4 = snd (alloc s3)"
  have pool: "pool_addr (mpool (dmach s2)) = pool_addr (mpool (dmach s))"
      "pool_addr (mpool (dmach s3)) = pool_addr (mpool (dmach s))"
      "pool_addr (mpool (dmach s4)) = pool_addr (mpool (dmach s))"
    by (simp_all add: s4_def s3_def s2_def s1_def s0_def alloc_pool)
  have "a = pool_addr (mpool (dmach s)) (Suc (pool_count (mpool (dmach s))))"
    by (simp add: a_def s2_def s1_def s0_def alloc_pool)
  moreover have "arr \<noteq> 0" "a \<noteq> 0" "b \<noteq> 0" "pool_addr (mpool (dmach s4)) (pool_count (mpool (dmach s4))) \<noteq> 0"
    using assms pool by (simp_all add: arr_def a_def b_def alloc_pool s0_def)
  moreover have "alloc (s\<lparr>dmach := (dmach s)\<lparr>flash := d\<rparr>\<rparr>) = (arr, s1)" "alloc s2 = (a, s3)" "alloc s3 = (b, s4)"
    by (simp_all add: arr_def s1_def s0_def a_def s3_def b_def s4_def)
  moreover have "flash (dmach s4) = d" "calls s2 = calls s @ [RegisterProtocolNotify 0]" "mNorFlashInstances s4 = arr"
    by (simp_all add: s4_def s3_def s2_def s1_def s0_def)
  ultimately show ?thesis
    using s2_def by (intro that)
qed

lemma boot_creates:
  assumes "edk2_documented K" "nor_flash_contract L c"
    and "\<forall>n < length (calls s) + 4. \<not> EFI_ERROR (service_status E n)"
      "asserts_enabled E \<longrightarrow> \<not> EFI_ERROR (service_status E (length (calls s) + 4))"
    and "GetBootModeHob E \<noteq> BOOT_WITH_DEFAULT_SETTINGS E"
    and "NorFlashPlatformInitialization E (flash (dmach s)) = (EFI_SUCCESS, d)"
    and "\<forall>n. pool_addr (mpool (dmach s)) n \<noteq> 0" "nv_layout_ok P 0x1000 = Ret True"
    and "default_headers K P I0 = Ret bytes"
    and "read_range (c d) (unat (NvStorageVariableBase P)) HeadersLength = bytes"
    and "\<forall>J buf. Size J = 0x800000 \<and> BlockSize (Media J) = 0x1000 \<and> StartLba J = NvStorageVariableBase P div 0x1000
           \<longrightarrow> \<not> EFI_ERROR (fst (NorFlashRead L J (StartLba J) 0 (of_nat HeadersLength) buf d))"
  shows "\<exists>s' a I. NorFlashInitialise E K P L s = Ret (service_status E (length (calls s) + 4), s') \<and>
    cells s' (mNorFlashInstances s') = Some a \<and> heap s' a = Some I \<and>
    calls s' = calls s @ [RegisterProtocolNotify 0, InstallNvVarStoreFormatted,
      CreateAddressChangeEvent FvbVirtualNotify, InstallProtocols a (instance_protocols True),
      CreateAddressChangeEvent NorFlashVirtualNotify] \<and>
    unat (StartLba I) * 0x1000 = unat (NvStorageVariableBase P) \<and>
    BlkMedia (BlockIoProtocol I) = a + media_offset E \<and> c (flash (dmach s')) = c d \<and>
    bsize I = 0x1000 \<and> Blocks I = u32_to_u64 (nv_storage_size P div 0x1000) \<and>
    a = pool_addr (mpool (dmach s)) (Suc (pool_count (mpool (dmach s))))"
proof -
  obtain arr s1 s2 a s3 b s4 where arr: "alloc (s\<lparr>dmach := (dmach s)\<lparr>flash := d\<rparr>\<rparr>) = (arr, s1)"
    and s2_def: "s2 = s1\<lparr>mNorFlashDeviceCount := 1, mNorFlashInstances := arr,
      cells := uninitialised_cells arr 1 (cells s1), calls := calls s1 @ [RegisterProtocolNotify 0]\<rparr>"
    and allocs: "alloc s2 = (a, s3)" "alloc s3 = (b, s4)"
    and nonzero: "arr \<noteq> 0" "a \<noteq> 0" "b \<noteq> 0" "pool_addr (mpool (dmach s4)) (pool_count (mpool (dmach s4))) \<noteq> 0"
    and kept: "flash (dmach s4) = d" "calls s2 = calls s @ [RegisterProtocolNotify 0]" "mNorFlashInstances s4 = arr"
      "a = pool_addr (mpool (dmach s)) (Suc (pool_count (mpool (dmach s))))"
    by (rule boot_setup [OF assms(7)])
  define I where "I = located_instance P
    (fresh_instance E K a (XSPI_FLASH_DIRECT_MMIO_ADDR E) 0x800000 0 0x1000\<lparr>ShadowBuffer := b\<rparr>)"
  note flash = kept(1)
  have I: "Size I = 0x800000" "BlockSize (Media I) = 0x1000" "StartLba I = NvStorageVariableBase P div 0x1000"
      "BlkMedia (BlockIoProtocol I) = a + media_offset E" "Blocks I = u32_to_u64 (nv_storage_size P div 0x1000)"
    by (simp_all add: I_def located_instance_def Let_def)
  have base: "unat (StartLba I) * 0x1000 = unat (NvStorageVariableBase P)"
  proof -
    have mod: "NvStorageVariableBase P mod 0x1000 = 0"
      using assms(8) by (auto simp: nv_layout_ok_def obind_Ret_iff split: if_splits)
    have "unat (NvStorageVariableBase P mod 0x1000) = 0"
      unfolding mod by simp
    then have "unat (NvStorageVariableBase P) mod 0x1000 = 0"
      by (simp only: unat_mod) simp
    then show ?thesis
      by (simp add: I(3) unat_div mod_0_imp_dvd)
  qed
  obtain q buf d' where r: "NorFlashRead L I (StartLba I) 0 (of_nat HeadersLength) (replicate HeadersLength 0)
      (flash (dmach s4)) = (q, buf, d')"
    by (cases "NorFlashRead L I (StartLba I) 0 (of_nat HeadersLength) (replicate HeadersLength 0) (flash (dmach s4))")
  have ok: "\<not> EFI_ERROR q"
    using assms(11) I r flash by (metis fst_conv)
  have "buf = bytes" and d': "c d' = c d"
    using read_headers_buffer(1,3) [OF assms(2) r] ok assms(10) base I(2) flash by (simp_all add: flash_addr_def)
  then have chk: "check_fv_header K P buf = Ret EFI_SUCCESS"
    using check_default_headers(2) [OF assms(1,9)] by simp
  define m where "m = (dmach s4)\<lparr>flash := d', mpool := snd (AllocatePool (mpool (dmach s4)))\<rparr>"
  have valid: "ValidateFvHeader K P L I (dmach s4) = Ret (EFI_SUCCESS, m)"
    using ValidateFvHeader_read [OF nonzero(4) r ok, of K P] chk by (simp add: m_def)
  note create = NorFlashCreateInstance_publishes [OF nonzero(1) _ allocs(1) nonzero(2) allocs(2) nonzero(3)
      assms(5) _ I_def valid, where rb = "u32_to_u64 (PcdNorFlashNvramAddr E)"]
  note boot = NorFlashInitialise_one [OF assms(6) arr s2_def create]
  have four: "length (calls s) + 4 = Suc (Suc (Suc (Suc (length (calls s)))))"
    by simp
  show ?thesis
    using boot assms(3,4) base I(2,4,5) d' kept(2-4) unfolding four
    by (auto simp: m_def)
qed

lemma boot_publishes:
  assumes "edk2_documented K" "nor_flash_contract L c"
    and "\<forall>n. service_status E n = EFI_SUCCESS" "GetBootModeHob E \<noteq> BOOT_WITH_DEFAULT_SETTINGS E"
    and "NorFlashPlatformInitialization E (flash (dmach s)) = (EFI_SUCCESS, d)"
    and "\<forall>n. pool_addr (mpool (dmach s)) n \<noteq> 0" "nv_layout_ok P 0x1000 = Ret True"
    and "default_headers K P I0 = Ret bytes"
    and "read_range (c d) (unat (NvStorageVariableBase P)) HeadersLength = bytes"
    and "\<forall>J buf. Size J = 0x800000 \<and> BlockSize (Media J) = 0x1000 \<and> StartLba J = NvStorageVariableBase P div 0x1000
           \<longrightarrow> \<not> EFI_ERROR (fst (NorFlashRead L J (StartLba J) 0 (of_nat HeadersLength) buf d))"
  shows "\<exists>s' a I. NorFlashInitialise E K P L s = Ret (EFI_SUCCESS, s') \<and>
    cells s' (mNorFlashInstances s') = Some a \<and> heap s' a = Some I \<and>
    calls s' = calls s @ [RegisterProtocolNotify 0, InstallNvVarStoreFormatted,
      CreateAddressChangeEvent FvbVirtualNotify, InstallProtocols a (instance_protocols True),
      CreateAddressChangeEvent NorFlashVirtualNotify] \<and>
    unat (StartLba I) * 0x1000 = unat (NvStorageVariableBase P) \<and>
    BlkMedia (BlockIoProtocol I) = a + media_offset E \<and> c (flash (dmach s')) = c d \<and>
    bsize I = 0x1000 \<and> Blocks I = u32_to_u64 (nv_storage_size P div 0x1000) \<and>
    a = pool_addr (mpool (dmach s)) (Suc (pool_count (mpool (dmach s))))"
  using boot_creates [OF assms(1,2) _ _ assms(4-10)] assms(3) by simp

text \<open>C1: the boot publishes the variable volume. On a board whose flash holds, at the configured base,
  the headers that \<open>InitializeFvAndVariableStoreHeaders\<close> writes, with an accepted layout, a boot
  mode that keeps the settings, and services, allocations and the header read that succeed, the
  entry point returns success after making exactly the expected service calls, in order, the
  firmware volume protocol among the installed ones; the instance is in the pointer array, its first
  block is at the configured base, its media pointer is set, and the flash is unchanged.\<close>

theorem boot_publishes_volume:
  assumes "edk2_documented K" "nor_flash_contract L c"
    and "\<forall>n. service_status E n = EFI_SUCCESS" "GetBootModeHob E \<noteq> BOOT_WITH_DEFAULT_SETTINGS E"
    and "NorFlashPlatformInitialization E (flash (dmach s)) = (EFI_SUCCESS, d)"
    and "\<forall>n. pool_addr (mpool (dmach s)) n \<noteq> 0" "nv_layout_ok P 0x1000 = Ret True"
    and "default_headers K P I0 = Ret bytes"
    and "read_range (c d) (unat (NvStorageVariableBase P)) HeadersLength = bytes"
    and "\<forall>J buf. Size J = 0x800000 \<and> BlockSize (Media J) = 0x1000 \<and> StartLba J = NvStorageVariableBase P div 0x1000
           \<longrightarrow> \<not> EFI_ERROR (fst (NorFlashRead L J (StartLba J) 0 (of_nat HeadersLength) buf d))"
  shows "\<exists>s' a I. NorFlashInitialise E K P L s = Ret (EFI_SUCCESS, s') \<and>
    cells s' (mNorFlashInstances s') = Some a \<and> heap s' a = Some I \<and>
    calls s' = calls s @ [RegisterProtocolNotify 0, InstallNvVarStoreFormatted,
      CreateAddressChangeEvent FvbVirtualNotify, InstallProtocols a (instance_protocols True),
      CreateAddressChangeEvent NorFlashVirtualNotify] \<and>
    unat (StartLba I) * 0x1000 = unat (NvStorageVariableBase P) \<and>
    BlkMedia (BlockIoProtocol I) = a + media_offset E \<and> c (flash (dmach s')) = c d"
  using boot_publishes [OF assms] by blast

text \<open>C2: the variables survive a reset. After a boot that published the volume, any sequence of volume
  requests that leave its first block alone, with any outcome, and a reset that keeps the flash,
  the next boot, if its service calls, its allocations and its reads of the volume's header succeed, publishes the volume again, at the same place and with the same size, and the
  flash holds what the requests left there.\<close>

theorem reboot_publishes_volume:
  assumes "edk2_documented K" "nor_flash_contract L c"
    and "\<forall>n. service_status E n = EFI_SUCCESS" "GetBootModeHob E \<noteq> BOOT_WITH_DEFAULT_SETTINGS E"
    and "NorFlashPlatformInitialization E (flash (dmach s)) = (EFI_SUCCESS, d)"
    and "\<forall>n. pool_addr (mpool (dmach s)) n \<noteq> 0" "nv_layout_ok P 0x1000 = Ret True"
    and "default_headers K P I0 = Ret bytes"
    and "read_range (c d) (unat (NvStorageVariableBase P)) HeadersLength = bytes"
    and "\<forall>J buf d. Size J = 0x800000 \<and> BlockSize (Media J) = 0x1000 \<and> StartLba J = NvStorageVariableBase P div 0x1000
           \<longrightarrow> \<not> EFI_ERROR (fst (NorFlashRead L J (StartLba J) 0 (of_nat HeadersLength) buf d))"
    and "NorFlashInitialise E K P L s = Ret (EFI_SUCCESS, s')"
    and "cells s' (mNorFlashInstances s') = Some a" "heap s' a = Some I" "volume_fits I"
    and "\<forall>r \<in> set rs. buffer_ok r \<and> names_volume I r \<and> leaves_block I 0 r"
    and "run_replies (fvb_call L I) rs (flash (dmach s')) = Ret (replies, d1)"
    and "NorFlashPlatformInitialization E (flash (dmach t)) = (EFI_SUCCESS, d2)" "c d2 = c d1"
    and "\<forall>n. pool_addr (mpool (dmach t)) n \<noteq> 0"
  shows "\<exists>t' b J. NorFlashInitialise E K P L t = Ret (EFI_SUCCESS, t') \<and>
    cells t' (mNorFlashInstances t') = Some b \<and> heap t' b = Some J \<and>
    InstallProtocols b (instance_protocols True) \<in> set (drop (length (calls t)) (calls t')) \<and>
    StartLba J = StartLba I \<and> Blocks J = Blocks I \<and> c (flash (dmach t')) = c d1"
proof -
  have reads: "\<forall>J buf. Size J = 0x800000 \<and> BlockSize (Media J) = 0x1000 \<and> StartLba J = NvStorageVariableBase P div 0x1000
      \<longrightarrow> \<not> EFI_ERROR (fst (NorFlashRead L J (StartLba J) 0 (of_nat HeadersLength) buf d'))" for d'
    using assms(10) by blast
  have first: "unat (StartLba I) * 0x1000 = unat (NvStorageVariableBase P)" "c (flash (dmach s')) = c d"
      "bsize I = 0x1000" "Blocks I = u32_to_u64 (nv_storage_size P div 0x1000)"
    using boot_publishes [OF assms(1-9) reads] assms(11-13) by auto
  have "spec_run (volume_step I) rs (volume_of I (c (flash (dmach s')))) replies (volume_of I (c d1))"
    using volume.run_refines [OF assms(16), of c] assms(2,14,15) by simp
  then have "block_bytes I 0 (volume_of I (c d1)) = block_bytes I 0 (volume_of I (c (flash (dmach s'))))"
    using run_keeps_block assms(15) by blast
  then have "slice 0 HeadersLength (block_bytes I 0 (volume_of I (c d1))) =
      slice 0 HeadersLength (block_bytes I 0 (volume_of I (c (flash (dmach s')))))"
    by simp
  moreover have "slice 0 HeadersLength (block_bytes I 0 (volume_of I v)) =
      read_range v (unat (NvStorageVariableBase P)) HeadersLength" for v
    using read_volume_of [of I v 0 0] first(1,3)
    by (simp add: block_bytes_def slice_read_range sizeof_defs)
  ultimately have headers: "read_range (c d2) (unat (NvStorageVariableBase P)) HeadersLength = bytes"
    using assms(9,18) first(2) by simp
  obtain t' b J where boot: "NorFlashInitialise E K P L t = Ret (EFI_SUCCESS, t')"
      "cells t' (mNorFlashInstances t') = Some b" "heap t' b = Some J"
      "calls t' = calls t @ [RegisterProtocolNotify 0, InstallNvVarStoreFormatted,
        CreateAddressChangeEvent FvbVirtualNotify, InstallProtocols b (instance_protocols True),
        CreateAddressChangeEvent NorFlashVirtualNotify]"
      "unat (StartLba J) * 0x1000 = unat (NvStorageVariableBase P)" "c (flash (dmach t')) = c d2"
      "Blocks J = u32_to_u64 (nv_storage_size P div 0x1000)"
    using boot_publishes [OF assms(1-4,17,19,7,8) headers reads] by blast
  have "StartLba J = StartLba I"
    using boot(5) first(1) by (simp add: word_unat_eq_iff)
  with boot first(4) assms(18) show ?thesis by simp
qed

section \<open>Witnesses\<close>

text \<open>The board with valid headers in flash: a device, and a driver state on it before the entry point runs.\<close>

definition orion_start :: "content \<Rightarrow> content driver" where
  "orion_start d = orion_driver \<lparr>flash = d, mpool =
     \<lparr>pool_addr = (\<lambda>n. if n = 0 then 0x8000 else if n = 1 then 0x9000 else if n = 2 then 0xA000 else 0xB000),
      pool_count = 0, pool_live = []\<rparr>\<rparr>"

lemma orion_start_simps [simp]:
  "flash (dmach (orion_start d)) = d" "\<forall>n. pool_addr (mpool (dmach (orion_start d))) n \<noteq> 0"
  "calls (orion_start d) = []"
  "pool_addr (mpool (dmach (orion_start d))) (Suc (pool_count (mpool (dmach (orion_start d))))) = 0x9000"
  by (simp_all add: orion_start_def)

lemma orion_base: "NvStorageVariableBase orion_o6_pcds = 0x380000"
  by (simp add: NvStorageVariableBase_def nv_base_def orion_o6_pcds_def SPI_VARIABLE_BASE_def)

lemma orion_volume_size: "nv_storage_size orion_o6_pcds = 0x78000"
  by (simp add: nv_storage_size_def orion_o6_pcds_def SPI_VARIABLE_SIZE_def)

lemma orion_formatted:
  obtains bytes d where "default_headers doc_edk2 orion_o6_pcds orion_instance = Ret bytes"
    "read_range d 0x380000 HeadersLength = bytes"
proof -
  obtain bytes where bytes: "default_headers doc_edk2 orion_o6_pcds orion_instance = Ret bytes"
    using default_headers_eq [OF doc_edk2_documented] by blast
  have "read_range (write_range (\<lambda>_. 0xFF) 0x380000 bytes) 0x380000 HeadersLength = bytes"
    using read_write_same check_default_headers(1) [OF doc_edk2_documented bytes] by metis
  with bytes that show ?thesis by blast
qed

lemma orion_reads:
  "\<forall>J buf d. Size J = 0x800000 \<and> BlockSize (Media J) = 0x1000 \<and>
     StartLba J = NvStorageVariableBase orion_o6_pcds div 0x1000
     \<longrightarrow> \<not> EFI_ERROR (fst (NorFlashRead array_lib J (StartLba J) 0 (of_nat HeadersLength) buf d))"
  by (simp add: orion_base array_lib_def array_read_def in_device_def flash_addr_def sizeof_defs)

lemma orion_env_ok:
  "\<forall>n. service_status orion_env n = EFI_SUCCESS" "GetBootModeHob orion_env \<noteq> BOOT_WITH_DEFAULT_SETTINGS orion_env"
  "NorFlashPlatformInitialization orion_env d = (EFI_SUCCESS, d)"
  by simp_all

theorem boot_publishes_volume_witness:
  "\<exists>s s' a. NorFlashInitialise orion_env doc_edk2 orion_o6_pcds array_lib s = Ret (EFI_SUCCESS, s') \<and>
     InstallProtocols a (instance_protocols True) \<in> set (calls s')"
proof -
  obtain bytes d where bytes: "default_headers doc_edk2 orion_o6_pcds orion_instance = Ret bytes"
    and content: "read_range d 0x380000 HeadersLength = bytes"
    by (rule orion_formatted)
  have start: "NorFlashPlatformInitialization orion_env (flash (dmach (orion_start d))) = (EFI_SUCCESS, d)"
    and reads: "\<forall>J buf. Size J = 0x800000 \<and> BlockSize (Media J) = 0x1000 \<and>
      StartLba J = NvStorageVariableBase orion_o6_pcds div 0x1000
      \<longrightarrow> \<not> EFI_ERROR (fst (NorFlashRead array_lib J (StartLba J) 0 (of_nat HeadersLength) buf d))"
    using orion_reads by (simp_all add: orion_env_ok)
  have "\<exists>s' a I. NorFlashInitialise orion_env doc_edk2 orion_o6_pcds array_lib (orion_start d) = Ret (EFI_SUCCESS, s') \<and>
    cells s' (mNorFlashInstances s') = Some a \<and> heap s' a = Some I \<and>
    calls s' = calls (orion_start d) @ [RegisterProtocolNotify 0, InstallNvVarStoreFormatted,
      CreateAddressChangeEvent FvbVirtualNotify, InstallProtocols a (instance_protocols True),
      CreateAddressChangeEvent NorFlashVirtualNotify] \<and>
    unat (StartLba I) * 0x1000 = unat (NvStorageVariableBase orion_o6_pcds) \<and>
    BlkMedia (BlockIoProtocol I) = a + media_offset orion_env \<and> flash (dmach s') = d"
    by (rule boot_publishes_volume [OF doc_edk2_documented array_lib_contract orion_env_ok(1,2) start _
          orion_layout_ok bytes _ reads])
      (simp_all add: orion_base content)
  then obtain s' a where run: "NorFlashInitialise orion_env doc_edk2 orion_o6_pcds array_lib (orion_start d) = Ret (EFI_SUCCESS, s')"
    and log: "calls s' = calls (orion_start d) @ [RegisterProtocolNotify 0, InstallNvVarStoreFormatted,
      CreateAddressChangeEvent FvbVirtualNotify, InstallProtocols a (instance_protocols True),
      CreateAddressChangeEvent NorFlashVirtualNotify]"
    by blast
  have "InstallProtocols a (instance_protocols True) \<in> set (calls s')"
    by (simp add: log)
  with run show ?thesis by blast
qed

theorem reboot_publishes_volume_witness:
  "\<exists>s s' a I replies d1 t' b J. NorFlashInitialise orion_env doc_edk2 orion_o6_pcds array_lib s = Ret (EFI_SUCCESS, s') \<and>
     heap s' a = Some I \<and>
     run_replies (fvb_call array_lib I) [WriteRequest 2 0x10 4 [1, 2, 3, 4]] (flash (dmach s')) = Ret (replies, d1) \<and>
     NorFlashInitialise orion_env doc_edk2 orion_o6_pcds array_lib (orion_start d1) = Ret (EFI_SUCCESS, t') \<and>
     heap t' b = Some J \<and> Blocks J = Blocks I \<and> flash (dmach t') = d1"
proof -
  obtain bytes d where bytes: "default_headers doc_edk2 orion_o6_pcds orion_instance = Ret bytes"
    and content: "read_range d (unat (NvStorageVariableBase orion_o6_pcds)) HeadersLength = bytes"
    by (rule orion_formatted) (simp add: orion_base)
  have start: "NorFlashPlatformInitialization orion_env (flash (dmach (orion_start v))) = (EFI_SUCCESS, v)" for v
    by (simp add: orion_env_ok)
  have reads: "\<forall>J buf. Size J = 0x800000 \<and> BlockSize (Media J) = 0x1000 \<and>
      StartLba J = NvStorageVariableBase orion_o6_pcds div 0x1000
      \<longrightarrow> \<not> EFI_ERROR (fst (NorFlashRead array_lib J (StartLba J) 0 (of_nat HeadersLength) buf d))"
    using orion_reads by blast
  have "\<exists>s' a I. NorFlashInitialise orion_env doc_edk2 orion_o6_pcds array_lib (orion_start d) = Ret (EFI_SUCCESS, s') \<and>
      cells s' (mNorFlashInstances s') = Some a \<and> heap s' a = Some I \<and>
      unat (StartLba I) * 0x1000 = 0x380000 \<and> bsize I = 0x1000 \<and> Blocks I = 0x78"
    using boot_publishes [where c = "\<lambda>d. d", OF doc_edk2_documented array_lib_contract orion_env_ok(1,2) start
        orion_start_simps(2) orion_layout_ok bytes content reads, unfolded orion_base orion_volume_size]
    by auto
  then obtain s' a I where boot: "NorFlashInitialise orion_env doc_edk2 orion_o6_pcds array_lib (orion_start d) = Ret (EFI_SUCCESS, s')"
      "cells s' (mNorFlashInstances s') = Some a" "heap s' a = Some I"
    and I: "unat (StartLba I) * 0x1000 = 0x380000" "bsize I = 0x1000" "Blocks I = 0x78"
    by blast
  have fits: "volume_fits I"
    using I by (simp add: volume_fits_def add_mult_distrib)
  have "\<exists>replies d1. run_replies (fvb_call array_lib I) [WriteRequest 2 0x10 4 [1, 2, 3, 4]] (flash (dmach s'))
      = Ret (replies, d1)"
    by (rule run_replies_returns, rule fvb_call_returns) simp
  then obtain replies d1 where run: "run_replies (fvb_call array_lib I) [WriteRequest 2 0x10 4 [1, 2, 3, 4]] (flash (dmach s'))
      = Ret (replies, d1)"
    by blast
  have "\<exists>t' b J. NorFlashInitialise orion_env doc_edk2 orion_o6_pcds array_lib (orion_start d1) = Ret (EFI_SUCCESS, t') \<and>
    cells t' (mNorFlashInstances t') = Some b \<and> heap t' b = Some J \<and>
    InstallProtocols b (instance_protocols True) \<in> set (drop (length (calls (orion_start d1))) (calls t')) \<and>
    StartLba J = StartLba I \<and> Blocks J = Blocks I \<and> flash (dmach t') = d1"
    by (rule reboot_publishes_volume [where c = "\<lambda>d. d", OF doc_edk2_documented array_lib_contract orion_env_ok(1,2) start
          orion_start_simps(2) orion_layout_ok bytes content orion_reads boot fits _ run start refl orion_start_simps(2)])
      (simp add: I)
  with boot run show ?thesis by blast
qed

end
