(* ===== verification/Nor_Flash_Runtime.thy ===== *)
theory Nor_Flash_Runtime
  imports Nor_Flash_Boot
begin

text \<open>
  The driver after its entry point has returned, NorFlashStmmRuntimeDxe.c together with its three
  protocols. The firmware core runs the notification the driver registered for the CPU protocol,
  clients call the protocols it installed, in any order, and at last the handlers of the virtual
  address change run. Each of these is an event on the driver's state; a client can only call
  a protocol whose installation succeeded.
\<close>

section \<open>Events\<close>

text \<open>A client holds a protocol of the instance at \<open>a\<close> when an installation that names it succeeded.\<close>

definition offered :: "'d boot_env \<Rightarrow> nor_protocol \<Rightarrow> u64 \<Rightarrow> 'd driver \<Rightarrow> bool" where
  "offered E p a s \<longleftrightarrow> (\<exists>n < length (calls s). \<not> EFI_ERROR (service_status E n) \<and>
     (case calls s ! n of InstallProtocols b ps \<Rightarrow> b = a \<and> p \<in> set ps | _ \<Rightarrow> False))"

text \<open>
  \<open>MemoryInit i\<close> is the notification with the device table's entry \<open>i\<close> as its context; the other
  events carry the address of the instance that the protocol interface is part of.
\<close>

datatype driver_event =
    MemoryInit nat
  | FvbCall u64 fvb_request
  | BlockIoCall u64 block_io_request
  | DiskIoCall u64 disk_io_request

fun allowed :: "'d boot_env \<Rightarrow> 'd driver \<Rightarrow> driver_event \<Rightarrow> bool" where
  "allowed E s (MemoryInit i) = (i < length (mNorFlashDevices E) \<and> RegisterProtocolNotify i \<in> set (calls s))"
| "allowed E s (FvbCall a r) =
     (offered E FirmwareVolumeBlockProtocol a s \<and> buffer_ok r \<and> request_terminated r)"
| "allowed E s (BlockIoCall a r) = (offered E FlashBlockIoProtocol a s \<and> block_buffer_ok r)"
| "allowed E s (DiskIoCall a r) = (offered E FlashDiskIoProtocol a s \<and> disk_buffer_ok r)"

text \<open>The media structures are parts of the instances, at a fixed offset.\<close>

definition media_at :: "'d boot_env \<Rightarrow> 'd driver \<Rightarrow> media_mem" where
  "media_at E s = (\<lambda>x. map_option Media (heap s (x - media_offset E)))"

definition with_flash :: "'d \<Rightarrow> 'd driver \<Rightarrow> 'd driver" where
  "with_flash d s = s\<lparr>dmach := (dmach s)\<lparr>flash := d\<rparr>\<rparr>"

definition on_instance ::
  "u64 \<Rightarrow> (nor_flash_instance \<Rightarrow> 'd \<Rightarrow> 'd outcome) \<Rightarrow> 'd driver \<Rightarrow> 'd driver outcome" where
  "on_instance a f s = obind (load_instance s a) (\<lambda>I.
     obind (f I (flash (dmach s))) (\<lambda>d. Ret (with_flash d s)))"

fun driver_serve ::
  "'d boot_env \<Rightarrow> edk2 \<Rightarrow> 'd nor_flash_lib \<Rightarrow> bool \<Rightarrow> driver_event \<Rightarrow> 'd driver \<Rightarrow> 'd driver outcome" where
  "driver_serve E K L debug (MemoryInit i) s = FlashMemoryInitEventNotify E (mNorFlashDevices E ! i) s"
| "driver_serve E K L debug (FvbCall a r) s = on_instance a (\<lambda>I. fvb_serve L I r) s"
| "driver_serve E K L debug (BlockIoCall a r) s =
     on_instance a (\<lambda>I. block_io_serve L debug (media_at E s) I r) s"
| "driver_serve E K L debug (DiskIoCall a r) s = on_instance a (\<lambda>I. disk_io_serve K L I r) s"

text \<open>The address change runs the handlers whose registration succeeded.\<close>

definition registered_handlers :: "'d boot_env \<Rightarrow> 'd driver \<Rightarrow> event_handler list" where
  "registered_handlers E s = concat (map (\<lambda>n. case calls s ! n of
     CreateAddressChangeEvent h \<Rightarrow> if EFI_ERROR (service_status E n) then [] else [h] | _ \<Rightarrow> [])
     [0 ..< length (calls s)])"

fun run_handler :: "(u64 \<Rightarrow> u64) \<Rightarrow> event_handler \<Rightarrow> 'd driver \<Rightarrow> 'd driver outcome" where
  "run_handler conv FvbVirtualNotify s =
     Ret (s\<lparr>mFlashNvStorageVariableBase := FvbVirtualNotifyEvent conv (mFlashNvStorageVariableBase s)\<rparr>)"
| "run_handler conv NorFlashVirtualNotify s = NorFlashVirtualNotifyEvent conv s"

definition address_change :: "'d boot_env \<Rightarrow> (u64 \<Rightarrow> u64) \<Rightarrow> 'd driver \<Rightarrow> 'd driver outcome" where
  "address_change E conv s = run_requests (run_handler conv) (registered_handlers E s) s"

section \<open>The states of the driver\<close>

text \<open>
  What a boot and any events lead to; the flag says whether the address change has happened. After
  it the memory of the instances is at other addresses, so no event of the boot phase follows.
\<close>

inductive driver_reached ::
  "'d boot_env \<Rightarrow> edk2 \<Rightarrow> nv_pcds \<Rightarrow> 'd nor_flash_lib \<Rightarrow> bool \<Rightarrow> bool \<Rightarrow> 'd driver \<Rightarrow> bool"
  for E K P L debug where
  entry: "calls s = [] \<Longrightarrow> NorFlashInitialise E K P L s = Ret (status, s') \<Longrightarrow>
    driver_reached E K P L debug False s'"
| event: "driver_reached E K P L debug False s \<Longrightarrow> allowed E s ev \<Longrightarrow>
    driver_serve E K L debug ev s = Ret s' \<Longrightarrow> driver_reached E K P L debug False s'"
| virtual: "driver_reached E K P L debug False s \<Longrightarrow> address_change E conv s = Ret s' \<Longrightarrow>
    driver_reached E K P L debug True s'"

text \<open>The type of an instance in the table: what no event may change. The media pointer is the boot address of
  the instance's media structure also after the address change, which does not convert it.\<close>

definition instance_typed :: "'d boot_env \<Rightarrow> nv_pcds \<Rightarrow> u64 \<Rightarrow> nor_flash_instance \<Rightarrow> bool" where
  "instance_typed E P a I \<longleftrightarrow>
     Size I = 0x800000 \<and> BlockSize (Media I) = 0x1000 \<and> MediaId (Media I) = 0 \<and>
     MediaPresent (Media I) \<and> \<not> ReadOnly (Media I) \<and> IoAlign (Media I) = 4 \<and> LastBlock (Media I) = 0x7FF \<and>
     StartLba I = NvStorageVariableBase P div 0x1000 \<and>
     Blocks I = u32_to_u64 (nv_storage_size P div 0x1000) \<and>
     BlkMedia (BlockIoProtocol I) = a + media_offset E"

definition driver_typed :: "'d boot_env \<Rightarrow> nv_pcds \<Rightarrow> 'd driver \<Rightarrow> bool" where
  "driver_typed E P s \<longleftrightarrow> (\<forall>p a. offered E p a s \<longrightarrow>
     a \<noteq> 0 \<and> (\<exists>I. heap s a = Some I \<and> instance_typed E P a I) \<and>
     mNorFlashDeviceCount s = 1 \<and> mNorFlashInstances s \<noteq> 0 \<and> cells s (mNorFlashInstances s) = Some a)"

text \<open>
  More precisely, an instance is, up to the addresses the pool and the core chose, the one that the
  entry point set up; and no handler of the address change is registered twice.
\<close>

definition boot_instance :: "'d boot_env \<Rightarrow> edk2 \<Rightarrow> nv_pcds \<Rightarrow> u64 \<Rightarrow> u64 \<Rightarrow> u64 \<Rightarrow> nor_flash_instance" where
  "boot_instance E K P a shadow handle =
     (located_instance P (fresh_instance E K a (XSPI_FLASH_DIRECT_MMIO_ADDR E) 0x800000 0 0x1000\<lparr>ShadowBuffer := shadow\<rparr>))
       \<lparr>Handle := handle\<rparr>"

definition driver_booted :: "'d boot_env \<Rightarrow> edk2 \<Rightarrow> nv_pcds \<Rightarrow> 'd driver \<Rightarrow> bool" where
  "driver_booted E K P s \<longleftrightarrow> distinct (registered_handlers E s) \<and> (\<forall>p a. offered E p a s \<longrightarrow>
     a \<noteq> 0 \<and> (\<exists>b h. b \<noteq> 0 \<and> heap s a = Some (boot_instance E K P a b h)) \<and>
     mNorFlashDeviceCount s = 1 \<and> mNorFlashInstances s \<noteq> 0 \<and> cells s (mNorFlashInstances s) = Some a)"

section \<open>The entry point establishes the type\<close>

lemma offered_iff:
  "offered E p a s \<longleftrightarrow> (\<exists>n ps. n < length (calls s) \<and> \<not> EFI_ERROR (service_status E n) \<and>
     calls s ! n = InstallProtocols a ps \<and> p \<in> set ps)"
proof -
  have "(case call of InstallProtocols b ps \<Rightarrow> b = a \<and> p \<in> set ps | _ \<Rightarrow> False) \<longleftrightarrow>
      (\<exists>ps. call = InstallProtocols a ps \<and> p \<in> set ps)" for call
    by (cases call) auto
  then show ?thesis
    unfolding offered_def by auto
qed

lemma offered_unchanged: "calls s' = calls s \<Longrightarrow> offered E p a s' = offered E p a s"
  by (simp add: offered_def)

lemma offered_append:
  assumes "calls s' = calls s @ cs" "\<forall>call \<in> set cs. \<forall>b ps. call \<noteq> InstallProtocols b ps"
  shows "offered E p a s' = offered E p a s"
proof -
  have "n < length (calls s') \<and> calls s' ! n = InstallProtocols a ps \<longleftrightarrow>
      n < length (calls s) \<and> calls s ! n = InstallProtocols a ps" for n ps
    using assms(2) by (auto simp: assms(1) nth_append dest: nth_mem)
  then show ?thesis
    unfolding offered_iff by blast
qed

lemma no_install_offers: "\<forall>call \<in> set (calls s). \<forall>b ps. call \<noteq> InstallProtocols b ps \<Longrightarrow> \<not> offered E p a s"
  by (auto simp: offered_iff dest: nth_mem)

lemma boot_instance_typed: "instance_typed E P a (boot_instance E K P a b h)"
  by (simp add: instance_typed_def boot_instance_def located_instance_def fresh_instance_def
      mNorFlashInstanceTemplate_def Let_def)

lemma booted_typed: "driver_booted E K P s \<Longrightarrow> driver_typed E P s"
  unfolding driver_booted_def driver_typed_def using boot_instance_typed by blast

lemma handlers_unchanged: "calls s' = calls s \<Longrightarrow> registered_handlers E s' = registered_handlers E s"
  by (simp add: registered_handlers_def)

lemma handlers_extend:
  assumes "calls s' = calls s @ cs"
    and "\<And>k h. k < length cs \<Longrightarrow> cs ! k = CreateAddressChangeEvent h \<Longrightarrow>
      EFI_ERROR (service_status E (length (calls s) + k))"
  shows "registered_handlers E s' = registered_handlers E s"
proof -
  let ?h = "\<lambda>cl n. case cl ! n of CreateAddressChangeEvent h \<Rightarrow> if EFI_ERROR (service_status E n) then [] else [h] | _ \<Rightarrow> []"
  have "?h (calls s') n = []" if "n \<in> set [length (calls s) ..< length (calls s')]" for n
  proof (cases "calls s' ! n")
    case (CreateAddressChangeEvent h)
    then have "cs ! (n - length (calls s)) = CreateAddressChangeEvent h"
      using that by (simp add: assms(1) nth_append)
    with assms(2) [OF _ this] that CreateAddressChangeEvent show ?thesis
      by (auto simp: assms(1))
  qed simp_all
  then have "concat (map (?h (calls s')) [length (calls s) ..< length (calls s')]) = []"
    by simp
  moreover have "map (?h (calls s')) [0 ..< length (calls s)] = map (?h (calls s)) [0 ..< length (calls s)]"
    by (rule map_cong) (simp_all add: assms(1) nth_append)
  moreover have "[0 ..< length (calls s')] = [0 ..< length (calls s)] @ [length (calls s) ..< length (calls s')]"
    using upt_add_eq_append [of 0 "length (calls s)" "length cs"] by (simp add: assms(1))
  ultimately show ?thesis
    by (simp only: registered_handlers_def map_append concat_append append_Nil2)
qed

lemma handlers_append:
  "calls s' = calls s @ cs \<Longrightarrow> \<forall>call \<in> set cs. \<forall>h. call \<noteq> CreateAddressChangeEvent h \<Longrightarrow>
     registered_handlers E s' = registered_handlers E s"
  by (rule handlers_extend) (auto dest: nth_mem)

text \<open>The entry point of the one device either stops early or returns from the creation of its instance.\<close>

lemma NorFlashInitialise_cases:
  assumes "NorFlashInitialise E K P L s = Ret (status, s')"
  obtains (refused) "calls s' = calls s"
  | (created) s2 st s3 where "calls s2 = calls s @ [RegisterProtocolNotify 0]" "mNorFlashDeviceCount s2 = 1"
      "status = service_status E (length (calls s3))"
      "NorFlashCreateInstance E K P L (XSPI_FLASH_DIRECT_MMIO_ADDR E) (u32_to_u64 (PcdNorFlashNvramAddr E))
         0x800000 0 0x1000 (mNorFlashInstances s2) s2 = Ret (st, s3)"
      "s' = s3\<lparr>calls := calls s3 @ [CreateAddressChangeEvent NorFlashVirtualNotify]\<rparr>"
proof (cases "EFI_ERROR (fst (NorFlashPlatformInitialization E (flash (dmach s))))")
  case True
  with assms show ?thesis
    by (intro refused) (auto simp: NorFlashInitialise_def split: prod.splits)
next
  case False
  define s1 where "s1 = s\<lparr>dmach := (dmach s)\<lparr>flash := snd (NorFlashPlatformInitialization E (flash (dmach s)))\<rparr>\<rparr>"
  define s2 where "s2 = (snd (alloc s1))\<lparr>mNorFlashDeviceCount := 1, mNorFlashInstances := fst (alloc s1),
    cells := uninitialised_cells (fst (alloc s1)) 1 (cells (snd (alloc s1))),
    calls := calls s @ [RegisterProtocolNotify 0]\<rparr>"
  obtain st s3 where create: "NorFlashCreateInstance E K P L (XSPI_FLASH_DIRECT_MMIO_ADDR E)
      (u32_to_u64 (PcdNorFlashNvramAddr E)) 0x800000 0 0x1000 (mNorFlashInstances s2) s2 = Ret (st, s3)"
    and final: "status = service_status E (length (calls s3))"
    and exit: "s' = s3\<lparr>calls := calls s3 @ [CreateAddressChangeEvent NorFlashVirtualNotify]\<rparr>"
    using assms False
    by (auto simp: NorFlashInitialise_def mNorFlashDevices_def call_service_def array_cell_def
        obind_Ret_iff s2_def s1_def Let_def case_prod_beta)
  show ?thesis
    by (rule created [OF _ _ final create exit]) (simp_all add: s2_def)
qed

text \<open>The log of the entry point registers each handler once.\<close>

lemma entry_handlers:
  assumes "calls s = []" "NorFlashInitialise E K P L s = Ret (status, s')"
  shows "distinct (registered_handlers E s')"
  using assms(2)
proof (cases rule: NorFlashInitialise_cases)
  case refused
  with assms(1) show ?thesis by (simp add: registered_handlers_def)
next
  case (created s2 st s3)
  from created(4) show ?thesis
  proof (cases rule: NorFlashCreateInstance_cases)
    case refused
    then have "calls s' = [RegisterProtocolNotify 0, CreateAddressChangeEvent NorFlashVirtualNotify]"
      using created assms(1) by simp
    then show ?thesis by (simp add: registered_handlers_def)
  next
    case (installed a b vs t I)
    then have "calls s' = [RegisterProtocolNotify 0, InstallProtocols a (instance_protocols (\<not> EFI_ERROR vs)),
          CreateAddressChangeEvent NorFlashVirtualNotify] \<or>
        calls s' = [RegisterProtocolNotify 0, InstallNvVarStoreFormatted, CreateAddressChangeEvent FvbVirtualNotify,
          InstallProtocols a (instance_protocols (\<not> EFI_ERROR vs)), CreateAddressChangeEvent NorFlashVirtualNotify]"
      using created assms(1) by auto
    then show ?thesis by (elim disjE) (simp_all add: registered_handlers_def)
  qed
qed

lemma entry_booted:
  assumes "calls s = []" "NorFlashInitialise E K P L s = Ret (status, s')"
  shows "driver_booted E K P s'"
  using assms(2)
proof (cases rule: NorFlashInitialise_cases)
  case refused
  with assms show ?thesis
    by (simp add: driver_booted_def no_install_offers entry_handlers)
next
  case (created s2 st s3)
  from created(4) show ?thesis
  proof (cases rule: NorFlashCreateInstance_cases)
    case refused
    then have "\<not> offered E p a s'" for p a
      using created(1,5) assms(1) by (intro no_install_offers) simp
    then show ?thesis
      by (simp add: driver_booted_def entry_handlers [OF assms])
  next
    case (installed a b vs t I)
    show ?thesis
      unfolding driver_booted_def
    proof (intro allI impI conjI entry_handlers [OF assms])
      fix p x
      assume offered: "offered E p x s'"
      then obtain n where n: "n < length (calls s')" "\<not> EFI_ERROR (service_status E n)"
        "\<exists>ps. calls s' ! n = InstallProtocols x ps"
        by (auto simp: offered_iff)
      have log: "calls s' = calls t @ [InstallProtocols a (instance_protocols (\<not> EFI_ERROR vs)),
          CreateAddressChangeEvent NorFlashVirtualNotify]"
        using installed(13) created(5) by simp
      have before: "\<forall>call \<in> set (calls t). \<forall>b ps. call \<noteq> InstallProtocols b ps"
        using installed(11) created(1) assms(1) by auto
      consider "n < length (calls t)" | "n = length (calls t)" | "n = Suc (length (calls t))"
        using n(1) unfolding log by fastforce
      then have x: "n = length (calls t)" "x = a"
        using n(3) before unfolding log by (cases; fastforce simp: nth_append dest: nth_mem)+
      with n have "\<not> EFI_ERROR st"
        using installed(12) by simp
      then show "x \<noteq> 0" "mNorFlashDeviceCount s' = 1" "mNorFlashInstances s' \<noteq> 0"
          "cells s' (mNorFlashInstances s') = Some x"
          "\<exists>b h. b \<noteq> 0 \<and> heap s' x = Some (boot_instance E K P x b h)"
        using installed created(2,5) x by (auto simp: boot_instance_def)
    qed
  qed
qed

text \<open>A driver whose last registration failed keeps no handler for its instances.\<close>

lemma entry_registers:
  assumes "calls s = []" "NorFlashInitialise E K P L s = Ret (status, s')" "EFI_ERROR status"
  shows "NorFlashVirtualNotify \<notin> set (registered_handlers E s')"
  using assms(2)
proof (cases rule: NorFlashInitialise_cases)
  case refused
  with assms(1) show ?thesis by (simp add: registered_handlers_def)
next
  case (created s2 st s3)
  from created(4) have "NorFlashVirtualNotify \<notin> set (registered_handlers E s3)"
  proof (cases rule: NorFlashCreateInstance_cases)
    case refused
    with created assms(1) show ?thesis by (simp add: registered_handlers_def)
  next
    case (installed a b vs t I)
    then have "calls s3 = [RegisterProtocolNotify 0, InstallProtocols a (instance_protocols (\<not> EFI_ERROR vs))] \<or>
        calls s3 = [RegisterProtocolNotify 0, InstallNvVarStoreFormatted, CreateAddressChangeEvent FvbVirtualNotify,
          InstallProtocols a (instance_protocols (\<not> EFI_ERROR vs))]"
      using created(1) assms(1) by auto
    then show ?thesis by (elim disjE) (simp_all add: registered_handlers_def)
  qed
  moreover have "registered_handlers E s' = registered_handlers E s3"
    using created(3,5) assms(3) by (intro handlers_extend) auto
  ultimately show ?thesis by simp
qed

section \<open>Events keep it\<close>

lemma on_instance_Ret:
  "on_instance a f s = Ret s' \<longleftrightarrow>
     (\<exists>I d. a \<noteq> 0 \<and> heap s a = Some I \<and> f I (flash (dmach s)) = Ret d \<and> s' = with_flash d s)"
  by (auto simp: on_instance_def obind_Ret_iff load_instance_Ret)

lemma with_flash_simps [simp]:
  "heap (with_flash d s) = heap s" "cells (with_flash d s) = cells s" "calls (with_flash d s) = calls s"
  "mNorFlashInstances (with_flash d s) = mNorFlashInstances s"
  "mNorFlashDeviceCount (with_flash d s) = mNorFlashDeviceCount s" "flash (dmach (with_flash d s)) = d"
  by (simp_all add: with_flash_def)

text \<open>The one event that is not a protocol call only makes service calls.\<close>

lemma memory_init_effect:
  assumes "FlashMemoryInitEventNotify E r s = Ret s'"
  obtains cs where "s' = s\<lparr>calls := calls s @ cs\<rparr>" "\<forall>call \<in> set cs. \<forall>b ps. call \<noteq> InstallProtocols b ps"
    "\<forall>call \<in> set cs. \<forall>h. call \<noteq> CreateAddressChangeEvent h"
  using assms by (auto simp: FlashMemoryInitEventNotify_def call_service_def Let_def split: if_splits)

lemma driver_serve_effect:
  assumes "driver_serve E K L debug ev s = Ret s'"
  obtains cs d where "heap s' = heap s" "cells s' = cells s" "mNorFlashInstances s' = mNorFlashInstances s"
    "mNorFlashDeviceCount s' = mNorFlashDeviceCount s" "calls s' = calls s @ cs"
    "\<forall>call \<in> set cs. \<forall>b ps. call \<noteq> InstallProtocols b ps"
    "\<forall>call \<in> set cs. \<forall>h. call \<noteq> CreateAddressChangeEvent h"
proof (cases ev)
  case (MemoryInit i)
  with assms obtain cs where "s' = s\<lparr>calls := calls s @ cs\<rparr>" "\<forall>call \<in> set cs. \<forall>b ps. call \<noteq> InstallProtocols b ps"
    "\<forall>call \<in> set cs. \<forall>h. call \<noteq> CreateAddressChangeEvent h"
    by (auto elim: memory_init_effect)
  then show ?thesis by (intro that [of cs]) simp_all
qed (use assms in \<open>auto simp: on_instance_Ret intro!: that [of "[]"]\<close>)

lemma typed_frame:
  assumes "driver_typed E P s" "heap s' = heap s" "cells s' = cells s"
    "mNorFlashInstances s' = mNorFlashInstances s" "mNorFlashDeviceCount s' = mNorFlashDeviceCount s"
    and "\<And>p a. offered E p a s' = offered E p a s"
  shows "driver_typed E P s'"
  using assms by (simp add: driver_typed_def)

lemma driver_serve_booted:
  assumes "driver_booted E K P s" "driver_serve E K L debug ev s = Ret s'"
  shows "driver_booted E K P s'"
proof -
  from assms(2) obtain cs where frame: "heap s' = heap s" "cells s' = cells s"
      "mNorFlashInstances s' = mNorFlashInstances s" "mNorFlashDeviceCount s' = mNorFlashDeviceCount s"
    and log: "calls s' = calls s @ cs" "\<forall>call \<in> set cs. \<forall>b ps. call \<noteq> InstallProtocols b ps"
      "\<forall>call \<in> set cs. \<forall>h. call \<noteq> CreateAddressChangeEvent h"
    by (rule driver_serve_effect)
  with assms(1) offered_append [OF log(1,2)] handlers_append [OF log(1,3)] show ?thesis
    by (simp add: driver_booted_def)
qed

text \<open>So does any sequence of events, which leaves the instances and registrations alone.\<close>

interpretation boot_events: request_server "driver_serve E K L debug" "\<lambda>_. True"
    "\<lambda>s s'. heap s' = heap s \<and> (\<forall>p a. offered E p a s' = offered E p a s) \<and>
       registered_handlers E s' = registered_handlers E s \<and> (driver_booted E K P s \<longrightarrow> driver_booted E K P s')"
  for E K L debug P
proof unfold_locales
  fix ev s s'
  assume step: "driver_serve E K L debug ev s = Ret s'"
  then obtain cs where "heap s' = heap s" "calls s' = calls s @ cs"
      "\<forall>call \<in> set cs. \<forall>b ps. call \<noteq> InstallProtocols b ps" "\<forall>call \<in> set cs. \<forall>h. call \<noteq> CreateAddressChangeEvent h"
    by (rule driver_serve_effect)
  then show "heap s' = heap s \<and> (\<forall>p a. offered E p a s' = offered E p a s) \<and>
      registered_handlers E s' = registered_handlers E s \<and> (driver_booted E K P s \<longrightarrow> driver_booted E K P s')"
    using offered_append [of s' s cs E] handlers_append [of s' s cs E] driver_serve_booted [OF _ step, of P] by simp
qed auto

lemma driver_serve_typed:
  assumes "driver_typed E P s" "driver_serve E K L debug ev s = Ret s'"
  shows "driver_typed E P s'" "offered E p a s' = offered E p a s"
proof -
  from assms(2) obtain cs where frame: "heap s' = heap s" "cells s' = cells s"
      "mNorFlashInstances s' = mNorFlashInstances s" "mNorFlashDeviceCount s' = mNorFlashDeviceCount s"
    and log: "calls s' = calls s @ cs" "\<forall>call \<in> set cs. \<forall>b ps. call \<noteq> InstallProtocols b ps"
    by (rule driver_serve_effect)
  show "driver_typed E P s'" "offered E p a s' = offered E p a s"
    by (rule typed_frame [OF assms(1) frame]; rule offered_append [OF log]) (rule offered_append [OF log])
qed

section \<open>The address change keeps it\<close>

lemma convert_instance_typed: "instance_typed E P a (convert_instance conv I) = instance_typed E P a I"
  by (simp add: instance_typed_def convert_instance_def)

lemma convert_loop_frame:
  "convert_loop conv n i s = Ret s' \<Longrightarrow> calls s' = calls s \<and> cells s' = cells s \<and>
     mNorFlashInstances s' = mNorFlashInstances s \<and> mNorFlashDeviceCount s' = mNorFlashDeviceCount s \<and>
     (\<forall>a I. heap s a = Some I \<and> instance_typed E P a I \<longrightarrow> (\<exists>J. heap s' a = Some J \<and> instance_typed E P a J))"
proof (induction n arbitrary: i s)
  case (Suc n)
  then obtain x I where x: "load_instance s x = Ret I"
    and rest: "convert_loop conv n (Suc i) (s\<lparr>heap := (heap s)(x \<mapsto> convert_instance conv I)\<rparr>) = Ret s'"
    by (auto simp: obind_Ret_iff)
  from x have x': "heap s x = Some I"
    by (simp add: load_instance_Ret)
  note step = Suc.IH [OF rest]
  have "\<exists>J. heap s' a = Some J \<and> instance_typed E P a J" if "heap s a = Some G" "instance_typed E P a G" for a G
    using step that x' by (cases "a = x") (simp_all add: convert_instance_typed)
  with step show ?case by simp
qed auto

lemma run_handler_typed:
  assumes "run_handler conv h s = Ret s'"
  shows "calls s' = calls s" "driver_typed E P s \<Longrightarrow> driver_typed E P s'"
proof -
  have "calls s' = calls s \<and> (driver_typed E P s \<longrightarrow> driver_typed E P s')"
  proof (cases h)
    case FvbVirtualNotify
    with assms have s': "s' = s\<lparr>mFlashNvStorageVariableBase := FvbVirtualNotifyEvent conv (mFlashNvStorageVariableBase s)\<rparr>"
      by simp
    have "driver_typed E P s'" if "driver_typed E P s"
      by (rule typed_frame [OF that]) (simp_all add: s' offered_def)
    with s' show ?thesis by simp
  next
    case NorFlashVirtualNotify
    then have "convert_loop conv (unat (mNorFlashDeviceCount s)) 0 s = Ret s'"
      using assms by (simp add: NorFlashVirtualNotifyEvent_def)
    note frame = convert_loop_frame [OF this, of E P]
    then have "offered E p a s' = offered E p a s" for p a
      by (intro offered_unchanged) simp
    with frame show ?thesis
      by (auto simp: driver_typed_def)
  qed
  then show "calls s' = calls s" "driver_typed E P s \<Longrightarrow> driver_typed E P s'"
    by blast+
qed

interpretation handlers: request_server "run_handler conv" "\<lambda>_. True"
    "\<lambda>s s'. calls s' = calls s \<and> (driver_typed E P s \<longrightarrow> driver_typed E P s')" for conv E P
  by unfold_locales (auto dest: run_handler_typed)

lemma address_change_typed:
  assumes "address_change E conv s = Ret s'"
  shows "calls s' = calls s" "driver_typed E P s \<Longrightarrow> driver_typed E P s'"
  using handlers.run_keeps [OF assms [unfolded address_change_def]] by simp_all

lemma reached_booted: "driver_reached E K P L debug False s \<Longrightarrow> driver_booted E K P s"
  by (induction False s rule: driver_reached.induct)
    (auto intro: entry_booted driver_serve_booted)

lemma reached_typed: "driver_reached E K P L debug v s \<Longrightarrow> driver_typed E P s"
  by (induction rule: driver_reached.induct)
    (auto intro: booted_typed [OF entry_booted] driver_serve_typed(1) address_change_typed(2))

section \<open>Nothing faults\<close>

text \<open>A typed instance is linked to its media structure unless the memory wraps around.\<close>

lemma typed_linked:
  assumes "instance_typed E P a I" "heap s a = Some I" "a + media_offset E \<noteq> 0"
  shows "media_linked (media_at E s) I"
  using assms by (simp add: instance_typed_def media_linked_def media_at_def)

lemma fvb_serve_returns: "request_terminated r \<Longrightarrow> \<exists>d'. fvb_serve L I r d = Ret d'"
  using fvb_call_returns [of r L I d] by (auto simp: fvb_serve_call)

lemma event_returns:
  assumes "edk2_documented K" "driver_typed E P s" "allowed E s ev"
    and "\<forall>a. offered E FlashBlockIoProtocol a s \<longrightarrow> a + media_offset E \<noteq> 0"
    and "asserts_enabled E \<longrightarrow> (\<forall>n. \<not> EFI_ERROR (service_status E n))"
  shows "\<exists>s'. driver_serve E K L debug ev s = Ret s'"
proof -
  have held: "\<exists>I. a \<noteq> 0 \<and> heap s a = Some I \<and> instance_typed E P a I" if "offered E p a s" for p a
    using that assms(2) by (auto simp: driver_typed_def)
  have serves: "\<exists>s'. on_instance a f s = Ret s'"
    if "a \<noteq> 0" "heap s a = Some I" "\<exists>d. f I (flash (dmach s)) = Ret d" for a f I
    using that by (auto simp: on_instance_Ret)
  show ?thesis
  proof (cases ev)
    case (MemoryInit i)
    with assms(5) show ?thesis
      by (cases "asserts_enabled E") (auto simp: FlashMemoryInitEventNotify_def call_service_def assert_efi_error_def)
  next
    case (FvbCall a r)
    with assms(3) held obtain I where I: "a \<noteq> 0" "heap s a = Some I" "request_terminated r"
      by fastforce
    show ?thesis
      unfolding FvbCall driver_serve.simps by (rule serves [OF I(1,2)]) (rule fvb_serve_returns [OF I(3)])
  next
    case (BlockIoCall a r)
    with assms(3) held obtain I where I: "a \<noteq> 0" "heap s a = Some I" "instance_typed E P a I"
      by fastforce
    have "a + media_offset E \<noteq> 0"
      using assms(3,4) BlockIoCall by simp
    note linked = typed_linked [OF I(3,2) this]
    show ?thesis
      unfolding BlockIoCall driver_serve.simps by (rule serves [OF I(1,2)]) (rule block_io_serve_returns [OF linked])
  next
    case (DiskIoCall a r)
    with assms(3) held obtain I where I: "a \<noteq> 0" "heap s a = Some I" "instance_typed E P a I"
      by fastforce
    then have "BlockSize (Media I) \<noteq> 0"
      by (simp add: instance_typed_def)
    show ?thesis
      unfolding DiskIoCall driver_serve.simps
      by (rule serves [OF I(1,2)]) (rule disk_io_serve_returns [OF assms(1) \<open>BlockSize (Media I) \<noteq> 0\<close>])
  qed
qed

lemma allowed_kept:
  assumes "allowed E s ev" "driver_typed E P s" "driver_serve E K L debug e s = Ret s'"
  shows "allowed E s' ev"
proof -
  from assms(3) obtain cs where "calls s' = calls s @ cs"
    by (rule driver_serve_effect)
  with assms(1) driver_serve_typed(2) [OF assms(2,3)] show ?thesis
    by (cases ev) auto
qed

lemma events_return:
  assumes "edk2_documented K" "driver_typed E P s" "\<forall>ev \<in> set evs. allowed E s ev"
    and "\<forall>a. offered E FlashBlockIoProtocol a s \<longrightarrow> a + media_offset E \<noteq> 0"
    and "asserts_enabled E \<longrightarrow> (\<forall>n. \<not> EFI_ERROR (service_status E n))"
  shows "\<exists>t. run_requests (driver_serve E K L debug) evs s = Ret t \<and> driver_typed E P t \<and>
    (\<forall>p a. offered E p a t = offered E p a s)"
  using assms(2-4)
proof (induction evs arbitrary: s)
  case (Cons ev evs)
  obtain s1 where s1: "driver_serve E K L debug ev s = Ret s1"
    using event_returns [OF assms(1) Cons.prems(1) _ Cons.prems(3) assms(5)] Cons.prems(2) by fastforce
  note typed = driver_serve_typed [OF Cons.prems(1) s1]
  have "\<forall>ev \<in> set evs. allowed E s1 ev"
    using Cons.prems(2) allowed_kept [OF _ Cons.prems(1) s1] by simp
  from Cons.IH [OF typed(1) this] Cons.prems(3) s1 typed(2) show ?case by simp
qed simp

lemma handler_returns:
  assumes "driver_typed E P s" "offered E p a s"
  shows "\<exists>s'. run_handler conv h s = Ret s'"
proof (cases h)
  case NorFlashVirtualNotify
  obtain I where I: "a \<noteq> 0" "heap s a = Some I" "mNorFlashDeviceCount s = 1" "mNorFlashInstances s \<noteq> 0"
      "cells s (mNorFlashInstances s) = Some a"
    using assms by (auto simp: driver_typed_def)
  then have "\<forall>i < unat (mNorFlashDeviceCount s).
      load_cell s (array_cell (mNorFlashInstances s) i) = Ret a \<and> a \<noteq> 0 \<and> heap s a \<noteq> None"
    by (simp add: load_cell_Ret array_cell_def)
  from NorFlashVirtualNotifyEvent_effect [where addr = "\<lambda>_. a", OF this] I show ?thesis
    by (simp add: NorFlashVirtualNotify)
qed simp

lemma handlers_return:
  "driver_typed E P s \<Longrightarrow> offered E p a s \<Longrightarrow> \<exists>s'. run_requests (run_handler conv) hs s = Ret s'"
proof (induction hs arbitrary: s)
  case (Cons h hs)
  obtain s1 where s1: "run_handler conv h s = Ret s1"
    using handler_returns [OF Cons.prems] by blast
  have "driver_typed E P s1" "offered E p a s1"
    using run_handler_typed [OF s1] Cons.prems offered_unchanged [of s1 s E p a] by simp_all
  from Cons.IH [OF this] s1 show ?case by simp
qed simp

section \<open>What a block keeps\<close>

text \<open>
  An event leaves a block of the volume alone when none of its bytes is among those the request may
  change. The block is named by its number in the volume; Block I/O and Disk I/O count from the
  start of the device.
\<close>

fun event_leaves :: "u64 \<Rightarrow> nor_flash_instance \<Rightarrow> u64 \<Rightarrow> driver_event \<Rightarrow> bool" where
  "event_leaves a I lba (MemoryInit i) = True"
| "event_leaves a I lba (FvbCall b r) = (b = a \<and> buffer_ok r \<and> names_volume I r \<and> leaves_block I lba r)"
| "event_leaves a I lba (BlockIoCall b r) = (b = a \<and> block_buffer_ok r \<and>
     (\<forall>j < bsize I. \<not> block_io_touches I r ((unat (StartLba I) + unat lba) * bsize I + j)))"
| "event_leaves a I lba (DiskIoCall b r) = (b = a \<and> disk_buffer_ok r \<and>
     (\<forall>j < bsize I. \<not> disk_io_touches I r ((unat (StartLba I) + unat lba) * bsize I + j)))"

lemma block_bytes_device:
  "block_bytes I lba (volume_of I v) = read_range v ((unat (StartLba I) + unat lba) * bsize I) (bsize I)"
  using read_volume_of [of I v "unat lba" 0 "bsize I"] by (simp add: block_bytes_def)

lemma block_bytes_same:
  assumes "\<And>j. j < bsize I \<Longrightarrow> v' ((unat (StartLba I) + unat lba) * bsize I + j) =
      v ((unat (StartLba I) + unat lba) * bsize I + j)"
  shows "block_bytes I lba (volume_of I v') = block_bytes I lba (volume_of I v)"
  unfolding block_bytes_device by (rule nth_equalityI) (use assms in \<open>simp_all add: read_range_def\<close>)

lemma memory_init_flash:
  "FlashMemoryInitEventNotify E r s = Ret s' \<Longrightarrow> dmach s' = dmach s \<and> heap s' = heap s"
  by (erule memory_init_effect) simp

lemma event_keeps_block:
  assumes "edk2_documented K" "nor_flash_contract L c" "volume_fits I" "instance_typed E P a I"
    and "a + media_offset E \<noteq> 0" "heap s a = Some I"
    and "event_leaves a I lba ev" "driver_serve E K L debug ev s = Ret s'"
  shows "block_bytes I lba (volume_of I (c (flash (dmach s')))) = block_bytes I lba (volume_of I (c (flash (dmach s))))"
proof (cases ev)
  case (MemoryInit i)
  with assms(8) memory_init_flash show ?thesis by fastforce
next
  case (FvbCall b r)
  with assms(6-8) obtain d where d: "fvb_serve L I r (flash (dmach s)) = Ret d" "s' = with_flash d s"
    and r: "buffer_ok r" "names_volume I r" "leaves_block I lba r"
    by (auto simp: on_instance_Ret)
  then obtain out where "fvb_call L I r (flash (dmach s)) = Ret (out, d)"
    by (auto simp: fvb_serve_call obind_Ret_iff)
  with assms(2,3) r(1,2) have "volume_step I r (volume_of I (c (flash (dmach s)))) out (volume_of I (c d))"
    by (intro volume.call_step) auto
  from step_keeps_block [OF this r(3)] show ?thesis
    by (simp add: d(2))
next
  case (BlockIoCall b r)
  with assms(6-8) obtain d where d: "block_io_serve L debug (media_at E s) I r (flash (dmach s)) = Ret d"
      "s' = with_flash d s"
    and r: "block_buffer_ok r" "\<forall>j < bsize I. \<not> block_io_touches I r ((unat (StartLba I) + unat lba) * bsize I + j)"
    by (auto simp: on_instance_Ret)
  show ?thesis
    by (rule block_bytes_same)
      (use block_io_serve_outside [OF assms(2) typed_linked [OF assms(4,6,5)] r(1) d(1)] r(2) d(2) in simp)
next
  case (DiskIoCall b r)
  with assms(6-8) obtain d where d: "disk_io_serve K L I r (flash (dmach s)) = Ret d" "s' = with_flash d s"
    and r: "disk_buffer_ok r" "\<forall>j < bsize I. \<not> disk_io_touches I r ((unat (StartLba I) + unat lba) * bsize I + j)"
    by (auto simp: on_instance_Ret)
  have "BlockSize (Media I) \<noteq> 0"
    using assms(4) by (simp add: instance_typed_def)
  then show ?thesis
    by (intro block_bytes_same)
      (use disk_io_serve_outside [OF assms(1,2) _ r(1) d(1)] r(2) d(2) in simp)
qed

interpretation traffic: request_server "driver_serve E K L debug"
    "\<lambda>ev. (edk2_documented K \<and> nor_flash_contract L c \<and> volume_fits I \<and> instance_typed E P a I \<and>
       a + media_offset E \<noteq> 0) \<and> event_leaves a I lba ev"
    "\<lambda>s s'. heap s a = Some I \<longrightarrow> heap s' a = Some I \<and>
       block_bytes I lba (volume_of I (c (flash (dmach s')))) = block_bytes I lba (volume_of I (c (flash (dmach s))))"
  for E K L debug c I P a lba
proof unfold_locales
  fix ev s s'
  assume "(edk2_documented K \<and> nor_flash_contract L c \<and> volume_fits I \<and> instance_typed E P a I \<and>
      a + media_offset E \<noteq> 0) \<and> event_leaves a I lba ev"
    and step: "driver_serve E K L debug ev s = Ret s'"
  moreover from step have "heap s' = heap s"
    by (rule driver_serve_effect)
  ultimately show "heap s a = Some I \<longrightarrow> heap s' a = Some I \<and>
      block_bytes I lba (volume_of I (c (flash (dmach s')))) = block_bytes I lba (volume_of I (c (flash (dmach s))))"
    using event_keeps_block by fastforce
qed auto

section \<open>Properties\<close>

text \<open>C6: the driver's table is well typed for ever. After the entry point has returned, with whatever
  status, and after any events in any order and the address change, an address at which a
  protocol is offered is the one in the pointer array, as its only device, and holds an instance whose geometry is the
  one of the device table and the configuration, whose media is present and writable, and whose
  media pointer is the address that its own media structure has during boot, also after the address change, which does not
  convert this pointer.\<close>

theorem driver_state_typed:
  assumes "driver_reached E K P L debug changed s" "offered E p a s"
  shows "cells s (mNorFlashInstances s) = Some a \<and> mNorFlashDeviceCount s = 1 \<and>
    (\<exists>I. heap s a = Some I \<and> instance_typed E P a I)"
  using reached_typed [OF assms(1)] assms(2) unfolding driver_typed_def by blast

text \<open>C5: no event faults. From every state that a boot and any events lead to before the address change,
  every sequence of requests to offered protocols whose buffers are as long as they say (and whose
  erase lists are terminated), and of memory notifications, is served to its end without undefined
  behaviour or a failed assertion; and if an instance is offered, the address change after it
  returns. The service calls may fail, unless assertions are compiled in.\<close>

theorem driver_never_faults:
  assumes "edk2_documented K" "driver_reached E K P L debug False s" "\<forall>ev \<in> set evs. allowed E s ev"
    and "\<forall>a. offered E FlashBlockIoProtocol a s \<longrightarrow> a + media_offset E \<noteq> 0"
    and "asserts_enabled E \<longrightarrow> (\<forall>n. \<not> EFI_ERROR (service_status E n))"
  shows "\<exists>t. run_requests (driver_serve E K L debug) evs s = Ret t \<and>
    ((\<exists>p a. offered E p a s) \<longrightarrow> (\<exists>u. address_change E conv t = Ret u))"
  using events_return [OF assms(1) reached_typed [OF assms(2)] assms(3-5), of L debug] handlers_return [of E P _ _ _ conv]
  unfolding address_change_def by metis

text \<open>A variable survives the traffic of all protocols. In a state that a boot and any events lead to,
  bytes written inside one block of the volume by a volume write that does not fail are what a
  volume read of them that succeeds returns, after any sequence of events that leave the block
  alone: memory notifications, requests to the volume, block and disk requests on the rest of
  the device, in any order and with any outcome.\<close>

theorem driver_write_survives:
  assumes "edk2_documented K" "nor_flash_contract L c" "driver_reached E K P L debug False s"
    and "offered E FirmwareVolumeBlockProtocol a s" "heap s a = Some I" "a + media_offset E \<noteq> 0" "volume_fits I"
    and "lba < Blocks I" "unat num \<le> length buf" "unat num \<le> length rbuf"
    and "fvb_call L I (WriteRequest lba off num buf) (flash (dmach s)) = Ret (WriteReply ws wn, d)" "\<not> EFI_ERROR ws"
    and "\<forall>ev \<in> set evs. event_leaves a I lba ev"
    and "run_requests (driver_serve E K L debug) evs (with_flash d s) = Ret t"
    and "fvb_call L I (ReadRequest lba off num rbuf) (flash (dmach t)) = Ret (ReadReply EFI_SUCCESS rn rbuf', d')"
  shows "wn = unat num \<and> rn = unat num \<and> take (unat num) rbuf' = take (unat num) buf"
proof -
  have typed: "instance_typed E P a I"
    using reached_typed [OF assms(3)] assms(4,5) unfolding driver_typed_def by fastforce
  have w: "volume_step I (WriteRequest lba off num buf) (volume_of I (c (flash (dmach s)))) (WriteReply ws wn)
      (volume_of I (c d))"
    using assms(2,7-9,11) by (intro volume.call_step) simp_all
  have r: "volume_step I (ReadRequest lba off num rbuf) (volume_of I (c (flash (dmach t))))
      (ReadReply EFI_SUCCESS rn rbuf') (volume_of I (c d'))"
    using assms(2,7,8,10,15) by (intro volume.call_step) simp_all
  have "block_bytes I lba (volume_of I (c (flash (dmach t)))) = block_bytes I lba (volume_of I (c d))"
    using traffic.run_keeps [OF assms(14), of c I P a lba] assms(1,2,5-7,13) typed by simp
  from write_then_read [OF w assms(12) this r assms(9)] show ?thesis .
qed

section \<open>Witnesses\<close>

text \<open>The board after its boot: all protocols of the instance at 0x9000 are offered.\<close>

lemma orion_booted:
  obtains s I where "driver_reached orion_env doc_edk2 orion_o6_pcds array_lib True False s"
    "\<forall>p \<in> set (instance_protocols True). offered orion_env p 0x9000 s" "heap s 0x9000 = Some I"
    "instance_typed orion_env orion_o6_pcds 0x9000 I" "volume_fits I"
    "\<forall>a p. offered orion_env p a s \<longrightarrow> a = 0x9000" "RegisterProtocolNotify 0 \<in> set (calls s)"
    "registered_handlers orion_env s = [FvbVirtualNotify, NorFlashVirtualNotify]"
proof -
  obtain bytes d where bytes: "default_headers doc_edk2 orion_o6_pcds orion_instance = Ret bytes"
    and content: "read_range d (unat (NvStorageVariableBase orion_o6_pcds)) HeadersLength = bytes"
    by (rule orion_formatted) (simp add: orion_base)
  have start: "NorFlashPlatformInitialization orion_env (flash (dmach (orion_start v))) = (EFI_SUCCESS, v)" for v
    by (simp add: orion_env_ok)
  have reads: "\<forall>J buf. Size J = 0x800000 \<and> BlockSize (Media J) = 0x1000 \<and>
      StartLba J = NvStorageVariableBase orion_o6_pcds div 0x1000
      \<longrightarrow> \<not> EFI_ERROR (fst (NorFlashRead array_lib J (StartLba J) 0 (of_nat HeadersLength) buf d))"
    using orion_reads by blast
  obtain s where boot: "NorFlashInitialise orion_env doc_edk2 orion_o6_pcds array_lib (orion_start d) = Ret (EFI_SUCCESS, s)"
    and log: "calls s = [RegisterProtocolNotify 0, InstallNvVarStoreFormatted,
        CreateAddressChangeEvent FvbVirtualNotify, InstallProtocols 0x9000 (instance_protocols True),
        CreateAddressChangeEvent NorFlashVirtualNotify]"
    using boot_publishes [where c = "\<lambda>d. d", OF doc_edk2_documented array_lib_contract orion_env_ok(1,2) start
        orion_start_simps(2) orion_layout_ok bytes content reads, unfolded orion_start_simps]
    by auto
  have reached: "driver_reached orion_env doc_edk2 orion_o6_pcds array_lib True False s"
    by (rule driver_reached.entry [OF orion_start_simps(3) boot])
  have offers: "\<forall>p \<in> set (instance_protocols True). offered orion_env p 0x9000 s"
    by (auto simp: offered_iff log intro!: exI [of _ 3])
  then have "offered orion_env FlashBlockIoProtocol 0x9000 s"
    by (simp add: instance_protocols_def)
  then obtain I where I: "heap s 0x9000 = Some I" "instance_typed orion_env orion_o6_pcds 0x9000 I"
    and cell: "cells s (mNorFlashInstances s) = Some 0x9000"
    using reached_typed [OF reached] unfolding driver_typed_def by blast
  have "\<forall>a p. offered orion_env p a s \<longrightarrow> a = 0x9000"
    using reached_typed [OF reached] cell unfolding driver_typed_def by auto
  moreover have "volume_fits I"
    using I(2) by (simp add: instance_typed_def volume_fits_def orion_base orion_volume_size)
  moreover have "RegisterProtocolNotify 0 \<in> set (calls s)"
    unfolding log by simp
  moreover have "registered_handlers orion_env s = [FvbVirtualNotify, NorFlashVirtualNotify]"
    by (simp add: registered_handlers_def log)
  ultimately show ?thesis
    using reached offers I by (intro that)
qed

theorem driver_state_typed_witness:
  "\<exists>s I. driver_reached orion_env doc_edk2 orion_o6_pcds array_lib True True s \<and>
     cells s (mNorFlashInstances s) = Some 0x9000 \<and> heap s 0x9000 = Some I \<and>
     instance_typed orion_env orion_o6_pcds 0x9000 I"
proof -
  obtain s where s: "driver_reached orion_env doc_edk2 orion_o6_pcds array_lib True False s"
    and offers: "\<forall>p \<in> set (instance_protocols True). offered orion_env p 0x9000 s"
    by (rule orion_booted)
  then have o: "offered orion_env FlashBlockIoProtocol 0x9000 s"
    by (simp add: instance_protocols_def)
  obtain t where t: "address_change orion_env (\<lambda>x. x + 0x1000) s = Ret t"
    using handlers_return [OF reached_typed [OF s] o] unfolding address_change_def by blast
  have reached: "driver_reached orion_env doc_edk2 orion_o6_pcds array_lib True True t"
    by (rule driver_reached.virtual [OF s t])
  have "offered orion_env FlashBlockIoProtocol 0x9000 t"
    using o offered_unchanged [OF address_change_typed(1) [OF t]] by simp
  from driver_state_typed [OF reached this] reached show ?thesis by blast
qed

theorem driver_never_faults_witness:
  "\<exists>s t u. driver_reached orion_env doc_edk2 orion_o6_pcds array_lib True False s \<and>
     run_requests (driver_serve orion_env doc_edk2 array_lib True)
       [MemoryInit 0, FvbCall 0x9000 (EraseRequest [2, 1, EFI_LBA_LIST_TERMINATOR]), BlockIoCall 0x9000 (BlkResetRequest True)] s
       = Ret t \<and> address_change orion_env (\<lambda>x. x + 0x1000) t = Ret u"
proof -
  obtain s where s: "driver_reached orion_env doc_edk2 orion_o6_pcds array_lib True False s"
    and offers: "\<forall>p \<in> set (instance_protocols True). offered orion_env p 0x9000 s"
    and only: "\<forall>a p. offered orion_env p a s \<longrightarrow> a = 0x9000" and reg: "RegisterProtocolNotify 0 \<in> set (calls s)"
    by (rule orion_booted)
  then have o: "offered orion_env FlashBlockIoProtocol 0x9000 s" "offered orion_env FirmwareVolumeBlockProtocol 0x9000 s"
    by (simp_all add: instance_protocols_def)
  have "\<exists>t. run_requests (driver_serve orion_env doc_edk2 array_lib True)
       [MemoryInit 0, FvbCall 0x9000 (EraseRequest [2, 1, EFI_LBA_LIST_TERMINATOR]), BlockIoCall 0x9000 (BlkResetRequest True)] s
       = Ret t \<and> ((\<exists>p a. offered orion_env p a s) \<longrightarrow> (\<exists>u. address_change orion_env (\<lambda>x. x + 0x1000) t = Ret u))"
  proof (rule driver_never_faults [OF doc_edk2_documented s])
    show "\<forall>ev \<in> set [MemoryInit 0, FvbCall 0x9000 (EraseRequest [2, 1, EFI_LBA_LIST_TERMINATOR]),
        BlockIoCall 0x9000 (BlkResetRequest True)]. allowed orion_env s ev"
      using o reg by (simp add: mNorFlashDevices_def EFI_LBA_LIST_TERMINATOR_def)
    show "\<forall>a. offered orion_env FlashBlockIoProtocol a s \<longrightarrow> a + media_offset orion_env \<noteq> 0"
      using only by fastforce
  qed simp
  with s o show ?thesis by blast
qed

text \<open>A write through the volume protocol, then a disk write and an erase elsewhere, then the read.\<close>

lemma typed_transfers:
  assumes "instance_typed orion_env orion_o6_pcds a I"
  shows "fvb_call array_lib I (WriteRequest 2 0x10 4 [1, 2, 3, 4]) v =
      Ret (WriteReply EFI_SUCCESS 4, write_range v 0x382010 [1, 2, 3, 4])"
    and "fvb_call array_lib I (ReadRequest 2 0x10 4 [0, 0, 0, 0]) v =
      Ret (ReadReply EFI_SUCCESS 4 (read_range v 0x382010 4), v)"
  using assms
  by (simp_all add: instance_typed_def orion_base FvbWrite_def FvbRead_def array_lib_def array_write_def
      array_read_def in_device_def flash_addr_def)

theorem driver_write_survives_witness:
  "\<exists>s I t rbuf. driver_reached orion_env doc_edk2 orion_o6_pcds array_lib True False s \<and> heap s 0x9000 = Some I \<and>
     run_requests (driver_serve orion_env doc_edk2 array_lib True)
       [DiskIoCall 0x9000 (DskWriteRequest 0 0x100000 4 [9, 9, 9, 9]),
        FvbCall 0x9000 (EraseRequest [5, 3, EFI_LBA_LIST_TERMINATOR])]
       (with_flash (write_range (flash (dmach s)) 0x382010 [1, 2, 3, 4]) s) = Ret t \<and>
     fvb_call array_lib I (ReadRequest 2 0x10 4 [0, 0, 0, 0]) (flash (dmach t)) = Ret (ReadReply EFI_SUCCESS 4 rbuf, flash (dmach t)) \<and>
     take 4 rbuf = [1, 2, 3, 4]"
proof -
  obtain s I where s: "driver_reached orion_env doc_edk2 orion_o6_pcds array_lib True False s"
    and offers: "\<forall>p \<in> set (instance_protocols True). offered orion_env p 0x9000 s"
    and I: "heap s 0x9000 = Some I" and typed: "instance_typed orion_env orion_o6_pcds 0x9000 I" and fits: "volume_fits I"
    and only: "\<forall>a p. offered orion_env p a s \<longrightarrow> a = 0x9000"
    by (rule orion_booted)
  then have o: "offered orion_env FlashDiskIoProtocol 0x9000 s" "offered orion_env FirmwareVolumeBlockProtocol 0x9000 s"
    by (simp_all add: instance_protocols_def)
  let ?evs = "[DiskIoCall 0x9000 (DskWriteRequest 0 0x100000 4 [9, 9, 9, 9]),
        FvbCall 0x9000 (EraseRequest [5, 3, EFI_LBA_LIST_TERMINATOR])]"
  define s1 where "s1 = with_flash (write_range (flash (dmach s)) 0x382010 [1, 2, 3, 4]) s"
  have same: "offered orion_env p a s1 = offered orion_env p a s" for p a
    by (rule offered_unchanged) (simp add: s1_def)
  have typed1: "driver_typed orion_env orion_o6_pcds s1"
    by (rule typed_frame [OF reached_typed [OF s]]) (simp_all add: s1_def same [unfolded s1_def])
  have "\<forall>ev \<in> set ?evs. allowed orion_env s1 ev"
    using o by (simp add: same EFI_LBA_LIST_TERMINATOR_def)
  moreover have "\<forall>a. offered orion_env FlashBlockIoProtocol a s1 \<longrightarrow> a + media_offset orion_env \<noteq> 0"
    using only same by fastforce
  ultimately obtain t where t: "run_requests (driver_serve orion_env doc_edk2 array_lib True) ?evs s1 = Ret t"
    using events_return [OF doc_edk2_documented typed1, of ?evs array_lib True] by auto
  have geometry: "bsize I = 0x1000" "StartLba I = 0x380" "Blocks I = 0x78"
    using typed by (simp_all add: instance_typed_def orion_base orion_volume_size)
  have leaves: "\<forall>ev \<in> set ?evs. event_leaves 0x9000 I 2 ev"
    using geometry by (simp add: EFI_LBA_LIST_TERMINATOR_def no_wrap_def touched_def)
  have "(4 :: nat) = unat (4 :: u64) \<and> (4 :: nat) = unat (4 :: u64) \<and>
      take (unat (4 :: u64)) (read_range (flash (dmach t)) 0x382010 4) = take (unat (4 :: u64)) [1, 2, 3, 4]"
    by (rule driver_write_survives [OF doc_edk2_documented array_lib_contract s o(2) I _ fits _ _ _
          typed_transfers(1) [OF typed] _ leaves t [unfolded s1_def] typed_transfers(2) [OF typed]])
      (simp_all add: geometry)
  then have "take 4 (read_range (flash (dmach t)) 0x382010 4) = [1, 2, 3, 4]"
    by simp
  with s I t typed_transfers(2) [OF typed] show ?thesis
    unfolding s1_def by blast
qed

end
