(* ===== verification/Nor_Flash_Virtual.thy ===== *)
theory Nor_Flash_Virtual
  imports Nor_Flash_Runtime
begin

text \<open>
  The firmware volume protocol as its client sees it, before and after the operating system has
  switched to virtual addresses. A client calls through the function pointers of the protocol
  interface (NorFlashFvb.h declares their functions), so a call only reaches the driver's code if
  the pointer holds the address at which the code then is. After the switch the boot services
  and the other two protocols are gone; what is left is the volume, for the variable driver.
\<close>

section \<open>Calls through the interface\<close>

text \<open>
  The seven functions of the protocol with their arguments; an argument that is written through a
  pointer is the old contents of its target.
\<close>

datatype fvb_operation =
    GetAttributes
  | SetAttributes u32
  | GetPhysicalAddress u64
  | GetBlockSize u64 "u64 \<times> u64"
  | Transfer fvb_request

datatype fvb_result =
    Attributes efi_status u32
  | PhysicalAddress efi_status u64
  | BlockRun efi_status "u64 \<times> u64"
  | Transferred fvb_reply

fun fvb_function :: "fvb_operation \<Rightarrow> driver_function" where
  "fvb_function GetAttributes = Fn_FvbGetAttributes"
| "fvb_function (SetAttributes attributes) = Fn_FvbSetAttributes"
| "fvb_function (GetPhysicalAddress address) = Fn_FvbGetPhysicalAddress"
| "fvb_function (GetBlockSize lba out) = Fn_FvbGetBlockSize"
| "fvb_function (Transfer (ReadRequest lba off num buf)) = Fn_FvbRead"
| "fvb_function (Transfer (WriteRequest lba off num buf)) = Fn_FvbWrite"
| "fvb_function (Transfer (EraseRequest args)) = Fn_FvbEraseBlocks"

fun fvb_member :: "fvb_operation \<Rightarrow> efi_fvb_protocol \<Rightarrow> u64" where
  "fvb_member GetAttributes F = FvpGetAttributes F"
| "fvb_member (SetAttributes attributes) F = FvpSetAttributes F"
| "fvb_member (GetPhysicalAddress address) F = FvpGetPhysicalAddress F"
| "fvb_member (GetBlockSize lba out) F = FvpGetBlockSize F"
| "fvb_member (Transfer (ReadRequest lba off num buf)) F = FvpRead F"
| "fvb_member (Transfer (WriteRequest lba off num buf)) F = FvpWrite F"
| "fvb_member (Transfer (EraseRequest args)) F = FvpEraseBlocks F"

fun fvb_perform ::
  "edk2 \<Rightarrow> 'd nor_flash_lib \<Rightarrow> nor_flash_instance \<Rightarrow> fvb_operation \<Rightarrow> 'd \<Rightarrow> (fvb_result \<times> 'd) outcome" where
  "fvb_perform K L I GetAttributes d = (case FvbGetAttributes K I of (s, x) \<Rightarrow> Ret (Attributes s x, d))"
| "fvb_perform K L I (SetAttributes x) d = (case FvbSetAttributes x of (s, x) \<Rightarrow> Ret (Attributes s x, d))"
| "fvb_perform K L I (GetPhysicalAddress x) d =
     (case FvbGetPhysicalAddress x of (s, x) \<Rightarrow> Ret (PhysicalAddress s x, d))"
| "fvb_perform K L I (GetBlockSize lba out) d =
     (case FvbGetBlockSize I lba out of (s, out) \<Rightarrow> Ret (BlockRun s out, d))"
| "fvb_perform K L I (Transfer r) d = obind (fvb_call L I r d) (\<lambda>(out, d). Ret (Transferred out, d))"

text \<open>
  A call on the instance at \<open>a\<close>. \<open>reloc\<close> says where the memory at an address is found now: at itself
  during boot, at its virtual address after the switch. Calling a pointer that is not the current
  address of the function is undefined.
\<close>

definition client_call ::
  "'d boot_env \<Rightarrow> edk2 \<Rightarrow> 'd nor_flash_lib \<Rightarrow> (u64 \<Rightarrow> u64) \<Rightarrow> u64 \<Rightarrow> fvb_operation \<Rightarrow> 'd driver \<Rightarrow>
     (fvb_result \<times> 'd driver) outcome" where
  "client_call E K L reloc a op s = obind (load_instance s a) (\<lambda>I.
     if fvb_member op (FvbProtocol I) = reloc (function_address E (fvb_function op))
     then obind (fvb_perform K L I op (flash (dmach s))) (\<lambda>(res, d). Ret (res, with_flash d s))
     else Undef)"

section \<open>The states after the switch\<close>

inductive runtime_reached ::
  "'d boot_env \<Rightarrow> edk2 \<Rightarrow> nv_pcds \<Rightarrow> 'd nor_flash_lib \<Rightarrow> bool \<Rightarrow> (u64 \<Rightarrow> u64) \<Rightarrow> 'd driver \<Rightarrow> bool"
  for E K P L debug conv where
  switched: "driver_reached E K P L debug False s \<Longrightarrow> address_change E conv s = Ret s' \<Longrightarrow>
    runtime_reached E K P L debug conv s'"
| called: "runtime_reached E K P L debug conv s \<Longrightarrow> offered E FirmwareVolumeBlockProtocol a s \<Longrightarrow>
    client_call E K L conv a op s = Ret (res, s') \<Longrightarrow> runtime_reached E K P L debug conv s'"

text \<open>The entry point registered its handler of the address change.\<close>

abbreviation converts :: "'d boot_env \<Rightarrow> 'd driver \<Rightarrow> bool" where
  "converts E s \<equiv> NorFlashVirtualNotify \<in> set (registered_handlers E s)"

text \<open>Both phases in one: the driver serves clients at the addresses \<open>reloc\<close>.\<close>

definition driver_serving ::
  "'d boot_env \<Rightarrow> edk2 \<Rightarrow> nv_pcds \<Rightarrow> 'd nor_flash_lib \<Rightarrow> bool \<Rightarrow> (u64 \<Rightarrow> u64) \<Rightarrow> 'd driver \<Rightarrow> bool" where
  "driver_serving E K P L debug reloc s \<longleftrightarrow>
     driver_reached E K P L debug False s \<and> reloc = (\<lambda>x. x) \<or>
     runtime_reached E K P L debug reloc s \<and> converts E s"

definition driver_virtual :: "'d boot_env \<Rightarrow> edk2 \<Rightarrow> nv_pcds \<Rightarrow> (u64 \<Rightarrow> u64) \<Rightarrow> 'd driver \<Rightarrow> bool" where
  "driver_virtual E K P conv s \<longleftrightarrow> (\<forall>p a. offered E p a s \<longrightarrow> a \<noteq> 0 \<and> (\<exists>b h. b \<noteq> 0 \<and>
     heap s a = Some (if converts E s then convert_instance conv (boot_instance E K P a b h)
       else boot_instance E K P a b h)))"

section \<open>What the switch does\<close>

lemma convert_instance_simps [simp]:
  "Media (convert_instance conv I) = Media I" "Blocks (convert_instance conv I) = Blocks I"
  "StartLba (convert_instance conv I) = StartLba I" "Size (convert_instance conv I) = Size I"
  by (simp_all add: convert_instance_def)

text \<open>The handlers convert the one instance once if theirs is among them, and only touch the driver's memory.\<close>

lemma handlers_effect:
  assumes "run_requests (run_handler conv) hs s = Ret u" "distinct hs"
    and "a \<noteq> 0" "heap s a = Some I" "mNorFlashDeviceCount s = 1" "mNorFlashInstances s \<noteq> 0"
      "cells s (mNorFlashInstances s) = Some a"
  shows "heap u a = Some (if NorFlashVirtualNotify \<in> set hs then convert_instance conv I else I) \<and>
    dmach u = dmach s \<and> calls u = calls s"
  using assms
proof (induction hs arbitrary: s I)
  case (Cons h hs)
  show ?case
  proof (cases h)
    case FvbVirtualNotify
    with Cons.prems(1) have "run_requests (run_handler conv) hs
        (s\<lparr>mFlashNvStorageVariableBase := FvbVirtualNotifyEvent conv (mFlashNvStorageVariableBase s)\<rparr>) = Ret u"
      by simp
    from Cons.IH [OF this] Cons.prems(2-) FvbVirtualNotify show ?thesis by simp
  next
    case NorFlashVirtualNotify
    have "\<forall>i < unat (mNorFlashDeviceCount s).
        load_cell s (array_cell (mNorFlashInstances s) i) = Ret a \<and> a \<noteq> 0 \<and> heap s a \<noteq> None"
      using Cons.prems by (simp add: load_cell_Ret array_cell_def)
    from NorFlashVirtualNotifyEvent_effect [where addr = "\<lambda>_. a", OF this, of conv]
    obtain g where g: "run_handler conv h s = Ret (s\<lparr>heap := g\<rparr>)" "g a = Some (convert_instance conv I)"
      using Cons.prems(4,5) NorFlashVirtualNotify by auto
    with Cons.prems(1) have "run_requests (run_handler conv) hs (s\<lparr>heap := g\<rparr>) = Ret u"
      by simp
    from Cons.IH [OF this, of "convert_instance conv I"] Cons.prems(2-) g(2) NorFlashVirtualNotify show ?thesis
      by simp
  qed
qed simp

lemma address_change_effect:
  assumes "driver_booted E K P s" "address_change E conv s = Ret u" "offered E p a s" "heap s a = Some I"
  shows "heap u a = Some (if converts E s then convert_instance conv I else I)" "dmach u = dmach s"
    "calls u = calls s"
  using assms handlers_effect [of conv "registered_handlers E s" s u a I]
  unfolding driver_booted_def address_change_def by auto

lemma client_call_Ret:
  "client_call E K L reloc a op s = Ret (res, s') \<longleftrightarrow>
     (\<exists>I d. a \<noteq> 0 \<and> heap s a = Some I \<and> fvb_member op (FvbProtocol I) = reloc (function_address E (fvb_function op)) \<and>
       fvb_perform K L I op (flash (dmach s)) = Ret (res, d) \<and> s' = with_flash d s)"
  by (auto simp: client_call_def obind_Ret_iff load_instance_Ret)

lemma switched_virtual:
  assumes "driver_booted E K P s" "address_change E conv s = Ret u"
  shows "driver_virtual E K P conv u"
  unfolding driver_virtual_def
proof (intro allI impI)
  fix p a
  note calls = address_change_typed(1) [OF assms(2)]
  assume "offered E p a u"
  then have offered: "offered E p a s"
    using offered_unchanged [OF calls] by blast
  then obtain b h where I: "a \<noteq> 0" "b \<noteq> 0" "heap s a = Some (boot_instance E K P a b h)"
    using assms(1) unfolding driver_booted_def by blast
  with address_change_effect(1) [OF assms offered I(3)] handlers_unchanged [OF calls, of E]
  show "a \<noteq> 0 \<and> (\<exists>b h. b \<noteq> 0 \<and> heap u a = Some (if converts E u
      then convert_instance conv (boot_instance E K P a b h) else boot_instance E K P a b h))"
    by auto
qed

lemma with_flash_virtual: "driver_virtual E K P conv s \<Longrightarrow> driver_virtual E K P conv (with_flash d s)"
  using offered_unchanged [of "with_flash d s" s E] handlers_unchanged [of "with_flash d s" s E]
  by (simp add: driver_virtual_def)

lemma runtime_virtual: "runtime_reached E K P L debug conv s \<Longrightarrow> driver_virtual E K P conv s"
proof (induction rule: runtime_reached.induct)
  case (switched s s')
  show ?case
    by (rule switched_virtual [OF reached_booted [OF switched(1)] switched(2)])
next
  case (called s a op res s')
  then show ?case
    by (auto simp: client_call_Ret intro: with_flash_virtual)
qed

section \<open>Every pointer of the interface is current\<close>

lemma boot_member:
  "fvb_member op (FvbProtocol (boot_instance E K P a b h)) = function_address E (fvb_function op)"
  by (cases op rule: fvb_function.cases)
    (simp_all add: boot_instance_def located_instance_def fresh_instance_def mNorFlashInstanceTemplate_def Let_def)

lemma convert_member: "fvb_member op (FvbProtocol (convert_instance conv I)) = conv (fvb_member op (FvbProtocol I))"
  by (cases op rule: fvb_function.cases) (simp_all add: convert_instance_def)

definition pointers_current :: "'d boot_env \<Rightarrow> (u64 \<Rightarrow> u64) \<Rightarrow> nor_flash_instance \<Rightarrow> bool" where
  "pointers_current E reloc I \<longleftrightarrow>
     (\<forall>op. fvb_member op (FvbProtocol I) = reloc (function_address E (fvb_function op)))"

lemma boot_current: "pointers_current E (\<lambda>x. x) (boot_instance E K P a b h)"
  by (simp add: pointers_current_def boot_member)

lemma convert_current: "pointers_current E conv (convert_instance conv (boot_instance E K P a b h))"
  by (simp add: pointers_current_def convert_member boot_member)

text \<open>In both phases an offered instance has the geometry the entry point gave it, and current pointers.\<close>

lemma serving_instance:
  assumes "driver_serving E K P L debug reloc s" "offered E p a s"
  obtains I where "a \<noteq> 0" "heap s a = Some I" "instance_typed E P a I"
    "pointers_current E reloc I"
proof -
  from assms(1) consider "driver_reached E K P L debug False s" "reloc = (\<lambda>x. x)"
    | "runtime_reached E K P L debug reloc s" "converts E s"
    unfolding driver_serving_def by blast
  then show ?thesis
  proof cases
    case 1
    then obtain b h where "a \<noteq> 0" "heap s a = Some (boot_instance E K P a b h)"
      using reached_booted assms(2) unfolding driver_booted_def by blast
    with 1 show ?thesis
      by (intro that [of "boot_instance E K P a b h"]) (simp_all add: boot_instance_typed boot_current)
  next
    case 2
    then obtain b h where "a \<noteq> 0" "heap s a = Some (convert_instance reloc (boot_instance E K P a b h))"
      using runtime_virtual [OF 2(1)] assms(2) unfolding driver_virtual_def by fastforce
    then show ?thesis
      by (intro that [of "convert_instance reloc (boot_instance E K P a b h)"])
        (simp_all add: convert_instance_typed boot_instance_typed convert_current)
  qed
qed

lemma client_call_perform:
  assumes "a \<noteq> 0" "heap s a = Some I" "pointers_current E reloc I"
  shows "client_call E K L reloc a op s =
    obind (fvb_perform K L I op (flash (dmach s))) (\<lambda>(res, d). Ret (res, with_flash d s))"
  using assms by (simp add: client_call_def load_instance_def pointers_current_def)

lemma with_flash_same [simp]: "with_flash (flash (dmach s)) s = s"
  by (simp add: with_flash_def)

lemma with_flash_twice [simp]: "with_flash d (with_flash d' s) = with_flash d s"
  by (simp add: with_flash_def)

text \<open>A run of calls is a run of the protocol's functions on the flash.\<close>

lemma client_run:
  assumes "a \<noteq> 0" "heap s a = Some I" "pointers_current E reloc I"
  shows "run_replies (\<lambda>r. client_call E K L reloc a (Transfer r)) rs s =
    obind (run_replies (fvb_call L I) rs (flash (dmach s))) (\<lambda>(outs, d). Ret (map Transferred outs, with_flash d s))"
  using assms(2)
proof (induction rs arbitrary: s)
  case (Cons r rs)
  have call: "client_call E K L reloc a (Transfer r) s =
      obind (fvb_call L I r (flash (dmach s))) (\<lambda>(out, d). Ret (Transferred out, with_flash d s))"
    using client_call_perform [where op = "Transfer r", OF assms(1) Cons.prems assms(3)]
    by (cases "fvb_call L I r (flash (dmach s))") auto
  show ?case
  proof (cases "fvb_call L I r (flash (dmach s))")
    case (Ret x)
    obtain out d where x: "x = (out, d)"
      by (cases x)
    have "run_replies (\<lambda>r. client_call E K L reloc a (Transfer r)) rs (with_flash d s) =
        obind (run_replies (fvb_call L I) rs d) (\<lambda>(outs, e). Ret (map Transferred outs, with_flash e s))"
      using Cons.IH [of "with_flash d s"] Cons.prems by simp
    then show ?thesis
      using Ret x call by (cases "run_replies (fvb_call L I) rs d") auto
  qed (simp_all add: call)
qed simp

text \<open>The conversion changes no fact on the volume.\<close>

lemma convert_volume [simp]:
  "volume_of (convert_instance conv I) = volume_of I" "block_bytes (convert_instance conv I) = block_bytes I"
  "volume_fits (convert_instance conv I) = volume_fits I"
  "names_volume (convert_instance conv I) r = names_volume I r"
  "leaves_block (convert_instance conv I) lba r = leaves_block I lba r"
  by (cases r; simp add: volume_of_def block_bytes_def volume_fits_def fun_eq_iff)+

section \<open>Properties\<close>

text \<open>C7: the switch leaves current pointers. In every state after the switch to virtual addresses, if the
  driver's handler was registered, an offered instance has all function pointers of its three
  protocols, its two base addresses and its shadow buffer at the virtual addresses, each converted
  exactly once; the one pointer left behind is the media pointer of the Block I/O protocol.\<close>

theorem runtime_pointers_current:
  assumes "runtime_reached E K P L debug conv s" "converts E s" "offered E p a s"
  shows "\<exists>I b. heap s a = Some I \<and> pointers_current E conv I \<and>
    BlockIoProtocol I = \<lparr>BlkRevision = EFI_BLOCK_IO_PROTOCOL_REVISION2 E, BlkMedia = a + media_offset E,
      BlkReset = conv (function_address E Fn_NorFlashBlockIoReset),
      BlkReadBlocks = conv (function_address E Fn_NorFlashBlockIoReadBlocks),
      BlkWriteBlocks = conv (function_address E Fn_NorFlashBlockIoWriteBlocks),
      BlkFlushBlocks = conv (function_address E Fn_NorFlashBlockIoFlushBlocks)\<rparr> \<and>
    DiskIoProtocol I = \<lparr>DskRevision = EFI_DISK_IO_PROTOCOL_REVISION E,
      DskReadDisk = conv (function_address E Fn_NorFlashDiskIoReadDisk),
      DskWriteDisk = conv (function_address E Fn_NorFlashDiskIoWriteDisk)\<rparr> \<and>
    DeviceBaseAddress I = conv (XSPI_FLASH_DIRECT_MMIO_ADDR E) \<and>
    RegionBaseAddress I = conv (NvStorageVariableBase P + XSPI_FLASH_DIRECT_MMIO_ADDR E) \<and>
    b \<noteq> 0 \<and> ShadowBuffer I = conv b"
proof -
  obtain b h where b: "b \<noteq> 0" and I: "heap s a = Some (convert_instance conv (boot_instance E K P a b h))"
    using runtime_virtual [OF assms(1)] assms(2,3) unfolding driver_virtual_def by fastforce
  have "pointers_current E conv (convert_instance conv (boot_instance E K P a b h))"
    by (rule convert_current)
  moreover have "ShadowBuffer (boot_instance E K P a b h) = b"
    by (simp add: boot_instance_def)
  ultimately show ?thesis
    using I b
    by (intro exI [of _ "convert_instance conv (boot_instance E K P a b h)"] exI [of _ b])
      (simp add: convert_instance_def boot_instance_def located_instance_def fresh_instance_def
        mNorFlashInstanceTemplate_def Let_def)
qed


text \<open>C4: clients see the abstract volume in both phases. Any sequence of reads, writes and terminated
  erases that a client makes through the interface of an offered volume is served to its end,
  before as, if the handler of the address change was registered, after the switch. If the requests name blocks of the volume, the replies
  are those of a run of the abstract volume, from the bytes in flash before to those after.\<close>

theorem client_refines_volume:
  assumes "driver_serving E K P L debug reloc s" "offered E FirmwareVolumeBlockProtocol a s"
    and "\<forall>r \<in> set rs. request_terminated r"
  shows "\<exists>I outs t. heap s a = Some I \<and>
    run_replies (\<lambda>r. client_call E K L reloc a (Transfer r)) rs s = Ret (map Transferred outs, t) \<and>
    (nor_flash_contract L c \<and> volume_fits I \<and> (\<forall>r \<in> set rs. buffer_ok r \<and> names_volume I r) \<longrightarrow>
       spec_run (volume_step I) rs (volume_of I (c (flash (dmach s)))) outs (volume_of I (c (flash (dmach t)))))"
proof -
  obtain I where I: "a \<noteq> 0" "heap s a = Some I"
    and members: "pointers_current E reloc I"
    by (rule serving_instance [OF assms(1,2)])
  have "\<exists>outs d. run_replies (fvb_call L I) rs (flash (dmach s)) = Ret (outs, d)"
    by (rule run_replies_returns) (rule fvb_call_returns, use assms(3) in simp)
  then obtain outs d where run: "run_replies (fvb_call L I) rs (flash (dmach s)) = Ret (outs, d)"
    by blast
  have "run_replies (\<lambda>r. client_call E K L reloc a (Transfer r)) rs s = Ret (map Transferred outs, with_flash d s)"
    using client_run [OF I members] run by simp
  moreover have "spec_run (volume_step I) rs (volume_of I (c (flash (dmach s)))) outs (volume_of I (c d))"
    if "nor_flash_contract L c \<and> volume_fits I \<and> (\<forall>r \<in> set rs. buffer_ok r \<and> names_volume I r)"
    by (rule volume.run_refines [OF run]) (use that in simp)
  ultimately show ?thesis
    using I(2) by (intro exI [of _ I] exI [of _ outs] exI [of _ "with_flash d s"]) simp
qed

text \<open>C21: the interface describes the volume as its header does. In both phases the attributes and the run
  of blocks from the first one are those of the header that InitializeFvAndVariableStoreHeaders
  writes for the instance; blocks past the end are refused; setting attributes and asking for a
  physical address return \<open>EFI_UNSUPPORTED\<close> and leave the caller's memory alone, although the comment above
  FvbSetAttributes documents that it sets them. No call changes the driver. After the switch this
  holds if the handler of the address change was registered.\<close>

theorem volume_described:
  assumes "driver_serving E K P L debug reloc s" "offered E FirmwareVolumeBlockProtocol a s" "heap s a = Some I"
  shows "client_call E K L reloc a GetAttributes s =
      Ret (Attributes EFI_SUCCESS (FvAttributes (default_fv_header K P I)), s) \<and>
    client_call E K L reloc a (GetBlockSize lba out) s =
      Ret (if lba < Blocks I then BlockRun EFI_SUCCESS (0x1000, Blocks I - lba)
           else BlockRun EFI_INVALID_PARAMETER out, s) \<and>
    BlockMap (default_fv_header K P I) = [(ucast (Blocks I), 0x1000), (0, 0)] \<and>
    u32_to_u64 (ucast (Blocks I)) = Blocks I \<and>
    client_call E K L reloc a (SetAttributes x) s = Ret (Attributes EFI_UNSUPPORTED x, s) \<and>
    client_call E K L reloc a (GetPhysicalAddress y) s = Ret (PhysicalAddress EFI_UNSUPPORTED y, s)"
proof -
  obtain J where J: "a \<noteq> 0" "heap s a = Some J" "instance_typed E P a J"
    and "pointers_current E reloc J"
    by (rule serving_instance [OF assms(1,2)])
  with assms(3) have I: "a \<noteq> 0" "instance_typed E P a I"
    and members: "pointers_current E reloc I"
    by simp_all
  note perform = client_call_perform [OF I(1) assms(3) members]
  have typed: "\<not> ReadOnly (Media I)" "BlockSize (Media I) = 0x1000"
      "Blocks I = u32_to_u64 (nv_storage_size P div 0x1000)"
    using I(2) by (simp_all add: instance_typed_def)
  have "FvbGetAttributes K I = (EFI_SUCCESS, FvAttributes (default_fv_header K P I))"
    using typed(1) by (simp add: FvbGetAttributes_def default_fv_header_def default_attributes_def or.assoc)
  moreover have "u32_to_u64 (ucast (Blocks I)) = Blocks I"
    unfolding typed(3) by simp
  ultimately show ?thesis
    using typed(2)
    by (simp add: perform FvbGetBlockSize_def FvbSetAttributes_def FvbGetPhysicalAddress_def default_fv_header_def linorder_not_less)
qed

text \<open>C3: a variable written at boot is there for the operating system. Bytes written through the volume's
  interface during boot, inside one block and by a write that does not fail, are what a read that succeeds
  returns through the interface after the switch to virtual addresses, if its handler was registered, whatever happens in
  between: events of the boot phase and, after the switch, requests of the operating
  system, in any number and with any outcome, that leave the block alone.\<close>

theorem variable_reaches_runtime:
  assumes "edk2_documented K" "nor_flash_contract L c" "driver_reached E K P L debug False s" "converts E s"
    and "offered E FirmwareVolumeBlockProtocol a s" "heap s a = Some I" "a + media_offset E \<noteq> 0" "volume_fits I"
    and "lba < Blocks I" "unat num \<le> length buf" "unat num \<le> length rbuf"
    and "client_call E K L (\<lambda>x. x) a (Transfer (WriteRequest lba off num buf)) s =
           Ret (Transferred (WriteReply ws wn), s1)" "\<not> EFI_ERROR ws"
    and "\<forall>ev \<in> set evs. event_leaves a I lba ev" "run_requests (driver_serve E K L debug) evs s1 = Ret t"
    and "address_change E conv t = Ret u"
    and "\<forall>r \<in> set rs. buffer_ok r \<and> names_volume I r \<and> leaves_block I lba r"
    and "run_replies (\<lambda>r. client_call E K L conv a (Transfer r)) rs u = Ret (outs, v)"
    and "client_call E K L conv a (Transfer (ReadRequest lba off num rbuf)) v =
           Ret (Transferred (ReadReply EFI_SUCCESS rn rbuf'), w)"
  shows "wn = unat num \<and> rn = unat num \<and> take (unat num) rbuf' = take (unat num) buf"
proof -
  have booted: "driver_booted E K P s"
    by (rule reached_booted [OF assms(3)])
  then obtain b h where I: "I = boot_instance E K P a b h" and "a \<noteq> 0"
    using assms(5,6) unfolding driver_booted_def by fastforce
  then have typed: "instance_typed E P a I"
    by (simp add: boot_instance_typed)
  obtain d where w: "fvb_call L I (WriteRequest lba off num buf) (flash (dmach s)) = Ret (WriteReply ws wn, d)"
    and s1: "s1 = with_flash d s"
    using assms(6,12) by (auto simp: client_call_Ret obind_Ret_iff)
  let ?J = "convert_instance conv I" and ?v = "\<lambda>s. volume_of I (c (flash (dmach s)))"
  have "heap s1 = heap s" "driver_booted E K P s1" "offered E FirmwareVolumeBlockProtocol a s1" "converts E s1"
    using booted assms(4,5) offered_unchanged [of s1 s E] handlers_unchanged [of s1 s E]
    by (simp_all add: s1 driver_booted_def)
  with boot_events.run_keeps [OF assms(15), of P] assms(6)
  have t: "driver_booted E K P t" "heap t a = Some I" "offered E FirmwareVolumeBlockProtocol a t" "converts E t"
    by simp_all
  with address_change_effect [OF t(1) assms(16) t(3,2)] have u: "heap u a = Some ?J" "dmach u = dmach t"
    by simp_all
  have members: "pointers_current E conv ?J"
    unfolding I by (rule convert_current)
  obtain reps e where run: "run_replies (fvb_call L ?J) rs (flash (dmach u)) = Ret (reps, e)" and v: "v = with_flash e u"
    using assms(18) unfolding client_run [OF \<open>a \<noteq> 0\<close> u(1) members] by (auto simp: obind_Ret_iff)
  obtain x where r: "fvb_call L ?J (ReadRequest lba off num rbuf) e = Ret (ReadReply EFI_SUCCESS rn rbuf', x)"
    using assms(19) u(1) by (auto simp: client_call_Ret obind_Ret_iff v)
  have "volume_step I (WriteRequest lba off num buf) (?v s) (WriteReply ws wn) (?v s1)"
    using volume.call_step [OF _ w, of c] assms(2,8-10) by (simp add: s1)
  moreover have "block_bytes I lba (?v t) = block_bytes I lba (?v s1)"
    using traffic.run_keeps [OF assms(15), of c I P a lba] assms(1,2,6-8,14) typed by (simp add: s1)
  moreover have "spec_run (volume_step ?J) rs (?v t) reps (volume_of I (c e))"
    using volume.run_refines [OF run, of c] assms(2,8,17) u(2) by simp
  then have "block_bytes I lba (volume_of I (c e)) = block_bytes I lba (?v t)"
    using run_keeps_block [of ?J rs _ reps _ lba] assms(17) by simp
  moreover have "volume_step ?J (ReadRequest lba off num rbuf) (volume_of I (c e)) (ReadReply EFI_SUCCESS rn rbuf')
      (volume_of I (c x))"
    using volume.call_step [OF _ r, of c] assms(2,8,9,11) by simp
  then have "volume_step I (ReadRequest lba off num rbuf) (volume_of I (c e)) (ReadReply EFI_SUCCESS rn rbuf')
      (volume_of I (c x))"
    by (rule volume_step_geometry) simp_all
  ultimately show ?thesis
    using write_then_read [OF _ assms(13) _ _ assms(10)] by metis
qed

section \<open>Witnesses\<close>

text \<open>The board after the switch, at an offset of one page.\<close>

abbreviation page_up :: "u64 \<Rightarrow> u64" where
  "page_up x \<equiv> x + 0x1000"

lemma orion_switched:
  obtains s u where "driver_reached orion_env doc_edk2 orion_o6_pcds array_lib True False s"
    "address_change orion_env page_up s = Ret u" "runtime_reached orion_env doc_edk2 orion_o6_pcds array_lib True page_up u"
    "converts orion_env u" "offered orion_env FirmwareVolumeBlockProtocol 0x9000 u"
proof -
  obtain s I where s: "driver_reached orion_env doc_edk2 orion_o6_pcds array_lib True False s"
    and offers: "\<forall>p \<in> set (instance_protocols True). offered orion_env p 0x9000 s"
    and handlers: "registered_handlers orion_env s = [FvbVirtualNotify, NorFlashVirtualNotify]"
    by (rule orion_booted)
  then have o: "offered orion_env FirmwareVolumeBlockProtocol 0x9000 s"
    by (simp add: instance_protocols_def)
  obtain u where u: "address_change orion_env page_up s = Ret u"
    using handlers_return [OF reached_typed [OF s] o] unfolding address_change_def by blast
  note calls = address_change_typed(1) [OF u]
  show ?thesis
    using handlers handlers_unchanged [OF calls, of orion_env] o offered_unchanged [OF calls, of orion_env]
    by (intro that [OF s u runtime_reached.switched [OF s u]]) simp_all
qed

theorem runtime_pointers_current_witness:
  "\<exists>u I. runtime_reached orion_env doc_edk2 orion_o6_pcds array_lib True page_up u \<and> heap u 0x9000 = Some I \<and>
     FvpRead (FvbProtocol I) = 0x8000 \<and> BlkMedia (BlockIoProtocol I) = 0x9028 \<and> RegionBaseAddress I = 0x10381000"
proof -
  obtain s u where u: "runtime_reached orion_env doc_edk2 orion_o6_pcds array_lib True page_up u"
    "converts orion_env u" "offered orion_env FirmwareVolumeBlockProtocol 0x9000 u"
    by (rule orion_switched)
  from runtime_pointers_current [OF this] obtain I where I: "heap u 0x9000 = Some I" "pointers_current orion_env page_up I"
      "BlkMedia (BlockIoProtocol I) = 0x9028"
      "RegionBaseAddress I = page_up (NvStorageVariableBase orion_o6_pcds + 0x10000000)"
    by auto
  have "fvb_member (Transfer (ReadRequest 0 0 0 [])) (FvbProtocol I) = page_up (function_address orion_env Fn_FvbRead)"
    using I(2) unfolding pointers_current_def by (metis fvb_function.simps(5))
  then have "FvpRead (FvbProtocol I) = 0x8000"
    by (simp add: orion_env_def)
  with u I show ?thesis
    by (auto simp: orion_base)
qed

theorem client_refines_volume_witness:
  "\<exists>u I outs t. heap u 0x9000 = Some I \<and>
     run_replies (\<lambda>r. client_call orion_env doc_edk2 array_lib page_up 0x9000 (Transfer r))
       [WriteRequest 2 0x10 4 [1, 2, 3, 4], EraseRequest [5, 3, EFI_LBA_LIST_TERMINATOR]] u = Ret (map Transferred outs, t)"
proof -
  obtain s u where "runtime_reached orion_env doc_edk2 orion_o6_pcds array_lib True page_up u"
    "converts orion_env u" "offered orion_env FirmwareVolumeBlockProtocol 0x9000 u"
    by (rule orion_switched)
  then have "driver_serving orion_env doc_edk2 orion_o6_pcds array_lib True page_up u"
    "offered orion_env FirmwareVolumeBlockProtocol 0x9000 u"
    by (simp_all add: driver_serving_def)
  from client_refines_volume [OF this, of "[WriteRequest 2 0x10 4 [1, 2, 3, 4], EraseRequest [5, 3, EFI_LBA_LIST_TERMINATOR]]"
      "\<lambda>d. d"]
  show ?thesis by (auto simp: EFI_LBA_LIST_TERMINATOR_def)
qed

theorem volume_described_witness:
  "\<exists>u. client_call orion_env doc_edk2 array_lib page_up 0x9000 (GetBlockSize 0x70 (0, 0)) u =
       Ret (BlockRun EFI_SUCCESS (0x1000, 8), u) \<and>
     client_call orion_env doc_edk2 array_lib page_up 0x9000 (GetBlockSize 0x78 (7, 7)) u =
       Ret (BlockRun EFI_INVALID_PARAMETER (7, 7), u)"
proof -
  obtain s u where u: "runtime_reached orion_env doc_edk2 orion_o6_pcds array_lib True page_up u"
    "converts orion_env u" "offered orion_env FirmwareVolumeBlockProtocol 0x9000 u"
    by (rule orion_switched)
  then have serving: "driver_serving orion_env doc_edk2 orion_o6_pcds array_lib True page_up u"
    by (simp add: driver_serving_def)
  obtain I where I: "heap u 0x9000 = Some I" "instance_typed orion_env orion_o6_pcds 0x9000 I"
    by (rule serving_instance [OF serving u(3)])
  then have "Blocks I = 0x78"
    by (simp add: instance_typed_def orion_volume_size)
  then show ?thesis
    using volume_described [OF serving u(3) I(1), where lba = "0x70" and out = "(0, 0)"]
      volume_described [OF serving u(3) I(1), where lba = "0x78" and out = "(7, 7)"] by auto
qed



theorem variable_reaches_runtime_witness:
  "\<exists>s t u rbuf. client_call orion_env doc_edk2 array_lib (\<lambda>x. x) 0x9000 (Transfer (WriteRequest 2 0x10 4 [1, 2, 3, 4])) s =
       Ret (Transferred (WriteReply EFI_SUCCESS 4), t) \<and>
     address_change orion_env page_up t = Ret u \<and>
     client_call orion_env doc_edk2 array_lib page_up 0x9000 (Transfer (ReadRequest 2 0x10 4 [0, 0, 0, 0])) u =
       Ret (Transferred (ReadReply EFI_SUCCESS 4 rbuf), u) \<and> take 4 rbuf = [1, 2, 3, 4]"
proof -
  obtain s I where s: "driver_reached orion_env doc_edk2 orion_o6_pcds array_lib True False s"
    and offers: "\<forall>p \<in> set (instance_protocols True). offered orion_env p 0x9000 s"
    and I: "heap s 0x9000 = Some I" and typed: "instance_typed orion_env orion_o6_pcds 0x9000 I" and fits: "volume_fits I"
    and handlers: "registered_handlers orion_env s = [FvbVirtualNotify, NorFlashVirtualNotify]"
    by (rule orion_booted)
  then have o: "offered orion_env FirmwareVolumeBlockProtocol 0x9000 s" and cv: "converts orion_env s"
    by (simp_all add: instance_protocols_def)
  have booted: "driver_booted orion_env doc_edk2 orion_o6_pcds s"
    by (rule reached_booted [OF s])
  then obtain b h where boot: "I = boot_instance orion_env doc_edk2 orion_o6_pcds 0x9000 b h"
    using I o unfolding driver_booted_def by fastforce
  define t where "t = with_flash (write_range (flash (dmach s)) 0x382010 [1, 2, 3, 4]) s"
  have writes: "client_call orion_env doc_edk2 array_lib (\<lambda>x. x) 0x9000 (Transfer (WriteRequest 2 0x10 4 [1, 2, 3, 4])) s =
      Ret (Transferred (WriteReply EFI_SUCCESS 4), t)"
    using client_call_perform [OF _ I, of orion_env "\<lambda>x. x" doc_edk2 array_lib] typed_transfers(1) [OF typed]
    by (simp add: boot boot_current t_def)
  have tb: "driver_booted orion_env doc_edk2 orion_o6_pcds t" and ot: "offered orion_env FirmwareVolumeBlockProtocol 0x9000 t"
    and ct: "converts orion_env t" and It: "heap t 0x9000 = Some I"
    using booted o cv I offered_unchanged [of t s orion_env] handlers_unchanged [of t s orion_env]
    by (simp_all add: t_def driver_booted_def)
  obtain u where u: "address_change orion_env page_up t = Ret u"
    using handlers_return [OF booted_typed [OF tb] ot] unfolding address_change_def by blast
  let ?J = "convert_instance page_up I"
  have J: "heap u 0x9000 = Some ?J" "pointers_current orion_env page_up ?J" "instance_typed orion_env orion_o6_pcds 0x9000 ?J"
    using address_change_effect(1) [OF tb u ot It] ct typed by (simp_all add: boot convert_current convert_instance_typed)
  have read: "client_call orion_env doc_edk2 array_lib page_up 0x9000 (Transfer (ReadRequest 2 0x10 4 [0, 0, 0, 0])) u =
      Ret (Transferred (ReadReply EFI_SUCCESS 4 (read_range (flash (dmach u)) 0x382010 4)), u)"
    using client_call_perform [OF _ J(1,2), of doc_edk2 array_lib] typed_transfers(2) [OF J(3)] by simp
  have blocks: "Blocks I = 0x78"
    using typed by (simp add: instance_typed_def orion_volume_size)
  have "(4 :: nat) = unat (4 :: u64) \<and> (4 :: nat) = unat (4 :: u64) \<and>
      take (unat (4 :: u64)) (read_range (flash (dmach u)) 0x382010 4) = take (unat (4 :: u64)) [1, 2, 3, 4]"
    by (rule variable_reaches_runtime [where evs = "[]" and rs = "[]", OF doc_edk2_documented array_lib_contract s cv o I _ fits
          _ _ _ writes _ _ _ u _ _ read]) (simp_all add: blocks)
  then have "take 4 (read_range (flash (dmach u)) 0x382010 4) = [1, 2, 3, 4]"
    by simp
  with writes u read show ?thesis by blast
qed

end
