(* ===== verification/Flash_Image.thy ===== *)
theory Flash_Image
  imports Nor_Flash_Virtual
begin

text \<open>
  The image of the flash that the bootchain is packaged into, common/spi_flash_config_all.json: which
  file goes where in the 8 MB that the driver serves. The variable volume is one of the images,
  filled with a file of erased bytes (Makefile), so what the driver and its clients do to the flash
  can be stated against the images around it, and so can the first boot after flashing. The tool
  that packages the image is a submodule; what is used of it is that an image holds its file.
\<close>

section \<open>The configuration\<close>

record image_header =
  image_type :: nat
  address :: nat
  image_bytes :: nat
  image_file :: string

record flash_config =
  cfs_version :: nat
  fip_version :: nat
  align_size :: nat
  flash_size :: nat
  ec_addr :: nat
  firmware_header_addr :: nat
  sec_debug_addr :: nat
  xip_addr :: nat
  ec_file :: string
  sec_debug_file :: string
  xip_file :: string
  image_count :: nat
  image_header_groups :: "image_header list"

definition image_header_of :: "nat \<Rightarrow> nat \<Rightarrow> nat \<Rightarrow> string \<Rightarrow> image_header" where
  "image_header_of t a n f = \<lparr>image_type = t, address = a, image_bytes = n, image_file = f\<rparr>"

definition spi_flash_config_all :: flash_config where
  "spi_flash_config_all =
     \<lparr>cfs_version = 1, fip_version = 1234, align_size = 4096, flash_size = 0x800000,
      ec_addr = 0x10000, firmware_header_addr = 0x100000, sec_debug_addr = 0x107000, xip_addr = 0x108000,
      ec_file = ''ec_fw.bin'', sec_debug_file = [], xip_file = ''dummy.bin'', image_count = 8,
      image_header_groups =
        [image_header_of 1 0x188000 0x100000 ''bootloader1.img'',
         image_header_of 2 0x288000 0x0F8000 ''bootloader2.img'',
         image_header_of 100 0x380000 0x78000 ''dummy.bin'',
         image_header_of 3 0x3F8000 0x4000 ''memory_config.bin'',
         image_header_of 4 0x3FC000 0x1000 ''csu_pm_config.bin'',
         image_header_of 6 0x3FD000 0x1000 ''se_config.bin'',
         image_header_of 7 0x3FE000 0x402000 ''bootloader3.img'',
         image_header_of 8 0x101000 0x6000 ''sfh_fw.bin'']\<rparr>"

text \<open>\<^verbatim>\<open>dummy.bin\<close>, which the Makefile writes: 8192 erased bytes.\<close>

definition dummy_bin :: "u8 list" where
  "dummy_bin = replicate 8192 0xFF"

definition in_flash_image :: "image_header \<Rightarrow> nat \<Rightarrow> bool" where
  "in_flash_image h i \<longleftrightarrow> address h \<le> i \<and> i < address h + image_bytes h"

text \<open>An image of another file.\<close>

definition other_image :: "image_header \<Rightarrow> bool" where
  "other_image h \<longleftrightarrow> h \<in> set (image_header_groups spi_flash_config_all) \<and> image_file h \<noteq> ''dummy.bin''"

lemma other_images: "other_image h \<Longrightarrow> in_flash_image h i \<Longrightarrow> \<not> (0x380000 \<le> i \<and> i < 0x3F8000)"
  by (auto simp: other_image_def in_flash_image_def spi_flash_config_all_def image_header_of_def)

section \<open>The volume in the image\<close>

lemma orion_in_volume:
  assumes "instance_typed E orion_o6_pcds a I"
  shows "in_volume I i \<longleftrightarrow> 0x380000 \<le> i \<and> i < 0x3F8000" "volume_fits I" "Blocks I = 0x78"
  using assms by (simp_all add: instance_typed_def in_volume_def volume_fits_def orion_base orion_volume_size)

text \<open>What a run of calls with replies keeps is what the same requests keep without.\<close>

lemma calls_reach:
  assumes "run_replies (fvb_call L I) rs d = Ret (outs, d')" "\<forall>r \<in> set rs. ok r"
  shows "reaches (fvb_serve L I) ok d d'"
  using assms
proof (induction rs arbitrary: d outs)
  case Nil
  then show ?case by (simp add: reaches.start)
next
  case (Cons r rs)
  then obtain out outs' e where r: "fvb_call L I r d = Ret (out, e)" and rs: "run_replies (fvb_call L I) rs e = Ret (outs', d')"
    by (auto simp: obind_Ret_iff)
  have "reaches (fvb_serve L I) ok e d'"
    by (rule Cons.IH [OF rs]) (use Cons.prems in simp)
  moreover have "fvb_serve L I r d = Ret e"
    by (simp add: fvb_serve_call r)
  ultimately show ?case
    using Cons.prems(2) reaches_first [of ok r "fvb_serve L I" d e d'] by simp
qed

lemma client_calls_outside:
  assumes "nor_flash_contract L c" "volume_fits I" "a \<noteq> 0" "heap s a = Some I" "pointers_current E reloc I"
    and "\<forall>r \<in> set rs. buffer_ok r \<and> names_volume I r"
    and "run_replies (\<lambda>r. client_call E K L reloc a (Transfer r)) rs s = Ret (outs, t)" "\<not> in_volume I i"
  shows "c (flash (dmach t)) i = c (flash (dmach s)) i"
proof -
  obtain replies d where run: "run_replies (fvb_call L I) rs (flash (dmach s)) = Ret (replies, d)" and t: "t = with_flash d s"
    using assms(7) unfolding client_run [OF assms(3-5)] by (auto simp: obind_Ret_iff)
  have "addresses_volume I r" if "names_volume I r" for r
    using that by (cases r) simp_all
  then have "reaches (fvb_serve L I) (\<lambda>r. buffer_ok r \<and> addresses_volume I r) (flash (dmach s)) d"
    using calls_reach [OF run, of "\<lambda>r. buffer_ok r \<and> addresses_volume I r"] assms(6) by blast
  from isolated_volume.reaches_keeps [where L = L and c = c and I = I and d = "flash (dmach s)" and d' = d] this assms(1,2,8)
  show ?thesis by (simp add: t)
qed

section \<open>Starting on headers that are not valid\<close>

lemma NorFlashFvbInitialize_stops:
  assumes "a \<noteq> 0" "heap s a = Some I" "BlockSize (Media I) \<noteq> 0"
    and "GetBootModeHob E \<noteq> BOOT_WITH_DEFAULT_SETTINGS E"
    and "ValidateFvHeader K P L (located_instance P I) (dmach s) = Ret (st, m)" "EFI_ERROR st"
  shows "NorFlashFvbInitialize E K P L a s = Ret (st,
    s\<lparr>mFlashNvStorageVariableBase := NvStorageVariableBase P + DeviceBaseAddress I,
      heap := (heap s)(a \<mapsto> located_instance P I), dmach := m\<rparr>)"
  using assms
  by (simp add: NorFlashFvbInitialize_def load_instance_def Let_def) (simp add: located_instance_def Let_def)

lemma NorFlashCreateInstance_without_volume:
  assumes "slot \<noteq> 0" "bs \<noteq> 0" "alloc s = (a, s1)" "a \<noteq> 0" "alloc s1 = (b, s2)" "b \<noteq> 0"
    and "GetBootModeHob E \<noteq> BOOT_WITH_DEFAULT_SETTINGS E" "\<not> EFI_ERROR (service_status E (length (calls s)))"
    and "I = located_instance P (fresh_instance E K a base n i bs\<lparr>ShadowBuffer := b\<rparr>)"
    and "ValidateFvHeader K P L I (dmach s2) = Ret (st, m)" "EFI_ERROR st"
  shows "NorFlashCreateInstance E K P L base rb n i bs slot s =
    Ret (service_status E (length (calls s)),
      s2\<lparr>mFlashNvStorageVariableBase := NvStorageVariableBase P + base,
        heap := (heap s)(a \<mapsto> I\<lparr>Handle := service_handle E (length (calls s))\<rparr>), dmach := m,
        cells := (cells s)(slot \<mapsto> a), calls := calls s @ [InstallProtocols a (instance_protocols False)]\<rparr>)"
proof -
  let ?F = "fresh_instance E K a base n i bs\<lparr>ShadowBuffer := b\<rparr>"
  have frames: "heap s2 = heap s" "cells s2 = cells s" "calls s2 = calls s"
    using alloc_simps [of s] alloc_simps [of s1] assms(3,5) by simp_all
  have "NorFlashFvbInitialize E K P L a (s2\<lparr>heap := (heap s2)(a \<mapsto> ?F)\<rparr>) = Ret (st,
    s2\<lparr>heap := (heap s2)(a \<mapsto> ?F)\<rparr>
     \<lparr>mFlashNvStorageVariableBase := NvStorageVariableBase P + base,
      heap := (heap s2)(a \<mapsto> ?F, a \<mapsto> located_instance P ?F), dmach := m\<rparr>)"
    by (subst NorFlashFvbInitialize_stops [where I = ?F and m = m and st = st])
      (use assms(2,4,7,9-11) frames in simp_all)
  with assms(1-6,8,9,11) frames show ?thesis
    by (simp add: NorFlashCreateInstance_def load_instance_def call_service_def)
qed

text \<open>Erased bytes are no header: the length they hold is not that of any volume.\<close>

lemma erased_header:
  assumes "56 \<le> n"
  shows "check_fv_header K P (replicate n 0xFF) = Ret EFI_NOT_FOUND"
proof -
  have "slice 32 8 (replicate n 0xFF :: u8 list) = [0xFF, 0xFF, 0xFF, 0xFF, 0xFF, 0xFF, 0xFF, 0xFF]"
    using assms by (simp add: slice_def min_def numeral_eq_Suc)
  then have "load64 32 (replicate n 0xFF) = 0xFFFFFFFFFFFFFFFF"
    by (simp add: load64_def)
  moreover have "u32_to_u64 x \<noteq> 0xFFFFFFFFFFFFFFFF" for x
  proof
    assume "u32_to_u64 x = 0xFFFFFFFFFFFFFFFF"
    then have "unat (u32_to_u64 x) = unat (0xFFFFFFFFFFFFFFFF :: u64)"
      by (rule arg_cong)
    then show False
      using unat_bound [of x] by simp
  qed
  ultimately show ?thesis
    by (simp add: check_fv_header_def parse_fv_header_def Let_def)
qed

section \<open>Properties\<close>

text \<open>The volume is its image. In the packaged image the files lie in the flash, aligned and without
  overlap, and the flash has the size of the device that the driver serves. In both phases the bytes of
  the volume that the driver offers are exactly those of the image that is packaged erased.\<close>

theorem volume_is_its_image:
  assumes "driver_serving E K orion_o6_pcds L debug reloc s" "offered E FirmwareVolumeBlockProtocol a s"
    and "heap s a = Some I"
  shows "unat (Size I) = flash_size spi_flash_config_all \<and>
    (in_volume I i \<longleftrightarrow> (\<exists>h \<in> set (image_header_groups spi_flash_config_all).
       image_file h = ''dummy.bin'' \<and> in_flash_image h i)) \<and>
    length (filter (\<lambda>h. in_flash_image h i) (image_header_groups spi_flash_config_all)) \<le> 1 \<and>
    (\<forall>h \<in> set (image_header_groups spi_flash_config_all).
       align_size spi_flash_config_all dvd address h \<and> address h + image_bytes h \<le> flash_size spi_flash_config_all)"
proof -
  from serving_instance [OF assms(1,2)] assms(3) have typed: "instance_typed E orion_o6_pcds a I"
    by (metis option.inject)
  show ?thesis
  proof (intro conjI)
    show "unat (Size I) = flash_size spi_flash_config_all"
      using typed by (simp add: instance_typed_def spi_flash_config_all_def)
    show "in_volume I i \<longleftrightarrow> (\<exists>h \<in> set (image_header_groups spi_flash_config_all). image_file h = ''dummy.bin'' \<and> in_flash_image h i)"
      unfolding orion_in_volume(1) [OF typed]
      by (simp add: spi_flash_config_all_def image_header_of_def in_flash_image_def)
    show "length (filter (\<lambda>h. in_flash_image h i) (image_header_groups spi_flash_config_all)) \<le> 1"
      by (simp add: spi_flash_config_all_def image_header_of_def in_flash_image_def)
    show "\<forall>h \<in> set (image_header_groups spi_flash_config_all). align_size spi_flash_config_all dvd address h \<and>
        address h + image_bytes h \<le> flash_size spi_flash_config_all"
      by (simp add: spi_flash_config_all_def image_header_of_def)
  qed
qed

text \<open>C8: variables spare the firmware. On this board, before as after the switch to virtual addresses (if its handler was registered), no
  sequence of requests that clients make through the volume's interface, with any outcome, changes a byte
  of another image in the flash, as long as the requests name blocks of the volume.\<close>

theorem variables_spare_images:
  assumes "nor_flash_contract L c" "driver_serving E K orion_o6_pcds L debug reloc s"
    and "offered E FirmwareVolumeBlockProtocol a s" "heap s a = Some I"
    and "\<forall>r \<in> set rs. buffer_ok r \<and> names_volume I r"
    and "run_replies (\<lambda>r. client_call E K L reloc a (Transfer r)) rs s = Ret (outs, t)"
    and "other_image h" "in_flash_image h i"
  shows "c (flash (dmach t)) i = c (flash (dmach s)) i"
proof -
  obtain J where J: "a \<noteq> 0" "heap s a = Some J" "instance_typed E orion_o6_pcds a J" "pointers_current E reloc J"
    by (rule serving_instance [OF assms(2,3)])
  with assms(4) have I: "a \<noteq> 0" "instance_typed E orion_o6_pcds a I" "pointers_current E reloc I"
    by simp_all
  have "\<not> in_volume I i"
    using other_images [OF assms(7,8)] orion_in_volume(1) [OF I(2)] by simp
  with client_calls_outside [OF assms(1) orion_in_volume(2) [OF I(2)] I(1) assms(4) I(3) assms(5,6)] show ?thesis .
qed

text \<open>C10: the first boot after flashing has no variables. When the flash holds the packaged image, the headers can
  be read and services and allocations succeed, the entry point succeeds and leaves the flash as it is, but
  installs only the other protocols: the firmware volume is not offered and its readers are not told
  that it is formatted, until something other than this driver has written the headers.\<close>

theorem packaged_flash_has_no_volume:
  assumes "nor_flash_contract L c" "calls s = []" "\<forall>n. service_status E n = EFI_SUCCESS"
    and "GetBootModeHob E \<noteq> BOOT_WITH_DEFAULT_SETTINGS E"
    and "NorFlashPlatformInitialization E (flash (dmach s)) = (EFI_SUCCESS, d)"
    and "\<forall>n. pool_addr (mpool (dmach s)) n \<noteq> 0"
    and "h \<in> set (image_header_groups spi_flash_config_all)" "image_file h = ''dummy.bin''"
    and "read_range (c d) (address h) (length dummy_bin) = dummy_bin"
    and "\<forall>J buf. Size J = 0x800000 \<and> BlockSize (Media J) = 0x1000 \<and> StartLba J = 0x380
           \<longrightarrow> \<not> EFI_ERROR (fst (NorFlashRead L J (StartLba J) 0 (of_nat HeadersLength) buf d))"
  shows "\<exists>s' a. NorFlashInitialise E K orion_o6_pcds L s = Ret (EFI_SUCCESS, s') \<and>
    calls s' = [RegisterProtocolNotify 0, InstallProtocols a (instance_protocols False),
      CreateAddressChangeEvent NorFlashVirtualNotify] \<and>
    offered E FlashBlockIoProtocol a s' \<and> offered E FlashDiskIoProtocol a s' \<and>
    (\<forall>x. \<not> offered E FirmwareVolumeBlockProtocol x s') \<and> c (flash (dmach s')) = c d"
proof -
  let ?P = orion_o6_pcds
  obtain arr s1 s2 a s3 b s4 where arr: "alloc (s\<lparr>dmach := (dmach s)\<lparr>flash := d\<rparr>\<rparr>) = (arr, s1)"
    and s2: "s2 = s1\<lparr>mNorFlashDeviceCount := 1, mNorFlashInstances := arr,
      cells := uninitialised_cells arr 1 (cells s1), calls := calls s1 @ [RegisterProtocolNotify 0]\<rparr>"
    and allocs: "alloc s2 = (a, s3)" "alloc s3 = (b, s4)"
    and nonzero: "arr \<noteq> 0" "a \<noteq> 0" "b \<noteq> 0" "pool_addr (mpool (dmach s4)) (pool_count (mpool (dmach s4))) \<noteq> 0"
    and flash: "flash (dmach s4) = d" and before: "calls s2 = calls s @ [RegisterProtocolNotify 0]"
    by (rule boot_setup [OF assms(6)])
  define I where "I = located_instance ?P
    (fresh_instance E K a (XSPI_FLASH_DIRECT_MMIO_ADDR E) 0x800000 0 0x1000\<lparr>ShadowBuffer := b\<rparr>)"
  have I: "Size I = 0x800000" "BlockSize (Media I) = 0x1000" "StartLba I = 0x380"
    by (simp_all add: I_def located_instance_def Let_def orion_base)
  obtain q buf d' where r: "NorFlashRead L I (StartLba I) 0 (of_nat HeadersLength) (replicate HeadersLength 0)
      (flash (dmach s4)) = (q, buf, d')"
    by (cases "NorFlashRead L I (StartLba I) 0 (of_nat HeadersLength) (replicate HeadersLength 0) (flash (dmach s4))")
  have ok: "\<not> EFI_ERROR q"
    using assms(10) I r flash by (metis fst_conv)
  have "read_range (c d) 0x380000 8192 = replicate 8192 0xFF"
    using assms(7-9) by (auto simp: spi_flash_config_all_def image_header_of_def dummy_bin_def)
  then have "take HeadersLength (read_range (c d) 0x380000 8192) = take HeadersLength (replicate 8192 0xFF)"
    by (rule arg_cong)
  then have "read_range (c d) 0x380000 HeadersLength = replicate HeadersLength 0xFF"
    by (simp add: read_range_def take_map sizeof_defs)
  then have "buf = replicate HeadersLength 0xFF" and d': "c d' = c d"
    using read_headers_buffer(1,3) [OF assms(1) r] ok I flash by (simp_all add: flash_addr_def)
  then have "check_fv_header K ?P buf = Ret EFI_NOT_FOUND"
    by (simp add: erased_header sizeof_defs)
  then obtain m where valid: "ValidateFvHeader K ?P L I (dmach s4) = Ret (EFI_NOT_FOUND, m)" and m: "flash m = d'"
    using ValidateFvHeader_read [OF nonzero(4) r ok, of K ?P] by simp
  note create = NorFlashCreateInstance_without_volume [OF nonzero(1) _ allocs(1) nonzero(2) allocs(2) nonzero(3)
      assms(4) _ I_def valid, where rb = "u32_to_u64 (PcdNorFlashNvramAddr E)"]
  obtain s' where boot: "NorFlashInitialise E K ?P L s = Ret (EFI_SUCCESS, s')" and log: "calls s' = [RegisterProtocolNotify 0,
      InstallProtocols a (instance_protocols False), CreateAddressChangeEvent NorFlashVirtualNotify]"
    and "flash (dmach s') = d'"
    using NorFlashInitialise_one [OF assms(5) arr s2 create] assms(2,3) before m by auto
  moreover have "offered E FlashBlockIoProtocol a s'" "offered E FlashDiskIoProtocol a s'"
    using assms(3) by (auto simp: offered_iff log instance_protocols_def intro!: exI [of _ 1])
  moreover have "\<not> offered E FirmwareVolumeBlockProtocol x s'" for x
  proof
    assume "offered E FirmwareVolumeBlockProtocol x s'"
    then obtain ps where "InstallProtocols x ps \<in> set (calls s')" "FirmwareVolumeBlockProtocol \<in> set ps"
      unfolding offered_iff by (metis nth_mem)
    then show False
      by (auto simp: log instance_protocols_def)
  qed
  ultimately show ?thesis
    using d' by blast
qed

section \<open>Witnesses\<close>

lemma orion_serving:
  obtains u I where "driver_serving orion_env doc_edk2 orion_o6_pcds array_lib True page_up u"
    "offered orion_env FirmwareVolumeBlockProtocol 0x9000 u" "heap u 0x9000 = Some I"
    "instance_typed orion_env orion_o6_pcds 0x9000 I" "pointers_current orion_env page_up I"
proof -
  obtain s u where "runtime_reached orion_env doc_edk2 orion_o6_pcds array_lib True page_up u"
    "converts orion_env u" and o: "offered orion_env FirmwareVolumeBlockProtocol 0x9000 u"
    by (rule orion_switched)
  then have serving: "driver_serving orion_env doc_edk2 orion_o6_pcds array_lib True page_up u"
    by (simp add: driver_serving_def)
  show ?thesis
    by (rule serving_instance [OF serving o]) (rule that [OF serving o])
qed

theorem volume_is_its_image_witness:
  "\<exists>u I. heap u 0x9000 = Some I \<and> offered orion_env FirmwareVolumeBlockProtocol 0x9000 (u :: content driver) \<and>
     unat (Size I) = 0x800000 \<and> in_volume I 0x3F7FFF \<and> \<not> in_volume I 0x3F8000"
proof -
  obtain u I where u: "driver_serving orion_env doc_edk2 orion_o6_pcds array_lib True page_up u"
    "offered orion_env FirmwareVolumeBlockProtocol 0x9000 u" "heap u 0x9000 = Some I"
    by (rule orion_serving)
  from volume_is_its_image [OF this, of "0x3F7FFF"] volume_is_its_image [OF this, of "0x3F8000"]
  have "unat (Size I) = 0x800000" "in_volume I 0x3F7FFF" "\<not> in_volume I 0x3F8000"
    by (simp_all add: spi_flash_config_all_def image_header_of_def in_flash_image_def)
  with u show ?thesis by blast
qed

text \<open>A write to the last block of the volume and an erase of its first ones, next to \<^verbatim>\<open>memory_config.bin\<close>.\<close>

theorem variables_spare_images_witness:
  "\<exists>u outs t. run_replies (\<lambda>r. client_call orion_env doc_edk2 array_lib page_up 0x9000 (Transfer r))
       [WriteRequest 0x77 0xFF8 0x10 (replicate 16 7), EraseRequest [0, 3, EFI_LBA_LIST_TERMINATOR]] u = Ret (outs, t) \<and>
     flash (dmach t) 0x3F8000 = flash (dmach u) 0x3F8000"
proof -
  let ?rs = "[WriteRequest 0x77 0xFF8 0x10 (replicate 16 7), EraseRequest [0, 3, EFI_LBA_LIST_TERMINATOR]]"
  obtain u I where u: "driver_serving orion_env doc_edk2 orion_o6_pcds array_lib True page_up u"
    "offered orion_env FirmwareVolumeBlockProtocol 0x9000 u" "heap u 0x9000 = Some I"
    and I: "instance_typed orion_env orion_o6_pcds 0x9000 I" "pointers_current orion_env page_up I"
    by (rule orion_serving)
  have "\<exists>outs d. run_replies (fvb_call array_lib I) ?rs (flash (dmach u)) = Ret (outs, d)"
    by (rule run_replies_returns, rule fvb_call_returns) (auto simp: EFI_LBA_LIST_TERMINATOR_def)
  then obtain outs t where run: "run_replies (\<lambda>r. client_call orion_env doc_edk2 array_lib page_up 0x9000 (Transfer r)) ?rs u = Ret (outs, t)"
    using client_run [OF _ u(3) I(2), of doc_edk2 array_lib ?rs] by auto
  have other: "other_image (image_header_of 3 0x3F8000 0x4000 ''memory_config.bin'')"
    by (simp add: other_image_def spi_flash_config_all_def image_header_of_def)
  have "flash (dmach t) 0x3F8000 = flash (dmach u) 0x3F8000"
    by (rule variables_spare_images [where c = "\<lambda>d. d", OF array_lib_contract u _ run other])
      (simp_all add: orion_in_volume(3) [OF I(1)] no_wrap_def in_flash_image_def image_header_of_def EFI_LBA_LIST_TERMINATOR_def)
  with run show ?thesis by blast
qed

theorem packaged_flash_has_no_volume_witness:
  "\<exists>s' a. NorFlashInitialise orion_env doc_edk2 orion_o6_pcds array_lib (orion_start (\<lambda>_. 0xFF)) = Ret (EFI_SUCCESS, s') \<and>
     offered orion_env FlashBlockIoProtocol a s' \<and> \<not> offered orion_env FirmwareVolumeBlockProtocol a s'"
proof -
  have entry: "image_header_of 100 0x380000 0x78000 ''dummy.bin'' \<in> set (image_header_groups spi_flash_config_all)"
    by (simp add: spi_flash_config_all_def)
  have start: "NorFlashPlatformInitialization orion_env (flash (dmach (orion_start (\<lambda>_. 0xFF)))) = (EFI_SUCCESS, \<lambda>_. 0xFF)"
    by (simp add: orion_env_ok)
  have bytes: "read_range (\<lambda>_. 0xFF) a n = replicate n 0xFF" for a n
    by (simp add: read_range_def map_replicate_const)
  have reads: "\<forall>J buf. Size J = 0x800000 \<and> BlockSize (Media J) = 0x1000 \<and> StartLba J = 0x380
      \<longrightarrow> \<not> EFI_ERROR (fst (NorFlashRead array_lib J (StartLba J) 0 (of_nat HeadersLength) buf (\<lambda>_. 0xFF)))"
    using orion_reads by (simp add: orion_base)
  have "read_range ((\<lambda>d. d) (\<lambda>_. 0xFF)) (address (image_header_of 100 0x380000 0x78000 ''dummy.bin'')) (length dummy_bin) = dummy_bin"
    by (simp add: bytes dummy_bin_def)
  from packaged_flash_has_no_volume [where c = "\<lambda>d. d" and K = doc_edk2, OF array_lib_contract orion_start_simps(3) orion_env_ok(1,2) start
      orion_start_simps(2) entry _ this reads]
  show ?thesis
    by (auto simp: image_header_of_def)
qed

end
