(* ===== verification/Fvb_Contract.thy ===== *)
theory Fvb_Contract
  imports Fvb_Protocol
begin

text \<open>
  The documentation of the Firmware Volume Block protocol, as the comments of NorFlashFvb.c state it
  above each function, and where the code keeps it. A \<open>documented\<close> predicate
  relates a request and the bytes of the device before it to what a caller may find afterwards; the
  properties say for which requests the code is within it, as equivalences. Sizes and block
  numbers are natural numbers here, so nothing wraps around unless the code makes it.
\<close>

section \<open>The documented contracts\<close>

text \<open>The bytes from an offset up to the end of its block, and requests for more than that.\<close>

definition up_to_boundary :: "nor_flash_instance \<Rightarrow> u64 \<Rightarrow> u64 \<Rightarrow> nat" where
  "up_to_boundary I off num = min (unat num) (bsize I - unat off)"

definition crosses :: "nor_flash_instance \<Rightarrow> u64 \<Rightarrow> u64 \<Rightarrow> bool" where
  "crosses I off num \<longleftrightarrow> bsize I < unat off + unat num"

text \<open>
  \<open>If a read is requested that would span a block boundary, the read must read up to the boundary but not
  beyond\<close>, the byte count says how much, and the status is \<open>EFI_BAD_BUFFER_SIZE\<close>.
\<close>

fun documented_read ::
  "nor_flash_instance \<Rightarrow> content \<Rightarrow> u64 \<Rightarrow> u64 \<Rightarrow> u64 \<Rightarrow> u8 list \<Rightarrow> efi_status \<times> u64 \<times> u8 list \<Rightarrow> bool" where
  "documented_read I v lba off num buf (s, n, buf') \<longleftrightarrow>
     s = EFI_DEVICE_ERROR \<or>
     (if crosses I off num then s = EFI_BAD_BUFFER_SIZE else \<not> EFI_ERROR s) \<and>
     unat n = up_to_boundary I off num \<and>
     buf' = read_range v (device_block I lba * bsize I + unat off) (unat n) @ drop (unat n) buf"

text \<open>The same for a write; a write-disabled volume refuses it and is not modified.\<close>

fun documented_write ::
  "nor_flash_instance \<Rightarrow> content \<Rightarrow> u64 \<Rightarrow> u64 \<Rightarrow> u64 \<Rightarrow> u8 list \<Rightarrow> efi_status \<times> u64 \<times> content \<Rightarrow> bool" where
  "documented_write I v lba off num buf (s, n, v') \<longleftrightarrow>
     (if ReadOnly (Media I) then s = EFI_ACCESS_DENIED \<and> v' = v
      else s = EFI_DEVICE_ERROR \<or>
        (if crosses I off num then s = EFI_BAD_BUFFER_SIZE else \<not> EFI_ERROR s) \<and>
        unat n = up_to_boundary I off num \<and>
        v' = write_range v (device_block I lba * bsize I + unat off) (take (unat n) buf))"

text \<open>
  \<open>If a block is requested that does not exist within the associated firmware volume\<close>, the status is
  \<open>EFI_INVALID_PARAMETER\<close> and nothing is modified. A call that fails \<open>may have been partially erased\<close>.
\<close>

definition past_end :: "nor_flash_instance \<Rightarrow> u64 \<times> u64 \<Rightarrow> bool" where
  "past_end I r \<longleftrightarrow> unat (Blocks I) < unat (fst r) + unat (snd r)"

fun documented_erase :: "nor_flash_instance \<Rightarrow> content \<Rightarrow> u64 list \<Rightarrow> efi_status \<times> content \<Rightarrow> bool" where
  "documented_erase I v args (s, v') \<longleftrightarrow>
     (if ReadOnly (Media I) then s = EFI_ACCESS_DENIED \<and> v' = v
      else if \<exists>r \<in> set (erase_ranges args). past_end I r then s = EFI_INVALID_PARAMETER \<and> v' = v
      else \<not> EFI_ERROR s \<and> v' = erase_spec I (erase_ranges args) v \<or>
        s = EFI_DEVICE_ERROR \<and> (\<forall>i. (\<forall>r \<in> set (erase_ranges args). \<not> in_range I r i) \<longrightarrow> v' i = v i))"

section \<open>The branches of the code against the contracts\<close>

lemma crosses_outside: "block_size I \<le> off \<Longrightarrow> num \<noteq> 0 \<Longrightarrow> crosses I off num"
  by (auto simp: crosses_def word_le_nat_alt simp flip: unat_gt_0)

lemma crosses_large: "block_size I < num \<Longrightarrow> crosses I off num"
  by (simp add: crosses_def word_less_nat_alt)

lemma up_to_boundary_outside: "block_size I \<le> off \<Longrightarrow> up_to_boundary I off num = 0"
  by (simp add: up_to_boundary_def word_le_nat_alt)

lemma up_to_boundary_clipped:
  "off < block_size I \<Longrightarrow> num \<le> block_size I \<Longrightarrow> unat (clipped I off num) = up_to_boundary I off num"
  by (simp add: up_to_boundary_def unat_clipped)

lemma up_to_boundary_within: "\<not> crosses I off num \<Longrightarrow> up_to_boundary I off num = unat num"
  by (simp add: up_to_boundary_def crosses_def)

lemma up_to_boundary_positive: "off < block_size I \<Longrightarrow> num \<noteq> 0 \<Longrightarrow> 0 < up_to_boundary I off num"
  by (simp add: up_to_boundary_def word_less_nat_alt unat_gt_0)

text \<open>Requests that the guards refuse, by what the contract says about them.\<close>

lemma refused_facts:
  assumes "num \<noteq> 0" "block_size I \<le> off \<or> block_size I < num"
  shows "crosses I off num" "up_to_boundary I off num = 0 \<longleftrightarrow> block_size I \<le> off"
  using assms crosses_outside crosses_large up_to_boundary_outside up_to_boundary_positive
  by (blast, metis less_numeral_extra(3) not_le)

lemma write_nothing [simp]: "write_range v a [] = v"
  by (rule ext) (auto simp: write_range_def)

lemma read_refused_documented:
  assumes "num \<noteq> 0" "block_size I \<le> off \<or> block_size I < num" "FvbRead L I lba off num buf d = (s, n, buf', d')"
  shows "s = EFI_BAD_BUFFER_SIZE" "documented_read I v lba off num buf (s, n, buf') \<longleftrightarrow> block_size I \<le> off"
proof -
  have "s = EFI_BAD_BUFFER_SIZE \<and> n = 0 \<and> buf' = buf"
    using assms(2,3) by (simp add: FvbRead_def)
  with refused_facts [OF assms(1,2)]
  show "s = EFI_BAD_BUFFER_SIZE" "documented_read I v lba off num buf (s, n, buf') \<longleftrightarrow> block_size I \<le> off"
    by (simp_all add: eq_commute [of 0])
qed

lemma write_refused_documented:
  assumes "\<not> ReadOnly (Media I)" "num \<noteq> 0" "block_size I \<le> off \<or> block_size I < num"
    and "FvbWrite L I lba off num buf d = (s, n, d')"
  shows "s = EFI_BAD_BUFFER_SIZE" "documented_write I (c d) lba off num buf (s, n, c d') \<longleftrightarrow> block_size I \<le> off"
proof -
  have "s = EFI_BAD_BUFFER_SIZE \<and> n = 0 \<and> d' = d"
    using assms(1,3,4) by (simp add: FvbWrite_def)
  with refused_facts [OF assms(2,3)] assms(1)
  show "s = EFI_BAD_BUFFER_SIZE" "documented_write I (c d) lba off num buf (s, n, c d') \<longleftrightarrow> block_size I \<le> off"
    by (simp_all add: eq_commute [of 0])
qed

text \<open>A request that the code passes on starts in the block, and crosses its end as it does in words.\<close>

lemma crosses_spaned: "off < block_size I \<Longrightarrow> num \<le> block_size I \<Longrightarrow> crosses I off num \<longleftrightarrow> block_size I < off + num"
  by (simp add: crosses_def spaned_iff)

lemma crosses_full: "num = block_size I \<Longrightarrow> crosses I off num \<longleftrightarrow> off \<noteq> 0"
  by (auto simp: crosses_def simp flip: unat_gt_0)

lemma up_to_boundary_short:
  "crosses I off num \<Longrightarrow> num \<noteq> 0 \<Longrightarrow> up_to_boundary I off num < unat num"
  by (auto simp: up_to_boundary_def crosses_def min_def simp flip: unat_gt_0)

text \<open>A range that the check refuses is past the end; one past the end that it does not refuse has wrapped around.\<close>

lemma bad_range_past_end: "bad_range I r \<Longrightarrow> snd r \<noteq> 0 \<Longrightarrow> past_end I r"
proof -
  assume "bad_range I r" "snd r \<noteq> 0"
  then have "unat (Blocks I) < unat (fst r + snd r)"
    by (simp add: bad_range_def word_less_nat_alt)
  moreover have "unat (fst r + snd r) \<le> unat (fst r) + unat (snd r)"
    by (simp add: unat_word_ariths)
  ultimately show ?thesis
    by (simp add: past_end_def)
qed

lemma past_end_bad_range: "past_end I r \<Longrightarrow> no_wrap r \<Longrightarrow> bad_range I r"
  using unat_add_no_wrap [of "fst r" "snd r"] by (simp add: past_end_def no_wrap_def bad_range_def word_less_nat_alt)

lemma wrapped_past_end: "\<not> no_wrap r \<Longrightarrow> past_end I r"
  using unat_bound [of "Blocks I"] by (simp add: past_end_def no_wrap_def)

lemma erase_accepted:
  assumes "erase_terminated args" "\<not> ReadOnly (Media I)" "\<forall>r \<in> set (erase_ranges args). \<not> bad_range I r"
    and "FvbEraseBlocks L I args d = Ret (s, d')"
  shows "s \<noteq> EFI_INVALID_PARAMETER \<and> erase_loop L I EFI_SUCCESS args d = Ret (s, d')"
proof -
  have run: "erase_loop L I EFI_SUCCESS args d = Ret (s, d')"
    using assms by (simp add: FvbEraseBlocks_def erase_check_terminated)
  have "s' = s0 \<or> \<not> EFI_ERROR s' \<or> s' = EFI_DEVICE_ERROR" if "erase_loop L I s0 as e = Ret (s', e')" for s0 as e s' e'
    using that
    by (induction L I s0 as e arbitrary: s' e' rule: erase_loop.induct) (auto simp: Let_def split: prod.splits if_splits)
  from this [OF run] run show ?thesis
    by auto
qed

lemma fvb_erase_returns: "erase_terminated args \<Longrightarrow> \<exists>r. FvbEraseBlocks L I args d = Ret r"
  using erase_loop_returns [of args] by (auto simp: FvbEraseBlocks_def erase_check_terminated)

lemma erase_documented:
  assumes "FvbEraseBlocks L I args d = Ret (s, d')"
    and "nor_flash_contract L c" "volume_fits I" "erase_terminated args" "\<forall>r \<in> set (erase_ranges args). snd r \<noteq> 0"
  shows "documented_erase I (c d) args (s, c d') \<longleftrightarrow>
    ReadOnly (Media I) \<or> (\<forall>r \<in> set (erase_ranges args). no_wrap r) \<or> (\<exists>r \<in> set (erase_ranges args). bad_range I r)"
proof -
  consider (protected) "ReadOnly (Media I)"
    | (refused) "\<not> ReadOnly (Media I)" "\<exists>r \<in> set (erase_ranges args). bad_range I r"
    | (wrapped) "\<not> ReadOnly (Media I)" "\<forall>r \<in> set (erase_ranges args). \<not> bad_range I r" "\<exists>r \<in> set (erase_ranges args). \<not> no_wrap r"
    | (accepted) "\<not> ReadOnly (Media I)" "\<forall>r \<in> set (erase_ranges args). no_wrap r \<and> \<not> bad_range I r"
    by blast
  then show ?thesis
  proof cases
    case protected
    with assms(1) show ?thesis by (simp add: FvbEraseBlocks_def)
  next
    case refused
    then have "s = EFI_INVALID_PARAMETER" "d' = d"
      using assms(1,4) by (simp_all add: FvbEraseBlocks_def erase_check_terminated)
    moreover have "\<exists>r \<in> set (erase_ranges args). past_end I r"
      using refused(2) assms(5) bad_range_past_end by blast
    ultimately show ?thesis
      using refused by simp
  next
    case wrapped
    have "\<exists>r \<in> set (erase_ranges args). past_end I r"
      using wrapped(3) wrapped_past_end by blast
    with wrapped erase_accepted [OF assms(4) wrapped(1,2) assms(1)] show ?thesis by auto
  next
    case accepted
    then have good: "\<not> (\<exists>r \<in> set (erase_ranges args). past_end I r)" "\<forall>r \<in> set (erase_ranges args). no_wrap r"
      using past_end_bad_range by blast+
    from assms(2,3,1) good(2) have "documented_erase I (c d) args (s, c d')"
      by (cases rule: FvbEraseBlocks_cases) (use accepted good(1) in auto)
    with good(2) show ?thesis by blast
  qed
qed

lemma read_documented:
  assumes "nor_flash_contract L c" "num \<noteq> 0" "unat num \<le> length buf"
    and "FvbRead L I lba off num buf d = (s, n, buf', d')"
  shows "documented_read I (c d) lba off num buf (s, n, buf') \<longleftrightarrow>
    \<not> crosses I off num \<or> block_size I \<le> off \<or> s = EFI_DEVICE_ERROR"
proof (cases rule: transfer_cases [of I off num])
  case refused
  with assms(2) have refused: "block_size I \<le> off \<or> block_size I < num"
    by blast
  from read_refused_documented [OF assms(2) refused assms(4)] refused_facts(1) [OF assms(2) refused]
  show ?thesis by simp
next
  case partial
  obtain s0 b0 d0 where r: "NorFlashRead L I (StartLba I + lba) off (clipped I off num) buf d = (s0, b0, d0)"
    by (cases "NorFlashRead L I (StartLba I + lba) off (clipped I off num) buf d")
  have n: "unat (clipped I off num) = up_to_boundary I off num" "up_to_boundary I off num \<le> length buf"
    using partial assms(3) up_to_boundary_clipped [of off I num] by (simp_all add: up_to_boundary_def)
  show ?thesis
    using partial assms(4) r n NorFlashRead_contract(3) [OF assms(1) r]
    by (cases "EFI_ERROR s0") (auto simp: FvbRead_partial flash_addr_device_block)
next
  case full
  obtain s0 b0 d0 where r: "NorFlashReadBlocks L I (StartLba I + lba) num buf d = (s0, b0, d0)"
    by (cases "NorFlashReadBlocks L I (StartLba I + lba) num buf d")
  have whole: "up_to_boundary I off num = unat num" if "off = 0"
    using full that by (simp add: up_to_boundary_def)
  show ?thesis
    using full assms(4) r whole crosses_full [OF full(2), of off] NorFlashReadBlocks_contract(3) [OF assms(1) r assms(3)]
    by (cases "EFI_ERROR s0") (auto simp: FvbRead_full flash_addr_device_block)
qed

text \<open>What a read does that starts in a block and would leave it.\<close>

lemma read_crossing:
  assumes "crosses I off num" "off < block_size I" "num \<noteq> 0"
    and "FvbRead L I lba off num buf d = (s, n, buf', d')"
  shows "block_size I < num \<Longrightarrow> s = EFI_BAD_BUFFER_SIZE \<and> n = 0 \<and> buf' = buf \<and> d' = d"
    and "num = block_size I \<Longrightarrow> FvbRead L I lba off num buf d = FvbRead L I lba 0 num buf d"
    and "num \<le> block_size I \<Longrightarrow> s = EFI_SUCCESS \<or> s = EFI_DEVICE_ERROR"
proof -
  show "block_size I < num \<Longrightarrow> s = EFI_BAD_BUFFER_SIZE \<and> n = 0 \<and> buf' = buf \<and> d' = d"
    using assms(4) by (simp add: FvbRead_def)
  show "FvbRead L I lba off num buf d = FvbRead L I lba 0 num buf d" if "num = block_size I"
  proof -
    have "0 < block_size I"
      using assms(3) that by (simp add: word_gt_0)
    with assms(2) that show ?thesis by (simp add: FvbRead_full)
  qed
  show "s = EFI_SUCCESS \<or> s = EFI_DEVICE_ERROR" if "num \<le> block_size I"
  proof (cases rule: transfer_cases [of I off num])
    case refused
    with that assms(2,3) show ?thesis by auto
  next
    case partial
    with assms(4) show ?thesis by (auto simp: FvbRead_partial split: prod.splits if_splits)
  next
    case full
    with assms(4) show ?thesis by (auto simp: FvbRead_full split: prod.splits if_splits)
  qed
qed

section \<open>Properties\<close>

text \<open>C36: reading keeps its documentation, except across the end of a block. A read of some bytes does what the comment above
  FvbRead says if and only if it stays in its block, or starts past the block's end, or fails with a device
  error. A read that starts in the block and would leave it does one of two other things. If it asks for more than a
  block, it is refused with \<open>EFI_BAD_BUFFER_SIZE\<close> and moves nothing, instead of the bytes up to the end; otherwise it returns
  \<open>EFI_SUCCESS\<close> instead of \<open>EFI_BAD_BUFFER_SIZE\<close>, or a device error, and if it asks for exactly a block it ignores
  its offset.\<close>

theorem fvb_read_documented:
  assumes "nor_flash_contract L c" "num \<noteq> 0" "unat num \<le> length buf"
    and "FvbRead L I lba off num buf d = (s, n, buf', d')"
  shows "(documented_read I (c d) lba off num buf (s, n, buf') \<longleftrightarrow>
      \<not> crosses I off num \<or> block_size I \<le> off \<or> s = EFI_DEVICE_ERROR) \<and>
    (crosses I off num \<and> off < block_size I \<longrightarrow>
      (if block_size I < num then s = EFI_BAD_BUFFER_SIZE \<and> n = 0 \<and> buf' = buf \<and> d' = d
       else (s = EFI_SUCCESS \<or> s = EFI_DEVICE_ERROR) \<and>
         (num = block_size I \<longrightarrow> FvbRead L I lba off num buf d = FvbRead L I lba 0 num buf d)))"
  using read_documented [OF assms] read_crossing [OF _ _ assms(2,4)] by (metis not_less)

text \<open>C35: writing keeps its documentation, except for large requests across the end of a block. If the
  library fails with device errors only, a write of some bytes does what the comment above it says if and
  only if the volume is write-protected, or the write stays in its block, or starts past the block's
  end, or asks for less than a block, or fails with a device error: a write of exactly
  a block ignores its offset and overwrites the bytes before it, and a larger one stores nothing.\<close>

theorem fvb_write_documented:
  assumes "nor_flash_contract L c" "num \<noteq> 0" "unat num \<le> length buf"
    and "\<forall>k. EFI_ERROR (fst (NorFlashWrite L I (StartLba I + lba) off k buf d)) \<longrightarrow>
      fst (NorFlashWrite L I (StartLba I + lba) off k buf d) = EFI_DEVICE_ERROR"
    and "FvbWrite L I lba off num buf d = (s, n, d')"
  shows "documented_write I (c d) lba off num buf (s, n, c d') \<longleftrightarrow>
    ReadOnly (Media I) \<or> \<not> crosses I off num \<or> block_size I \<le> off \<or> num < block_size I \<or> s = EFI_DEVICE_ERROR"
proof (cases "ReadOnly (Media I)")
  case True
  with assms(5) show ?thesis by (simp add: FvbWrite_def)
next
  case rw: False
  show ?thesis
  proof (cases rule: transfer_cases [of I off num])
    case refused
    with assms(2) have refused: "block_size I \<le> off \<or> block_size I < num"
      by blast
    have "block_size I \<le> off \<or> \<not> num < block_size I"
      using refused by auto
    then show ?thesis
      using rw write_refused_documented [OF rw assms(2) refused assms(5)] refused_facts(1) [OF assms(2) refused]
      by (simp del: documented_write.simps) blast
  next
    case partial
    obtain s0 d0 where w: "NorFlashWrite L I (StartLba I + lba) off (clipped I off num) buf d = (s0, d0)"
      by (cases "NorFlashWrite L I (StartLba I + lba) off (clipped I off num) buf d")
    have n: "unat (clipped I off num) = up_to_boundary I off num" "up_to_boundary I off num \<le> length buf"
      using partial assms(3) up_to_boundary_clipped [of off I num] by (simp_all add: up_to_boundary_def)
    have fails: "EFI_ERROR s0 \<Longrightarrow> s0 = EFI_DEVICE_ERROR"
      using assms(4) w by (metis fst_conv)
    show ?thesis
      using rw partial assms(5) w n fails crosses_spaned [of off I num] NorFlashWrite_contract(2) [OF assms(1) w]
      by (auto simp: FvbWrite_partial flash_addr_device_block split: if_splits)
  next
    case full
    obtain s0 d0 where w: "NorFlashWriteBlocks L I (StartLba I + lba) num buf d = (s0, d0)"
      by (cases "NorFlashWriteBlocks L I (StartLba I + lba) num buf d")
    have whole: "up_to_boundary I off num = unat num" if "off = 0"
      using full that by (simp add: up_to_boundary_def)
    show ?thesis
      using rw full assms(5) w whole crosses_full [OF full(2), of off] up_to_boundary_short [of I off num]
        NorFlashWriteBlocks_contract(2) [OF assms(1) w assms(3)]
      by (auto simp: FvbWrite_full flash_addr_device_block split: if_splits)
  qed
qed

text \<open>C33: erasing keeps its documentation, unless a range wraps around. A terminated list of ranges that are not empty is
  served as the comment above FvbEraseBlocks says if and only if the volume is write-protected, no range
  wraps around modulo 2^64, or some range is refused. Otherwise a range names blocks
  that do not exist in the volume, and the call neither refuses the list nor returns \<open>EFI_INVALID_PARAMETER\<close>, as the comment has it:
  it hands the ranges to the flash library as \<open>erase_loop\<close> does, in order until one fails.\<close>

theorem fvb_erase_documented:
  assumes "nor_flash_contract L c" "volume_fits I" "erase_terminated args" "\<forall>r \<in> set (erase_ranges args). snd r \<noteq> 0"
  shows "\<exists>s d'. FvbEraseBlocks L I args d = Ret (s, d') \<and>
    (if ReadOnly (Media I) \<or> (\<forall>r \<in> set (erase_ranges args). no_wrap r) \<or> (\<exists>r \<in> set (erase_ranges args). bad_range I r)
     then documented_erase I (c d) args (s, c d')
     else \<not> documented_erase I (c d) args (s, c d') \<and> (\<exists>r \<in> set (erase_ranges args). past_end I r) \<and>
       s \<noteq> EFI_INVALID_PARAMETER \<and> erase_loop L I EFI_SUCCESS args d = Ret (s, d'))"
proof -
  obtain s d' where e: "FvbEraseBlocks L I args d = Ret (s, d')"
    using fvb_erase_returns [OF assms(3)] by fast
  have "s \<noteq> EFI_INVALID_PARAMETER \<and> erase_loop L I EFI_SUCCESS args d = Ret (s, d')"
    if "\<not> ReadOnly (Media I)" "\<forall>r \<in> set (erase_ranges args). \<not> bad_range I r"
    using erase_accepted [OF assms(3) that e] .
  with e erase_documented [OF e assms] wrapped_past_end show ?thesis
    by (simp del: documented_erase.simps) blast
qed

section \<open>Witnesses\<close>

text \<open>
  On the board's volume: a read of four bytes two bytes before the end of block 2, a write of the same and one of a
  whole block at an offset, and ranges that wrap around and that do not.
\<close>

theorem fvb_read_documented_witness:
  "\<exists>s n buf d. FvbRead array_lib orion_instance 2 0xFFE 4 [0, 0, 0, 0] blank_flash = (s, n, buf, d) \<and>
     s = EFI_SUCCESS \<and> \<not> documented_read orion_instance blank_flash 2 0xFFE 4 [0, 0, 0, 0] (s, n, buf)"
proof -
  obtain n buf d where r: "FvbRead array_lib orion_instance 2 0xFFE 4 [0, 0, 0, 0] blank_flash = (EFI_SUCCESS, n, buf, d)"
    by (simp add: FvbRead_def array_lib_def array_read_def in_device_def flash_addr_def)
  have "documented_read orion_instance blank_flash 2 0xFFE 4 [0, 0, 0, 0] (EFI_SUCCESS, n, buf) \<longleftrightarrow>
      \<not> crosses orion_instance 0xFFE 4 \<or> block_size orion_instance \<le> 0xFFE \<or> EFI_SUCCESS = EFI_DEVICE_ERROR"
    by (rule fvb_read_documented [OF array_lib_contract _ _ r, THEN conjunct1]) simp_all
  moreover have "crosses orion_instance 0xFFE 4" "\<not> block_size orion_instance \<le> 0xFFE"
    by (simp_all add: crosses_def)
  ultimately show ?thesis
    using r by blast
qed

theorem fvb_write_documented_witness:
  "(\<exists>r. FvbWrite array_lib orion_instance 2 0xFFE 4 [1, 2, 3, 4] blank_flash = r \<and>
     documented_write orion_instance blank_flash 2 0xFFE 4 [1, 2, 3, 4] r) \<and>
   (\<exists>buf r. FvbWrite array_lib orion_instance 2 0x10 0x1000 buf blank_flash = r \<and>
     \<not> documented_write orion_instance blank_flash 2 0x10 0x1000 buf r)"
proof -
  have fine: "\<forall>k. EFI_ERROR (fst (NorFlashWrite array_lib orion_instance (StartLba orion_instance + 2) off k buf blank_flash)) \<longrightarrow>
      fst (NorFlashWrite array_lib orion_instance (StartLba orion_instance + 2) off k buf blank_flash) = EFI_DEVICE_ERROR"
    if "unat off + length buf \<le> 0x2000" for off buf
    using that by (auto simp: array_lib_def array_write_def in_device_def flash_addr_def)
  define buf where "buf = replicate 0x1000 (7 :: u8)"
  have len: "length buf = 0x1000"
    by (simp add: buf_def)
  obtain n d where part: "FvbWrite array_lib orion_instance 2 0xFFE 4 [1, 2, 3, 4] blank_flash = (EFI_BAD_BUFFER_SIZE, n, d)"
    by (simp add: FvbWrite_def array_lib_def array_write_def in_device_def flash_addr_def)
  have full: "FvbWrite array_lib orion_instance 2 0x10 0x1000 buf blank_flash =
      (EFI_SUCCESS, 0x1000, write_range blank_flash 0x382000 buf)"
    using len by (simp add: FvbWrite_def array_lib_def array_write_def in_device_def flash_addr_def)
  have "documented_write orion_instance blank_flash 2 0xFFE 4 [1, 2, 3, 4] (EFI_BAD_BUFFER_SIZE, n, d)"
    by (subst fvb_write_documented [OF array_lib_contract _ _ fine part]) simp_all
  moreover have "\<not> documented_write orion_instance blank_flash 2 0x10 0x1000 buf
      (EFI_SUCCESS, 0x1000, write_range blank_flash 0x382000 buf)"
    by (subst fvb_write_documented [OF array_lib_contract _ _ fine full]) (simp_all add: len crosses_def)
  ultimately show ?thesis
    using part full by blast
qed

theorem fvb_erase_documented_witness:
  "(\<exists>s d. FvbEraseBlocks array_lib orion_instance [5, 3, EFI_LBA_LIST_TERMINATOR] blank_flash = Ret (s, d) \<and>
     documented_erase orion_instance blank_flash [5, 3, EFI_LBA_LIST_TERMINATOR] (s, d)) \<and>
   (\<exists>s d. FvbEraseBlocks array_lib orion_instance [0xFFFFFFFFFFFFFFFE, 3, EFI_LBA_LIST_TERMINATOR] blank_flash = Ret (s, d) \<and>
     \<not> documented_erase orion_instance blank_flash [0xFFFFFFFFFFFFFFFE, 3, EFI_LBA_LIST_TERMINATOR] (s, d))"
proof -
  have "erase_ranges [5, 3, EFI_LBA_LIST_TERMINATOR] = [(5, 3)]"
    "erase_ranges [0xFFFFFFFFFFFFFFFE, 3, EFI_LBA_LIST_TERMINATOR] = [(0xFFFFFFFFFFFFFFFE, 3)]"
    by (simp_all add: EFI_LBA_LIST_TERMINATOR_def)
  then show ?thesis
    using fvb_erase_documented [OF array_lib_contract orion_volume_fits, of "[5, 3, EFI_LBA_LIST_TERMINATOR]" blank_flash]
      fvb_erase_documented [OF array_lib_contract orion_volume_fits, of "[0xFFFFFFFFFFFFFFFE, 3, EFI_LBA_LIST_TERMINATOR]" blank_flash]
    by (simp add: no_wrap_def bad_range_def del: documented_erase.simps erase_loop.simps) blast
qed

end
