(* ===== verification/Ec_Uart.thy ===== *)
theory Ec_Uart
  imports Prelude "HOL-Library.Monad_Syntax"
begin

text \<open>
  The UART driver of the secure partition, baremetal/uart.rs. Every byte is preceded by a loop
  that polls the flag register; it may never end, so the functions are partial and \<open>None\<close> means
  that the call does not return. The device behind the registers is a parameter: what reading and
  writing a register does to the state of the hardware.
\<close>

section \<open>Registers\<close>

definition UART_BASE :: u64 where
  "UART_BASE = 0x040E0000"

definition UART_DR :: u64 where
  "UART_DR = UART_BASE"

definition UART_FR :: u64 where
  "UART_FR = UART_BASE + 0x18"

record 'u mmio =
  read_volatile :: "u64 \<Rightarrow> 'u \<Rightarrow> u32 \<times> 'u"
  write_volatile :: "u64 \<Rightarrow> u32 \<Rightarrow> 'u \<Rightarrow> 'u"

section \<open>The functions\<close>

text \<open>\<open>poll_clear D m\<close> is the loop \<^verbatim>\<open>while read_volatile (UART_FR) & m != 0 {}\<close>.\<close>

partial_function (option) poll_clear :: "'u mmio \<Rightarrow> u32 \<Rightarrow> 'u \<Rightarrow> 'u option" where
  "poll_clear D m u =
     (if fst (read_volatile D UART_FR u) AND m \<noteq> 0
      then poll_clear D m (snd (read_volatile D UART_FR u))
      else Some (snd (read_volatile D UART_FR u)))"

definition write_byte :: "'u mmio \<Rightarrow> u8 \<Rightarrow> 'u \<Rightarrow> 'u option" where
  "write_byte D c u =
     do { u \<leftarrow> poll_clear D (push_bit 5 1) u; Some (write_volatile D UART_DR (ucast c) u) }"

definition read_byte :: "'u mmio \<Rightarrow> 'u \<Rightarrow> (u8 \<times> 'u) option" where
  "read_byte D u =
     do { u \<leftarrow> poll_clear D (push_bit 4 1) u;
          let (v, u) = read_volatile D UART_DR u;
          Some (ucast v, u) }"

fun uart_write :: "(u8 \<Rightarrow> 'u \<Rightarrow> 'u option) \<Rightarrow> u8 list \<Rightarrow> 'u \<Rightarrow> 'u option" where
  "uart_write wr [] u = Some u"
| "uart_write wr (b # buf) u = do { u \<leftarrow> wr b u; uart_write wr buf u }"

text \<open>The second argument is the length of the buffer that is filled.\<close>

fun uart_read :: "('u \<Rightarrow> (u8 \<times> 'u) option) \<Rightarrow> nat \<Rightarrow> 'u \<Rightarrow> (u8 list \<times> 'u) option" where
  "uart_read rd 0 u = Some ([], u)"
| "uart_read rd (Suc n) u =
     do { (b, u) \<leftarrow> rd u; (bs, u) \<leftarrow> uart_read rd n u; Some (b # bs, u) }"

section \<open>A link that carries bytes\<close>

text \<open>
  What the users of the UART rely on: in a good state a byte can be sent, which appends it to what
  has been sent, and the next pending byte can be received. A peer may answer what was sent,
  so sending may extend the pending bytes; it does not take any away.
\<close>

locale byte_link =
  fixes good :: "'u \<Rightarrow> bool"
    and send :: "u8 \<Rightarrow> 'u \<Rightarrow> 'u option"
    and recv :: "'u \<Rightarrow> (u8 \<times> 'u) option"
    and sent :: "'u \<Rightarrow> u8 list"
    and pending :: "'u \<Rightarrow> u8 list"
  assumes send_good: "good u \<Longrightarrow>
      \<exists>u' more. send b u = Some u' \<and> good u' \<and> sent u' = sent u @ [b] \<and> pending u' = pending u @ more"
    and recv_good: "good u \<Longrightarrow> pending u = b # bs \<Longrightarrow>
      \<exists>u'. recv u = Some (b, u') \<and> good u' \<and> sent u' = sent u \<and> pending u' = bs"
begin

lemma write_all:
  "good u \<Longrightarrow> \<exists>u' more. uart_write send buf u = Some u' \<and> good u' \<and> sent u' = sent u @ buf \<and>
     pending u' = pending u @ more"
proof (induction buf arbitrary: u)
  case (Cons b buf)
  obtain u1 m1 where 1: "send b u = Some u1" "good u1" "sent u1 = sent u @ [b]" "pending u1 = pending u @ m1"
    using send_good [OF Cons.prems] by blast
  from Cons.IH [OF 1(2)] 1 show ?case by auto
qed simp

lemma read_all:
  "good u \<Longrightarrow> pending u = xs @ ys \<Longrightarrow>
     \<exists>u'. uart_read recv (length xs) u = Some (xs, u') \<and> good u' \<and> sent u' = sent u \<and> pending u' = ys"
proof (induction xs arbitrary: u)
  case (Cons b xs)
  then obtain u1 where 1: "recv u = Some (b, u1)" "good u1" "sent u1 = sent u" "pending u1 = xs @ ys"
    using recv_good [of u b "xs @ ys"] by auto
  from Cons.IH [OF 1(2,4)] 1 show ?case by auto
qed simp

end

section \<open>The hardware\<close>

text \<open>
  The documented behaviour of the PL011 registers, over a view of the hardware state: \<open>waits m u\<close> is
  the number of further reads of the flag register that show the bits \<open>m\<close> set; a read with
  none left shows them clear. Reading flags moves no data; a write of the data register sends
  its low byte; a read of the data register takes the first pending byte. The transmitter
  eventually has room, and the receiver has data once a byte is pending.
\<close>

definition pl011 ::
  "'u mmio \<Rightarrow> (u32 \<Rightarrow> 'u \<Rightarrow> nat) \<Rightarrow> ('u \<Rightarrow> u8 list) \<Rightarrow> ('u \<Rightarrow> u8 list) \<Rightarrow> bool" where
  "pl011 D waits sent pending \<longleftrightarrow>
     (\<forall>u v u' m. read_volatile D UART_FR u = (v, u') \<longrightarrow>
        sent u' = sent u \<and> pending u' = pending u \<and>
        (v AND m \<noteq> 0 \<longrightarrow> (m = push_bit 4 1 \<longrightarrow> pending u \<noteq> []) \<longrightarrow>
           m = push_bit 4 1 \<or> m = push_bit 5 1 \<longrightarrow> waits m u' < waits m u)) \<and>
     (\<forall>u b. \<exists>more. sent (write_volatile D UART_DR (ucast (b :: u8)) u) = sent u @ [b] \<and>
        pending (write_volatile D UART_DR (ucast b) u) = pending u @ more) \<and>
     (\<forall>u b bs. pending u = b # bs \<longrightarrow> (\<exists>v u'. read_volatile D UART_DR u = (v, u') \<and> ucast v = b \<and>
        sent u' = sent u \<and> pending u' = bs))"

lemma poll_clear_returns:
  assumes "pl011 D waits sent pending" "m = push_bit 4 1 \<or> m = push_bit 5 1"
    and "m = push_bit 4 1 \<longrightarrow> pending u \<noteq> []"
  shows "\<exists>u'. poll_clear D m u = Some u' \<and> sent u' = sent u \<and> pending u' = pending u"
  using assms(3)
proof (induction "waits m u" arbitrary: u rule: less_induct)
  case less
  obtain v u1 where r: "read_volatile D UART_FR u = (v, u1)"
    by fastforce
  have same: "sent u1 = sent u" "pending u1 = pending u"
    using assms(1) r unfolding pl011_def by blast+
  show ?case
  proof (cases "v AND m \<noteq> 0")
    case True
    then have "waits m u1 < waits m u"
      using assms(1,2) less.prems r unfolding pl011_def by blast
    from less.hyps [OF this] less.prems same show ?thesis
      using True r by (subst poll_clear.simps) auto
  next
    case False
    then show ?thesis
      using r same by (subst poll_clear.simps) auto
  qed
qed

interpretation ec_uart: byte_link "\<lambda>u. pl011 D waits sent pending" "write_byte D" "read_byte D" sent pending
  for D waits sent pending
proof
  fix u b
  assume d: "pl011 D waits sent pending"
  obtain u1 where p: "poll_clear D (push_bit 5 1) u = Some u1" "sent u1 = sent u" "pending u1 = pending u"
    using poll_clear_returns [OF d, of "push_bit 5 1" u] by auto
  obtain more where "sent (write_volatile D UART_DR (ucast b) u1) = sent u1 @ [b]"
    "pending (write_volatile D UART_DR (ucast b) u1) = pending u1 @ more"
    using d unfolding pl011_def by blast
  with p d show "\<exists>u' more. write_byte D b u = Some u' \<and> pl011 D waits sent pending \<and>
      sent u' = sent u @ [b] \<and> pending u' = pending u @ more"
    by (auto simp: write_byte_def)
next
  fix u b bs
  assume d: "pl011 D waits sent pending" and pend: "pending u = b # bs"
  obtain u1 where p: "poll_clear D (push_bit 4 1) u = Some u1" "sent u1 = sent u" "pending u1 = b # bs"
    using poll_clear_returns [OF d, of "push_bit 4 1" u] pend by auto
  obtain v u2 where "read_volatile D UART_DR u1 = (v, u2)" "ucast v = b" "sent u2 = sent u1" "pending u2 = bs"
    using d p(3) unfolding pl011_def by blast
  with p d show "\<exists>u'. read_byte D u = Some (b, u') \<and> pl011 D waits sent pending \<and>
      sent u' = sent u \<and> pending u' = bs"
    by (auto simp: read_byte_def)
qed

text \<open>
  A transmitter that never has room: polling has no result, so writing a byte does not return.
\<close>

lemma poll_clear_stuck:
  assumes "poll_clear D m u = Some u'"
  shows "\<exists>w. fst (read_volatile D UART_FR w) AND m = 0"
proof (rule poll_clear.raw_induct
    [where P = "\<lambda>D m u u'. \<exists>w. fst (read_volatile D UART_FR w) AND m = 0", OF _ assms])
qed (auto split: if_splits)

text \<open>
  A receiver that stays empty: \<open>rx_empty_flag\<close> is the documented behaviour that the flag register
  shows RXFE while nothing is pending. Then reading a byte does not return.
\<close>

definition rx_empty_flag :: "'u mmio \<Rightarrow> ('u \<Rightarrow> u8 list) \<Rightarrow> bool" where
  "rx_empty_flag D pending \<longleftrightarrow> (\<forall>u. pending u = [] \<longrightarrow> fst (read_volatile D UART_FR u) AND push_bit 4 1 \<noteq> 0)"

lemma poll_clear_pending:
  assumes "poll_clear D m u = Some u'"
  shows "(\<forall>u. pending (snd (read_volatile D UART_FR u)) = pending u) \<longrightarrow>
    (\<forall>u. pending u = [] \<longrightarrow> fst (read_volatile D UART_FR u) AND m \<noteq> 0) \<longrightarrow> pending u \<noteq> []"
proof (rule poll_clear.raw_induct
    [where P = "\<lambda>D m u u'. (\<forall>u. pending (snd (read_volatile D UART_FR u)) = pending u) \<longrightarrow>
      (\<forall>u. pending u = [] \<longrightarrow> fst (read_volatile D UART_FR u) AND m \<noteq> 0) \<longrightarrow> pending u \<noteq> []", OF _ assms])
qed (fastforce split: if_splits)

lemma poll_clear_empty:
  assumes "pl011 D waits sent pending" "rx_empty_flag D pending" "pending u = []"
  shows "poll_clear D (push_bit 4 1) u = None"
proof -
  have "\<forall>u. pending (snd (read_volatile D UART_FR u)) = pending u"
    using assms(1) unfolding pl011_def by (metis prod.collapse)
  then show ?thesis
    using poll_clear_pending [of D "push_bit 4 1" u _ pending] assms(2,3)
    unfolding rx_empty_flag_def by (cases "poll_clear D (push_bit 4 1) u") blast+
qed

lemma read_byte_empty:
  assumes "pl011 D waits sent pending" "rx_empty_flag D pending" "pending u = []"
  shows "read_byte D u = None"
  unfolding read_byte_def poll_clear_empty [OF assms] by simp

end
