(* ===== verification/Passthrough.thy ===== *)
theory Passthrough
  imports Ec_Uart
begin

text \<open>
  baremetal/services/passthrough_service.rs: requests of the operating system are wrapped in an SMBus,
  MCTP and ODP frame, sent to the embedded controller over the UART, and the reply is put
  together from MCTP packets. The FF-A message types come from the crate \<^verbatim>\<open>odp_ffa\<close>, which is
  not part of this repository, and are parameters.
\<close>

section \<open>Messages, commands, services\<close>

record ('q, 'p, 'r) ffa_lib =
  payload :: "'q \<Rightarrow> 'p"
  u8_at :: "'p \<Rightarrow> nat \<Rightarrow> u8 outcome"
  payload_from_bytes :: "u8 list \<Rightarrow> 'p outcome"
  from_req_with_payload :: "'q \<Rightarrow> 'p \<Rightarrow> 'r"

datatype error_code = InvalidParameters

definition MAX_MESSAGE_SIZE_BYTES :: nat where
  "MAX_MESSAGE_SIZE_BYTES = 14 * 8"

definition PACKET_HEADER_BYTES :: nat where
  "PACKET_HEADER_BYTES = 4 + 4 + 1 + 4"

definition SOC_MCTP_ENTITY_ID :: u8 where
  "SOC_MCTP_ENTITY_ID = 0x80"

record command_info =
  command_code :: u8
  payload_len :: nat

definition CommandInfo_new :: "u8 \<Rightarrow> nat \<Rightarrow> command_info outcome" where
  "CommandInfo_new c n =
     (if MAX_MESSAGE_SIZE_BYTES < n then Halted else Ret \<lparr>command_code = c, payload_len = n\<rparr>)"

record passthrough_service =
  destination_eid :: u8
  supported_commands :: "command_info list"

definition PassthroughService_new :: "u8 \<Rightarrow> command_info list \<Rightarrow> passthrough_service" where
  "PassthroughService_new eid commands = \<lparr>destination_eid = eid, supported_commands = commands\<rparr>"

section \<open>Receiving a reply\<close>

text \<open>
  The loop of \<open>send_cmd\<close>. \<open>rd n\<close> reads \<open>n\<close> bytes. The 256-byte \<open>buffer\<close> is represented by the bytes
  read into it, which are all that is used; \<open>out\<close> is the filled part of the 256-byte output
  buffer. A slice with its end before its start, and one that does not fit, panic.
\<close>

partial_function (option) recv_packets ::
  "(nat \<Rightarrow> 'u \<Rightarrow> (u8 list \<times> 'u) option) \<Rightarrow> u8 list \<Rightarrow> 'u \<Rightarrow> (u8 list \<times> 'u) outcome option" where
  "recv_packets rd out u =
     Option.bind (rd 4 u) (\<lambda>hu.
       let len = unat (fst hu ! 2) in
       if \<not> (4 \<le> len \<and> len \<le> 69) then Some Halted
       else Option.bind (rd len (snd hu)) (\<lambda>ru.
         let buffer = fst hu @ fst ru;
             flags = buffer ! 7;
             start = 8 + (if flags AND 0x80 \<noteq> 0 then 5 else 0);
             stop = len + 4 in
         if stop < start then Some Halted
         else let out_slice = slice start (stop - start) buffer in
         if 256 < length out + length out_slice then Some Halted
         else if flags AND 0x40 \<noteq> 0 then Some (Ret (out @ out_slice, snd ru))
         else recv_packets rd (out @ out_slice) (snd ru)))"

definition send_cmd ::
  "('q, 'p, 'r) ffa_lib \<Rightarrow> (u8 \<Rightarrow> 'u \<Rightarrow> 'u option) \<Rightarrow> ('u \<Rightarrow> (u8 \<times> 'u) option) \<Rightarrow> u8 list \<Rightarrow> 'u \<Rightarrow>
     ('p \<times> 'u) outcome option" where
  "send_cmd F wr rd data u =
     Option.bind (uart_write wr data u) (\<lambda>u.
     Option.bind (recv_packets (uart_read rd) [] u) (\<lambda>r.
     Some (obind r (\<lambda>(bytes, u). obind (payload_from_bytes F bytes) (\<lambda>p. Ret (p, u))))))"

section \<open>Sending a request\<close>

text \<open>The zeroed array \<open>data\<close> after the assignments to its first thirteen bytes.\<close>

definition request_data :: "u8 \<Rightarrow> u8 \<Rightarrow> nat \<Rightarrow> u8 list" where
  "request_data eid cmd len =
     [0x2, 0xF, of_nat (8 + len), 0x1,
      0x1, eid, SOC_MCTP_ENTITY_ID, 0xD3,
      0x7D, push_bit 1 1, eid, 0, cmd] @ replicate MAX_MESSAGE_SIZE_BYTES 0"

text \<open>The loop \<^verbatim>\<open>for i in 1..len\<close> that copies the arguments.\<close>

function copy_args :: "(nat \<Rightarrow> u8 outcome) \<Rightarrow> nat \<Rightarrow> nat \<Rightarrow> u8 list \<Rightarrow> u8 list outcome" where
  "copy_args get i len data =
     (if i < len then
        obind (get i) (\<lambda>b.
          if i + (PACKET_HEADER_BYTES - 1) < length data
          then copy_args get (Suc i) len (data[i + (PACKET_HEADER_BYTES - 1) := b])
          else Halted)
      else Ret data)"
  by pat_completeness auto
termination by (relation "measure (\<lambda>(get, i, len, data). len - i)") auto

declare copy_args.simps [simp del]

definition handle_message ::
  "('q, 'p, 'r) ffa_lib \<Rightarrow> (u8 \<Rightarrow> 'u \<Rightarrow> 'u option) \<Rightarrow> ('u \<Rightarrow> (u8 \<times> 'u) option) \<Rightarrow> passthrough_service \<Rightarrow>
     'q \<Rightarrow> nat \<Rightarrow> 'u \<Rightarrow> ('p \<times> 'u) outcome option" where
  "handle_message F wr rd S msg len u =
     (case obind (u8_at F (payload F msg) 0) (\<lambda>cmd.
             copy_args (u8_at F (payload F msg)) 1 len (request_data (destination_eid S) cmd len)) of
        Ret data \<Rightarrow>
          let total_len = PACKET_HEADER_BYTES + len - 1 in
          if length data < total_len then Some Halted
          else send_cmd F wr rd (take total_len data) u
      | Halted \<Rightarrow> Some Halted
      | Undef \<Rightarrow> Some Undef)"

definition handle_request ::
  "('q, 'p, 'r) ffa_lib \<Rightarrow> (u8 \<Rightarrow> 'u \<Rightarrow> 'u option) \<Rightarrow> ('u \<Rightarrow> (u8 \<times> 'u) option) \<Rightarrow> passthrough_service \<Rightarrow>
     'q \<Rightarrow> 'u \<Rightarrow> ((error_code + 'r) \<times> 'u) outcome option" where
  "handle_request F wr rd S msg u =
     (case u8_at F (payload F msg) 0 of
        Ret cmd \<Rightarrow>
          (case find (\<lambda>c. command_code c = cmd) (supported_commands S) of
             None \<Rightarrow> Some (Ret (Inl InvalidParameters, u))
           | Some info \<Rightarrow>
               map_option (\<lambda>r. obind r (\<lambda>(p, u). Ret (Inr (from_req_with_payload F msg p), u)))
                 (handle_message F wr rd S msg (payload_len info + 1) u))
      | Halted \<Rightarrow> Some Halted
      | Undef \<Rightarrow> Some Undef)"

section \<open>Frames\<close>

text \<open>The bytes of a request on the wire: header and arguments.\<close>

definition request_frame :: "u8 \<Rightarrow> u8 \<Rightarrow> u8 list \<Rightarrow> u8 list" where
  "request_frame eid cmd args = take PACKET_HEADER_BYTES (request_data eid cmd (length args + 1)) @ args"

text \<open>
  A packet of a reply. The ODP bytes are the message type and the ODP header, present in a packet
  with the start-of-message flag. \<open>packet_bytes\<close> is its encoding.
\<close>

record mctp_packet =
  pk_smbus :: "u8 list"
  pk_source :: u8
  pk_mctp :: "u8 list"
  pk_flags :: u8
  pk_odp :: "u8 list"
  pk_body :: "u8 list"

definition packet_len :: "mctp_packet \<Rightarrow> nat" where
  "packet_len p = 4 + length (pk_odp p) + length (pk_body p)"

definition packet_bytes :: "mctp_packet \<Rightarrow> u8 list" where
  "packet_bytes p =
     pk_smbus p @ [of_nat (packet_len p), pk_source p] @ pk_mctp p @ [pk_flags p] @ pk_odp p @ pk_body p"

definition packet_ok :: "mctp_packet \<Rightarrow> bool" where
  "packet_ok p \<longleftrightarrow> length (pk_smbus p) = 2 \<and> length (pk_mctp p) = 3 \<and>
     length (pk_odp p) = (if pk_flags p AND 0x80 \<noteq> 0 then 5 else 0) \<and> packet_len p \<le> 69"

definition last_packet :: "mctp_packet \<Rightarrow> bool" where
  "last_packet p \<longleftrightarrow> pk_flags p AND 0x40 \<noteq> 0"

lemma copy_args_copies:
  assumes "\<And>j. i \<le> j \<Longrightarrow> j < i + length args \<Longrightarrow> get j = Ret (args ! (j - i))"
    and "len = i + length args" "len + 12 \<le> length data"
  shows "\<exists>tl. copy_args get i len data = Ret (take (i + 12) data @ args @ tl)"
  using assms
proof (induction args arbitrary: i data)
  case Nil
  then show ?case
    by (subst copy_args.simps) (intro exI [of _ "drop (i + 12) data"], simp)
next
  case (Cons b args)
  let ?d = "data[i + 12 := b]"
  have b: "get i = Ret b"
    using Cons.prems(1) [of i] by simp
  have "\<exists>tl. copy_args get (Suc i) len ?d = Ret (take (Suc i + 12) ?d @ args @ tl)"
  proof (rule Cons.IH)
    fix j
    assume "Suc i \<le> j" "j < Suc i + length args"
    then show "get j = Ret (args ! (j - Suc i))"
      using Cons.prems(1) [of j] by (simp add: nth_Cons')
  qed (use Cons.prems in simp_all)
  moreover have "take (Suc i + 12) ?d = take (i + 12) data @ [b]"
  proof -
    have "take (Suc (i + 12)) ?d = take (i + 12) ?d @ [?d ! (i + 12)]"
      using Cons.prems(2,3) by (intro take_Suc_conv_app_nth) simp
    then show ?thesis
      using Cons.prems(2,3) by simp
  qed
  ultimately show ?case
    using b Cons.prems(2,3) by (subst copy_args.simps) (simp add: PACKET_HEADER_BYTES_def)
qed

text \<open>With the arguments readable, the bytes handed to \<open>send_cmd\<close> are the request frame.\<close>

lemma handle_message_frame:
  assumes "u8_at F (payload F msg) 0 = Ret cmd"
    and "\<And>j. j < length args \<Longrightarrow> u8_at F (payload F msg) (Suc j) = Ret (args ! j)"
    and "length args \<le> MAX_MESSAGE_SIZE_BYTES"
  shows "handle_message F wr rd S msg (length args + 1) u =
    send_cmd F wr rd (request_frame (destination_eid S) cmd args) u"
proof -
  let ?d = "request_data (destination_eid S) cmd (length args + 1)"
  have len: "length ?d = 125"
    by (simp add: request_data_def MAX_MESSAGE_SIZE_BYTES_def)
  have "\<exists>tl. copy_args (u8_at F (payload F msg)) 1 (length args + 1) ?d = Ret (take (1 + 12) ?d @ args @ tl)"
  proof (rule copy_args_copies)
    fix j
    assume j: "1 \<le> j" "j < 1 + length args"
    then have "u8_at F (payload F msg) (Suc (j - 1)) = Ret (args ! (j - 1))"
      by (intro assms(2)) simp
    with j show "u8_at F (payload F msg) j = Ret (args ! (j - 1))" by simp
  qed (use assms(3) len in \<open>simp_all add: MAX_MESSAGE_SIZE_BYTES_def\<close>)
  then obtain tl where "copy_args (u8_at F (payload F msg)) 1 (length args + 1) ?d = Ret (take 13 ?d @ args @ tl)"
    by auto
  moreover have "take (PACKET_HEADER_BYTES + (length args + 1) - 1) (take 13 ?d @ args @ tl) =
      request_frame (destination_eid S) cmd args"
    using len by (simp add: request_frame_def PACKET_HEADER_BYTES_def)
  ultimately show ?thesis
    using assms(1) len by (simp add: handle_message_def Let_def PACKET_HEADER_BYTES_def)
qed

section \<open>Reassembly\<close>

context byte_link begin

lemma read_packet:
  assumes "good u" "packet_ok p" "pending u = packet_bytes p @ rest"
  obtains u' where "good u'" "sent u' = sent u" "pending u' = rest"
    "recv_packets (uart_read recv) out u =
       (if 256 < length out + length (pk_body p) then Some Halted
        else if last_packet p then Some (Ret (out @ pk_body p, u'))
        else recv_packets (uart_read recv) (out @ pk_body p) u')"
proof -
  define h where "h = pk_smbus p @ [of_nat (packet_len p), pk_source p]"
  define r where "r = pk_mctp p @ [pk_flags p] @ pk_odp p @ pk_body p"
  have lens: "length h = 4" "length r = packet_len p"
    using assms(2) by (simp_all add: h_def r_def packet_ok_def packet_len_def)
  have pb: "packet_bytes p = h @ r"
    by (simp add: packet_bytes_def h_def r_def)
  obtain u1 where u1: "uart_read recv 4 u = Some (h, u1)" "good u1" "sent u1 = sent u" "pending u1 = r @ rest"
    using read_all [OF assms(1), of h "r @ rest"] assms(3) lens(1) pb by auto
  obtain u2 where u2: "uart_read recv (packet_len p) u1 = Some (r, u2)" "good u2" "sent u2 = sent u1" "pending u2 = rest"
    using read_all [OF u1(2,4)] lens(2) by auto
  have "unat (of_nat (packet_len p) :: u8) = packet_len p"
    using assms(2) by (simp add: packet_ok_def unat_of_nat)
  then have len: "unat (h ! 2) = packet_len p"
    using assms(2) by (simp add: h_def packet_ok_def nth_append)
  have bounds: "4 \<le> packet_len p" "packet_len p \<le> 69"
    using assms(2) by (simp_all add: packet_ok_def packet_len_def)
  have flags: "(h @ r) ! 7 = pk_flags p"
    using assms(2) lens(1) by (simp add: nth_append r_def packet_ok_def)
  define st :: nat where "st = 8 + (if pk_flags p AND 0x80 \<noteq> 0 then 5 else 0)"
  have start: "\<not> packet_len p + 4 < st"
    using assms(2) by (simp add: st_def packet_ok_def packet_len_def)
  have body: "slice st (packet_len p + 4 - st) (h @ r) = pk_body p"
    using assms(2) lens(1) by (simp add: st_def slice_def r_def packet_ok_def packet_len_def)
  show ?thesis
  proof (rule that)
    show "recv_packets (uart_read recv) out u =
       (if 256 < length out + length (pk_body p) then Some Halted
        else if last_packet p then Some (Ret (out @ pk_body p, u2))
        else recv_packets (uart_read recv) (out @ pk_body p) u2)"
      by (subst recv_packets.simps)
        (simp only: u1(1) u2(1) len flags Option.bind.simps fst_conv snd_conv Let_def st_def [symmetric] body
          bounds start last_packet_def simp_thms if_True if_False)
  qed (use u1 u2 in simp_all)
qed

lemma read_reply:
  assumes "good u" "\<forall>p \<in> set ps. packet_ok p \<and> \<not> last_packet p" "packet_ok q" "last_packet q"
    and "pending u = concat (map packet_bytes (ps @ [q])) @ rest"
    and "length out + length (concat (map pk_body (ps @ [q]))) \<le> 256"
  shows "\<exists>u'. recv_packets (uart_read recv) out u = Some (Ret (out @ concat (map pk_body (ps @ [q])), u')) \<and>
    good u' \<and> sent u' = sent u \<and> pending u' = rest"
  using assms
proof (induction ps arbitrary: u out)
  case Nil
  then show ?case
    by (auto elim!: read_packet [of u q rest out])
next
  case (Cons p ps)
  obtain u1 where u1: "good u1" "sent u1 = sent u" "pending u1 = concat (map packet_bytes (ps @ [q])) @ rest"
    "recv_packets (uart_read recv) out u =
       (if 256 < length out + length (pk_body p) then Some Halted
        else if last_packet p then Some (Ret (out @ pk_body p, u1))
        else recv_packets (uart_read recv) (out @ pk_body p) u1)"
    using Cons.prems by (auto elim!: read_packet [of u p _ out])
  have "\<exists>u'. recv_packets (uart_read recv) (out @ pk_body p) u1 =
      Some (Ret ((out @ pk_body p) @ concat (map pk_body (ps @ [q])), u')) \<and>
      good u' \<and> sent u' = sent u1 \<and> pending u' = rest"
    by (rule Cons.IH [OF u1(1)]) (use Cons.prems u1 in simp_all)
  with u1 Cons.prems show ?case by auto
qed

text \<open>
  What a sequence of packets does to the loop: it decides the outcome when one of them is the last
  or their bodies overflow the buffer; else the loop is where it was, with the bodies stored.
\<close>

lemma read_packets:
  assumes "good u" "\<forall>p \<in> set ps. packet_ok p" "pending u = concat (map packet_bytes ps) @ rest" "length out \<le> 256"
  shows "if (\<exists>p \<in> set ps. last_packet p) \<or> 256 < length out + length (concat (map pk_body ps))
    then \<exists>r. recv_packets (uart_read recv) out u = Some r
    else \<exists>u'. good u' \<and> pending u' = rest \<and>
      recv_packets (uart_read recv) out u = recv_packets (uart_read recv) (out @ concat (map pk_body ps)) u'"
  using assms
proof (induction ps arbitrary: u out)
  case (Cons p ps)
  obtain u1 where u1: "good u1" "pending u1 = concat (map packet_bytes ps) @ rest"
    "recv_packets (uart_read recv) out u =
       (if 256 < length out + length (pk_body p) then Some Halted
        else if last_packet p then Some (Ret (out @ pk_body p, u1))
        else recv_packets (uart_read recv) (out @ pk_body p) u1)"
    using Cons.prems by (auto elim!: read_packet [of u p _ out])
  show ?case
  proof (cases "256 < length out + length (pk_body p) \<or> last_packet p")
    case True
    with u1(3) show ?thesis by auto
  next
    case False
    with Cons.IH [OF u1(1) _ u1(2), of "out @ pk_body p"] Cons.prems(2) u1(3) show ?thesis
      by (auto simp: add.assoc)
  qed
qed auto

end

text \<open>A packet whose byte count is out of range, or too small for the ODP header of a first packet.\<close>

context byte_link begin

lemma read_malformed:
  assumes "good u" "pending u = h @ r @ rest" "length h = 4"
    and "unat (h ! 2) < 4 \<or> 69 < unat (h ! 2) \<or>
         (length r = unat (h ! 2) \<and> 4 \<le> length r \<and> length r \<le> 8 \<and> r ! 3 AND 0x80 \<noteq> 0)"
  shows "recv_packets (uart_read recv) out u = Some Halted"
proof -
  obtain u1 where u1: "uart_read recv 4 u = Some (h, u1)" "good u1" "pending u1 = r @ rest"
    using read_all [OF assms(1,2)] assms(3) by auto
  show ?thesis
  proof (cases "4 \<le> unat (h ! 2) \<and> unat (h ! 2) \<le> 69")
    case False
    then show ?thesis
      by (subst recv_packets.simps) (simp only: u1(1) Option.bind.simps fst_conv Let_def if_True not_False_eq_True)
  next
    case True
    with assms(4) have r: "length r = unat (h ! 2)" "length r \<le> 8" "r ! 3 AND 0x80 \<noteq> 0" "4 \<le> length r"
      by auto
    obtain u2 where u2: "uart_read recv (unat (h ! 2)) u1 = Some (r, u2)"
      using read_all [OF u1(2,3)] r(1) by auto
    have flags: "(h @ r) ! 7 = r ! 3"
      using assms(3) by (simp add: nth_append)
    have "unat (h ! 2) + 4 < 8 + (if (h @ r) ! 7 AND 0x80 \<noteq> 0 then 5 else 0)"
      using r flags by simp
    then show ?thesis
      using True
      by (subst recv_packets.simps) (simp only: u1(1) u2 Option.bind.simps fst_conv snd_conv Let_def if_True
          simp_thms if_cancel)
  qed
qed

end

text \<open>A command the service does not support is refused without any traffic.\<close>

lemma unsupported_command:
  assumes "u8_at F (payload F msg) 0 = Ret cmd" "\<forall>c \<in> set (supported_commands S). command_code c \<noteq> cmd"
  shows "handle_request F wr rd S msg u = Some (Ret (Inl InvalidParameters, u))"
proof -
  have "find (\<lambda>c. command_code c = cmd) (supported_commands S) = None"
    using assms(2) by (simp add: find_None_iff)
  then show ?thesis
    using assms(1) by (simp add: handle_request_def)
qed

text \<open>The whole exchange: the frame goes out, the packets come in, and the reply is made of their bodies.\<close>

lemma request_reply:
  assumes "pl011 D waits sent pending"
    and "find (\<lambda>c. command_code c = cmd) (supported_commands S) = Some info"
    and "payload_len info = length args" "length args \<le> MAX_MESSAGE_SIZE_BYTES"
    and "u8_at F (payload F msg) 0 = Ret cmd" "\<forall>j < length args. u8_at F (payload F msg) (Suc j) = Ret (args ! j)"
    and "\<forall>u'. uart_write (write_byte D) (request_frame (destination_eid S) cmd args) u = Some u' \<longrightarrow>
           pending u' = concat (map packet_bytes (ps @ [q])) @ rest"
    and "\<forall>p \<in> set ps. packet_ok p \<and> \<not> last_packet p" "packet_ok q" "last_packet q"
    and "length (concat (map pk_body (ps @ [q]))) \<le> 256"
    and "payload_from_bytes F (concat (map pk_body (ps @ [q]))) = Ret reply"
  shows "\<exists>u'. handle_request F (write_byte D) (read_byte D) S msg u =
      Some (Ret (Inr (from_req_with_payload F msg reply), u')) \<and>
    sent u' = sent u @ request_frame (destination_eid S) cmd args \<and> pending u' = rest"
proof -
  let ?frame = "request_frame (destination_eid S) cmd args"
  obtain u1 where u1: "uart_write (write_byte D) ?frame u = Some u1" "sent u1 = sent u @ ?frame"
    using ec_uart.write_all [OF assms(1)] by blast
  have "pending u1 = concat (map packet_bytes (ps @ [q])) @ rest"
    using assms(7) u1(1) by blast
  then obtain u2 where u2: "recv_packets (uart_read (read_byte D)) [] u1 =
      Some (Ret (concat (map pk_body (ps @ [q])), u2))" "sent u2 = sent u1" "pending u2 = rest"
    using ec_uart.read_reply [OF assms(1,8,9,10), of u1 rest "[]"] assms(11) by auto
  have "send_cmd F (write_byte D) (read_byte D) ?frame u = Some (Ret (reply, u2))"
    using u1(1) u2(1) assms(12) by (simp add: send_cmd_def)
  then have "handle_message F (write_byte D) (read_byte D) S msg (length args + 1) u = Some (Ret (reply, u2))"
    by (subst handle_message_frame [OF assms(5) _ assms(4)]) (use assms(6) in auto)
  then show ?thesis
    using assms(2,3,5) u1 u2 by (simp add: handle_request_def)
qed

section \<open>Properties\<close>

text \<open>A request and its reply. For a supported command whose arguments the message holds, on a
  UART that behaves as documented, the service sends exactly the request frame and nothing
  else; when the controller answers with packets of which the last carries the end flag and
  whose bodies fit the buffer, the call returns the response made of the bodies in order,
  having consumed exactly these packets.\<close>

theorem passthrough_request_reply:
  assumes "pl011 D waits sent pending"
    and "find (\<lambda>c. command_code c = cmd) (supported_commands S) = Some info"
    and "payload_len info = length args" "length args \<le> MAX_MESSAGE_SIZE_BYTES"
    and "u8_at F (payload F msg) 0 = Ret cmd" "\<forall>j < length args. u8_at F (payload F msg) (Suc j) = Ret (args ! j)"
    and "\<forall>u'. uart_write (write_byte D) (request_frame (destination_eid S) cmd args) u = Some u' \<longrightarrow>
           pending u' = concat (map packet_bytes (ps @ [q])) @ rest"
    and "\<forall>p \<in> set ps. packet_ok p \<and> \<not> last_packet p" "packet_ok q" "last_packet q"
    and "length (concat (map pk_body (ps @ [q]))) \<le> 256"
    and "payload_from_bytes F (concat (map pk_body (ps @ [q]))) = Ret reply"
  shows "\<exists>u'. handle_request F (write_byte D) (read_byte D) S msg u =
      Some (Ret (Inr (from_req_with_payload F msg reply), u')) \<and>
    sent u' = sent u @ request_frame (destination_eid S) cmd args \<and> pending u' = rest"
  using assms by (rule request_reply)

text \<open>The request frame. For arguments that fit a message, the byte count of the frame is the
  number of bytes after the SMBus header, the destination and the service are the service's,
  the command code and the arguments can be read back, and flags and message type mark a
  request in one packet.\<close>

theorem request_frame_fields:
  assumes "length args \<le> MAX_MESSAGE_SIZE_BYTES" "request_frame eid cmd args = frame"
  shows "length frame = PACKET_HEADER_BYTES + length args \<and> unat (frame ! 2) = length frame - 4 \<and>
    frame ! 5 = eid \<and> frame ! 6 = SOC_MCTP_ENTITY_ID \<and> frame ! 7 = 0xD3 \<and> frame ! 8 = 0x7D \<and>
    frame ! 9 AND 2 \<noteq> 0 \<and> frame ! 10 = eid \<and> frame ! 12 = cmd \<and> drop PACKET_HEADER_BYTES frame = args"
proof -
  have frame: "frame = [0x2, 0xF, of_nat (9 + length args), 0x1, 0x1, eid, SOC_MCTP_ENTITY_ID, 0xD3,
      0x7D, 2, eid, 0, cmd] @ args"
    using assms(2) by (simp add: request_frame_def request_data_def PACKET_HEADER_BYTES_def)
  have "unat (of_nat (9 + length args) :: u8) = 9 + length args"
    using assms(1) by (simp only: unat_of_nat) (simp add: MAX_MESSAGE_SIZE_BYTES_def)
  then show ?thesis
    by (simp add: frame PACKET_HEADER_BYTES_def)
qed

text \<open>C40: a malformed reply stops the partition. A first reply packet whose byte count is below 4 or above
  69, or one with the start flag whose byte count leaves no room for the headers that are
  skipped, ends the call in a panic after the request was sent; the error path that would
  return an ACPI error is never taken.\<close>

theorem malformed_reply_panics:
  assumes "pl011 D waits sent pending"
    and "\<forall>u'. uart_write (write_byte D) data u = Some u' \<longrightarrow> pending u' = h @ r @ rest" "length h = 4"
    and "unat (h ! 2) < 4 \<or> 69 < unat (h ! 2) \<or>
         (length r = unat (h ! 2) \<and> 4 \<le> length r \<and> length r \<le> 8 \<and> r ! 3 AND 0x80 \<noteq> 0)"
  shows "send_cmd F (write_byte D) (read_byte D) data u = Some Halted"
proof -
  obtain u1 where u1: "uart_write (write_byte D) data u = Some u1"
    using ec_uart.write_all [OF assms(1)] by blast
  then have "pending u1 = h @ r @ rest"
    using assms(2) by blast
  then show ?thesis
    using ec_uart.read_malformed [OF assms(1) _ assms(3,4)] u1 by (simp add: send_cmd_def)
qed

text \<open>C18: when the reply loop ends. For well-formed packets from the controller and nothing after them,
  on a UART that behaves as documented, receiving returns exactly if one of the packets carries the end
  flag or the bodies together exceed the 256-byte buffer (which ends the call in a panic). So
  non-empty packets cannot keep the partition busy beyond 256 of them, while packets with an empty
  body can do so for ever, and a reply cut short is waited for without end.\<close>

theorem reply_loop_terminates:
  assumes "pl011 D waits sent pending" "rx_empty_flag D pending"
    and "pending u = concat (map packet_bytes ps)" "\<forall>p \<in> set ps. packet_ok p"
  shows "(\<exists>r. recv_packets (uart_read (read_byte D)) [] u = Some r) \<longleftrightarrow>
    (\<exists>p \<in> set ps. last_packet p) \<or> 256 < length (concat (map pk_body ps))"
proof (cases "(\<exists>p \<in> set ps. last_packet p) \<or> 256 < length (concat (map pk_body ps))")
  case True
  with ec_uart.read_packets [OF assms(1,4), of u "[]" "[]"] assms(3) show ?thesis by auto
next
  case False
  then obtain u' where "pending u' = []"
    "recv_packets (uart_read (read_byte D)) [] u = recv_packets (uart_read (read_byte D)) (concat (map pk_body ps)) u'"
    using ec_uart.read_packets [OF assms(1,4), of u "[]" "[]"] assms(3) by auto
  moreover have "uart_read (read_byte D) 4 u' = None" if "pending u' = []" for u'
    using read_byte_empty [OF assms(1,2) that] by (simp add: eval_nat_numeral)
  ultimately show ?thesis
    using False by (subst (asm) (2) recv_packets.simps) simp
qed

section \<open>Witnesses\<close>

text \<open>
  A UART whose receiver already holds the reply and whose transmitter is never full; a message is
  its list of bytes.
\<close>

definition sample_uart :: "(u8 list \<times> u8 list) mmio" where
  "sample_uart =
     \<lparr>read_volatile = (\<lambda>a (s, p). if a = UART_FR then (if p = [] then push_bit 4 1 else 0, (s, p))
        else (ucast (hd p), (s, tl p))),
      write_volatile = (\<lambda>a v (s, p). (s @ [ucast v], p))\<rparr>"

definition sample_ffa :: "(u8 list, u8 list, u8 list) ffa_lib" where
  "sample_ffa =
     \<lparr>payload = (\<lambda>q. q), u8_at = (\<lambda>p i. if i < length p then Ret (p ! i) else Halted),
      payload_from_bytes = Ret, from_req_with_payload = (\<lambda>q p. p)\<rparr>"

lemma sample_uart_pl011: "pl011 sample_uart (\<lambda>_ _. 0) fst snd"
proof -
  have "UART_DR \<noteq> UART_FR"
    by (simp add: UART_DR_def UART_FR_def UART_BASE_def)
  moreover have "ucast (ucast (b :: u8) :: u32) = b" for b
    by (rule bit_word_eqI) (simp add: bit_simps)
  ultimately show ?thesis
    unfolding pl011_def sample_uart_def by (auto split: if_splits)
qed

lemma sample_uart_write:
  "uart_write (write_byte sample_uart) buf u = Some u' \<Longrightarrow> snd u' = snd u"
proof (induction buf arbitrary: u)
  case (Cons b buf)
  obtain u1 where p: "poll_clear sample_uart (push_bit 5 1) u = Some u1" "snd u1 = snd u"
    using poll_clear_returns [OF sample_uart_pl011, of "push_bit 5 1" u] by auto
  with Cons show ?case
    by (cases u1) (auto simp: write_byte_def sample_uart_def)
qed simp

definition sample_packet :: mctp_packet where
  "sample_packet = \<lparr>pk_smbus = [1, 0xF], pk_source = 1, pk_mctp = [1, 0x80, 8], pk_flags = 0xC8,
     pk_odp = [0x7D, 0, 8, 0, 1], pk_body = [0x2A]\<rparr>"

lemma sample_packet_ok: "packet_ok sample_packet" "last_packet sample_packet"
  by (simp_all add: sample_packet_def packet_ok_def packet_len_def last_packet_def)

theorem passthrough_request_reply_witness:
  "\<exists>u'. handle_request sample_ffa (write_byte sample_uart) (read_byte sample_uart)
      \<lparr>destination_eid = 8, supported_commands = [\<lparr>command_code = 1, payload_len = 1\<rparr>]\<rparr> [1, 7]
      ([], packet_bytes sample_packet) = Some (Ret (Inr [0x2A], u')) \<and> snd u' = []"
proof -
  let ?S = "\<lparr>destination_eid = 8, supported_commands = [\<lparr>command_code = 1, payload_len = 1\<rparr>]\<rparr>"
  have pend: "\<forall>u'. uart_write (write_byte sample_uart) (request_frame (destination_eid ?S) 1 [7])
      ([], packet_bytes sample_packet) = Some u' \<longrightarrow>
      snd u' = concat (map packet_bytes ([] @ [sample_packet])) @ []"
    using sample_uart_write by force
  have "\<exists>u'. handle_request sample_ffa (write_byte sample_uart) (read_byte sample_uart) ?S [1, 7]
      ([], packet_bytes sample_packet) = Some (Ret (Inr (from_req_with_payload sample_ffa [1, 7] [0x2A]), u')) \<and>
      fst u' = fst ([], packet_bytes sample_packet) @ request_frame (destination_eid ?S) 1 [7] \<and> snd u' = []"
    by (rule passthrough_request_reply [OF sample_uart_pl011 _ _ _ _ _ pend _ sample_packet_ok, where info =
          "\<lparr>command_code = 1, payload_len = 1\<rparr>"])
      (simp_all add: sample_ffa_def sample_packet_def MAX_MESSAGE_SIZE_BYTES_def)
  then show ?thesis
    by (auto simp: sample_ffa_def)
qed

text \<open>Without the end flag the sample packet leaves the loop waiting; with it the loop returns.\<close>

theorem reply_loop_terminates_witness:
  "recv_packets (uart_read (read_byte sample_uart)) [] ([], packet_bytes (sample_packet\<lparr>pk_flags := 0x88\<rparr>)) = None \<and>
   recv_packets (uart_read (read_byte sample_uart)) [] ([], packet_bytes sample_packet) \<noteq> None"
proof -
  have rx: "rx_empty_flag sample_uart snd"
    by (simp add: rx_empty_flag_def sample_uart_def split: prod.splits)
  note ends = reply_loop_terminates [OF sample_uart_pl011 rx]
  have "(\<exists>r. recv_packets (uart_read (read_byte sample_uart)) [] ([], packet_bytes (sample_packet\<lparr>pk_flags := 0x88\<rparr>)) = Some r)
      \<longleftrightarrow> (\<exists>p \<in> set [sample_packet\<lparr>pk_flags := 0x88\<rparr>]. last_packet p) \<or>
        256 < length (concat (map pk_body [sample_packet\<lparr>pk_flags := 0x88\<rparr>]))"
    by (rule ends) (simp_all add: sample_packet_def packet_ok_def packet_len_def)
  moreover have "(\<exists>r. recv_packets (uart_read (read_byte sample_uart)) [] ([], packet_bytes sample_packet) = Some r)
      \<longleftrightarrow> (\<exists>p \<in> set [sample_packet]. last_packet p) \<or> 256 < length (concat (map pk_body [sample_packet]))"
    by (rule ends) (simp_all add: sample_packet_ok)
  ultimately show ?thesis
    by (simp add: sample_packet_ok) (simp add: sample_packet_def last_packet_def)
qed

theorem request_frame_fields_witness:
  "unat (request_frame 8 6 [1, 2] ! 2) = 11 \<and> drop PACKET_HEADER_BYTES (request_frame 8 6 [1, 2]) = [1, 2]"
proof -
  define frame where "frame = request_frame 8 6 [1, 2]"
  have "length [1 :: u8, 2] \<le> MAX_MESSAGE_SIZE_BYTES"
    by (simp add: MAX_MESSAGE_SIZE_BYTES_def)
  from request_frame_fields [OF this frame_def [symmetric]]
  have "unat (frame ! 2) = 11 \<and> drop PACKET_HEADER_BYTES frame = [1, 2]"
    by (simp add: PACKET_HEADER_BYTES_def)
  then show ?thesis
    unfolding frame_def .
qed

theorem malformed_reply_panics_witness:
  "send_cmd sample_ffa (write_byte sample_uart) (read_byte sample_uart) [1]
     ([], [1, 0xF, 4, 1] @ [1, 0x80, 8, 0xC8] @ []) = Some Halted"
proof (rule malformed_reply_panics [OF sample_uart_pl011])
  show "\<forall>u'. uart_write (write_byte sample_uart) [1] ([], [1, 0xF, 4, 1] @ [1, 0x80, 8, 0xC8] @ []) = Some u' \<longrightarrow>
      snd u' = [1, 0xF, 4, 1] @ [1, 0x80, 8, 0xC8] @ []"
    by (intro allI impI) (drule sample_uart_write, simp)
qed simp_all

end
