(* ===== verification/Ec_Services.thy ===== *)
theory Ec_Services
  imports Passthrough
begin

text \<open>
  The three services of the secure partition, baremetal/services/battery.rs, thermal.rs and
  time_alarm.rs: their command tables, which the compiler evaluates (\<open>CommandInfo_new\<close> panics for
  a payload that is too large, and then the build fails), and the services built from them.
\<close>

section \<open>Command tables\<close>

text \<open>A table written as pairs of a command code and a payload length.\<close>

fun command_table_of :: "(u8 \<times> nat) list \<Rightarrow> command_info list outcome" where
  "command_table_of [] = Ret []"
| "command_table_of ((c, n) # rest) =
     obind (CommandInfo_new c n) (\<lambda>info. obind (command_table_of rest) (\<lambda>infos. Ret (info # infos)))"

definition BATTERY_COMMANDS :: "(u8 \<times> nat) list" where
  "BATTERY_COMMANDS =
     [(0x1, 1), (0x2, 1), (0x3, 1), (0x4, 1), (0x5, 1), (0x6, 2), (0x7, 2), (0x8, 1), (0x9, 2),
      (0xA, 1), (0xB, 1), (0xC, 1), (0xD, 2), (0xE, 2), (0xF, 1), (0x80, 1)]"

definition THERMAL_COMMANDS :: "(u8 \<times> nat) list" where
  "THERMAL_COMMANDS = [(0x1, 1), (0x2, 13), (0x3, 1), (0x4, 13), (0x5, 19), (0x6, 23)]"

definition TIME_ALARM_COMMANDS :: "(u8 \<times> nat) list" where
  "TIME_ALARM_COMMANDS =
     [(1, 0), (2, 0), (3, 16), (4, 4), (5, 4), (6, 8), (7, 4), (8, 8), (9, 4)]"

definition Battery_new :: "passthrough_service outcome" where
  "Battery_new = obind (command_table_of BATTERY_COMMANDS) (\<lambda>t. Ret (PassthroughService_new 8 t))"

definition Thermal_new :: "passthrough_service outcome" where
  "Thermal_new = obind (command_table_of THERMAL_COMMANDS) (\<lambda>t. Ret (PassthroughService_new 9 t))"

definition TimeAlarm_new :: "passthrough_service outcome" where
  "TimeAlarm_new = obind (command_table_of TIME_ALARM_COMMANDS) (\<lambda>t. Ret (PassthroughService_new 0xB t))"

section \<open>What a table must satisfy\<close>

text \<open>
  The contract between a table and the passthrough service: no command code occurs twice, so the
  first entry found is the only one, and every payload fits a message behind the command code, so no
  byte past the message is read, frames fit the buffer and the byte count fits a byte.
\<close>

locale command_table =
  fixes table :: "(u8 \<times> nat) list"
  assumes distinct_codes: "distinct (map fst table)"
    and payloads_fit: "\<forall>(c, n) \<in> set table. n < MAX_MESSAGE_SIZE_BYTES"
begin

lemma table_builds: "command_table_of table = Ret (map (\<lambda>(c, n). \<lparr>command_code = c, payload_len = n\<rparr>) table)"
proof -
  have "\<forall>(c, n) \<in> set t. n \<le> MAX_MESSAGE_SIZE_BYTES \<Longrightarrow>
      command_table_of t = Ret (map (\<lambda>(c, n). \<lparr>command_code = c, payload_len = n\<rparr>) t)" for t
    by (induction t rule: command_table_of.induct) (auto simp: CommandInfo_new_def)
  then show ?thesis
    using payloads_fit by fastforce
qed

lemma lookup:
  assumes "(cmd, n) \<in> set table"
  shows "find (\<lambda>c. command_code c = cmd) (map (\<lambda>(c, n). \<lparr>command_code = c, payload_len = n\<rparr>) table) =
    Some \<lparr>command_code = cmd, payload_len = n\<rparr>"
proof -
  have "distinct (map fst t) \<Longrightarrow> (cmd, n) \<in> set t \<Longrightarrow>
      find (\<lambda>c. command_code c = cmd) (map (\<lambda>(c, n). \<lparr>command_code = c, payload_len = n\<rparr>) t) =
        Some \<lparr>command_code = cmd, payload_len = n\<rparr>" for t :: "(u8 \<times> nat) list"
    by (induction t) force+
  then show ?thesis
    using distinct_codes assms .
qed

end

interpretation battery: command_table BATTERY_COMMANDS
  by unfold_locales (simp_all add: BATTERY_COMMANDS_def MAX_MESSAGE_SIZE_BYTES_def)

interpretation thermal: command_table THERMAL_COMMANDS
  by unfold_locales (simp_all add: THERMAL_COMMANDS_def MAX_MESSAGE_SIZE_BYTES_def)

interpretation time_alarm: command_table TIME_ALARM_COMMANDS
  by unfold_locales (simp_all add: TIME_ALARM_COMMANDS_def MAX_MESSAGE_SIZE_BYTES_def)

section \<open>Properties\<close>

text \<open>The services build and find their commands. All three constructors return; the services have
  different endpoint ids; and each of them finds, for every command of its table, the entry with
  the payload length the table gives.\<close>

theorem services_find_commands:
  "\<exists>b t a. Battery_new = Ret b \<and> Thermal_new = Ret t \<and> TimeAlarm_new = Ret a \<and>
     distinct [destination_eid b, destination_eid t, destination_eid a] \<and>
     (\<forall>(S, commands) \<in> {(b, BATTERY_COMMANDS), (t, THERMAL_COMMANDS), (a, TIME_ALARM_COMMANDS)}.
        \<forall>(cmd, n) \<in> set commands.
          find (\<lambda>c. command_code c = cmd) (supported_commands S) = Some \<lparr>command_code = cmd, payload_len = n\<rparr>)"
  by (simp only: Battery_new_def Thermal_new_def TimeAlarm_new_def battery.table_builds thermal.table_builds
      time_alarm.table_builds obind.simps outcome.inject PassthroughService_new_def)
    (auto simp: battery.lookup thermal.lookup time_alarm.lookup)

theorem services_find_commands_witness:
  "\<exists>t. Thermal_new = Ret t \<and> find (\<lambda>c. command_code c = 6) (supported_commands t) =
     Some \<lparr>command_code = 6, payload_len = 23\<rparr>"
proof -
  have "(6, 23) \<in> set THERMAL_COMMANDS"
    by (simp add: THERMAL_COMMANDS_def)
  with services_find_commands show ?thesis by fastforce
qed

end
