(* ===== verification/Platform_Core.thy ===== *)
theory Platform_Core
  imports Prelude
begin

text \<open>
  \<^verbatim>\<open>PlatformLib\<close>, ArmPlatformLib.c and AArch64/ArmPlatformHelper.S: the boot mode, the
  performance counter split, the early initialisation, and the table of processor cores that is
  built from a register in which a clear bit means a core that is present.
\<close>

section \<open>Early initialisation\<close>

text \<open>What the platform code relies on outside this repository: constants and hardware accesses.\<close>

record platform_env =
  BOOT_WITH_FULL_CONFIGURATION :: u32
  PcdBootCorePmuCounterNum :: u8
  PcdArmPrimaryCore :: u32
  ARM_CLUSTER_MASK :: u64
  PMCTRL_S5_BASE :: u64
  CPU_CORE_INFO_OFFSET :: u64
  MmioRead32 :: "u64 \<Rightarrow> u32"
  CONFIG_RLOG_ENABLE :: bool
  PcdRamLogLastBootSaveAddress :: u64
  PcdRamLogBaseAddress :: u64
  PcdRamLogSize :: u32

text \<open>The state: the debug configuration register and the library calls made so far.\<close>

datatype platform_call =
    SetSocFchIpClockAndReset
  | CopyMem u64 u64 u64
  | rlog_init_printf u64 u32

record platform_state =
  Mdcr :: u32
  platform_calls :: "platform_call list"

definition ArmPlatformGetBootMode :: "platform_env \<Rightarrow> u32" where
  "ArmPlatformGetBootMode V = BOOT_WITH_FULL_CONFIGURATION V"

definition SetPmuCounter :: "platform_env \<Rightarrow> platform_state \<Rightarrow> efi_status \<times> platform_state" where
  "SetPmuCounter V s =
     (EFI_SUCCESS, s\<lparr>Mdcr := (Mdcr s AND NOT 0x1F) OR ucast (PcdBootCorePmuCounterNum V)\<rparr>)"

definition ArmPlatformInitialize :: "platform_env \<Rightarrow> u64 \<Rightarrow> platform_state \<Rightarrow> efi_status \<times> platform_state" where
  "ArmPlatformInitialize V MpId s =
     (let (_, s) = SetPmuCounter V s;
          s = s\<lparr>platform_calls := platform_calls s @ [SetSocFchIpClockAndReset]\<rparr>;
          s = (if CONFIG_RLOG_ENABLE V
               then s\<lparr>platform_calls := platform_calls s @
                 [CopyMem (PcdRamLogLastBootSaveAddress V) (PcdRamLogBaseAddress V)
                    (u32_to_u64 (PcdRamLogSize V div 2)),
                  rlog_init_printf (PcdRamLogBaseAddress V) (PcdRamLogSize V)]\<rparr>
               else s)
      in (EFI_SUCCESS, s))"

definition ArmPlatformInitializeSystemMemory :: "platform_state \<Rightarrow> platform_state" where
  "ArmPlatformInitializeSystemMemory s = s"

section \<open>The core table\<close>

text \<open>
  An entry of the table; the fields the code does not set stay zero and are left out.
  \<open>count_loop\<close> and \<open>fill_loop\<close> are the two \<^verbatim>\<open>for\<close> loops over the 12 bits. The table is a
  list of as many entries as were allocated, and a store past it is undefined.
\<close>

record arm_core_info =
  Mpidr :: u64

definition core_bit :: "u64 \<Rightarrow> nat \<Rightarrow> bool" where
  "core_bit CoreBitMask i \<longleftrightarrow> CoreBitMask AND push_bit i 1 \<noteq> 0"

function count_loop :: "u64 \<Rightarrow> nat \<Rightarrow> nat \<Rightarrow> nat" where
  "count_loop CoreBitMask i n =
     (if i < 12 then count_loop CoreBitMask (Suc i) (if core_bit CoreBitMask i then Suc n else n) else n)"
  by pat_completeness auto
termination by (relation "measure (\<lambda>(CoreBitMask, i, n). 12 - i)") auto

function fill_loop :: "u64 \<Rightarrow> nat \<Rightarrow> nat \<Rightarrow> arm_core_info list \<Rightarrow> arm_core_info list outcome" where
  "fill_loop CoreBitMask i ptr table =
     (if i < 12 then
        if core_bit CoreBitMask i then
          if ptr < length table
          then fill_loop CoreBitMask (Suc i) (Suc ptr) (table[ptr := (table ! ptr)\<lparr>Mpidr := push_bit 8 (of_nat i)\<rparr>])
          else Undef
        else fill_loop CoreBitMask (Suc i) ptr table
      else Ret table)"
  by pat_completeness auto
termination by (relation "measure (\<lambda>(CoreBitMask, i, ptr, table). 12 - i)") auto

declare count_loop.simps [simp del] fill_loop.simps [simp del]

text \<open>
  \<open>table_addr\<close> is what \<^verbatim>\<open>AllocateZeroPool\<close> returns. It is not checked, so the first store goes
  through NULL when the allocation failed. The result is the table and \<open>*AvlCoreCount\<close>.
\<close>

definition GetArmCoreInfoFromReg ::
  "platform_env \<Rightarrow> u64 \<Rightarrow> u64 \<Rightarrow> (u64 \<times> arm_core_info list \<times> u64) outcome" where
  "GetArmCoreInfoFromReg V table_addr RegAddr =
     (let CoreBitMask = u32_to_u64 ((MmioRead32 V RegAddr XOR 0xFFF) AND 0xFFF);
          n = count_loop CoreBitMask 0 0
      in obind (fill_loop CoreBitMask 0 0 (if table_addr = 0 then [] else replicate n \<lparr>Mpidr = 0\<rparr>))
           (\<lambda>table. Ret (table_addr, table, of_nat n)))"

definition PrePeiCoreGetMpCoreInfo ::
  "platform_env \<Rightarrow> u64 \<Rightarrow> (efi_status \<times> u64 \<times> arm_core_info list \<times> u64) outcome" where
  "PrePeiCoreGetMpCoreInfo V table_addr =
     obind (GetArmCoreInfoFromReg V table_addr (PMCTRL_S5_BASE V + CPU_CORE_INFO_OFFSET V))
       (\<lambda>(a, table, n). Ret (EFI_SUCCESS, a, table, n))"

text \<open>The PPI list has one entry, which names the multi-processor information PPI above.\<close>

datatype ppi_entry = ArmMpCoreInfoPpi

definition mPlatformPpiTable :: "ppi_entry list" where
  "mPlatformPpiTable = [ArmMpCoreInfoPpi]"

definition ArmPlatformGetPlatformPpiList :: "nat \<Rightarrow> nat \<times> ppi_entry list" where
  "ArmPlatformGetPlatformPpiList sizeof_descriptor =
     (sizeof_descriptor * length mPlatformPpiTable, mPlatformPpiTable)"

section \<open>The assembly helpers\<close>

definition ArmPlatformGetPrimaryCoreMpId :: "platform_env \<Rightarrow> u64" where
  "ArmPlatformGetPrimaryCoreMpId V = u32_to_u64 (PcdArmPrimaryCore V)"

definition ArmPlatformIsPrimaryCore :: "u64 \<Rightarrow> u64" where
  "ArmPlatformIsPrimaryCore MpId = 1"

definition ArmPlatformGetCorePosition :: "platform_env \<Rightarrow> u64 \<Rightarrow> u64" where
  "ArmPlatformGetCorePosition V MpId = drop_bit 8 (MpId AND ARM_CLUSTER_MASK V)"

section \<open>The loops\<close>

text \<open>The cores from \<open>i\<close> on that the mask has, in order.\<close>

definition cores_from :: "u64 \<Rightarrow> nat \<Rightarrow> nat list" where
  "cores_from CoreBitMask i = filter (core_bit CoreBitMask) [i ..< 12]"

lemma cores_from_step:
  "i < 12 \<Longrightarrow> cores_from CoreBitMask i = (if core_bit CoreBitMask i then i # cores_from CoreBitMask (Suc i) else cores_from CoreBitMask (Suc i))"
  by (simp add: cores_from_def upt_conv_Cons)

lemma cores_from_end: "\<not> i < 12 \<Longrightarrow> cores_from CoreBitMask i = []"
  by (simp add: cores_from_def)

lemma count_loop_cores: "count_loop CoreBitMask i n = n + length (cores_from CoreBitMask i)"
proof (induction CoreBitMask i n rule: count_loop.induct)
  case (1 CoreBitMask i n)
  then show ?case
    by (subst count_loop.simps) (simp add: cores_from_step cores_from_end)
qed

lemma fill_loop_cores:
  "length table = ptr + length (cores_from CoreBitMask i) \<Longrightarrow>
     fill_loop CoreBitMask i ptr table =
       Ret (take ptr table @ map (\<lambda>i. \<lparr>Mpidr = push_bit 8 (of_nat i)\<rparr>) (cores_from CoreBitMask i))"
proof (induction CoreBitMask i ptr table rule: fill_loop.induct)
  case (1 CoreBitMask i ptr table)
  show ?case
  proof (cases "i < 12 \<and> core_bit CoreBitMask i")
    case True
    then have len: "length table = Suc ptr + length (cores_from CoreBitMask (Suc i))"
      using "1.prems" by (simp add: cores_from_step)
    let ?t = "table[ptr := (table ! ptr)\<lparr>Mpidr := push_bit 8 (of_nat i)\<rparr>]"
    have "take (Suc ptr) ?t = take ptr table @ [\<lparr>Mpidr = push_bit 8 (of_nat i)\<rparr>]"
      using len by (simp add: take_Suc_conv_app_nth)
    with "1.IH"(1) True len show ?thesis
      by (subst fill_loop.simps) (simp add: cores_from_step)
  next
    case False
    with "1.IH"(2) "1.prems" show ?thesis
      by (subst fill_loop.simps) (auto simp: cores_from_step cores_from_end)
  qed
qed

text \<open>The bits of the mask: core \<open>i\<close> is present when bit \<open>i\<close> of the register is clear.\<close>

lemma core_bit_register:
  "i < 12 \<Longrightarrow> core_bit (u32_to_u64 ((r XOR 0xFFF) AND 0xFFF)) i \<longleftrightarrow> \<not> bit r i"
proof -
  assume i: "i < 12"
  have "core_bit m i \<longleftrightarrow> bit m i" for m :: u64
    by (simp add: core_bit_def bit_iff_and_push_bit_not_eq_0)
  moreover have "bit (0xFFF :: u32) i"
  proof -
    have "(0xFFF :: u32) = mask 12"
      by (simp add: mask_eq_exp_minus_1)
    then show ?thesis
      using i by (simp only: bit_mask_iff) simp
  qed
  ultimately show ?thesis
    using i by (simp add: bit_simps)
qed

section \<open>Properties\<close>

text \<open>C25: the core table lists the cores that are present. For every register value and an
  allocated table, the two loops agree: no store leaves the table, it is filled completely,
  with the \<open>Mpidr\<close> values of exactly the cores whose register bit is clear in ascending
  order, and the count is their number.\<close>

theorem core_table_lists_present_cores:
  assumes "a \<noteq> 0"
  shows "PrePeiCoreGetMpCoreInfo V a = Ret (EFI_SUCCESS, a,
    map (\<lambda>i. \<lparr>Mpidr = push_bit 8 (of_nat i)\<rparr>)
      (filter (\<lambda>i. \<not> bit (MmioRead32 V (PMCTRL_S5_BASE V + CPU_CORE_INFO_OFFSET V)) i) [0 ..< 12]),
    of_nat (length (filter (\<lambda>i. \<not> bit (MmioRead32 V (PMCTRL_S5_BASE V + CPU_CORE_INFO_OFFSET V)) i) [0 ..< 12])))"
proof -
  let ?r = "MmioRead32 V (PMCTRL_S5_BASE V + CPU_CORE_INFO_OFFSET V)"
  let ?mask = "u32_to_u64 ((?r XOR 0xFFF) AND 0xFFF)"
  have "cores_from ?mask 0 = filter (\<lambda>i. \<not> bit ?r i) [0 ..< 12]"
    unfolding cores_from_def by (rule filter_cong [OF refl]) (simp add: core_bit_register)
  moreover have "fill_loop ?mask 0 0 (replicate (count_loop ?mask 0 0) \<lparr>Mpidr = 0\<rparr>) =
      Ret (map (\<lambda>i. \<lparr>Mpidr = push_bit 8 (of_nat i)\<rparr>) (cores_from ?mask 0))"
    by (subst fill_loop_cores) (simp_all add: count_loop_cores)
  ultimately show ?thesis
    using assms by (simp add: PrePeiCoreGetMpCoreInfo_def GetArmCoreInfoFromReg_def Let_def count_loop_cores)
qed

text \<open>Positions and table agree. With the cluster field in bits 8 to 15, the position computed from
  the \<open>Mpidr\<close> that the table gives core \<open>i\<close> is \<open>i\<close> again, so different cores of the table
  have different positions.\<close>

lemma core_position_inverts_mpidr:
  assumes "ARM_CLUSTER_MASK V = 0xFF00" "i < 12"
  shows "ArmPlatformGetCorePosition V (push_bit 8 (of_nat i)) = of_nat i"
proof (rule bit_word_eqI)
  fix n
  have bound: "\<not> bit (of_nat i :: u64) n" if "8 \<le> n"
  proof -
    have "i < 2 ^ n"
      using assms(2) power_increasing [OF that, of "2 :: nat"] by simp
    then have "\<not> bit i n"
      by (simp add: bit_iff_odd)
    then show ?thesis
      by (simp only: bit_of_nat_iff simp_thms)
  qed
  have cluster: "bit (0xFF00 :: u64) (8 + n) \<longleftrightarrow> n < 8"
  proof -
    have "(0xFF00 :: u64) = push_bit 8 (mask 8)"
      by (simp add: mask_eq_exp_minus_1)
    then show ?thesis
      by (simp only: bit_push_bit_iff bit_mask_iff) auto
  qed
  assume "n < LENGTH(64)"
  have "bit (ArmPlatformGetCorePosition V (push_bit 8 (of_nat i))) n \<longleftrightarrow> bit (of_nat i :: u64) n \<and> n < 8"
  proof -
    have g: "bit (drop_bit 8 (push_bit 8 x AND m)) n \<longleftrightarrow> 8 + n < 64 \<and> bit x n \<and> bit m (8 + n)" for x m :: u64
      by (auto simp: bit_simps)
    show ?thesis
      unfolding ArmPlatformGetCorePosition_def assms(1) g cluster by auto
  qed
  then show "bit (ArmPlatformGetCorePosition V (push_bit 8 (of_nat i))) n = bit (of_nat i :: u64) n"
    using bound by (cases "n < 8") auto
qed

text \<open>The counter split. \<open>SetPmuCounter\<close> replaces the low five bits of the register by the
  configured number when it fits, and leaves the other 27 bits alone.\<close>

lemma pmu_counter_field:
  assumes "unat (PcdBootCorePmuCounterNum V) < 32" "SetPmuCounter V s = (status, s')"
  shows "status = EFI_SUCCESS \<and> unat (Mdcr s' AND 0x1F) = unat (PcdBootCorePmuCounterNum V) \<and>
    Mdcr s' AND NOT 0x1F = Mdcr s AND NOT 0x1F"
proof -
  define w where "w = (ucast (PcdBootCorePmuCounterNum V) :: u32)"
  have w: "unat w = unat (PcdBootCorePmuCounterNum V)"
    using unat_bound [of "PcdBootCorePmuCounterNum V"]
    by (simp add: w_def unsigned_ucast_eq take_bit_nat_eq_self)
  have m: "(0x1F :: u32) = mask 5"
    by (simp add: mask_eq_exp_minus_1)
  have "unat (w AND mask 5) = unat w mod 2 ^ 5"
    by (simp only: flip: take_bit_eq_mask) (simp only: unsigned_take_bit_eq, simp add: take_bit_eq_mod)
  then have "unat (w AND mask 5) = unat w"
    using assms(1) w by simp
  then have low: "w AND mask 5 = w"
    using word_unat_eq_iff by blast
  then have high: "\<not> (bit w n \<and> 5 \<le> n)" for n
    by (metis bit_and_iff bit_mask_iff linorder_not_less)
  have "Mdcr s' = (Mdcr s AND NOT (mask 5)) OR w" "status = EFI_SUCCESS"
    using assms(2) by (auto simp: SetPmuCounter_def w_def m)
  moreover have "((Mdcr s AND NOT (mask 5)) OR w) AND mask 5 = w"
    using high by (intro bit_word_eqI) (auto simp: bit_simps not_le)
  moreover have "((Mdcr s AND NOT (mask 5)) OR w) AND NOT (mask 5) = Mdcr s AND NOT (mask 5)"
    using high by (intro bit_word_eqI) (auto simp: bit_simps not_le)
  ultimately show ?thesis
    using w by (simp add: m)
qed

section \<open>Witnesses\<close>

text \<open>A register whose bits 0 and 4 are clear, the configured primary core, six counters.\<close>

definition sample_platform :: platform_env where
  "sample_platform =
     \<lparr>BOOT_WITH_FULL_CONFIGURATION = 0, PcdBootCorePmuCounterNum = 6, PcdArmPrimaryCore = 0x400,
      ARM_CLUSTER_MASK = 0xFF00, PMCTRL_S5_BASE = 0x16000000, CPU_CORE_INFO_OFFSET = 0x100,
      MmioRead32 = (\<lambda>_. 0xFEE), CONFIG_RLOG_ENABLE = False, PcdRamLogLastBootSaveAddress = 0,
      PcdRamLogBaseAddress = 0, PcdRamLogSize = 0\<rparr>"

theorem core_table_lists_present_cores_witness:
  "PrePeiCoreGetMpCoreInfo sample_platform 0x9000 =
     Ret (EFI_SUCCESS, 0x9000, [\<lparr>Mpidr = 0\<rparr>, \<lparr>Mpidr = 0x400\<rparr>], 2)"
  using core_table_lists_present_cores [of "0x9000" sample_platform]
  by (simp add: sample_platform_def upt_rec bit_simps)

end
