(* ===== verification/Memory_Map.thy ===== *)
theory Memory_Map
  imports Platform_Core
begin

text \<open>
  ArmPlatformLibMem.c: the memory map of the platform. \<open>ArmPlatformGetVirtualMemoryMap\<close> fills a
  table of regions for the MMU and, for every region, builds a version 2 resource descriptor
  HOB. Both lists are kept in the order in which the code appends to them.
\<close>

section \<open>Descriptors\<close>

text \<open>\<open>REGION_ATTRIBUTE_ZERO\<close> is the attribute value 0 of the end marker.\<close>

datatype arm_region_attribute =
    ARM_MEMORY_REGION_ATTRIBUTE_DEVICE
  | ARM_MEMORY_REGION_ATTRIBUTE_UNCACHED_UNBUFFERED
  | ARM_MEMORY_REGION_ATTRIBUTE_WRITE_BACK
  | REGION_ATTRIBUTE_ZERO

record arm_memory_region_descriptor =
  PhysicalBase :: u64
  VirtualBase :: u64
  RegionLength :: u64
  RegionAttributes :: arm_region_attribute

datatype efi_resource_type =
    EFI_RESOURCE_SYSTEM_MEMORY
  | EFI_RESOURCE_MEMORY_MAPPED_IO
  | EFI_RESOURCE_MEMORY_RESERVED

datatype resource_attribute =
    EFI_RESOURCE_ATTRIBUTE_PRESENT
  | EFI_RESOURCE_ATTRIBUTE_INITIALIZED
  | EFI_RESOURCE_ATTRIBUTE_TESTED
  | EFI_RESOURCE_ATTRIBUTE_UNCACHEABLE
  | EFI_RESOURCE_ATTRIBUTE_WRITE_COMBINEABLE
  | EFI_RESOURCE_ATTRIBUTE_WRITE_BACK_CACHEABLE

datatype efi_memory_type = EFI_MEMORY_UC | EFI_MEMORY_WC | EFI_MEMORY_WB

text \<open>A combination of attribute flags is the set of flags. The \<open>Owner\<close> of the HOB is never assigned.\<close>

record efi_hob_resource_descriptor_v2 =
  ResourceType :: efi_resource_type
  ResourceAttribute :: "resource_attribute set"
  PhysicalStart :: u64
  ResourceLength :: u64
  MemoryType :: efi_memory_type

text \<open>Regions are compared by their physical address.\<close>

instantiation arm_memory_region_descriptor_ext :: (type) preorder
begin

definition less_eq_arm_memory_region_descriptor_ext ::
  "'a arm_memory_region_descriptor_scheme \<Rightarrow> 'a arm_memory_region_descriptor_scheme \<Rightarrow> bool" where
  "less_eq_arm_memory_region_descriptor_ext r r' \<longleftrightarrow> PhysicalBase r \<le> PhysicalBase r'"

definition less_arm_memory_region_descriptor_ext ::
  "'a arm_memory_region_descriptor_scheme \<Rightarrow> 'a arm_memory_region_descriptor_scheme \<Rightarrow> bool" where
  "less_arm_memory_region_descriptor_ext r r' \<longleftrightarrow> PhysicalBase r < PhysicalBase r'"

instance
  by standard (auto simp: less_eq_arm_memory_region_descriptor_ext_def less_arm_memory_region_descriptor_ext_def)

end

lemma region_less_iff: "(r :: arm_memory_region_descriptor) < r' \<longleftrightarrow> unat (PhysicalBase r) < unat (PhysicalBase r')"
  by (simp add: less_arm_memory_region_descriptor_ext_def word_less_nat_alt)

section \<open>Environment\<close>

text \<open>
  The configuration values of the memory map, the end of system memory as the startup code
  computed it, the memory initialisation result in shared memory (\<open>None\<close> when there is none),
  and the allocations: \<open>table_pages\<close> is the address \<^verbatim>\<open>AllocatePages\<close> returns, \<open>hob_created n\<close>
  whether the \<open>n\<close>-th \<^verbatim>\<open>CreateHob\<close> returns a HOB.
\<close>

record mem_init_output_buffer =
  MemSignature :: u64
  AvailableSize :: u64

record memory_env =
  PcdSystemMemoryBase :: u64
  PcdReservedSecureMemoryBase :: u32
  PcdReservedSecureMemorySize :: u32
  PcdReservedShareMemoryBase :: u32
  PcdReservedShareMemorySize :: u32
  PcdFdBaseAddress :: u64
  PcdFdSize :: u32
  PcdArmLcdDdrFrameBufferBase :: u64
  PcdArmLcdDdrFrameBufferSize :: u32
  PcdDramHighSpaceBase :: u64
  mSystemMemoryEnd :: u64
  MEM_OUTPUT_BUFFER_SIG :: u64
  SmemInfoMem :: "mem_init_output_buffer option"
  table_pages :: u64
  hob_created :: "nat \<Rightarrow> bool"
  memory_asserts :: bool

type_synonym map_state = "arm_memory_region_descriptor list \<times> efi_hob_resource_descriptor_v2 list"

section \<open>The functions\<close>

definition BuildResourceDescriptorHob_V2 ::
  "memory_env \<Rightarrow> efi_resource_type \<Rightarrow> resource_attribute set \<Rightarrow> u64 \<Rightarrow> u64 \<Rightarrow> efi_memory_type \<Rightarrow>
     efi_hob_resource_descriptor_v2 list \<Rightarrow> efi_hob_resource_descriptor_v2 list outcome" where
  "BuildResourceDescriptorHob_V2 M rtype attrs start nbytes memtype hobs =
     (if hob_created M (length hobs)
      then Ret (hobs @ [\<lparr>ResourceType = rtype, ResourceAttribute = attrs, PhysicalStart = start,
                        ResourceLength = nbytes, MemoryType = memtype\<rparr>])
      else if memory_asserts M then Halted else Undef)"

definition ReportDramHighSpace :: "memory_env \<Rightarrow> (bool \<times> u64) outcome" where
  "ReportDramHighSpace M =
     (case SmemInfoMem M of
        None \<Rightarrow> Undef
      | Some info \<Rightarrow>
          if MemSignature info = MEM_OUTPUT_BUFFER_SIG M then
            if 0x7800 < AvailableSize info
            then Ret (True, push_bit 20 (AvailableSize info - 0x7800))
            else Ret (False, 0)
          else Ret (False, 0))"

text \<open>One block of the function: a table entry with equal addresses and the HOB for the same range.\<close>

definition report_region ::
  "memory_env \<Rightarrow> u64 \<Rightarrow> u64 \<Rightarrow> arm_region_attribute \<Rightarrow> efi_resource_type \<Rightarrow> resource_attribute set \<Rightarrow>
     efi_memory_type \<Rightarrow> map_state \<Rightarrow> map_state outcome" where
  "report_region M base nbytes attr rtype attrs memtype st =
     (let table = fst st @ [\<lparr>PhysicalBase = base, VirtualBase = base, RegionLength = nbytes,
                             RegionAttributes = attr\<rparr>]
      in obind (BuildResourceDescriptorHob_V2 M rtype attrs base nbytes memtype (snd st))
           (\<lambda>hobs. Ret (table, hobs)))"

definition EFI_RESOURCE_ATTRIBUTE_PIT :: "resource_attribute set" where
  "EFI_RESOURCE_ATTRIBUTE_PIT =
     {EFI_RESOURCE_ATTRIBUTE_PRESENT, EFI_RESOURCE_ATTRIBUTE_INITIALIZED, EFI_RESOURCE_ATTRIBUTE_TESTED}"

definition MAX_VIRTUAL_MEMORY_MAP_DESCRIPTORS :: nat where
  "MAX_VIRTUAL_MEMORY_MAP_DESCRIPTORS = 11"

definition frame_buffer_end :: "memory_env \<Rightarrow> u64" where
  "frame_buffer_end M = PcdArmLcdDdrFrameBufferBase M + u32_to_u64 (PcdArmLcdDdrFrameBufferSize M)"

text \<open>
  \<open>hobs\<close> is the HOB list at the call. The result is what \<open>*VirtualMemoryMap\<close> is set to, \<open>None\<close>
  when it is left alone, and the HOB list.
\<close>

definition ArmPlatformGetVirtualMemoryMap ::
  "memory_env \<Rightarrow> efi_hob_resource_descriptor_v2 list \<Rightarrow>
     (arm_memory_region_descriptor list option \<times> efi_hob_resource_descriptor_v2 list) outcome" where
  "ArmPlatformGetVirtualMemoryMap M hobs =
     (if table_pages M = 0 then if memory_asserts M then Halted else Ret (None, hobs)
      else
      obind (report_region M 0x1000 (PcdSystemMemoryBase M - 0x1000)
        ARM_MEMORY_REGION_ATTRIBUTE_DEVICE EFI_RESOURCE_MEMORY_MAPPED_IO
        (EFI_RESOURCE_ATTRIBUTE_PIT \<union> {EFI_RESOURCE_ATTRIBUTE_UNCACHEABLE}) EFI_MEMORY_UC ([], hobs)) (\<lambda>st.
      obind (report_region M (u32_to_u64 (PcdReservedSecureMemoryBase M)) (u32_to_u64 (PcdReservedSecureMemorySize M))
        ARM_MEMORY_REGION_ATTRIBUTE_UNCACHED_UNBUFFERED EFI_RESOURCE_SYSTEM_MEMORY
        (EFI_RESOURCE_ATTRIBUTE_PIT \<union> {EFI_RESOURCE_ATTRIBUTE_WRITE_COMBINEABLE}) EFI_MEMORY_WC st) (\<lambda>st.
      obind (report_region M (u32_to_u64 (PcdReservedShareMemoryBase M)) (u32_to_u64 (PcdReservedShareMemorySize M))
        ARM_MEMORY_REGION_ATTRIBUTE_UNCACHED_UNBUFFERED EFI_RESOURCE_SYSTEM_MEMORY
        (EFI_RESOURCE_ATTRIBUTE_PIT \<union> {EFI_RESOURCE_ATTRIBUTE_WRITE_COMBINEABLE}) EFI_MEMORY_WC st) (\<lambda>st.
      obind (report_region M (PcdFdBaseAddress M) (u32_to_u64 (PcdFdSize M))
        ARM_MEMORY_REGION_ATTRIBUTE_WRITE_BACK EFI_RESOURCE_SYSTEM_MEMORY
        (EFI_RESOURCE_ATTRIBUTE_PIT \<union> {EFI_RESOURCE_ATTRIBUTE_WRITE_COMBINEABLE} \<union>
          {EFI_RESOURCE_ATTRIBUTE_WRITE_BACK_CACHEABLE}) EFI_MEMORY_WB st) (\<lambda>st.
      obind (report_region M (PcdArmLcdDdrFrameBufferBase M) (u32_to_u64 (PcdArmLcdDdrFrameBufferSize M))
        ARM_MEMORY_REGION_ATTRIBUTE_UNCACHED_UNBUFFERED EFI_RESOURCE_MEMORY_RESERVED
        (EFI_RESOURCE_ATTRIBUTE_PIT \<union> {EFI_RESOURCE_ATTRIBUTE_WRITE_COMBINEABLE}) EFI_MEMORY_WC st) (\<lambda>st.
      obind (report_region M (frame_buffer_end M) (mSystemMemoryEnd M + 1 - frame_buffer_end M)
        ARM_MEMORY_REGION_ATTRIBUTE_WRITE_BACK EFI_RESOURCE_SYSTEM_MEMORY
        (EFI_RESOURCE_ATTRIBUTE_PIT \<union> {EFI_RESOURCE_ATTRIBUTE_WRITE_COMBINEABLE} \<union>
          {EFI_RESOURCE_ATTRIBUTE_WRITE_BACK_CACHEABLE}) EFI_MEMORY_WB st) (\<lambda>st.
      obind (report_region M (mSystemMemoryEnd M + 1) (PcdDramHighSpaceBase M - (mSystemMemoryEnd M + 1))
        ARM_MEMORY_REGION_ATTRIBUTE_DEVICE EFI_RESOURCE_MEMORY_MAPPED_IO
        (EFI_RESOURCE_ATTRIBUTE_PIT \<union> {EFI_RESOURCE_ATTRIBUTE_INITIALIZED} \<union>
          {EFI_RESOURCE_ATTRIBUTE_UNCACHEABLE}) EFI_MEMORY_UC st) (\<lambda>st.
      obind (ReportDramHighSpace M) (\<lambda>(high, dram_high_size).
      obind
        (if high
         then report_region M (PcdDramHighSpaceBase M) dram_high_size
           ARM_MEMORY_REGION_ATTRIBUTE_WRITE_BACK EFI_RESOURCE_SYSTEM_MEMORY
           (EFI_RESOURCE_ATTRIBUTE_PIT \<union> {EFI_RESOURCE_ATTRIBUTE_WRITE_COMBINEABLE} \<union>
             {EFI_RESOURCE_ATTRIBUTE_WRITE_BACK_CACHEABLE}) EFI_MEMORY_WB st
         else Ret st) (\<lambda>(table, hobs).
      let table = table @ [\<lparr>PhysicalBase = 0, VirtualBase = 0, RegionLength = 0,
                            RegionAttributes = REGION_ATTRIBUTE_ZERO\<rparr>] in
      if memory_asserts M \<and> MAX_VIRTUAL_MEMORY_MAP_DESCRIPTORS < length table then Halted
      else Ret (Some table, hobs)))))))))))"

section \<open>The map in closed form\<close>

text \<open>The regions with their sizes and kinds, the last one only when there is high memory.\<close>

definition planned_regions :: "memory_env \<Rightarrow> u64 option \<Rightarrow> (u64 \<times> u64 \<times> arm_region_attribute) list" where
  "planned_regions M high =
     [(0x1000, PcdSystemMemoryBase M - 0x1000, ARM_MEMORY_REGION_ATTRIBUTE_DEVICE),
      (u32_to_u64 (PcdReservedSecureMemoryBase M), u32_to_u64 (PcdReservedSecureMemorySize M),
        ARM_MEMORY_REGION_ATTRIBUTE_UNCACHED_UNBUFFERED),
      (u32_to_u64 (PcdReservedShareMemoryBase M), u32_to_u64 (PcdReservedShareMemorySize M),
        ARM_MEMORY_REGION_ATTRIBUTE_UNCACHED_UNBUFFERED),
      (PcdFdBaseAddress M, u32_to_u64 (PcdFdSize M), ARM_MEMORY_REGION_ATTRIBUTE_WRITE_BACK),
      (PcdArmLcdDdrFrameBufferBase M, u32_to_u64 (PcdArmLcdDdrFrameBufferSize M),
        ARM_MEMORY_REGION_ATTRIBUTE_UNCACHED_UNBUFFERED),
      (frame_buffer_end M, mSystemMemoryEnd M + 1 - frame_buffer_end M, ARM_MEMORY_REGION_ATTRIBUTE_WRITE_BACK),
      (mSystemMemoryEnd M + 1, PcdDramHighSpaceBase M - (mSystemMemoryEnd M + 1),
        ARM_MEMORY_REGION_ATTRIBUTE_DEVICE)] @
     (case high of None \<Rightarrow> []
      | Some n \<Rightarrow> [(PcdDramHighSpaceBase M, n, ARM_MEMORY_REGION_ATTRIBUTE_WRITE_BACK)])"

definition region_entry :: "u64 \<times> u64 \<times> arm_region_attribute \<Rightarrow> arm_memory_region_descriptor" where
  "region_entry r = (case r of (base, nbytes, attr) \<Rightarrow>
     \<lparr>PhysicalBase = base, VirtualBase = base, RegionLength = nbytes, RegionAttributes = attr\<rparr>)"

text \<open>What a HOB must say of a region: the same range, and a memory type that fits the attribute.\<close>

fun attribute_memory_type :: "arm_region_attribute \<Rightarrow> efi_memory_type" where
  "attribute_memory_type ARM_MEMORY_REGION_ATTRIBUTE_DEVICE = EFI_MEMORY_UC"
| "attribute_memory_type ARM_MEMORY_REGION_ATTRIBUTE_UNCACHED_UNBUFFERED = EFI_MEMORY_WC"
| "attribute_memory_type ARM_MEMORY_REGION_ATTRIBUTE_WRITE_BACK = EFI_MEMORY_WB"
| "attribute_memory_type REGION_ATTRIBUTE_ZERO = EFI_MEMORY_UC"

definition hob_describes :: "arm_memory_region_descriptor \<Rightarrow> efi_hob_resource_descriptor_v2 \<Rightarrow> bool" where
  "hob_describes r h \<longleftrightarrow> PhysicalStart h = PhysicalBase r \<and> ResourceLength h = RegionLength r \<and>
     MemoryType h = attribute_memory_type (RegionAttributes r) \<and>
     (ResourceType h = EFI_RESOURCE_MEMORY_MAPPED_IO \<longleftrightarrow> RegionAttributes r = ARM_MEMORY_REGION_ATTRIBUTE_DEVICE)"

lemma report_region_created:
  "hob_created M (length (snd st)) \<Longrightarrow>
     report_region M base nbytes attr rtype attrs memtype st =
       Ret (fst st @ [region_entry (base, nbytes, attr)],
            snd st @ [\<lparr>ResourceType = rtype, ResourceAttribute = attrs, PhysicalStart = base,
                       ResourceLength = nbytes, MemoryType = memtype\<rparr>])"
  by (simp add: report_region_def BuildResourceDescriptorHob_V2_def region_entry_def)

definition end_of_table :: arm_memory_region_descriptor where
  "end_of_table = \<lparr>PhysicalBase = 0, VirtualBase = 0, RegionLength = 0, RegionAttributes = REGION_ATTRIBUTE_ZERO\<rparr>"

lemma memory_map_closed_form:
  assumes "table_pages M \<noteq> 0" "\<forall>n. hob_created M n" "ReportDramHighSpace M = Ret (b, n)"
  obtains new where
    "ArmPlatformGetVirtualMemoryMap M hobs = Ret (Some (map region_entry
       (planned_regions M (if b then Some n else None)) @ [end_of_table]), hobs @ new)"
    "list_all2 hob_describes (map region_entry (planned_regions M (if b then Some n else None))) new"
proof (cases b)
  case True
  with assms show ?thesis
    by (intro that)
      (simp_all add: ArmPlatformGetVirtualMemoryMap_def report_region_created planned_regions_def
        end_of_table_def MAX_VIRTUAL_MEMORY_MAP_DESCRIPTORS_def,
       simp add: hob_describes_def region_entry_def)
next
  case False
  with assms show ?thesis
    by (intro that)
      (simp_all add: ArmPlatformGetVirtualMemoryMap_def report_region_created planned_regions_def
        end_of_table_def MAX_VIRTUAL_MEMORY_MAP_DESCRIPTORS_def,
       simp add: hob_describes_def region_entry_def)
qed

text \<open>A call that returns a table returns the planned one.\<close>

lemma memory_map_result:
  assumes "table_pages M \<noteq> 0" "\<forall>n. hob_created M n"
    and "ArmPlatformGetVirtualMemoryMap M hobs = Ret (Some table, hobs')"
  shows "\<exists>b n. ReportDramHighSpace M = Ret (b, n) \<and>
    table = map region_entry (planned_regions M (if b then Some n else None)) @ [end_of_table]"
proof (cases "ReportDramHighSpace M")
  case (Ret r)
  then obtain b n where r: "ReportDramHighSpace M = Ret (b, n)"
    by (cases r) simp
  with memory_map_closed_form [OF assms(1,2) r, of hobs] assms(3) show ?thesis
    by (metis outcome.inject option.inject prod.inject)
qed (use assms in \<open>simp_all add: ArmPlatformGetVirtualMemoryMap_def report_region_created\<close>)

section \<open>Ranges that follow each other\<close>

definition covers :: "nat \<Rightarrow> arm_memory_region_descriptor \<Rightarrow> bool" where
  "covers x r \<longleftrightarrow> unat (PhysicalBase r) \<le> x \<and> x < unat (PhysicalBase r) + unat (RegionLength r)"

text \<open>\<open>tiles a rs b\<close>: the regions \<open>rs\<close>, in order, fill the addresses from \<open>a\<close> to \<open>b\<close> without gaps.\<close>

fun tiles :: "nat \<Rightarrow> arm_memory_region_descriptor list \<Rightarrow> nat \<Rightarrow> bool" where
  "tiles a [] b \<longleftrightarrow> a = b"
| "tiles a (r # rs) b \<longleftrightarrow> unat (PhysicalBase r) = a \<and> tiles (a + unat (RegionLength r)) rs b"

lemma tiles_order: "tiles a rs b \<Longrightarrow> a \<le> b"
  by (induction rs arbitrary: a) fastforce+

lemma tiles_count:
  "tiles a rs b \<Longrightarrow> length (filter (covers x) rs) = (if a \<le> x \<and> x < b then 1 else 0)"
proof (induction rs arbitrary: a)
  case (Cons r rs)
  then have "unat (PhysicalBase r) = a" "tiles (a + unat (RegionLength r)) rs b"
    by simp_all
  with Cons.IH [OF this(2)] tiles_order [OF this(2)] show ?case
    by (auto simp: covers_def)
qed simp

lemma tiles_sorted:
  assumes "tiles a rs b" "\<forall>r \<in> set rs. RegionLength r \<noteq> 0"
  shows "sorted_wrt (<) rs \<and> (\<forall>r \<in> set rs. a \<le> unat (PhysicalBase r) \<and> unat (PhysicalBase r) < b)"
  using assms
proof (induction rs arbitrary: a)
  case (Cons r rs)
  then have r: "unat (PhysicalBase r) = a" "tiles (a + unat (RegionLength r)) rs b" "0 < unat (RegionLength r)"
    by (simp_all add: unat_gt_0)
  have rs: "sorted_wrt (<) rs" "\<forall>q \<in> set rs. a + unat (RegionLength r) \<le> unat (PhysicalBase q) \<and> unat (PhysicalBase q) < b"
    using Cons.IH [OF r(2)] Cons.prems(2) by simp_all
  with r tiles_order [OF r(2)] have "\<forall>q \<in> set rs. r < q \<and> a \<le> unat (PhysicalBase q)" "a < b"
    by (auto simp: region_less_iff)
  with rs r(1) show ?case by simp
qed simp

lemma tiles_append: "tiles a rs m \<Longrightarrow> tiles m rs' b \<Longrightarrow> tiles a (rs @ rs') b"
  by (induction rs arbitrary: a) auto

section \<open>A consistent configuration\<close>

text \<open>
  The configured areas are not empty and follow each other from the start of system memory up to
  the end of the firmware image, the frame buffer lies above, and system memory ends above the
  frame buffer and below the high space.
\<close>

definition memory_config_ok :: "memory_env \<Rightarrow> bool" where
  "memory_config_ok M \<longleftrightarrow>
     0x1000 < unat (PcdSystemMemoryBase M) \<and>
     unat (PcdReservedSecureMemoryBase M) = unat (PcdSystemMemoryBase M) \<and>
     unat (PcdReservedShareMemoryBase M) =
       unat (PcdReservedSecureMemoryBase M) + unat (PcdReservedSecureMemorySize M) \<and>
     unat (PcdFdBaseAddress M) = unat (PcdReservedShareMemoryBase M) + unat (PcdReservedShareMemorySize M) \<and>
     unat (PcdFdBaseAddress M) + unat (PcdFdSize M) \<le> unat (PcdArmLcdDdrFrameBufferBase M) \<and>
     unat (PcdArmLcdDdrFrameBufferBase M) + unat (PcdArmLcdDdrFrameBufferSize M) < unat (mSystemMemoryEnd M) + 1 \<and>
     unat (mSystemMemoryEnd M) + 1 < unat (PcdDramHighSpaceBase M) \<and>
     0 < unat (PcdReservedSecureMemorySize M) \<and> 0 < unat (PcdReservedShareMemorySize M) \<and>
     0 < unat (PcdFdSize M) \<and> 0 < unat (PcdArmLcdDdrFrameBufferSize M)"

lemma memory_config_unats:
  assumes "memory_config_ok M"
  shows "unat (frame_buffer_end M) = unat (PcdArmLcdDdrFrameBufferBase M) + unat (PcdArmLcdDdrFrameBufferSize M)"
    and "unat (mSystemMemoryEnd M + 1) = unat (mSystemMemoryEnd M) + 1"
    and "unat (PcdSystemMemoryBase M - 0x1000) = unat (PcdSystemMemoryBase M) - 0x1000"
    and "unat (mSystemMemoryEnd M + 1 - frame_buffer_end M) = unat (mSystemMemoryEnd M) + 1 - unat (frame_buffer_end M)"
    and "unat (PcdDramHighSpaceBase M - (mSystemMemoryEnd M + 1)) =
      unat (PcdDramHighSpaceBase M) - (unat (mSystemMemoryEnd M) + 1)"
proof -
  have h: "unat (PcdDramHighSpaceBase M) < 2 ^ 64"
    using unat_bound [of "PcdDramHighSpaceBase M"] by simp
  show fb: "unat (frame_buffer_end M) = unat (PcdArmLcdDdrFrameBufferBase M) + unat (PcdArmLcdDdrFrameBufferSize M)"
    unfolding frame_buffer_end_def using assms h by (subst unat_add_no_wrap) (simp_all add: memory_config_ok_def)
  show e: "unat (mSystemMemoryEnd M + 1) = unat (mSystemMemoryEnd M) + 1"
    using assms h by (subst unat_add_no_wrap) (simp_all add: memory_config_ok_def)
  have le: "0x1000 \<le> PcdSystemMemoryBase M" "frame_buffer_end M \<le> mSystemMemoryEnd M + 1"
      "mSystemMemoryEnd M + 1 \<le> PcdDramHighSpaceBase M"
    using assms fb e by (simp_all add: memory_config_ok_def word_le_nat_alt)
  show "unat (PcdSystemMemoryBase M - 0x1000) = unat (PcdSystemMemoryBase M) - 0x1000"
    using unat_sub [OF le(1)] by simp
  show "unat (mSystemMemoryEnd M + 1 - frame_buffer_end M) = unat (mSystemMemoryEnd M) + 1 - unat (frame_buffer_end M)"
    using unat_sub [OF le(2)] e by simp
  show "unat (PcdDramHighSpaceBase M - (mSystemMemoryEnd M + 1)) =
      unat (PcdDramHighSpaceBase M) - (unat (mSystemMemoryEnd M) + 1)"
    using unat_sub [OF le(3)] e by simp
qed

text \<open>The planned regions are two runs of adjacent regions, split at the end of the firmware image.\<close>

lemma planned_regions_tiles:
  assumes "memory_config_ok M"
  obtains low up where "map region_entry (planned_regions M high) = low @ up"
    "tiles 0x1000 low (unat (PcdFdBaseAddress M) + unat (PcdFdSize M))"
    "tiles (unat (PcdArmLcdDdrFrameBufferBase M)) up
       (unat (PcdDramHighSpaceBase M) + (case high of None \<Rightarrow> 0 | Some n \<Rightarrow> unat n))"
proof -
  let ?rs = "map region_entry (planned_regions M high)"
  have "?rs = take 4 ?rs @ drop 4 ?rs"
    by simp
  moreover have "tiles 0x1000 (take 4 ?rs) (unat (PcdFdBaseAddress M) + unat (PcdFdSize M))"
    using assms memory_config_unats [OF assms]
    by (simp add: planned_regions_def region_entry_def memory_config_ok_def)
  moreover have "tiles (unat (PcdArmLcdDdrFrameBufferBase M)) (drop 4 ?rs)
       (unat (PcdDramHighSpaceBase M) + (case high of None \<Rightarrow> 0 | Some n \<Rightarrow> unat n))"
    using assms memory_config_unats [OF assms]
    by (simp add: planned_regions_def region_entry_def memory_config_ok_def split: option.splits)
  ultimately show ?thesis by (rule that)
qed

lemma planned_regions_nonempty:
  assumes "memory_config_ok M" "r \<in> set (map region_entry (planned_regions M high))" "high \<noteq> Some 0"
  shows "unat (RegionLength r) \<noteq> 0"
proof -
  note u = memory_config_unats [OF assms(1)]
  have low: "unat (RegionLength r) \<noteq> 0" if "r \<in> set (map region_entry (planned_regions M None))"
  proof -
    from that consider "RegionLength r = PcdSystemMemoryBase M - 0x1000"
      | "RegionLength r = u32_to_u64 (PcdReservedSecureMemorySize M)"
      | "RegionLength r = u32_to_u64 (PcdReservedShareMemorySize M)"
      | "RegionLength r = u32_to_u64 (PcdFdSize M)"
      | "RegionLength r = u32_to_u64 (PcdArmLcdDdrFrameBufferSize M)"
      | "RegionLength r = mSystemMemoryEnd M + 1 - frame_buffer_end M"
      | "RegionLength r = PcdDramHighSpaceBase M - (mSystemMemoryEnd M + 1)"
      by (auto simp: planned_regions_def region_entry_def)
    then show ?thesis
      using assms(1) by cases (simp_all add: u memory_config_ok_def)
  qed
  show ?thesis
  proof (cases high)
    case None
    with assms(2) low show ?thesis by simp
  next
    case (Some n)
    have "planned_regions M high = planned_regions M None @
        [(PcdDramHighSpaceBase M, n, ARM_MEMORY_REGION_ATTRIBUTE_WRITE_BACK)]"
      by (simp add: planned_regions_def Some)
    then have "set (map region_entry (planned_regions M high)) =
        insert (region_entry (PcdDramHighSpaceBase M, n, ARM_MEMORY_REGION_ATTRIBUTE_WRITE_BACK))
          (set (map region_entry (planned_regions M None)))"
      by (simp only: map_append set_append list.map list.set) blast
    moreover have "unat (RegionLength (region_entry (PcdDramHighSpaceBase M, n, ARM_MEMORY_REGION_ATTRIBUTE_WRITE_BACK))) \<noteq> 0"
      using assms(3) Some by (simp add: region_entry_def unat_eq_zero)
    ultimately show ?thesis
      using low assms(2) by (metis insertE)
  qed
qed

section \<open>Properties\<close>

lemma ReportDramHighSpace_returns: "SmemInfoMem M \<noteq> None \<Longrightarrow> \<exists>b n. ReportDramHighSpace M = Ret (b, n)"
proof -
  assume "SmemInfoMem M \<noteq> None"
  then have "ReportDramHighSpace M \<noteq> Halted" "ReportDramHighSpace M \<noteq> Undef"
    by (auto simp: ReportDramHighSpace_def split: option.splits if_splits)
  then show ?thesis
    by (cases "ReportDramHighSpace M") (simp_all add: surj_pair)
qed

text \<open>C14: table and HOBs tell the same story. Whenever the allocations succeed and the memory
  information exists, the call returns: an identity-mapped table that ends with the end marker
  and fits its 11 entries, and one new HOB per region, in order, for the same range, with the
  memory type that fits the region's attribute, and of type MMIO exactly for device regions.\<close>

theorem memory_map_matches_hobs:
  assumes "table_pages M \<noteq> 0" "\<forall>n. hob_created M n" "SmemInfoMem M \<noteq> None"
  shows "\<exists>regions new. ArmPlatformGetVirtualMemoryMap M hobs = Ret (Some (regions @ [end_of_table]), hobs @ new) \<and>
    length regions + 1 \<le> MAX_VIRTUAL_MEMORY_MAP_DESCRIPTORS \<and>
    (\<forall>r \<in> set regions. VirtualBase r = PhysicalBase r) \<and> list_all2 hob_describes regions new"
proof -
  obtain b n where r: "ReportDramHighSpace M = Ret (b, n)"
    using assms(3) ReportDramHighSpace_returns by blast
  let ?regions = "map region_entry (planned_regions M (if b then Some n else None))"
  have "length ?regions + 1 \<le> MAX_VIRTUAL_MEMORY_MAP_DESCRIPTORS"
    by (simp add: planned_regions_def MAX_VIRTUAL_MEMORY_MAP_DESCRIPTORS_def)
  moreover have "\<forall>r \<in> set ?regions. VirtualBase r = PhysicalBase r"
    by (auto simp: region_entry_def)
  ultimately show ?thesis
    by (metis memory_map_closed_form [OF assms(1,2) r])
qed

text \<open>C13: every address has one region. For a consistent configuration the table maps each address
  from 0x1000 to the top of memory exactly once, except those between the end of the firmware
  image and the frame buffer, which it does not map; nothing outside is mapped, and the end
  marker is the first entry of length 0, so a reader that stops there sees all regions, in
  ascending order.\<close>

theorem memory_map_covers:
  assumes "memory_config_ok M" "table_pages M \<noteq> 0" "\<forall>n. hob_created M n"
    and "ReportDramHighSpace M = Ret (b, n)" "b \<longrightarrow> n \<noteq> 0"
    and "ArmPlatformGetVirtualMemoryMap M hobs = Ret (Some table, hobs')"
  shows "length (filter (covers x) table) =
      (if 0x1000 \<le> x \<and> x < unat (PcdDramHighSpaceBase M) + (if b then unat n else 0) \<and>
          \<not> (unat (PcdFdBaseAddress M) + unat (PcdFdSize M) \<le> x \<and> x < unat (PcdArmLcdDdrFrameBufferBase M))
       then 1 else 0) \<and>
    (\<exists>regions. table = regions @ [end_of_table] \<and> sorted_wrt (<) regions \<and>
      (\<forall>r \<in> set regions. RegionLength r \<noteq> 0))"
proof -
  let ?high = "if b then Some n else None"
  let ?regions = "map region_entry (planned_regions M ?high)"
  have table: "table = ?regions @ [end_of_table]"
  proof (rule memory_map_closed_form [OF assms(2-4), of hobs])
    fix new
    assume "ArmPlatformGetVirtualMemoryMap M hobs = Ret (Some (?regions @ [end_of_table]), hobs @ new)"
    with assms(6) show ?thesis by simp
  qed
  obtain low up where rs: "?regions = low @ up"
    and low: "tiles 0x1000 low (unat (PcdFdBaseAddress M) + unat (PcdFdSize M))"
    and up: "tiles (unat (PcdArmLcdDdrFrameBufferBase M)) up
       (unat (PcdDramHighSpaceBase M) + (if b then unat n else 0))"
    by (rule planned_regions_tiles [OF assms(1), of ?high]) (cases b, simp_all)
  have gap: "unat (PcdFdBaseAddress M) + unat (PcdFdSize M) \<le> unat (PcdArmLcdDdrFrameBufferBase M)"
    using assms(1) by (simp add: memory_config_ok_def)
  have "\<not> covers x end_of_table"
    by (simp add: covers_def end_of_table_def)
  then have split: "length (filter (covers x) table) = length (filter (covers x) low) + length (filter (covers x) up)"
    unfolding table rs by simp
  have count: "length (filter (covers x) table) =
      (if 0x1000 \<le> x \<and> x < unat (PcdDramHighSpaceBase M) + (if b then unat n else 0) \<and>
          \<not> (unat (PcdFdBaseAddress M) + unat (PcdFdSize M) \<le> x \<and> x < unat (PcdArmLcdDdrFrameBufferBase M))
       then 1 else 0)"
    unfolding split tiles_count [OF low] tiles_count [OF up]
    using gap tiles_order [OF low] tiles_order [OF up] by (auto simp del: One_nat_def)
  have nonempty: "\<forall>r \<in> set ?regions. RegionLength r \<noteq> 0"
  proof
    fix r
    assume that: "r \<in> set ?regions"
    have "unat (RegionLength r) \<noteq> 0"
      by (rule planned_regions_nonempty [OF assms(1) that]) (use assms(5) in \<open>simp split: if_splits\<close>)
    then show "RegionLength r \<noteq> 0" by auto
  qed
  moreover have "sorted_wrt (<) ?regions"
    using tiles_sorted [OF low] tiles_sorted [OF up] nonempty gap unfolding rs
    by (fastforce simp: sorted_wrt_append region_less_iff)
  ultimately show ?thesis
    using count table by blast
qed

text \<open>How much high memory is reported. With valid memory information of at most \<open>2^44\<close> MB above
  the low part, the high space is reported exactly when more than 0x7800 MB are available, with
  the rest in bytes as its size.\<close>

theorem high_memory_size:
  assumes "SmemInfoMem M = Some info" "MemSignature info = MEM_OUTPUT_BUFFER_SIG M"
    and "unat (AvailableSize info) < 0x7800 + 2 ^ 44"
  shows "\<exists>n. ReportDramHighSpace M = Ret (0x7800 < unat (AvailableSize info), n) \<and>
    unat n = (unat (AvailableSize info) - 0x7800) * 2 ^ 20"
proof (cases "0x7800 < AvailableSize info")
  case True
  then have lt: "0x7800 < unat (AvailableSize info)" and le: "0x7800 \<le> AvailableSize info"
    by (simp_all add: word_less_nat_alt word_le_nat_alt)
  have d: "unat (AvailableSize info - 0x7800) = unat (AvailableSize info) - 0x7800"
    using unat_sub [OF le] by simp
  have "unat (push_bit 20 (AvailableSize info - 0x7800)) = unat ((AvailableSize info - 0x7800) * 2 ^ 20)"
    by (simp add: push_bit_eq_mult)
  also have "\<dots> = (unat (AvailableSize info) - 0x7800) * 2 ^ 20"
    using assms(3) lt by (subst unat_mult_no_wrap) (simp_all add: d)
  finally show ?thesis
    using assms(1,2) True lt by (simp add: ReportDramHighSpace_def)
next
  case False
  then have "\<not> 0x7800 < unat (AvailableSize info)"
    by (simp add: word_less_nat_alt)
  with False assms(1,2) show ?thesis
    by (simp add: ReportDramHighSpace_def)
qed

section \<open>This board\<close>

text \<open>
  The values Sky1Common.dsc.inc and O6.fdf assign, in any environment. The base of the high space
  and the end of system memory are not assigned in this repository, and stay what they are.
\<close>

definition orion_memory :: "memory_env \<Rightarrow> memory_env" where
  "orion_memory M =
     M\<lparr>PcdSystemMemoryBase := 0x80000000,
       PcdReservedSecureMemoryBase := 0x80000000, PcdReservedSecureMemorySize := 0x02500000,
       PcdReservedShareMemoryBase := 0x82500000, PcdReservedShareMemorySize := 0x01F00000,
       PcdFdBaseAddress := 0x84400000, PcdFdSize := 0x00200000,
       PcdArmLcdDdrFrameBufferBase := 0x84800000, PcdArmLcdDdrFrameBufferSize := 0x00800000\<rparr>"

lemma orion_memory_config:
  assumes "0x85000000 \<le> unat (mSystemMemoryEnd M)"
    and "unat (mSystemMemoryEnd M) + 1 < unat (PcdDramHighSpaceBase M)"
  shows "memory_config_ok (orion_memory M)"
  using assms by (simp add: memory_config_ok_def orion_memory_def)

text \<open>A table that was returned for this board lists the planned regions, and where the parts that depend on the installed memory start.\<close>

lemma orion_table:
  assumes "0x85000000 \<le> unat (mSystemMemoryEnd M)"
    and "unat (mSystemMemoryEnd M) + 1 < unat (PcdDramHighSpaceBase M)" "\<forall>n. hob_created M n"
    and "ArmPlatformGetVirtualMemoryMap (orion_memory M) hobs = Ret (Some table, hobs')"
  obtains high where "table = map region_entry (planned_regions (orion_memory M) high) @ [end_of_table]"
    "unat (mSystemMemoryEnd (orion_memory M) + 1) = unat (mSystemMemoryEnd M) + 1"
    "frame_buffer_end (orion_memory M) = 0x85000000"
proof -
  let ?M = "orion_memory M"
  have pages: "table_pages ?M \<noteq> 0"
    using assms(4) by (auto simp: ArmPlatformGetVirtualMemoryMap_def split: if_splits)
  have M: "\<forall>n. hob_created ?M n"
    using assms(3) by (simp add: orion_memory_def)
  note ends = memory_config_unats [OF orion_memory_config [OF assms(1,2)]]
  have "unat (mSystemMemoryEnd ?M + 1) = unat (mSystemMemoryEnd M) + 1" "frame_buffer_end ?M = 0x85000000"
    using ends(2) by (simp_all add: orion_memory_def frame_buffer_end_def)
  with memory_map_result [OF pages M assms(4)] show ?thesis
    using that by metis
qed

text \<open>The hole in this board's map. With the values assigned for this board the 2 MB from
  0x84600000 to 0x84800000, which the comment on the memory layout counts as part of the
  firmware image, have no entry in the table, although they lie in system memory and the file
  says that the map covers the entire layout.\<close>

theorem orion_memory_hole:
  assumes "0x85000000 \<le> unat (mSystemMemoryEnd M)"
    and "unat (mSystemMemoryEnd M) + 1 < unat (PcdDramHighSpaceBase M)" "\<forall>n. hob_created M n"
    and "ArmPlatformGetVirtualMemoryMap (orion_memory M) hobs = Ret (Some table, hobs')"
    and "0x84600000 \<le> x" "x < 0x84800000"
  shows "\<forall>r \<in> set table. \<not> covers x r"
proof -
  let ?M = "orion_memory M"
  have M: "\<forall>n. hob_created ?M n" "SmemInfoMem ?M = SmemInfoMem M"
      "unat (PcdFdBaseAddress ?M) = 0x84400000" "unat (PcdFdSize ?M) = 0x200000"
      "unat (PcdArmLcdDdrFrameBufferBase ?M) = 0x84800000"
    using assms(3) by (simp_all add: orion_memory_def)
  have pages: "table_pages ?M \<noteq> 0"
    using assms(4) by (auto simp: ArmPlatformGetVirtualMemoryMap_def split: if_splits)
  obtain b n where "table = map region_entry (planned_regions ?M (if b then Some n else None)) @ [end_of_table]"
    using memory_map_result [OF pages M(1) assms(4)] by blast
  moreover obtain low up where rs: "map region_entry (planned_regions ?M (if b then Some n else None)) = low @ up"
    and low: "tiles 0x1000 low 0x84600000"
    and up: "\<exists>top. tiles 0x84800000 up top"
    by (rule planned_regions_tiles [OF orion_memory_config [OF assms(1,2)], of "if b then Some n else None"])
      (use M in auto)
  moreover have "filter (covers x) low = []" "filter (covers x) up = []"
    using tiles_count [OF low, of x] up tiles_count [of "0x84800000" up _ x] assms(5,6) by auto
  moreover have "\<not> covers x end_of_table"
    by (simp add: covers_def end_of_table_def)
  ultimately show ?thesis
    by (auto simp: filter_empty_conv)
qed

section \<open>Witnesses\<close>

text \<open>The board with 4 GB below the high space and 64 GB in all.\<close>

definition orion_memory_info :: mem_init_output_buffer where
  "orion_memory_info = \<lparr>MemSignature = 0x4D454D, AvailableSize = 0x10000\<rparr>"

definition sample_env :: memory_env where
  "sample_env =
     \<lparr>PcdSystemMemoryBase = 0, PcdReservedSecureMemoryBase = 0, PcdReservedSecureMemorySize = 0,
      PcdReservedShareMemoryBase = 0, PcdReservedShareMemorySize = 0, PcdFdBaseAddress = 0, PcdFdSize = 0,
      PcdArmLcdDdrFrameBufferBase = 0, PcdArmLcdDdrFrameBufferSize = 0,
      PcdDramHighSpaceBase = 0x880000000, mSystemMemoryEnd = 0x17FFFFFFF,
      MEM_OUTPUT_BUFFER_SIG = 0x4D454D, SmemInfoMem = Some orion_memory_info, table_pages = 0x9000,
      hob_created = (\<lambda>_. True), memory_asserts = True\<rparr>"

abbreviation sample_memory :: memory_env where
  "sample_memory \<equiv> orion_memory sample_env"

lemma sample_memory_high: "ReportDramHighSpace sample_memory = Ret (True, 0x880000000)"
  by (simp add: ReportDramHighSpace_def orion_memory_def sample_env_def orion_memory_info_def push_bit_eq_mult)

lemma sample_memory_allocates:
  "table_pages sample_memory \<noteq> 0" "\<forall>n. hob_created sample_memory n" "SmemInfoMem sample_memory \<noteq> None"
  "memory_config_ok sample_memory"
  by (simp_all add: orion_memory_def sample_env_def memory_config_ok_def)

lemma sample_memory_map:
  obtains table hobs' where "ArmPlatformGetVirtualMemoryMap sample_memory [] = Ret (Some table, hobs')"
  by (metis memory_map_closed_form [OF sample_memory_allocates(1,2) sample_memory_high])

theorem memory_map_matches_hobs_witness:
  "\<exists>regions hobs. ArmPlatformGetVirtualMemoryMap sample_memory [] = Ret (Some (regions @ [end_of_table]), hobs)"
  using memory_map_matches_hobs [OF sample_memory_allocates(1-3), of "[]"] by blast

theorem memory_map_covers_witness:
  "\<exists>table hobs. ArmPlatformGetVirtualMemoryMap sample_memory [] = Ret (Some table, hobs) \<and>
     length (filter (covers 0x85000000) table) = 1"
proof -
  obtain table hobs where t: "ArmPlatformGetVirtualMemoryMap sample_memory [] = Ret (Some table, hobs)"
    by (rule sample_memory_map)
  have "length (filter (covers 0x85000000) table) = 1"
    using memory_map_covers [OF sample_memory_allocates(4,1,2) sample_memory_high _ t, of "0x85000000"]
    by (simp add: orion_memory_def sample_env_def)
  with t show ?thesis by blast
qed

theorem high_memory_size_witness:
  "\<exists>n. ReportDramHighSpace sample_memory = Ret (True, n) \<and> unat n = 0x880000000"
  using high_memory_size [of sample_memory orion_memory_info]
  by (simp add: orion_memory_def sample_env_def orion_memory_info_def)

theorem orion_memory_hole_witness:
  "\<exists>table hobs. ArmPlatformGetVirtualMemoryMap sample_memory [] = Ret (Some table, hobs) \<and>
     (\<forall>r \<in> set table. \<not> covers 0x84700000 r)"
proof -
  obtain table hobs where t: "ArmPlatformGetVirtualMemoryMap sample_memory [] = Ret (Some table, hobs)"
    by (rule sample_memory_map)
  have "\<forall>r \<in> set table. \<not> covers 0x84700000 r"
    by (rule orion_memory_hole [OF _ _ _ t]) (simp_all add: sample_env_def)
  with t show ?thesis by blast
qed

end
