(* ===== verification/Log_Levels.thy ===== *)
theory Log_Levels
  imports Prelude
begin

text \<open>
  The levels of the crate \<^verbatim>\<open>log\<close>, which the secure partition and the boot core both log through: the
  level of a record, and the filter that says up to which level records are logged.
\<close>

datatype log_level = LevelError | LevelWarn | LevelInfo | LevelDebug | LevelTrace

datatype level_filter = Off | Error | Warn | Info | Debug | Trace

fun level_rank :: "level_filter \<Rightarrow> nat" where
  "level_rank Off = 0"
| "level_rank Error = 1"
| "level_rank Warn = 2"
| "level_rank Info = 3"
| "level_rank Debug = 4"
| "level_rank Trace = 5"

fun to_level_filter :: "log_level \<Rightarrow> level_filter" where
  "to_level_filter LevelError = Error"
| "to_level_filter LevelWarn = Warn"
| "to_level_filter LevelInfo = Info"
| "to_level_filter LevelDebug = Debug"
| "to_level_filter LevelTrace = Trace"

text \<open>The test that the logging macros make before they hand a record to the logger.\<close>

definition logged :: "log_level \<Rightarrow> level_filter \<Rightarrow> bool" where
  "logged level limit \<longleftrightarrow> level_rank (to_level_filter level) \<le> level_rank limit"

end
