(* ===== verification/Secure_Partition.thy ===== *)
theory Secure_Partition
  imports Ec_Services Memory_Map Log_Levels
begin

text \<open>
  The secure partition around its services: the identities of the services (battery.rs, thermal.rs,
  time_alarm.rs), the entry point and the main function (baremetal/mod.rs, main.rs), the
  manifest and the linker script of the board (linker/), and the panic handler (baremetal/panic.rs).
  The message handler, the FF-A calls and the logger come from crates that are not part of this
  repository, and are parameters.
\<close>

section \<open>Services with their identities\<close>

record sp_service =
  service_uuid :: "u8 list"
  service_name :: string
  inner :: passthrough_service

definition BATTERY_UUID :: "u8 list" where
  "BATTERY_UUID =
     [0x25, 0xCB, 0x52, 0x07, 0xAC, 0x36, 0x42, 0x7D, 0xAA, 0xEF, 0x3A, 0xA7, 0x88, 0x77, 0xD2, 0x7E]"

definition THERMAL_UUID :: "u8 list" where
  "THERMAL_UUID =
     [0x31, 0xF5, 0x6D, 0xA7, 0x59, 0x3C, 0x4D, 0x72, 0xA4, 0xB3, 0x8F, 0xC7, 0x17, 0x1A, 0xC0, 0x73]"

definition TIME_ALARM_UUID :: "u8 list" where
  "TIME_ALARM_UUID =
     [0x23, 0xEA, 0x63, 0xED, 0xB5, 0x93, 0x46, 0xEA, 0xB0, 0x27, 0x89, 0x24, 0xDF, 0x88, 0xE9, 0x2F]"

definition sp_service_of :: "u8 list \<Rightarrow> string \<Rightarrow> passthrough_service outcome \<Rightarrow> sp_service outcome" where
  "sp_service_of uuid name new =
     obind new (\<lambda>p. Ret \<lparr>service_uuid = uuid, service_name = name, inner = p\<rparr>)"

definition Battery :: "sp_service outcome" where
  "Battery = sp_service_of BATTERY_UUID ''Battery'' Battery_new"

definition Thermal :: "sp_service outcome" where
  "Thermal = sp_service_of THERMAL_UUID ''Thermal'' Thermal_new"

definition TimeAlarm :: "sp_service outcome" where
  "TimeAlarm = sp_service_of TIME_ALARM_UUID ''TimeAlarm'' TimeAlarm_new"

definition ffa_msg_send_direct_req2 ::
  "('q, 'p, 'r) ffa_lib \<Rightarrow> (u8 \<Rightarrow> 'u \<Rightarrow> 'u option) \<Rightarrow> ('u \<Rightarrow> (u8 \<times> 'u) option) \<Rightarrow> sp_service \<Rightarrow> 'q \<Rightarrow> 'u \<Rightarrow>
     ((error_code + 'r) \<times> 'u) outcome option" where
  "ffa_msg_send_direct_req2 F wr rd S msg u = handle_request F wr rd (inner S) msg u"

section \<open>The main function\<close>

text \<open>
  What is appended to the message handler: the services of this repository, and two of the crate
  \<^verbatim>\<open>ec_service_lib\<close>. \<open>run_message_loop\<close> has no result when it serves messages for ever; when it
  returns, \<open>main\<close> panics, with an error in \<^verbatim>\<open>expect\<close> and else at \<^verbatim>\<open>unreachable!\<close>.
\<close>

datatype registered = Passthrough sp_service | FwMgmt | Notify

record ('h, 'u) sp_lib =
  set_logger :: "'u \<Rightarrow> bool \<times> 'u"
  ffa_version :: "'u \<Rightarrow> (u16 \<times> u16) option \<times> 'u"
  MessageHandler_new :: 'h
  append :: "registered \<Rightarrow> 'h \<Rightarrow> 'h"
  run_message_loop :: "'h \<Rightarrow> 'u \<Rightarrow> (bool \<times> 'u) option"

definition sp_main :: "('h, 'u) sp_lib \<Rightarrow> 'u \<Rightarrow> unit outcome option" where
  "sp_main M u =
     (case ffa_version M u of
        (None, u) \<Rightarrow> Some Halted
      | (Some version, u) \<Rightarrow>
          (case obind Battery (\<lambda>battery. obind Thermal (\<lambda>thermal. obind TimeAlarm (\<lambda>time_alarm.
                Ret (append M Notify (append M FwMgmt (append M (Passthrough time_alarm)
                      (append M (Passthrough thermal) (append M (Passthrough battery) (MessageHandler_new M))))))))) of
             Ret handler \<Rightarrow>
               (case run_message_loop M handler u of None \<Rightarrow> None | Some _ \<Rightarrow> Some Halted)
           | Halted \<Rightarrow> Some Halted
           | Undef \<Rightarrow> Some Undef))"

text \<open>The entry point; setting the logger a second time fails, and then \<^verbatim>\<open>unwrap\<close> panics.\<close>

definition aarch64_rt_main :: "('h, 'u) sp_lib \<Rightarrow> 'u \<Rightarrow> unit outcome option" where
  "aarch64_rt_main M u = (case set_logger M u of (False, u) \<Rightarrow> Some Halted | (True, u) \<Rightarrow> sp_main M u)"

section \<open>The manifest and the linker script\<close>

record sp_manifest =
  manifest_uuids :: "u32 list list"
  load_address :: u64
  entrypoint_offset :: u32
  image_size :: u64
  device_base :: u64
  device_pages :: u32

definition orion_o6_ec_sp :: sp_manifest where
  "orion_o6_ec_sp =
     \<lparr>manifest_uuids =
        [[0x7ed874e4, 0x44403157, 0x3ecb27a7, 0xdfc8f38c],
         [0x73120c33, 0x5747e5fd, 0x655b1998, 0x02750339],
         [0xdfad5771, 0x634cbe2f, 0xacef95ae, 0x1cb0e316],
         [0x0752cb25, 0x7d4236ac, 0xa73aefaa, 0x7ed27788],
         [0xa76df531, 0x724d3c59, 0xc78fb3a4, 0x73c01a17],
         [0xed63ea23, 0xea4693b5, 0x248927b0, 0x2fe988df],
         [0xa462b817, 0xaf4f0618, 0x9a08b386, 0x61383558]],
      load_address = 0x81810000, entrypoint_offset = 0x2000, image_size = 0x50000,
      device_base = 0x040D0000, device_pages = 1\<rparr>"

text \<open>The memory region of the image in the linker script, as origin and length.\<close>

definition linker_image :: "u64 \<times> u64" where
  "linker_image = (0x81812000, 2 * 0x100000)"

definition in_image :: "sp_manifest \<Rightarrow> nat \<Rightarrow> bool" where
  "in_image S x \<longleftrightarrow> unat (load_address S) \<le> x \<and> x < unat (load_address S) + unat (image_size S)"

text \<open>A page has 4 KB (\<^verbatim>\<open>xlat-granule\<close> 0).\<close>

definition in_device_region :: "sp_manifest \<Rightarrow> u64 \<Rightarrow> bool" where
  "in_device_region S a \<longleftrightarrow>
     unat (device_base S) \<le> unat a \<and> unat a < unat (device_base S) + 0x1000 * unat (device_pages S)"

text \<open>A UUID in a manifest: its bytes as little-endian words.\<close>

fun uuid_words :: "u8 list \<Rightarrow> u32 list" where
  "uuid_words (a # b # c # d # bs) = of_nat (le_val [a, b, c, d]) # uuid_words bs"
| "uuid_words _ = []"

section \<open>Panics\<close>

text \<open>
  \<open>error!\<close> hands a record to the logger unless the maximal level excludes it. The logger, and with
  it the formatting of the panic message, may itself panic, and the panic handler is entered
  again. The handler never returns: it ends in a wait loop, and the result here is what was handed to the
  logger before and the state at that point.
\<close>

record panic_info =
  location :: "(string \<times> nat \<times> nat) option"
  message :: string

type_synonym panic_record = "string \<times> nat \<times> nat \<times> string"

datatype 'u log_result = Logged 'u | LogPanics panic_info 'u

definition panic_record :: "panic_info \<Rightarrow> panic_record" where
  "panic_record info =
     (case location info of
        Some (file, line, column) \<Rightarrow> (file, line, column, message info)
      | None \<Rightarrow> (''???'', 0, 0, message info))"

text \<open>The first call sets the flag and returns it set; a second call does not return.\<close>

definition panic_prevent_reenter :: "bool \<Rightarrow> bool option" where
  "panic_prevent_reenter PANIC_IN_PROGRESS = (if PANIC_IN_PROGRESS then None else Some True)"

function panic ::
  "level_filter \<Rightarrow> (panic_record \<Rightarrow> 'u \<Rightarrow> 'u log_result) \<Rightarrow> panic_info \<Rightarrow> bool \<Rightarrow> 'u \<Rightarrow> panic_record list \<times> 'u" where
  "panic max_level log info in_progress u =
     (case panic_prevent_reenter in_progress of
        None \<Rightarrow> ([], u)
      | Some in_progress' \<Rightarrow>
          if level_rank max_level < level_rank Error then ([], u)
          else (case log (panic_record info) u of
                  Logged u' \<Rightarrow> ([panic_record info], u')
                | LogPanics info' u' \<Rightarrow>
                    (case panic max_level log info' in_progress' u' of
                       (records, u'') \<Rightarrow> (panic_record info # records, u''))))"
  by pat_completeness auto
termination
  by (relation "measure (\<lambda>(max_level, log, info, in_progress, u). if in_progress then 0 else 1)")
    (auto simp: panic_prevent_reenter_def split: if_splits)

declare panic.simps [simp del]

text \<open>The level that the entry point sets before it calls \<open>main\<close>.\<close>

definition aarch64_rt_main_level :: level_filter where
  "aarch64_rt_main_level = Off"

text \<open>The interrupt handler logs the interrupt and does nothing else.\<close>

definition QemuInterruptHandler_handle ::
  "level_filter \<Rightarrow> ('i \<Rightarrow> 'u \<Rightarrow> 'u log_result) \<Rightarrow> 'i \<Rightarrow> 'u \<Rightarrow> 'u log_result" where
  "QemuInterruptHandler_handle max_level log haf_interrupt_id u =
     (if level_rank max_level < level_rank Info then Logged u else log haf_interrupt_id u)"

section \<open>The services are built\<close>

lemma services_built:
  "Battery = Ret \<lparr>service_uuid = BATTERY_UUID, service_name = ''Battery'',
     inner = PassthroughService_new 8 (map (\<lambda>(c, n). \<lparr>command_code = c, payload_len = n\<rparr>) BATTERY_COMMANDS)\<rparr>"
  "Thermal = Ret \<lparr>service_uuid = THERMAL_UUID, service_name = ''Thermal'',
     inner = PassthroughService_new 9 (map (\<lambda>(c, n). \<lparr>command_code = c, payload_len = n\<rparr>) THERMAL_COMMANDS)\<rparr>"
  "TimeAlarm = Ret \<lparr>service_uuid = TIME_ALARM_UUID, service_name = ''TimeAlarm'',
     inner = PassthroughService_new 0xB (map (\<lambda>(c, n). \<lparr>command_code = c, payload_len = n\<rparr>) TIME_ALARM_COMMANDS)\<rparr>"
  by (simp_all add: Battery_def Thermal_def TimeAlarm_def sp_service_of_def Battery_new_def Thermal_new_def
      TimeAlarm_new_def battery.table_builds thermal.table_builds time_alarm.table_builds)

text \<open>Each service finds every command of its table, with a payload that fits a message.\<close>

lemma service_command:
  assumes "(new, commands) \<in> {(Battery, BATTERY_COMMANDS), (Thermal, THERMAL_COMMANDS), (TimeAlarm, TIME_ALARM_COMMANDS)}"
    and "(cmd, n) \<in> set commands"
  obtains S where "new = Ret S" "n \<le> MAX_MESSAGE_SIZE_BYTES"
    "find (\<lambda>c. command_code c = cmd) (supported_commands (inner S)) = Some \<lparr>command_code = cmd, payload_len = n\<rparr>"
proof -
  have "\<exists>S. new = Ret S \<and> n \<le> MAX_MESSAGE_SIZE_BYTES \<and>
      find (\<lambda>c. command_code c = cmd) (supported_commands (inner S)) = Some \<lparr>command_code = cmd, payload_len = n\<rparr>"
    using assms battery.payloads_fit thermal.payloads_fit time_alarm.payloads_fit
      battery.lookup [of cmd n] thermal.lookup [of cmd n] time_alarm.lookup [of cmd n]
    by (auto simp: services_built PassthroughService_new_def)
  with that show ?thesis by blast
qed

section \<open>Properties\<close>

text \<open>Every command of every service reaches the controller. A direct request to the battery, thermal
  or time and alarm service with a command of the service's table and its arguments sends exactly
  the request frame with the service's endpoint, and the packets the controller answers with
  come back as the response, on a UART that behaves as documented.\<close>

theorem services_answer:
  assumes "(new, commands) \<in> {(Battery, BATTERY_COMMANDS), (Thermal, THERMAL_COMMANDS), (TimeAlarm, TIME_ALARM_COMMANDS)}"
    and "(cmd, length args) \<in> set commands" "new = Ret S"
    and "pl011 D waits sent pending"
    and "u8_at F (payload F msg) 0 = Ret cmd" "\<forall>j < length args. u8_at F (payload F msg) (Suc j) = Ret (args ! j)"
    and "\<forall>u'. uart_write (write_byte D) (request_frame (destination_eid (inner S)) cmd args) u = Some u' \<longrightarrow>
           pending u' = concat (map packet_bytes (ps @ [q])) @ rest"
    and "\<forall>p \<in> set ps. packet_ok p \<and> \<not> last_packet p" "packet_ok q" "last_packet q"
    and "length (concat (map pk_body (ps @ [q]))) \<le> 256"
    and "payload_from_bytes F (concat (map pk_body (ps @ [q]))) = Ret reply"
  shows "\<exists>u'. ffa_msg_send_direct_req2 F (write_byte D) (read_byte D) S msg u =
      Some (Ret (Inr (from_req_with_payload F msg reply), u')) \<and>
    sent u' = sent u @ request_frame (destination_eid (inner S)) cmd args \<and> pending u' = rest"
proof -
  from assms(1,2) obtain S' where "new = Ret S'" and fits: "length args \<le> MAX_MESSAGE_SIZE_BYTES"
    and "find (\<lambda>c. command_code c = cmd) (supported_commands (inner S')) =
      Some \<lparr>command_code = cmd, payload_len = length args\<rparr>"
    by (rule service_command)
  then have "find (\<lambda>c. command_code c = cmd) (supported_commands (inner S)) =
      Some \<lparr>command_code = cmd, payload_len = length args\<rparr>"
    using assms(3) by simp
  then show ?thesis
    unfolding ffa_msg_send_direct_req2_def
    by (rule request_reply [OF assms(4) _ _ fits assms(5-12)]) simp
qed

text \<open>C19: the partition serves what its manifest announces. When the logger can be set and the FF-A version
  read, the entry point runs the message loop on a handler with the three services of this repository and the
  two of the library, in order, and never returns; the services have different endpoints, and
  their UUIDs are the fourth to sixth of the manifest, whose UUIDs are all different. The
  manifest announces seven UUIDs, for five services.\<close>

theorem partition_serves_manifest:
  assumes "set_logger M u0 = (True, u)" "ffa_version M u = (Some version, u')"
  shows "\<exists>b t a. Battery = Ret b \<and> Thermal = Ret t \<and> TimeAlarm = Ret a \<and>
    aarch64_rt_main M u0 = map_option (\<lambda>_. Halted) (run_message_loop M
      (fold (append M) [Passthrough b, Passthrough t, Passthrough a, FwMgmt, Notify] (MessageHandler_new M)) u') \<and>
    distinct [destination_eid (inner b), destination_eid (inner t), destination_eid (inner a)] \<and>
    map (uuid_words \<circ> service_uuid) [b, t, a] = slice 3 3 (manifest_uuids orion_o6_ec_sp) \<and>
    distinct (manifest_uuids orion_o6_ec_sp) \<and> length (manifest_uuids orion_o6_ec_sp) = 7"
  using assms
  by (simp add: aarch64_rt_main_def sp_main_def services_built PassthroughService_new_def orion_o6_ec_sp_def slice_def
      BATTERY_UUID_def THERMAL_UUID_def TIME_ALARM_UUID_def split: option.split)

text \<open>C28: the panic handler ends. Whatever the logger does, even when it panics on every record, a panic
  hands at most one record to it, with the location or the placeholder and the message, and
  stops; a panic while another is handled stops at once. At the level that the entry point sets
  no record is handed over at all.\<close>

theorem panic_stops:
  "fst (panic max_level log info False u) = (if max_level = Off then [] else [panic_record info]) \<and>
   panic max_level log info True u = ([], u) \<and>
   panic aarch64_rt_main_level log info False u = ([], u)"
proof -
  have again: "panic lv log info True u = ([], u)" for lv info u
    by (simp add: panic.simps panic_prevent_reenter_def)
  have off: "panic Off log info False u = ([], u)"
    by (simp add: panic.simps panic_prevent_reenter_def)
  have "fst (panic max_level log info False u) = [panic_record info]" if "max_level \<noteq> Off"
  proof -
    have "\<not> level_rank max_level < level_rank Error"
      using that by (cases max_level) simp_all
    then show ?thesis
      by (subst panic.simps) (simp add: panic_prevent_reenter_def again split: log_result.split)
  qed
  with again off show ?thesis
    by (simp add: aarch64_rt_main_level_def)
qed

text \<open>C29: where the partition lives. In the memory map of this board every byte of the partition's image is
  covered by the reserved secure region and by no other; the image starts, after the entry point
  offset, where the linker script places it, but the script's region is larger than the image
  the manifest declares; and the UART registers the services use are not in the device region that
  the manifest maps for them.\<close>

theorem partition_layout:
  assumes "0x85000000 \<le> unat (mSystemMemoryEnd M)"
    and "unat (mSystemMemoryEnd M) + 1 < unat (PcdDramHighSpaceBase M)" "\<forall>n. hob_created M n"
    and "ArmPlatformGetVirtualMemoryMap (orion_memory M) hobs = Ret (Some table, hobs')"
    and "in_image orion_o6_ec_sp x"
  shows "filter (covers x) table =
      [region_entry (0x80000000, 0x2500000, ARM_MEMORY_REGION_ATTRIBUTE_UNCACHED_UNBUFFERED)] \<and>
    fst linker_image = load_address orion_o6_ec_sp + u32_to_u64 (entrypoint_offset orion_o6_ec_sp) \<and>
    image_size orion_o6_ec_sp < snd linker_image \<and>
    \<not> in_device_region orion_o6_ec_sp UART_DR \<and> \<not> in_device_region orion_o6_ec_sp UART_FR"
proof -
  have x: "0x81810000 \<le> x" "x < 0x81860000"
    using assms(5) by (simp_all add: in_image_def orion_o6_ec_sp_def)
  obtain high where table: "table = map region_entry (planned_regions (orion_memory M) high) @ [end_of_table]"
    and ends: "unat (mSystemMemoryEnd (orion_memory M) + 1) = unat (mSystemMemoryEnd M) + 1"
      "frame_buffer_end (orion_memory M) = 0x85000000"
    by (rule orion_table [OF assms(1-4)])
  from ends have "filter (covers x) table =
      [region_entry (0x80000000, 0x2500000, ARM_MEMORY_REGION_ATTRIBUTE_UNCACHED_UNBUFFERED)]"
    using x assms(1,2)
    by (cases high)
      (simp_all add: table planned_regions_def region_entry_def covers_def end_of_table_def orion_memory_def)
  then show ?thesis
    by (simp add: linker_image_def orion_o6_ec_sp_def in_device_region_def UART_DR_def UART_FR_def UART_BASE_def)
qed

section \<open>Witnesses\<close>

theorem services_answer_witness:
  "\<exists>S u'. Battery = Ret S \<and> ffa_msg_send_direct_req2 sample_ffa (write_byte sample_uart) (read_byte sample_uart) S [2, 7]
      ([], packet_bytes sample_packet) = Some (Ret (Inr [0x2A], u')) \<and> snd u' = []"
proof -
  obtain S where S: "Battery = Ret S" and eid: "destination_eid (inner S) = 8"
    by (simp add: services_built PassthroughService_new_def)
  have cmd: "(2, length [7 :: u8]) \<in> set BATTERY_COMMANDS"
    by (simp add: BATTERY_COMMANDS_def)
  have pend: "\<forall>u'. uart_write (write_byte sample_uart) (request_frame (destination_eid (inner S)) 2 [7])
      ([], packet_bytes sample_packet) = Some u' \<longrightarrow>
      snd u' = concat (map packet_bytes ([] @ [sample_packet])) @ []"
    using sample_uart_write by force
  have "\<exists>u'. ffa_msg_send_direct_req2 sample_ffa (write_byte sample_uart) (read_byte sample_uart) S [2, 7]
      ([], packet_bytes sample_packet) = Some (Ret (Inr (from_req_with_payload sample_ffa [2, 7] [0x2A]), u')) \<and>
      fst u' = fst ([], packet_bytes sample_packet) @ request_frame (destination_eid (inner S)) 2 [7] \<and> snd u' = []"
    by (rule services_answer [OF _ cmd S sample_uart_pl011 _ _ pend _ sample_packet_ok])
      (simp_all add: sample_ffa_def sample_packet_def)
  with S show ?thesis
    by (auto simp: sample_ffa_def)
qed

text \<open>A message handler that is the list of what was appended, and never stops.\<close>

definition sample_sp :: "(registered list, unit) sp_lib" where
  "sample_sp = \<lparr>set_logger = (\<lambda>u. (True, u)), ffa_version = (\<lambda>u. (Some (1, 2), u)), MessageHandler_new = [], append = (\<lambda>s h. h @ [s]),
     run_message_loop = (\<lambda>h u. None)\<rparr>"

theorem partition_serves_manifest_witness:
  "aarch64_rt_main sample_sp () = None \<and> (\<exists>b. Battery = Ret b \<and> uuid_words (service_uuid b) = manifest_uuids orion_o6_ec_sp ! 3)"
proof -
  have "set_logger sample_sp () = (True, ())" "ffa_version sample_sp () = (Some (1, 2), ())"
    by (simp_all add: sample_sp_def)
  from partition_serves_manifest [OF this] obtain b t a where "Battery = Ret b"
    and run: "aarch64_rt_main sample_sp () = map_option (\<lambda>_. Halted) (run_message_loop sample_sp
      (fold (append sample_sp) [Passthrough b, Passthrough t, Passthrough a, FwMgmt, Notify] (MessageHandler_new sample_sp)) ())"
    and uuids: "map (uuid_words \<circ> service_uuid) [b, t, a] = slice 3 3 (manifest_uuids orion_o6_ec_sp)"
    by blast
  moreover have "uuid_words (service_uuid b) = manifest_uuids orion_o6_ec_sp ! 3"
    using uuids by (simp add: slice_def orion_o6_ec_sp_def)
  moreover have "aarch64_rt_main sample_sp () = None"
    using run by (simp add: sample_sp_def)
  ultimately show ?thesis by blast
qed

theorem partition_layout_witness:
  "\<exists>table hobs. ArmPlatformGetVirtualMemoryMap sample_memory [] = Ret (Some table, hobs) \<and>
     length (filter (covers 0x81812000) table) = 1"
proof -
  obtain table hobs where t: "ArmPlatformGetVirtualMemoryMap sample_memory [] = Ret (Some table, hobs)"
    by (rule sample_memory_map)
  have "in_image orion_o6_ec_sp 0x81812000"
    by (simp add: in_image_def orion_o6_ec_sp_def)
  with partition_layout [OF _ _ _ t, of "0x81812000"] t show ?thesis
    by (auto simp: sample_env_def)
qed

end
