(* ===== verification/Ec_Session.thy ===== *)
theory Ec_Session
  imports Secure_Partition
begin

text \<open>
  The services over time. The battery, thermal and time and alarm services share one UART and one
  controller, and the message loop calls them in any order. The controller is a parameter: what
  it has emitted is a function of what it was sent, and it answers every request frame with one
  reply, which may depend on the requests before. A reply is a list of MCTP packets of which the last
  one carries the end flag. The replies that are in flight form a queue, and a service
  takes the first one, whichever request it belongs to.
\<close>

section \<open>Requests and replies\<close>

text \<open>A request as the controller gets it: endpoint, command and arguments.\<close>

type_synonym ec_request = "u8 \<times> u8 \<times> u8 list"

fun frame_of :: "ec_request \<Rightarrow> u8 list" where
  "frame_of (eid, cmd, args) = request_frame eid cmd args"

fun fits :: "ec_request \<Rightarrow> bool" where
  "fits (eid, cmd, args) \<longleftrightarrow> length args \<le> MAX_MESSAGE_SIZE_BYTES"

definition wire :: "ec_request list \<Rightarrow> u8 list" where
  "wire rs = concat (map frame_of rs)"

lemma wire_simps [simp]: "wire [] = []" "wire (rs @ rs') = wire rs @ wire rs'" "wire (r # rs) = frame_of r @ wire rs"
  by (simp_all add: wire_def)

definition reply_body :: "mctp_packet list \<Rightarrow> u8 list" where
  "reply_body m = concat (map pk_body m)"

definition reply_bytes :: "mctp_packet list \<Rightarrow> u8 list" where
  "reply_bytes m = concat (map packet_bytes m)"

definition reply_ok :: "mctp_packet list \<Rightarrow> bool" where
  "reply_ok m \<longleftrightarrow> m \<noteq> [] \<and> (\<forall>p \<in> set m. packet_ok p) \<and> (\<forall>p \<in> set (butlast m). \<not> last_packet p) \<and>
     last_packet (last m) \<and> length (reply_body m) \<le> MAX_MESSAGE_SIZE_BYTES"

lemma reply_okE:
  assumes "reply_ok m"
  obtains ps q where "m = ps @ [q]" "\<forall>p \<in> set ps. packet_ok p \<and> \<not> last_packet p" "packet_ok q" "last_packet q"
    "length (concat (map pk_body (ps @ [q]))) \<le> MAX_MESSAGE_SIZE_BYTES"
  using assms that [of "butlast m" "last m"] by (auto simp: reply_ok_def reply_body_def dest: in_set_butlastD)

section \<open>The controller\<close>

locale controller_link = byte_link good send recv sent pending
  for good :: "'u \<Rightarrow> bool" and send recv sent pending +
  fixes emits :: "u8 list \<Rightarrow> u8 list"
  assumes emits_grow: "good u \<Longrightarrow> \<exists>more. emits (bs @ [b]) = emits bs @ more"
    and send_emits: "good u \<Longrightarrow> send b u = Some u' \<Longrightarrow>
      pending u' = pending u @ drop (length (emits (sent u))) (emits (sent u @ [b]))"
begin

lemma emits_append: "good u \<Longrightarrow> \<exists>more. emits (bs @ cs) = emits bs @ more"
proof (induction cs rule: rev_induct)
  case (snoc b cs)
  with emits_grow [of u "bs @ cs" b] show ?case by auto
qed simp

text \<open>Writing a buffer makes pending what the controller emits for it.\<close>

lemma write_emits:
  assumes "good u" "uart_write send buf u = Some u'"
  shows "pending u' = pending u @ drop (length (emits (sent u))) (emits (sent u @ buf))"
  using assms
proof (induction buf arbitrary: u)
  case (Cons b buf)
  then obtain u1 where u1: "send b u = Some u1" "uart_write send buf u1 = Some u'"
    by (auto simp: bind_eq_Some_conv)
  then have good: "good u1" and sent: "sent u1 = sent u @ [b]"
    using send_good [OF Cons.prems(1), of b] by auto
  obtain m where m: "emits (sent u @ [b]) = emits (sent u) @ m"
    using emits_grow [OF Cons.prems(1)] by blast
  obtain n where n: "emits ((sent u @ [b]) @ buf) = emits (sent u @ [b]) @ n"
    using emits_append [OF Cons.prems(1)] by blast
  from Cons.IH [OF good u1(2)] send_emits [OF Cons.prems(1) u1(1)] m n show ?case
    by (simp add: sent)
qed simp

end

text \<open>The UART with a controller behind it: writing the data register makes pending what is emitted for the byte.\<close>

definition answering ::
  "'u mmio \<Rightarrow> ('u \<Rightarrow> u8 list) \<Rightarrow> ('u \<Rightarrow> u8 list) \<Rightarrow> (u8 list \<Rightarrow> u8 list) \<Rightarrow> bool" where
  "answering D sent pending emits \<longleftrightarrow>
     (\<forall>bs b. \<exists>more. emits (bs @ [b]) = emits bs @ more) \<and>
     (\<forall>u b. pending (write_volatile D UART_DR (ucast (b :: u8)) u) =
        pending u @ drop (length (emits (sent u))) (emits (sent u @ [b])))"

interpretation ec_link: controller_link "\<lambda>u. pl011 D waits sent pending \<and> answering D sent pending emits"
    "write_byte D" "read_byte D" sent pending emits
  for D waits sent pending emits
proof unfold_locales
  fix u b
  assume "pl011 D waits sent pending \<and> answering D sent pending emits"
  with ec_uart.send_good [where D = D and waits = waits and sent = sent and pending = pending and u = u and b = b]
  show "\<exists>u' more. write_byte D b u = Some u' \<and> (pl011 D waits sent pending \<and> answering D sent pending emits) \<and>
      sent u' = sent u @ [b] \<and> pending u' = pending u @ more" by auto
next
  fix u b bs
  assume "pl011 D waits sent pending \<and> answering D sent pending emits" "pending u = b # bs"
  with ec_uart.recv_good [where D = D and waits = waits and sent = sent and pending = pending and u = u and b = b and bs = bs]
  show "\<exists>u'. read_byte D u = Some (b, u') \<and> (pl011 D waits sent pending \<and> answering D sent pending emits) \<and>
      sent u' = sent u \<and> pending u' = bs" by auto
next
  fix u b bs
  assume "pl011 D waits sent pending \<and> answering D sent pending emits"
  then show "\<exists>more. emits (bs @ [b]) = emits bs @ more"
    by (simp add: answering_def)
next
  fix u b u'
  assume d: "pl011 D waits sent pending \<and> answering D sent pending emits" and w: "write_byte D b u = Some u'"
  obtain u1 where p: "poll_clear D (push_bit 5 1) u = Some u1" "sent u1 = sent u" "pending u1 = pending u"
    using poll_clear_returns [of D waits sent pending "push_bit 5 1" u] d by auto
  with w have "u' = write_volatile D UART_DR (ucast b) u1"
    by (simp add: write_byte_def)
  with d p show "pending u' = pending u @ drop (length (emits (sent u))) (emits (sent u @ [b]))"
    by (simp add: answering_def)
qed

text \<open>One reply to each request, which may depend on the requests before.\<close>

definition controller :: "(ec_request list \<Rightarrow> ec_request \<Rightarrow> mctp_packet list) \<Rightarrow> (u8 list \<Rightarrow> u8 list) \<Rightarrow> bool" where
  "controller ans emits \<longleftrightarrow> (\<forall>hs r. (\<forall>x \<in> set (hs @ [r]). fits x) \<longrightarrow>
     reply_ok (ans hs r) \<and> emits (wire (hs @ [r])) = emits (wire hs) @ reply_bytes (ans hs r))"

section \<open>Sessions\<close>

text \<open>
  Requests to services one after the other, as the message loop makes them. A panic of one ends the partition.
\<close>

fun serve_requests ::
  "('q, 'p, 'r) ffa_lib \<Rightarrow> (u8 \<Rightarrow> 'u \<Rightarrow> 'u option) \<Rightarrow> ('u \<Rightarrow> (u8 \<times> 'u) option) \<Rightarrow> (sp_service \<times> 'q) list \<Rightarrow> 'u \<Rightarrow>
     ((error_code + 'r) list \<times> 'u) outcome option" where
  "serve_requests F wr rd [] u = Some (Ret ([], u))"
| "serve_requests F wr rd ((S, msg) # rs) u =
     Option.bind (ffa_msg_send_direct_req2 F wr rd S msg u) (\<lambda>r. case r of
       Ret (x, u) \<Rightarrow> map_option (\<lambda>r. obind r (\<lambda>(xs, u). Ret (x # xs, u))) (serve_requests F wr rd rs u)
     | Halted \<Rightarrow> Some Halted
     | Undef \<Rightarrow> Some Undef)"

text \<open>
  The message library: \<open>get msg i\<close> is byte \<open>i\<close> of the payload of a message, 14 registers of 8 bytes, and \<open>resp msg bs\<close> the response to \<open>msg\<close> with
  the payload \<open>bs\<close>, for as many bytes as a direct message holds.
\<close>

definition message_library :: "('q, 'p, 'r) ffa_lib \<Rightarrow> ('q \<Rightarrow> nat \<Rightarrow> u8) \<Rightarrow> ('q \<Rightarrow> u8 list \<Rightarrow> 'r) \<Rightarrow> bool" where
  "message_library F get resp \<longleftrightarrow>
     (\<forall>msg i. i < MAX_MESSAGE_SIZE_BYTES \<longrightarrow> u8_at F (payload F msg) i = Ret (get msg i)) \<and>
     (\<forall>msg bs. length bs \<le> MAX_MESSAGE_SIZE_BYTES \<longrightarrow>
        (\<exists>p. payload_from_bytes F bs = Ret p \<and> from_req_with_payload F msg p = resp msg bs))"

text \<open>The request that a message is to a service, if the service knows its command.\<close>

definition request_of :: "('q \<Rightarrow> nat \<Rightarrow> u8) \<Rightarrow> sp_service \<times> 'q \<Rightarrow> ec_request option" where
  "request_of get x = (case x of (S, msg) \<Rightarrow>
     map_option (\<lambda>info. (destination_eid (inner S), get msg 0, map (\<lambda>j. get msg (Suc j)) [0 ..< payload_len info]))
       (find (\<lambda>c. command_code c = get msg 0) (supported_commands (inner S))))"

definition built :: "sp_service \<Rightarrow> bool" where
  "built S \<longleftrightarrow> Battery = Ret S \<or> Thermal = Ret S \<or> TimeAlarm = Ret S"

text \<open>
  The specification: the requests made so far and the replies in flight. A request that is
  known is answered with the reply that is first in the queue after its own has joined it.
\<close>

fun exchange ::
  "(ec_request list \<Rightarrow> ec_request \<Rightarrow> mctp_packet list) \<Rightarrow> ('q \<Rightarrow> nat \<Rightarrow> u8) \<Rightarrow> ('q \<Rightarrow> u8 list \<Rightarrow> 'r) \<Rightarrow> (sp_service \<times> 'q) list \<Rightarrow>
     ec_request list \<Rightarrow> mctp_packet list list \<Rightarrow> (error_code + 'r) list \<times> ec_request list \<times> mctp_packet list list" where
  "exchange ans get resp [] hs queue = ([], hs, queue)"
| "exchange ans get resp ((S, msg) # rs) hs queue =
     (case request_of get (S, msg) of
        None \<Rightarrow> (case exchange ans get resp rs hs queue of (xs, st) \<Rightarrow> (Inl InvalidParameters # xs, st))
      | Some r \<Rightarrow>
          (case exchange ans get resp rs (hs @ [r]) (tl (queue @ [ans hs r])) of
             (xs, st) \<Rightarrow> (Inr (resp msg (reply_body (hd (queue @ [ans hs r])))) # xs, st)))"

lemma built_commands:
  assumes "built S" "find (\<lambda>c. command_code c = cmd) (supported_commands (inner S)) = Some info"
  shows "payload_len info < MAX_MESSAGE_SIZE_BYTES"
proof -
  have "info \<in> set (supported_commands (inner S))"
    using assms(2) by (auto simp: find_Some_iff)
  with assms(1) show ?thesis
    using battery.payloads_fit thermal.payloads_fit time_alarm.payloads_fit
    by (fastforce simp: built_def services_built PassthroughService_new_def)
qed

lemma request_fits: "built S \<Longrightarrow> request_of get (S, msg) = Some r \<Longrightarrow> fits r"
  by (auto simp: request_of_def dest!: built_commands)

text \<open>One request is one step of the specification.\<close>

lemma unknown_step:
  assumes "message_library F get resp" "request_of get (S, msg) = None"
  shows "ffa_msg_send_direct_req2 F wr rd S msg u = Some (Ret (Inl InvalidParameters, u))"
proof -
  have "u8_at F (payload F msg) 0 = Ret (get msg 0)"
    using assms(1) by (simp add: message_library_def MAX_MESSAGE_SIZE_BYTES_def)
  moreover have "\<forall>c \<in> set (supported_commands (inner S)). command_code c \<noteq> get msg 0"
    using assms(2) by (simp add: request_of_def find_None_iff)
  ultimately show ?thesis
    unfolding ffa_msg_send_direct_req2_def by (rule unsupported_command)
qed

lemma known_step:
  assumes "pl011 D waits sent pending" "answering D sent pending emits" "controller ans emits" "message_library F get resp"
    and "built S" "request_of get (S, msg) = Some r" "\<forall>x \<in> set hs. fits x" "\<forall>m \<in> set queue. reply_ok m"
    and "sent u = wire hs" "pending u = concat (map reply_bytes queue)"
  shows "\<exists>u'. ffa_msg_send_direct_req2 F (write_byte D) (read_byte D) S msg u =
      Some (Ret (Inr (resp msg (reply_body (hd (queue @ [ans hs r])))), u')) \<and>
    sent u' = wire (hs @ [r]) \<and> pending u' = concat (map reply_bytes (tl (queue @ [ans hs r])))"
proof -
  obtain info where info: "find (\<lambda>c. command_code c = get msg 0) (supported_commands (inner S)) = Some info"
    and r: "r = (destination_eid (inner S), get msg 0, map (\<lambda>j. get msg (Suc j)) [0 ..< payload_len info])"
    using assms(6) by (auto simp: request_of_def)
  define args where "args = map (\<lambda>j. get msg (Suc j)) [0 ..< payload_len info]"
  have frame: "frame_of r = request_frame (destination_eid (inner S)) (get msg 0) args"
    by (simp add: r args_def)
  have len: "payload_len info = length args" "length args < MAX_MESSAGE_SIZE_BYTES"
    using built_commands [OF assms(5) info] by (simp_all add: args_def)
  have bytes: "u8_at F (payload F msg) 0 = Ret (get msg 0)" "\<forall>j < length args. u8_at F (payload F msg) (Suc j) = Ret (args ! j)"
    using assms(4) len by (auto simp: message_library_def args_def)
  have "\<forall>x \<in> set (hs @ [r]). fits x"
    using assms(7) request_fits [OF assms(5,6)] by simp
  then have answered: "reply_ok (ans hs r)" "emits (wire (hs @ [r])) = emits (wire hs) @ reply_bytes (ans hs r)"
    using assms(3) unfolding controller_def by blast+
  define m where "m = hd (queue @ [ans hs r])"
  define rest where "rest = concat (map reply_bytes (tl (queue @ [ans hs r])))"
  have "queue @ [ans hs r] = m # tl (queue @ [ans hs r])"
    by (cases queue) (simp_all add: m_def)
  then have split: "concat (map reply_bytes (queue @ [ans hs r])) = reply_bytes m @ rest"
    by (metis concat.simps(2) list.simps(9) rest_def)
  have "reply_ok m"
    using assms(8) answered(1) by (cases queue) (simp_all add: m_def)
  then obtain ps q where m: "m = ps @ [q]" "\<forall>p \<in> set ps. packet_ok p \<and> \<not> last_packet p" "packet_ok q" "last_packet q"
    and body: "length (concat (map pk_body (ps @ [q]))) \<le> MAX_MESSAGE_SIZE_BYTES"
    by (rule reply_okE)
  obtain p where p: "payload_from_bytes F (concat (map pk_body (ps @ [q]))) = Ret p"
      "from_req_with_payload F msg p = resp msg (reply_body m)"
    using assms(4) body unfolding message_library_def reply_body_def m(1) by blast
  have "pending u' = concat (map packet_bytes (ps @ [q])) @ rest"
    if "uart_write (write_byte D) (request_frame (destination_eid (inner S)) (get msg 0) args) u = Some u'" for u'
    using ec_link.write_emits [OF _ that, of waits sent pending emits] assms(1,2,9,10) answered(2) split
    by (simp add: frame reply_bytes_def m(1))
  then have written: "\<forall>u'. uart_write (write_byte D) (request_frame (destination_eid (inner S)) (get msg 0) args) u = Some u' \<longrightarrow>
      pending u' = concat (map packet_bytes (ps @ [q])) @ rest"
    by blast
  have "length (concat (map pk_body (ps @ [q]))) \<le> 256"
    using body by (simp add: MAX_MESSAGE_SIZE_BYTES_def)
  from request_reply [OF assms(1) info len(1) less_imp_le [OF len(2)] bytes written m(2-4) this p(1)] p(2) show ?thesis
    unfolding ffa_msg_send_direct_req2_def m_def [symmetric] rest_def [symmetric]
    by (auto simp: assms(9) frame)
qed

text \<open>A session is a run of the specification, under the view of what was sent as requests and of what is pending as replies.\<close>

lemma session:
  assumes "pl011 D waits sent pending" "answering D sent pending emits" "controller ans emits" "message_library F get resp"
    and "\<forall>(S, msg) \<in> set rs. built S" "\<forall>x \<in> set hs. fits x" "\<forall>m \<in> set queue. reply_ok m"
    and "sent u = wire hs" "pending u = concat (map reply_bytes queue)"
    and "exchange ans get resp rs hs queue = (replies, hs', queue')"
  shows "\<exists>u'. serve_requests F (write_byte D) (read_byte D) rs u = Some (Ret (replies, u')) \<and>
    sent u' = wire hs' \<and> pending u' = concat (map reply_bytes queue')"
  using assms(5-10)
proof (induction rs arbitrary: hs queue u replies)
  case (Cons x rs)
  obtain S msg where x: "x = (S, msg)"
    by (cases x)
  with Cons.prems have S: "built S" and rs: "\<forall>(S, msg) \<in> set rs. built S"
    by auto
  show ?case
  proof (cases "request_of get (S, msg)")
    case None
    with Cons.prems x obtain xs where xs: "exchange ans get resp rs hs queue = (xs, hs', queue')" "replies = Inl InvalidParameters # xs"
      by (auto split: prod.splits)
    from Cons.IH [OF rs Cons.prems(2-5) xs(1)] obtain u' where "serve_requests F (write_byte D) (read_byte D) rs u = Some (Ret (xs, u'))"
      "sent u' = wire hs'" "pending u' = concat (map reply_bytes queue')"
      by blast
    with unknown_step [OF assms(4) None, of "write_byte D" "read_byte D" u] xs(2) x show ?thesis by simp
  next
    case (Some r)
    let ?q = "queue @ [ans hs r]"
    obtain xs where xs: "exchange ans get resp rs (hs @ [r]) (tl ?q) = (xs, hs', queue')"
      and replies: "replies = Inr (resp msg (reply_body (hd ?q))) # xs"
      using Cons.prems(6) Some x by (auto split: prod.splits)
    obtain u1 where u1: "ffa_msg_send_direct_req2 F (write_byte D) (read_byte D) S msg u = Some (Ret (Inr (resp msg (reply_body (hd ?q))), u1))"
      "sent u1 = wire (hs @ [r])" "pending u1 = concat (map reply_bytes (tl ?q))"
      using known_step [OF assms(1-4) S Some Cons.prems(2-5)] by blast
    have hs: "\<forall>x \<in> set (hs @ [r]). fits x"
      using Cons.prems(2) request_fits [OF S Some] by simp
    then have "reply_ok (ans hs r)"
      using assms(3) unfolding controller_def by blast
    then have "\<forall>m \<in> set (tl ?q). reply_ok m"
      using Cons.prems(3) by (cases queue) auto
    from Cons.IH [OF rs hs this u1(2,3) xs] obtain u' where "serve_requests F (write_byte D) (read_byte D) rs u1 = Some (Ret (xs, u'))"
      "sent u' = wire hs'" "pending u' = concat (map reply_bytes queue')"
      by blast
    with u1(1) replies x show ?thesis by simp
  qed
qed simp

text \<open>What each request gets when replies are in step: its own.\<close>

fun own_replies ::
  "(ec_request list \<Rightarrow> ec_request \<Rightarrow> mctp_packet list) \<Rightarrow> ('q \<Rightarrow> nat \<Rightarrow> u8) \<Rightarrow> ('q \<Rightarrow> u8 list \<Rightarrow> 'r) \<Rightarrow> (sp_service \<times> 'q) list \<Rightarrow>
     ec_request list \<Rightarrow> (error_code + 'r) list" where
  "own_replies ans get resp [] hs = []"
| "own_replies ans get resp ((S, msg) # rs) hs =
     (case request_of get (S, msg) of
        None \<Rightarrow> Inl InvalidParameters # own_replies ans get resp rs hs
      | Some r \<Rightarrow> Inr (resp msg (reply_body (ans hs r))) # own_replies ans get resp rs (hs @ [r]))"

lemma exchange_in_step:
  "exchange ans get resp rs hs [] = (own_replies ans get resp rs hs, hs @ List.map_filter (request_of get) rs, [])"
  by (induction ans get resp rs hs rule: own_replies.induct) (simp_all add: map_filter_def split: option.split)

text \<open>What the controller answers to a sequence of requests, and what becomes of it when one reply is ahead.\<close>

fun answers :: "(ec_request list \<Rightarrow> ec_request \<Rightarrow> mctp_packet list) \<Rightarrow> ec_request list \<Rightarrow> ec_request list \<Rightarrow> mctp_packet list list" where
  "answers ans hs [] = []"
| "answers ans hs (r # rs) = ans hs r # answers ans (hs @ [r]) rs"

lemma exchange_late:
  assumes "map (request_of get) rs = map Some reqs"
  shows "exchange ans get resp rs hs [m] =
    (map2 (\<lambda>(S, msg) m. Inr (resp msg (reply_body m))) rs (m # answers ans hs reqs), hs @ reqs, [last (m # answers ans hs reqs)])"
  using assms by (induction rs arbitrary: hs m reqs) (auto simp: map_eq_Cons_conv Cons_eq_map_conv)

section \<open>Frames can be told apart\<close>

text \<open>
  The byte count of a frame says where it ends, so frames form a code: from the bytes of some frames in a row
  the frames are determined, and with them endpoint, command and arguments.
\<close>

lemma frame_split:
  assumes "fits r" "fits r'" "frame_of r @ xs = frame_of r' @ ys"
  shows "r = r' \<and> xs = ys"
proof -
  obtain eid cmd args eid' cmd' args' where r: "r = (eid, cmd, args)" "r' = (eid', cmd', args')"
    by (metis prod_cases3)
  note f = request_frame_fields [OF _ refl, of args eid cmd] request_frame_fields [OF _ refl, of args' eid' cmd']
  have len: "13 \<le> length (frame_of r)" "13 \<le> length (frame_of r')"
    using f assms(1,2) r by (simp_all add: PACKET_HEADER_BYTES_def)
  have same: "frame_of r ! i = frame_of r' ! i" if "i < 13" for i
    using len that arg_cong [OF assms(3), of "\<lambda>bs. bs ! i"] by (simp add: nth_append)
  have "unat (frame_of r ! 2) = length (frame_of r) - 4" "unat (frame_of r' ! 2) = length (frame_of r') - 4"
    using f assms(1,2) r by simp_all
  then have "length (frame_of r) = length (frame_of r')"
    using same [of 2] len by simp
  with assms(3) have eq: "frame_of r = frame_of r'" "xs = ys"
    by simp_all
  with f assms(1,2) r show ?thesis
    by (metis fits.simps frame_of.simps)
qed

lemma wire_prefix:
  "\<forall>r \<in> set rs. fits r \<Longrightarrow> \<forall>r \<in> set rs'. fits r \<Longrightarrow> wire rs' = wire rs @ bs \<Longrightarrow> \<exists>rest. rs' = rs @ rest"
proof (induction rs arbitrary: rs')
  case (Cons r rs)
  have "frame_of r \<noteq> []"
    by (cases r) (simp add: request_frame_def request_data_def PACKET_HEADER_BYTES_def)
  with Cons.prems(3) obtain r' rs1 where rs': "rs' = r' # rs1"
    by (cases rs') auto
  with Cons.prems have "r = r' \<and> wire rs @ bs = wire rs1"
    by (intro frame_split) simp_all
  with Cons.IH [of rs1] Cons.prems(1,2) rs' show ?case by auto
qed simp

lemma requests_fit:
  assumes "\<forall>(S, msg) \<in> set rs. built S"
  shows "\<forall>r \<in> set (List.map_filter (request_of get) rs). fits r"
  using assms by (induction rs) (auto simp: List.map_filter_simps split: option.splits dest: request_fits)

lemma in_step:
  assumes "pl011 D waits sent pending" "answering D sent pending emits" "controller ans emits" "message_library F get resp"
    and "\<forall>(S, msg) \<in> set rs. built S" "\<forall>x \<in> set hs. fits x" "sent u = wire hs" "pending u = []"
  shows "\<exists>u'. serve_requests F (write_byte D) (read_byte D) rs u = Some (Ret (own_replies ans get resp rs hs, u')) \<and>
    sent u' = sent u @ wire (List.map_filter (request_of get) rs) \<and> pending u' = []"
proof -
  have "\<forall>m \<in> set []. reply_ok m" "pending u = concat (map reply_bytes [])"
    using assms(8) by simp_all
  from session [OF assms(1-6) this(1) assms(7) this(2) exchange_in_step] assms(7) show ?thesis by simp
qed

lemma session_sends:
  assumes "pl011 D waits sent pending" "answering D sent pending emits" "controller ans emits" "message_library F get resp"
    and "\<forall>(S, msg) \<in> set rs. built S" "\<forall>x \<in> set hs. fits x" "sent u = wire hs" "pending u = []"
    and "serve_requests F (write_byte D) (read_byte D) rs u = Some (Ret (xs, v))"
  shows "sent v = sent u @ wire (List.map_filter (request_of get) rs)"
  using in_step [OF assms(1-8)] assms(9) by auto

section \<open>Properties\<close>

text \<open>C15: the services stay in step with the controller. When nothing is in flight, and the controller answers each
  request with one reply that a message holds, any sequence of requests to the three services, in any order
  and mixed with unknown commands, is served to its end: each known request gets the controller's
  reply to it, unknown ones are refused without traffic, the frames sent are exactly those of the known
  ones, in order, and again nothing is in flight.\<close>

theorem services_in_step:
  assumes "pl011 D waits sent pending" "answering D sent pending emits" "controller ans emits" "message_library F get resp"
    and "\<forall>(S, msg) \<in> set rs. built S" "\<forall>x \<in> set hs. fits x" "sent u = wire hs" "pending u = []"
  shows "\<exists>u'. serve_requests F (write_byte D) (read_byte D) rs u = Some (Ret (own_replies ans get resp rs hs, u')) \<and>
    sent u' = sent u @ wire (List.map_filter (request_of get) rs) \<and> pending u' = []"
  using assms by (rule in_step)

text \<open>C16: what is sent tells the requests apart. Take two sequences of requests to the services, made from the same
  state with nothing in flight, on a UART that behaves as documented and with a controller that answers each request with one
  reply. If the bytes that the first one has sent are the beginning of the bytes that the second one
  has sent, then the known requests of the first, with endpoint, command and the arguments that
  their messages hold for the command, are the first ones of the second. So no two different sequences of known requests put
  the same bytes on the wire.\<close>

theorem requests_told_apart:
  assumes "pl011 D waits sent pending" "answering D sent pending emits" "controller ans emits" "message_library F get resp"
    and "\<forall>(S, msg) \<in> set (rs @ rs'). built S" "\<forall>x \<in> set hs. fits x" "sent u = wire hs" "pending u = []"
    and "serve_requests F (write_byte D) (read_byte D) rs u = Some (Ret (xs, v))"
    and "serve_requests F (write_byte D) (read_byte D) rs' u = Some (Ret (xs', v'))"
    and "sent v' = sent v @ bs"
  shows "\<exists>rest. List.map_filter (request_of get) rs' = List.map_filter (request_of get) rs @ rest"
proof -
  have built: "\<forall>(S, msg) \<in> set rs. built S" "\<forall>(S, msg) \<in> set rs'. built S"
    using assms(5) by auto
  have "sent v = sent u @ wire (List.map_filter (request_of get) rs)"
    using session_sends [OF assms(1-4) built(1) assms(6-9)] .
  moreover have "sent v' = sent u @ wire (List.map_filter (request_of get) rs')"
    using session_sends [OF assms(1-4) built(2) assms(6-8,10)] .
  ultimately show ?thesis
    using assms(11) by (intro wire_prefix [OF requests_fit [OF built(1)] requests_fit [OF built(2)], where bs = bs]) simp
qed

text \<open>C17: one reply too many and every answer is late. If a reply is pending before a sequence of known requests,
  whatever it belongs to, and the controller answers each request with one reply, then the pending reply is returned as the answer
  to the first request, each further request gets the
  reply to the one before, even if that went to another service, and the last reply is left pending.\<close>

theorem late_reply_shifts_answers:
  assumes "pl011 D waits sent pending" "answering D sent pending emits" "controller ans emits" "message_library F get resp"
    and "\<forall>(S, msg) \<in> set rs. built S" "\<forall>x \<in> set hs. fits x" "sent u = wire hs"
    and "pending u = reply_bytes m" "reply_ok m" "map (request_of get) rs = map Some reqs"
  shows "\<exists>u'. serve_requests F (write_byte D) (read_byte D) rs u =
      Some (Ret (map2 (\<lambda>(S, msg) m. Inr (resp msg (reply_body m))) rs (m # answers ans hs reqs), u')) \<and>
    pending u' = reply_bytes (last (m # answers ans hs reqs))"
proof -
  have "\<forall>m \<in> set [m]. reply_ok m" "pending u = concat (map reply_bytes [m])"
    using assms(8,9) by simp_all
  from session [OF assms(1-6) this(1) assms(7) this(2) exchange_late [OF assms(10)]]
  show ?thesis by (simp only: list.map concat.simps append_Nil2) (elim exE conjE, rule exI, erule (1) conjI)
qed

section \<open>Witnesses\<close>

text \<open>
  A sample controller needs to find the requests in what it was sent. The byte count is the third byte of a frame, and counts what follows
  the four bytes of the SMBus header. A frame that is not complete yet is no request.
\<close>

function decode_requests :: "u8 list \<Rightarrow> ec_request list" where
  "decode_requests bs =
     (if length bs < PACKET_HEADER_BYTES \<or> length bs < unat (bs ! 2) + 4 then []
      else (bs ! 5, bs ! 12, slice PACKET_HEADER_BYTES (unat (bs ! 2) + 4 - PACKET_HEADER_BYTES) bs) # decode_requests (drop (unat (bs ! 2) + 4) bs))"
  by pat_completeness auto
termination by (relation "measure length") (auto simp: PACKET_HEADER_BYTES_def)

declare decode_requests.simps [simp del]

lemma decode_frame:
  assumes "fits r"
  shows "decode_requests (frame_of r @ rest) = r # decode_requests rest"
proof -
  obtain eid cmd args where r: "r = (eid, cmd, args)"
    by (cases r)
  note f = request_frame_fields [OF _ refl, of args eid cmd]
  have len: "length (frame_of r) = 13 + length args" and count: "unat (frame_of r ! 2) + 4 = 13 + length args"
    and fields: "frame_of r ! 5 = eid" "frame_of r ! 12 = cmd" "drop 13 (frame_of r) = args"
    using f assms by (simp_all add: r PACKET_HEADER_BYTES_def)
  then show ?thesis
    by (subst decode_requests.simps) (simp add: r nth_append slice_def PACKET_HEADER_BYTES_def)
qed

lemma decode_wire: "\<forall>r \<in> set rs. fits r \<Longrightarrow> decode_requests (wire rs @ rest) = rs @ decode_requests rest"
  by (induction rs) (simp_all add: decode_frame)

lemma decode_grows: "\<exists>more. decode_requests (bs @ [b]) = decode_requests bs @ more"
proof (induction bs rule: decode_requests.induct)
  case (1 bs)
  show ?case
  proof (cases "length bs < PACKET_HEADER_BYTES \<or> length bs < unat (bs ! 2) + 4")
    case True
    then have "decode_requests bs = []"
      by (subst decode_requests.simps) simp
    then show ?thesis by simp
  next
    case False
    then have fields: "(bs @ [b]) ! 2 = bs ! 2" "(bs @ [b]) ! 5 = bs ! 5" "(bs @ [b]) ! 12 = bs ! 12"
      by (simp_all add: nth_append PACKET_HEADER_BYTES_def)
    from "1.IH" [OF False] obtain more where
      more: "decode_requests (drop (unat (bs ! 2) + 4) bs @ [b]) = decode_requests (drop (unat (bs ! 2) + 4) bs) @ more"
      by blast
    show ?thesis
      by (subst (1 2) decode_requests.simps) (use False fields more in \<open>auto simp: slice_def\<close>)
  qed
qed

text \<open>A controller that answers a request with its command, in one packet, behind a UART that is never busy.\<close>

definition echo :: "ec_request list \<Rightarrow> ec_request \<Rightarrow> mctp_packet list" where
  "echo hs r = [sample_packet\<lparr>pk_body := [fst (snd r)]\<rparr>]"

definition echo_emits :: "u8 list \<Rightarrow> u8 list" where
  "echo_emits bs = concat (map (\<lambda>r. reply_bytes (echo [] r)) (decode_requests bs))"

definition echo_uart :: "(u8 list \<times> u8 list) mmio" where
  "echo_uart = sample_uart\<lparr>write_volatile := (\<lambda>a v (s, p).
     (s @ [ucast v], p @ drop (length (echo_emits s)) (echo_emits (s @ [ucast v]))))\<rparr>"

definition padded_ffa :: "(u8 list, u8 list, u8 list) ffa_lib" where
  "padded_ffa = sample_ffa\<lparr>u8_at := (\<lambda>p i.
     if i < MAX_MESSAGE_SIZE_BYTES then Ret (if i < length p then p ! i else 0) else Halted)\<rparr>"

lemma echo_uart_pl011: "pl011 echo_uart (\<lambda>_ _. 0) fst snd"
proof -
  have "UART_DR \<noteq> UART_FR"
    by (simp add: UART_DR_def UART_FR_def UART_BASE_def)
  moreover have "ucast (ucast (b :: u8) :: u32) = b" for b
    by (rule bit_word_eqI) (simp add: bit_simps)
  ultimately show ?thesis
    unfolding pl011_def echo_uart_def sample_uart_def by (auto split: if_splits)
qed

lemma echo_answering: "answering echo_uart fst snd echo_emits"
proof -
  have "ucast (ucast (b :: u8) :: u32) = b" for b
    by (rule bit_word_eqI) (simp add: bit_simps)
  moreover have "\<exists>more. echo_emits (bs @ [b]) = echo_emits bs @ more" for bs b
    using decode_grows [of bs b] by (auto simp: echo_emits_def)
  ultimately show ?thesis
    unfolding answering_def echo_uart_def by auto
qed

lemma echo_controller: "controller echo echo_emits"
  unfolding controller_def
proof (intro allI impI)
  fix hs r
  assume fit: "\<forall>x \<in> set (hs @ [r]). fits x"
  have "reply_ok (echo hs r)"
    using sample_packet_ok by (simp add: reply_ok_def echo_def reply_body_def packet_ok_def packet_len_def last_packet_def
        sample_packet_def MAX_MESSAGE_SIZE_BYTES_def)
  moreover have "decode_requests (wire (hs @ [r])) = hs @ [r]" "decode_requests (wire hs) = hs"
    using decode_wire [OF fit, of "[]"] decode_wire [of hs "[]"] fit by (simp_all add: decode_requests.simps [of "[]"] PACKET_HEADER_BYTES_def)
  moreover have "echo hs r = echo [] r"
    by (simp add: echo_def)
  ultimately show "reply_ok (echo hs r) \<and> echo_emits (wire (hs @ [r])) = echo_emits (wire hs) @ reply_bytes (echo hs r)"
    by (simp add: echo_emits_def)
qed

lemma padded_library: "message_library padded_ffa (\<lambda>msg i. if i < length msg then msg ! i else 0) (\<lambda>msg bs. bs)"
  by (simp add: message_library_def padded_ffa_def sample_ffa_def)

text \<open>Battery command 2, a command that thermal does not know, and thermal command 1.\<close>

lemma sample_session:
  obtains b t where "Battery = Ret b" "Thermal = Ret t" "built b" "built t"
    "request_of (\<lambda>msg i. if i < length msg then msg ! i else 0) (b, [2, 7]) = Some (8, 2, [7])"
    "request_of (\<lambda>msg i. if i < length msg then msg ! i else 0) (t, [0x30]) = None"
    "request_of (\<lambda>msg i. if i < length msg then msg ! i else 0) (t, [1, 0]) = Some (9, 1, [0])"
  by (rule that [OF services_built(1,2)])
    (simp_all add: built_def services_built request_of_def PassthroughService_new_def BATTERY_COMMANDS_def THERMAL_COMMANDS_def)

theorem services_in_step_witness:
  "\<exists>b t u. serve_requests padded_ffa (write_byte echo_uart) (read_byte echo_uart) [(b, [2, 7]), (t, [0x30]), (t, [1, 0])] ([], []) =
     Some (Ret ([Inr [2], Inl InvalidParameters, Inr [1]], u)) \<and> snd u = []"
proof -
  obtain b t where s: "built b" "built t"
    "request_of (\<lambda>msg i. if i < length msg then msg ! i else 0) (b, [2, 7]) = Some (8, 2, [7])"
    "request_of (\<lambda>msg i. if i < length msg then msg ! i else 0) (t, [0x30]) = None"
    "request_of (\<lambda>msg i. if i < length msg then msg ! i else 0) (t, [1, 0]) = Some (9, 1, [0])"
    by (rule sample_session)
  have "own_replies echo (\<lambda>msg i. if i < length msg then msg ! i else 0) (\<lambda>msg bs. bs) [(b, [2, 7]), (t, [0x30]), (t, [1, 0])] [] =
      [Inr [2], Inl InvalidParameters, Inr [1]]"
    by (simp only: own_replies.simps s option.case) (simp add: echo_def reply_body_def)
  moreover have "\<forall>(S, msg) \<in> set [(b, [2, 7]), (t, [0x30]), (t, [1, 0])]. built S"
    using s by simp
  note services_in_step [OF echo_uart_pl011 echo_answering echo_controller padded_library this, of "[]" "([], [])"]
  ultimately show ?thesis
    by auto
qed

text \<open>One request, and the same request with another one behind it.\<close>

theorem requests_told_apart_witness:
  "\<exists>b t rest. built b \<and> built t \<and>
     List.map_filter (request_of (\<lambda>msg i. if i < length msg then msg ! i else 0)) [(b, [2, 7]), (t, [1, 0])] =
     List.map_filter (request_of (\<lambda>msg i. if i < length msg then msg ! i else 0)) [(b, [2, 7])] @ rest"
proof -
  obtain b t where s: "built b" "built t"
    by (rule sample_session)
  have all: "\<forall>(S, msg) \<in> set ([(b, [2, 7])] @ [(b, [2, 7]), (t, [1, 0])]). built S"
    and one: "\<forall>(S, msg) \<in> set [(b, [2 :: u8, 7])]. built S" and two: "\<forall>(S, msg) \<in> set [(b, [2 :: u8, 7]), (t, [1, 0])]. built S"
    using s by simp_all
  have start: "\<forall>x \<in> set []. fits x" "fst ([] :: u8 list, [] :: u8 list) = wire []" "snd ([] :: u8 list, [] :: u8 list) = []"
    by simp_all
  note link = echo_uart_pl011 echo_answering echo_controller padded_library
  obtain u where u: "serve_requests padded_ffa (write_byte echo_uart) (read_byte echo_uart) [(b, [2, 7])] ([], []) =
      Some (Ret (own_replies echo (\<lambda>msg i. if i < length msg then msg ! i else 0) (\<lambda>msg bs. bs) [(b, [2, 7])] [], u))"
      "fst u = wire (List.map_filter (request_of (\<lambda>msg i. if i < length msg then msg ! i else 0)) [(b, [2, 7])])"
    using in_step [OF link one start] by auto
  obtain v where v: "serve_requests padded_ffa (write_byte echo_uart) (read_byte echo_uart) [(b, [2, 7]), (t, [1, 0])] ([], []) =
      Some (Ret (own_replies echo (\<lambda>msg i. if i < length msg then msg ! i else 0) (\<lambda>msg bs. bs) [(b, [2, 7]), (t, [1, 0])] [], v))"
      "fst v = wire (List.map_filter (request_of (\<lambda>msg i. if i < length msg then msg ! i else 0)) [(b, [2, 7]), (t, [1, 0])])"
    using in_step [OF link two start] by auto
  have "\<exists>bs. fst v = fst u @ bs"
    unfolding u(2) v(2) by (simp add: List.map_filter_simps split: option.split)
  then obtain bs where bs: "fst v = fst u @ bs" ..
  from requests_told_apart [OF link all start u(1) v(1) bs] s show ?thesis by blast
qed

theorem late_reply_shifts_answers_witness:
  "\<exists>b t u. serve_requests padded_ffa (write_byte echo_uart) (read_byte echo_uart) [(b, [2, 7]), (t, [1, 0])]
       ([], reply_bytes [sample_packet]) = Some (Ret ([Inr [0x2A], Inr [2]], u)) \<and> snd u \<noteq> []"
proof -
  obtain b t where s: "built b" "built t"
    "request_of (\<lambda>msg i. if i < length msg then msg ! i else 0) (b, [2, 7]) = Some (8, 2, [7])"
    "request_of (\<lambda>msg i. if i < length msg then msg ! i else 0) (t, [1, 0]) = Some (9, 1, [0])"
    by (rule sample_session)
  have ok: "reply_ok [sample_packet]"
    using sample_packet_ok by (simp add: reply_ok_def reply_body_def) (simp add: sample_packet_def MAX_MESSAGE_SIZE_BYTES_def)
  have known: "map (request_of (\<lambda>msg i. if i < length msg then msg ! i else 0)) [(b, [2, 7]), (t, [1, 0])] = map Some [(8, 2, [7]), (9, 1, [0])]"
    using s by simp
  have built: "\<forall>(S, msg) \<in> set [(b, [2, 7]), (t, [1, 0])]. built S"
    using s by simp
  have no_requests: "\<forall>x \<in> set []. fits x"
    by simp
  have start: "fst ([], reply_bytes [sample_packet]) = wire []" "snd ([] :: u8 list, reply_bytes [sample_packet]) = reply_bytes [sample_packet]"
    by simp_all
  obtain u where
    run: "serve_requests padded_ffa (write_byte echo_uart) (read_byte echo_uart) [(b, [2, 7]), (t, [1, 0])] ([], reply_bytes [sample_packet]) =
      Some (Ret (map2 (\<lambda>(S, msg :: u8 list) m. Inr (reply_body m)) [(b, [2, 7]), (t, [1, 0])]
        ([sample_packet] # answers echo [] [(8, 2, [7]), (9, 1, [0])]), u))" and
    left: "snd u = reply_bytes (last ([sample_packet] # answers echo [] [(8, 2, [7]), (9, 1, [0])]))"
    using late_reply_shifts_answers [OF echo_uart_pl011 echo_answering echo_controller padded_library built no_requests start ok known]
    by blast
  have "map2 (\<lambda>(S, msg :: u8 list) m. Inr (reply_body m)) [(b, [2, 7]), (t, [1, 0])] ([sample_packet] # answers echo [] [(8, 2, [7]), (9, 1, [0])]) =
      [Inr [0x2A], Inr [2]]"
    by (simp add: echo_def reply_body_def) (simp add: sample_packet_def)
  moreover have "reply_bytes (last ([sample_packet] # answers echo [] [(8, 2, [7]), (9, 1, [0])])) \<noteq> []"
    by (simp add: echo_def reply_bytes_def packet_bytes_def)
  ultimately have "serve_requests padded_ffa (write_byte echo_uart) (read_byte echo_uart) [(b, [2, 7]), (t, [1, 0])] ([], reply_bytes [sample_packet]) =
      Some (Ret ([Inr [0x2A], Inr [2]], u)) \<and> snd u \<noteq> []"
    using run left by (simp only:) blast
  then show ?thesis by blast
qed

end
