(* ===== verification/Dxe_Log.thy ===== *)
theory Dxe_Log
  imports Ec_Uart Log_Levels
begin

text \<open>
  The log of the boot core, Drivers/PatinaDxeCore_ru/src/lib.rs and the logger of main.rs: a message
  is formatted into a fixed buffer and sent to a UART. The buffer is a string of the crate
  \<^verbatim>\<open>heapless\<close> and the UART driver is part of \<^verbatim>\<open>patina\<close>; neither is in this repository, and both
  are parameters. A string is its UTF-8 bytes, and formatting writes a list of pieces, one after
  the other, until one is refused, as \<^verbatim>\<open>core::fmt\<close> does.
\<close>

section \<open>The buffer\<close>

record 's heapless_string =
  str_new :: 's
  push_str :: "u8 list \<Rightarrow> 's \<Rightarrow> 's option"
  str_truncate :: "nat \<Rightarrow> 's \<Rightarrow> 's outcome"
  as_bytes :: "'s \<Rightarrow> u8 list"

definition LOG_BUFFER_SIZE :: nat where
  "LOG_BUFFER_SIZE = 256"

text \<open>A byte that continues a character, and the positions at which a string may be cut.\<close>

definition continuation :: "u8 \<Rightarrow> bool" where
  "continuation b \<longleftrightarrow> b AND 0xC0 = 0x80"

definition char_boundary :: "u8 list \<Rightarrow> nat \<Rightarrow> bool" where
  "char_boundary bs n \<longleftrightarrow> n = 0 \<or> n = length bs \<or> n < length bs \<and> \<not> continuation (bs ! n)"

text \<open>
  The documentation of the string: pushing appends all of the argument or, when it does not fit,
  nothing; truncating to no more than the length cuts there, and panics inside a character.
\<close>

definition heapless_documented :: "'s heapless_string \<Rightarrow> nat \<Rightarrow> bool" where
  "heapless_documented H cap \<longleftrightarrow>
     as_bytes H (str_new H) = [] \<and>
     (\<forall>x s. case push_str H x s of
        None \<Rightarrow> cap < length (as_bytes H s) + length x
      | Some s' \<Rightarrow> length (as_bytes H s) + length x \<le> cap \<and> as_bytes H s' = as_bytes H s @ x) \<and>
     (\<forall>n s. case str_truncate H n s of
        Ret s' \<Rightarrow> as_bytes H s' = take n (as_bytes H s) \<and> (n < length (as_bytes H s) \<longrightarrow> char_boundary (as_bytes H s) n)
      | Halted \<Rightarrow> n < length (as_bytes H s) \<and> \<not> char_boundary (as_bytes H s) n
      | Undef \<Rightarrow> False)"

section \<open>Formatting\<close>

fun log_level_str :: "log_level \<Rightarrow> string" where
  "log_level_str LevelError = ''ERROR''"
| "log_level_str LevelWarn = ''WARN''"
| "log_level_str LevelInfo = ''INFO''"
| "log_level_str LevelDebug = ''DEBUG''"
| "log_level_str LevelTrace = ''TRACE''"

definition utf8 :: "string \<Rightarrow> u8 list" where
  "utf8 s = map of_char s"

fun write_fmt :: "'s heapless_string \<Rightarrow> u8 list list \<Rightarrow> 's \<Rightarrow> 's" where
  "write_fmt H [] s = s"
| "write_fmt H (p # ps) s = (case push_str H p s of None \<Rightarrow> s | Some s' \<Rightarrow> write_fmt H ps s')"

definition CRLF :: "u8 list" where
  "CRLF = [13, 10]"

text \<open>\<open>args\<close> is what formatting the message's arguments writes.\<close>

definition format_log_message :: "'s heapless_string \<Rightarrow> string \<Rightarrow> u8 list list \<Rightarrow> 's outcome" where
  "format_log_message H level args =
     (let buffer = write_fmt H ([utf8 ''[Patina '', utf8 level, utf8 ''] ''] @ args) (str_new H);
          max_body = LOG_BUFFER_SIZE - length CRLF in
      obind (if max_body < length (as_bytes H buffer) then str_truncate H max_body buffer else Ret buffer)
        (\<lambda>buffer. Ret (case push_str H CRLF buffer of None \<Rightarrow> buffer | Some b \<Rightarrow> b)))"

text \<open>The logger: every level is enabled; \<open>wr\<close> is \<^verbatim>\<open>UartPl011::write_byte\<close>, and may wait for ever.\<close>

definition SimpleLogger_log ::
  "'s heapless_string \<Rightarrow> (u8 \<Rightarrow> 'u \<Rightarrow> 'u option) \<Rightarrow> log_level \<Rightarrow> u8 list list \<Rightarrow> 'u \<Rightarrow> 'u outcome option" where
  "SimpleLogger_log H wr level args u =
     (case format_log_message H (log_level_str level) args of
        Ret buffer \<Rightarrow> map_option Ret (uart_write wr (as_bytes H buffer) u)
      | Halted \<Rightarrow> Some Halted
      | Undef \<Rightarrow> Some Undef)"

section \<open>What is written\<close>

text \<open>The pieces that fit into a space, up to the first that does not.\<close>

fun fitting :: "nat \<Rightarrow> 'a list list \<Rightarrow> 'a list" where
  "fitting space [] = []"
| "fitting space (p # ps) = (if length p \<le> space then p @ fitting (space - length p) ps else [])"

definition log_prefix :: "string \<Rightarrow> u8 list" where
  "log_prefix level = utf8 ''[Patina '' @ utf8 level @ utf8 ''] ''"

lemma length_fitting: "length (fitting space ps) \<le> space"
  by (induction space ps rule: fitting.induct) auto

lemma write_fmt_fitting:
  assumes "heapless_documented H cap" "length (as_bytes H s) \<le> cap"
  shows "as_bytes H (write_fmt H ps s) = as_bytes H s @ fitting (cap - length (as_bytes H s)) ps"
  using assms(2)
proof (induction ps arbitrary: s)
  case (Cons p ps)
  have push: "case push_str H p s of
        None \<Rightarrow> cap < length (as_bytes H s) + length p
      | Some s' \<Rightarrow> length (as_bytes H s) + length p \<le> cap \<and> as_bytes H s' = as_bytes H s @ p"
    using assms(1) unfolding heapless_documented_def by blast
  show ?case
  proof (cases "push_str H p s")
    case None
    with push Cons.prems show ?thesis by auto
  next
    case (Some s')
    with push have s': "length (as_bytes H s) + length p \<le> cap" "as_bytes H s' = as_bytes H s @ p"
      by simp_all
    then have "length p \<le> cap - length (as_bytes H s)"
      by linarith
    with Some Cons.IH [of s'] s' show ?thesis
      by (simp add: diff_diff_left)
  qed
qed simp

lemma length_utf8 [simp]: "length (utf8 s) = length s"
  by (simp add: utf8_def)

lemma log_prefix_fits: "length (log_prefix (log_level_str level)) \<le> 15"
  by (cases level) (simp_all add: log_prefix_def)

text \<open>The buffer before the line end, for a level of the log crate.\<close>

lemma log_buffer:
  assumes "heapless_documented H LOG_BUFFER_SIZE"
  shows "as_bytes H (write_fmt H ([utf8 ''[Patina '', utf8 (log_level_str level), utf8 ''] ''] @ args) (str_new H)) =
    log_prefix (log_level_str level) @ fitting (LOG_BUFFER_SIZE - length (log_prefix (log_level_str level))) args"
proof -
  have "as_bytes H (str_new H) = []"
    using assms by (simp add: heapless_documented_def)
  then show ?thesis
    using write_fmt_fitting [OF assms, of "str_new H"] log_prefix_fits [of level]
    by (cases level) (simp_all add: log_prefix_def LOG_BUFFER_SIZE_def del: write_fmt.simps)
qed

text \<open>The line end always fits.\<close>

lemma push_CRLF:
  assumes "heapless_documented H LOG_BUFFER_SIZE" "length (as_bytes H b) \<le> LOG_BUFFER_SIZE - length CRLF"
  shows "as_bytes H (case push_str H CRLF b of None \<Rightarrow> b | Some b' \<Rightarrow> b') = as_bytes H b @ CRLF"
proof -
  have "case push_str H CRLF b of
        None \<Rightarrow> LOG_BUFFER_SIZE < length (as_bytes H b) + length CRLF
      | Some s' \<Rightarrow> length (as_bytes H b) + length CRLF \<le> LOG_BUFFER_SIZE \<and> as_bytes H s' = as_bytes H b @ CRLF"
    using assms(1) unfolding heapless_documented_def by blast
  with assms(2) show ?thesis
    by (auto simp: LOG_BUFFER_SIZE_def CRLF_def split: option.splits)
qed

text \<open>What the logger does with a message, in terms of its line before the cut.\<close>

lemma logger_line:
  assumes "heapless_documented H LOG_BUFFER_SIZE" "byte_link good wr rd sent pending" "good u"
    and "log_prefix (log_level_str level) @
      fitting (LOG_BUFFER_SIZE - length (log_prefix (log_level_str level))) args = line"
  shows "if length line \<le> 254 \<or> char_boundary line 254
    then \<exists>u'. SimpleLogger_log H wr level args u = Some (Ret u') \<and> good u' \<and>
      sent u' = sent u @ take 254 line @ CRLF \<and> length (take 254 line @ CRLF) \<le> LOG_BUFFER_SIZE \<and>
      take (length (log_prefix (log_level_str level))) (take 254 line) = log_prefix (log_level_str level)
    else SimpleLogger_log H wr level args u = Some Halted"
proof -
  define buffer where
    "buffer = write_fmt H ([utf8 ''[Patina '', utf8 (log_level_str level), utf8 ''] ''] @ args) (str_new H)"
  have line: "as_bytes H buffer = line"
    using log_buffer [OF assms(1)] assms(4) by (simp add: buffer_def)
  have prefix: "take (length (log_prefix (log_level_str level))) (take 254 line) = log_prefix (log_level_str level)"
    using log_prefix_fits [of level] by (simp add: min_def flip: assms(4))
  have trunc: "case str_truncate H 254 buffer of
        Ret s' \<Rightarrow> as_bytes H s' = take 254 line \<and> (254 < length line \<longrightarrow> char_boundary line 254)
      | Halted \<Rightarrow> 254 < length line \<and> \<not> char_boundary line 254
      | Undef \<Rightarrow> False"
    using assms(1) unfolding heapless_documented_def line [symmetric] by blast
  have fmt: "format_log_message H (log_level_str level) args =
      obind (if 254 < length line then str_truncate H 254 buffer else Ret buffer)
        (\<lambda>b. Ret (case push_str H CRLF b of None \<Rightarrow> b | Some b \<Rightarrow> b))"
    unfolding format_log_message_def buffer_def [symmetric] Let_def line
    by (simp add: LOG_BUFFER_SIZE_def CRLF_def)
  show ?thesis
  proof (cases "length line \<le> 254 \<or> char_boundary line 254")
    case True
    have "\<exists>b. (if 254 < length line then str_truncate H 254 buffer else Ret buffer) = Ret b \<and>
        as_bytes H b = take 254 line"
      using True trunc line by (cases "str_truncate H 254 buffer") auto
    then obtain b where b: "(if 254 < length line then str_truncate H 254 buffer else Ret buffer) = Ret b"
      "as_bytes H b = take 254 line"
      by blast
    have "as_bytes H (case push_str H CRLF b of None \<Rightarrow> b | Some b \<Rightarrow> b) = take 254 line @ CRLF"
      using push_CRLF [OF assms(1), of b] b(2) by (simp add: LOG_BUFFER_SIZE_def CRLF_def)
    moreover obtain u' where "uart_write wr (take 254 line @ CRLF) u = Some u'" "good u'"
      "sent u' = sent u @ take 254 line @ CRLF"
      using byte_link.write_all [OF assms(2,3)] by blast
    ultimately show ?thesis
      using True prefix by (simp add: SimpleLogger_log_def fmt b(1) LOG_BUFFER_SIZE_def CRLF_def)
  next
    case False
    then have "str_truncate H 254 buffer = Halted"
      using trunc by (cases "str_truncate H 254 buffer") auto
    with False show ?thesis
      by (simp add: SimpleLogger_log_def fmt)
  qed
qed

section \<open>Properties\<close>

text \<open>C26: a log line. With the pieces of the message that fit the buffer after the prefix as its body, the
  logger panics exactly if prefix and body are longer than 254 bytes and the byte at 254 continues
  a character; else it sends the prefix, the body up to byte 254 and the line end, 256 bytes at
  most, to a UART that takes every byte.\<close>

theorem log_line:
  assumes "heapless_documented H LOG_BUFFER_SIZE" "byte_link good wr rd sent pending" "good u"
    and "log_prefix (log_level_str level) @
      fitting (LOG_BUFFER_SIZE - length (log_prefix (log_level_str level))) args = line"
  shows "if length line \<le> 254 \<or> char_boundary line 254
    then \<exists>u'. SimpleLogger_log H wr level args u = Some (Ret u') \<and> good u' \<and>
      sent u' = sent u @ take 254 line @ CRLF \<and> length (take 254 line @ CRLF) \<le> LOG_BUFFER_SIZE \<and>
      take (length (log_prefix (log_level_str level))) (take 254 line) = log_prefix (log_level_str level)
    else SimpleLogger_log H wr level args u = Some Halted"
  by (rule logger_line [OF assms])

text \<open>A long message is dropped, not truncated. A message whose formatting writes one piece that does
  not fit the buffer is logged as the prefix and the line end alone; a message that ends in a
  multi-byte character across byte 254 panics the logger.\<close>

theorem log_drops_message:
  assumes "heapless_documented H LOG_BUFFER_SIZE"
  shows "(LOG_BUFFER_SIZE < length (log_prefix (log_level_str level)) + length msg \<longrightarrow>
      (\<exists>b. format_log_message H (log_level_str level) [msg] = Ret b \<and> as_bytes H b = log_prefix (log_level_str level) @ CRLF)) \<and>
    (length (log_prefix (log_level_str level)) + length msg \<in> {255, 256} \<and>
      continuation ((log_prefix (log_level_str level) @ msg) ! 254) \<longrightarrow>
      format_log_message H (log_level_str level) [msg] = Halted)"
proof -
  define prefix where "prefix = log_prefix (log_level_str level)"
  define buffer where "buffer = write_fmt H ([utf8 ''[Patina '', utf8 (log_level_str level), utf8 ''] ''] @ [msg]) (str_new H)"
  have line: "as_bytes H buffer = prefix @ (if length msg \<le> LOG_BUFFER_SIZE - length prefix then msg else [])"
    using log_buffer [OF assms, of level "[msg]"] by (simp add: buffer_def prefix_def)
  have fmt: "format_log_message H (log_level_str level) [msg] =
      obind (if 254 < length (as_bytes H buffer) then str_truncate H 254 buffer else Ret buffer)
        (\<lambda>b. Ret (case push_str H CRLF b of None \<Rightarrow> b | Some b \<Rightarrow> b))"
    unfolding format_log_message_def buffer_def [symmetric] Let_def by (simp add: LOG_BUFFER_SIZE_def CRLF_def)
  have short: "length prefix \<le> 15"
    using log_prefix_fits by (simp add: prefix_def)
  have "\<exists>b. format_log_message H (log_level_str level) [msg] = Ret b \<and> as_bytes H b = prefix @ CRLF"
    if "LOG_BUFFER_SIZE < length prefix + length msg"
  proof -
    have "as_bytes H buffer = prefix"
      using that short line by (auto simp: LOG_BUFFER_SIZE_def)
    then show ?thesis
      using short push_CRLF [OF assms, of buffer] by (simp add: fmt LOG_BUFFER_SIZE_def CRLF_def)
  qed
  moreover have "format_log_message H (log_level_str level) [msg] = Halted"
    if "length prefix + length msg \<in> {255, 256}" "continuation ((prefix @ msg) ! 254)"
  proof -
    have bytes: "as_bytes H buffer = prefix @ msg"
      using that(1) short line by (auto simp: LOG_BUFFER_SIZE_def)
    have "254 < length (prefix @ msg)" "\<not> char_boundary (prefix @ msg) 254"
      using that by (auto simp: char_boundary_def)
    moreover have "case str_truncate H 254 buffer of
        Ret s' \<Rightarrow> as_bytes H s' = take 254 (prefix @ msg) \<and> (254 < length (prefix @ msg) \<longrightarrow> char_boundary (prefix @ msg) 254)
      | Halted \<Rightarrow> 254 < length (prefix @ msg) \<and> \<not> char_boundary (prefix @ msg) 254
      | Undef \<Rightarrow> False"
      using assms unfolding heapless_documented_def bytes [symmetric] by blast
    ultimately have "str_truncate H 254 buffer = Halted"
      by (cases "str_truncate H 254 buffer") simp_all
    then show ?thesis
      using \<open>254 < length (prefix @ msg)\<close> by (simp add: fmt bytes)
  qed
  ultimately show ?thesis
    by (simp add: prefix_def)
qed

section \<open>Witnesses\<close>

text \<open>A string that is its bytes, and a UART that is the bytes it was sent.\<close>

definition byte_string :: "u8 list heapless_string" where
  "byte_string =
     \<lparr>str_new = [], push_str = (\<lambda>x s. if length s + length x \<le> LOG_BUFFER_SIZE then Some (s @ x) else None),
      str_truncate = (\<lambda>n s. if length s \<le> n then Ret s else if char_boundary s n then Ret (take n s) else Halted),
      as_bytes = (\<lambda>s. s)\<rparr>"

lemma byte_string_documented: "heapless_documented byte_string LOG_BUFFER_SIZE"
  by (simp add: heapless_documented_def byte_string_def)

lemma byte_list_link:
  "byte_link (\<lambda>_. True) (\<lambda>b u. Some (u @ [b])) (\<lambda>u. None) (\<lambda>u. u) (\<lambda>_. [])"
  by unfold_locales simp_all

theorem log_line_witness:
  "SimpleLogger_log byte_string (\<lambda>b u. Some (u @ [b])) LevelInfo [utf8 ''x=1''] [] =
     Some (Ret (utf8 ''[Patina INFO] x=1'' @ CRLF))"
proof -
  have "\<exists>u'. SimpleLogger_log byte_string (\<lambda>b u. Some (u @ [b])) LevelInfo [utf8 ''x=1''] [] = Some (Ret u') \<and>
      u' = utf8 ''[Patina INFO] x=1'' @ CRLF"
    using log_line [OF byte_string_documented byte_list_link _ refl, where u = "[]" and level = LevelInfo
        and args = "[utf8 ''x=1'']"]
    by (simp add: log_prefix_def LOG_BUFFER_SIZE_def utf8_def)
  then show ?thesis by simp
qed

theorem log_drops_message_witness:
  "(\<exists>b. format_log_message byte_string ''ERROR'' [replicate 300 0x61] = Ret b \<and>
     as_bytes byte_string b = utf8 ''[Patina ERROR] '' @ CRLF) \<and>
   format_log_message byte_string ''ERROR'' [replicate 238 0x61 @ [0xC3, 0xA9]] = Halted"
proof (rule conjI)
  show "\<exists>b. format_log_message byte_string ''ERROR'' [replicate 300 0x61] = Ret b \<and>
      as_bytes byte_string b = utf8 ''[Patina ERROR] '' @ CRLF"
    using log_drops_message [OF byte_string_documented, of LevelError "replicate 300 0x61"]
    by (simp add: log_prefix_def LOG_BUFFER_SIZE_def utf8_def)
  have "length (log_prefix ''ERROR'') = 15"
    by (simp add: log_prefix_def)
  then show "format_log_message byte_string ''ERROR'' [replicate 238 0x61 @ [0xC3, 0xA9]] = Halted"
    using log_drops_message [OF byte_string_documented, of LevelError "replicate 238 0x61 @ [0xC3, 0xA9]"]
    by (simp add: nth_append continuation_def)
qed

end
