(* ===== verification/Dxe_Core.thy ===== *)
theory Dxe_Core
  imports Dxe_Log
begin

text \<open>
  The binary of the boot core, Drivers/PatinaDxeCore_ru/src/main.rs, and the constants of its lib.rs:
  its entry point, which sets the logger and enters the core, and its panic handler, which
  logs and waits. The core itself is the crate \<^verbatim>\<open>patina_dxe_core\<close>; what is modelled is what it is entered with.
\<close>

section \<open>Configuration\<close>

definition DXE_UART_BASE :: u64 where
  "DXE_UART_BASE = 0x040D0000"

definition GICD_BASE :: u64 where
  "GICD_BASE = 0x0e010000"

definition GICR_BASE :: u64 where
  "GICR_BASE = 0x0e090000"

definition gic_bases :: "u64 \<times> u64" where
  "gic_bases = (GICD_BASE, GICR_BASE)"

text \<open>The manifest of the binary compiles all logging out of a release build.\<close>

definition STATIC_MAX_LEVEL :: "bool \<Rightarrow> level_filter" where
  "STATIC_MAX_LEVEL debug_assertions = (if debug_assertions then Trace else Off)"

section \<open>Logging, panics and the entry point\<close>

text \<open>What \<^verbatim>\<open>log::error!\<close> and \<^verbatim>\<open>log::info!\<close> do, once \<^verbatim>\<open>LOGGER\<close> is the logger; \<open>max_level\<close> is what was set last.\<close>

definition log_macro ::
  "'s heapless_string \<Rightarrow> (u8 \<Rightarrow> 'u \<Rightarrow> 'u option) \<Rightarrow> bool \<Rightarrow> level_filter \<Rightarrow> log_level \<Rightarrow> u8 list list \<Rightarrow> 'u \<Rightarrow> 'u outcome option" where
  "log_macro H wr debug_assertions max_level level args u =
     (if logged level (STATIC_MAX_LEVEL debug_assertions) \<and> logged level max_level
      then SimpleLogger_log H wr level args u else Some (Ret u))"

text \<open>
  The panic handler. \<open>info\<close> is what formatting the panic writes. When the logger panics, which it does
  where it cuts the line, the handler is entered again with the message of that panic, \<open>second\<close>.
  A result \<open>Some (Ret u)\<close> is the state in which the handler waits for ever; \<open>None\<close> is that it does not
  get there.
\<close>

partial_function (option) dxe_panic ::
  "'s heapless_string \<Rightarrow> (u8 \<Rightarrow> 'u \<Rightarrow> 'u option) \<Rightarrow> bool \<Rightarrow> level_filter \<Rightarrow> u8 list list \<Rightarrow> u8 list list \<Rightarrow> 'u \<Rightarrow> 'u outcome option" where
  "dxe_panic H wr debug_assertions max_level second info u =
     Option.bind (log_macro H wr debug_assertions max_level LevelError info u) (\<lambda>r.
       if r = Halted then dxe_panic H wr debug_assertions max_level second second u else Some r)"

text \<open>
  The entry point: \<open>set_logger\<close> says whether the logger could be set. The level is \<open>Off\<close> until it is set.
  The result is what the core is entered with.
\<close>

definition dxe_start ::
  "'s heapless_string \<Rightarrow> (u8 \<Rightarrow> 'u \<Rightarrow> 'u option) \<Rightarrow> bool \<Rightarrow> ('u \<Rightarrow> bool \<times> 'u) \<Rightarrow> u64 \<Rightarrow> 'u \<Rightarrow> (u64 \<times> level_filter \<times> 'u) outcome option" where
  "dxe_start H wr debug_assertions set_logger physical_hob_list u =
     (let (ok, u) = set_logger u;
          max_level = (if ok then Info else Off) in
      map_option (\<lambda>r. obind r (\<lambda>u. Ret (physical_hob_list, max_level, u)))
        (log_macro H wr debug_assertions max_level LevelInfo [utf8 ''DXE Core Platform Binary Entry''] u))"

section \<open>What is logged\<close>

text \<open>The line of a message before it is cut.\<close>

definition full_line :: "log_level \<Rightarrow> u8 list list \<Rightarrow> u8 list" where
  "full_line level args = log_prefix (log_level_str level) @
     fitting (LOG_BUFFER_SIZE - length (log_prefix (log_level_str level))) args"

definition can_cut :: "u8 list \<Rightarrow> bool" where
  "can_cut line \<longleftrightarrow> length line \<le> 254 \<or> char_boundary line 254"

lemma fitting_bytes: "set (fitting space ps) \<subseteq> set (concat ps)"
  by (induction space ps rule: fitting.induct) auto

lemma full_line_bytes: "set (full_line level args) \<subseteq> set (log_prefix (log_level_str level)) \<union> set (concat args)"
  using fitting_bytes unfolding full_line_def by fastforce

lemma prefix_ascii: "b \<in> set (log_prefix (log_level_str level)) \<Longrightarrow> \<not> continuation b"
  by (cases level) (auto simp: log_prefix_def utf8_def continuation_def)

text \<open>A line in which no byte continues a character can be cut anywhere.\<close>

lemma ascii_cut: "\<forall>b \<in> set line. \<not> continuation b \<Longrightarrow> can_cut line"
  by (auto simp: can_cut_def char_boundary_def not_le)

lemma ascii_full_line: "\<forall>b \<in> set (concat args). \<not> continuation b \<Longrightarrow> can_cut (full_line level args)"
  using full_line_bytes [of level args] prefix_ascii [of _ level] by (intro ascii_cut) blast

text \<open>The logger in these terms.\<close>

lemma logger_sends:
  assumes "heapless_documented H LOG_BUFFER_SIZE" "byte_link good wr rd sent pending" "good u"
  shows "can_cut (full_line level args) \<Longrightarrow>
      \<exists>u'. SimpleLogger_log H wr level args u = Some (Ret u') \<and> good u' \<and>
        sent u' = sent u @ take 254 (full_line level args) @ CRLF"
    and "\<not> can_cut (full_line level args) \<Longrightarrow> SimpleLogger_log H wr level args u = Some Halted"
  using logger_line [OF assms, of level args "full_line level args"] unfolding full_line_def can_cut_def
  by (auto split: if_splits)

section \<open>Properties\<close>

text \<open>C27: a panic of the boot core ends in the wait loop. In a debug build with logging on, the handler sends
  the panic's message as one line, or, when the logger panics on it, the line of that
  second panic instead, whose message is ASCII text and so never panics the logger again; in a release
  build, or below the level of errors, it sends nothing. It reaches its wait loop in any case.\<close>

theorem dxe_panic_waits:
  assumes "heapless_documented H LOG_BUFFER_SIZE" "byte_link good wr rd sent pending" "good u"
    and "\<forall>b \<in> set (concat second). \<not> continuation b"
  shows "\<exists>u'. dxe_panic H wr debug_assertions max_level second info u = Some (Ret u') \<and> good u' \<and>
    sent u' = sent u @
      (if debug_assertions \<and> max_level \<noteq> Off
       then take 254 (full_line LevelError (if can_cut (full_line LevelError info) then info else second)) @ CRLF else [])"
proof -
  have on: "logged LevelError (STATIC_MAX_LEVEL debug_assertions) \<and> logged LevelError max_level \<longleftrightarrow>
      debug_assertions \<and> max_level \<noteq> Off"
    by (cases max_level) (simp_all add: logged_def STATIC_MAX_LEVEL_def)
  show ?thesis
  proof (cases "debug_assertions \<and> max_level \<noteq> Off")
    case False
    with on assms(3) show ?thesis
      by (subst dxe_panic.simps) (auto simp: log_macro_def)
  next
    case True
    with on have gate: "log_macro H wr debug_assertions max_level LevelError args v = SimpleLogger_log H wr LevelError args v" for args v
      by (simp add: log_macro_def)
    have sends: "\<exists>u'. dxe_panic H wr debug_assertions max_level second args u = Some (Ret u') \<and> good u' \<and>
        sent u' = sent u @ take 254 (full_line LevelError args) @ CRLF"
      if "can_cut (full_line LevelError args)" for args
      using logger_sends(1) [OF assms(1-3) that] by (subst dxe_panic.simps) (auto simp: gate)
    show ?thesis
    proof (cases "can_cut (full_line LevelError info)")
      case True
      with sends \<open>debug_assertions \<and> max_level \<noteq> Off\<close> show ?thesis by simp
    next
      case False
      have "dxe_panic H wr debug_assertions max_level second info u = dxe_panic H wr debug_assertions max_level second second u"
        using logger_sends(2) [OF assms(1-3) False] by (subst dxe_panic.simps) (simp add: gate)
      with sends [OF ascii_full_line [OF assms(4)]] False \<open>debug_assertions \<and> max_level \<noteq> Off\<close> show ?thesis by simp
    qed
  qed
qed

text \<open>The boot core is entered. The entry point logs its one line exactly in a debug build whose logger
  could be set, and then, whether or not that was so, enters the core with the HOB list it was given.\<close>

theorem dxe_start_enters:
  assumes "heapless_documented H LOG_BUFFER_SIZE" "byte_link good wr rd sent pending"
    and "set_logger u = (ok, u1)" "good u1"
  shows "\<exists>u'. dxe_start H wr debug_assertions set_logger hob u = Some (Ret (hob, if ok then Info else Off, u')) \<and> good u' \<and>
    sent u' = sent u1 @ (if debug_assertions \<and> ok
      then utf8 ''[Patina INFO] DXE Core Platform Binary Entry'' @ CRLF else [])"
proof -
  let ?line = "full_line LevelInfo [utf8 ''DXE Core Platform Binary Entry'']"
  have line: "?line = utf8 ''[Patina INFO] DXE Core Platform Binary Entry''"
    by (simp add: full_line_def log_prefix_def LOG_BUFFER_SIZE_def utf8_def)
  then have "length ?line \<le> 254"
    by simp
  then have "can_cut ?line" and whole: "take 254 ?line = ?line"
    by (simp_all add: can_cut_def)
  obtain u' where u': "SimpleLogger_log H wr LevelInfo [utf8 ''DXE Core Platform Binary Entry''] u1 = Some (Ret u')" "good u'"
    "sent u' = sent u1 @ take 254 ?line @ CRLF"
    using logger_sends(1) [OF assms(1,2,4) \<open>can_cut ?line\<close>] by blast
  from u' assms(3,4) show ?thesis
    unfolding whole unfolding line
    by (cases "debug_assertions \<and> ok")
      (auto simp: dxe_start_def log_macro_def logged_def STATIC_MAX_LEVEL_def)
qed

section \<open>Witnesses\<close>

text \<open>A panic whose message ends in a character across byte 254, which the logger panics on in turn.\<close>

theorem dxe_panic_waits_witness:
  "dxe_panic byte_string (\<lambda>b u. Some (u @ [b])) True Info [utf8 ''cut''] [replicate 238 0x61 @ [0xC3, 0xA9]] [] =
     Some (Ret (utf8 ''[Patina ERROR] cut'' @ CRLF))"
proof -
  let ?msg = "replicate 238 0x61 @ [0xC3, 0xA9] :: u8 list"
  have prefix: "length (log_prefix ''ERROR'') = 15"
    by (simp add: log_prefix_def)
  then have "full_line LevelError [?msg] = (log_prefix ''ERROR'' @ replicate 238 0x61 @ [0xC3]) @ [0xA9]"
    by (simp add: full_line_def LOG_BUFFER_SIZE_def)
  then have "length (full_line LevelError [?msg]) = 255" "full_line LevelError [?msg] ! 254 = 0xA9"
    using prefix by (simp_all add: nth_append)
  then have "\<not> can_cut (full_line LevelError [?msg])"
    by (simp add: can_cut_def char_boundary_def continuation_def)
  moreover have "\<forall>b \<in> set (concat [utf8 ''cut'']). \<not> continuation b"
    by (simp add: utf8_def continuation_def)
  note waits = dxe_panic_waits [OF byte_string_documented byte_list_link _ this, where u = "[]" and debug_assertions = True and max_level = Info and info = "[?msg]"]
  moreover have "take 254 (full_line LevelError [utf8 ''cut'']) = utf8 ''[Patina ERROR] cut''"
    by (simp add: full_line_def log_prefix_def LOG_BUFFER_SIZE_def utf8_def)
  ultimately show ?thesis by auto
qed

theorem dxe_start_enters_witness:
  "dxe_start byte_string (\<lambda>b u. Some (u @ [b])) True (\<lambda>u. (True, u)) 0x85000000 [] =
     Some (Ret (0x85000000, Info, utf8 ''[Patina INFO] DXE Core Platform Binary Entry'' @ CRLF))"
  using dxe_start_enters [OF byte_string_documented byte_list_link, where set_logger = "\<lambda>u. (True, u)" and u = "[]" and ok = True and debug_assertions = True]
  by auto

end
