(* ===== verification/Asl_Extract.thy ===== *)
theory Asl_Extract
  imports Prelude
begin

text \<open>
  The source-level checks of the ACPI tables, common/tests/acpi/src/main.rs: a block such as
  \<^verbatim>\<open>Device(NAME) { ... }\<close> is cut out of an ASL file with a lexer that finds the matching brace. The
  lexer is generated by the crate \<^verbatim>\<open>logos\<close> from the regular expressions of \<open>AslToken\<close>; as documented,
  it skips white space and takes the longest match, and yields an error where nothing matches. How
  many characters an error covers is not documented and a parameter. A source is an ASCII text, so
  that positions in characters and in bytes agree.
\<close>

section \<open>Tokens\<close>

datatype asl_token =
    BlockComment | LineComment | StringLiteral | OpenBrace | CloseBrace | Other | Slash

text \<open>The expressions of the tokens, and what they match.\<close>

datatype rx = Class "char \<Rightarrow> bool" | Seq rx rx | Star rx

inductive matches :: "rx \<Rightarrow> string \<Rightarrow> bool" where
  match_class: "P c \<Longrightarrow> matches (Class P) [c]"
| match_seq: "matches r s \<Longrightarrow> matches q t \<Longrightarrow> matches (Seq r q) (s @ t)"
| match_nil: "matches (Star r) []"
| match_star: "matches r s \<Longrightarrow> matches (Star r) t \<Longrightarrow> matches (Star r) (s @ t)"

inductive_simps matches_Class [simp]: "matches (Class P) s"
inductive_simps matches_Seq [simp]: "matches (Seq r q) s"
inductive_cases matches_StarE: "matches (Star r) s"

abbreviation chr :: "char \<Rightarrow> rx" where
  "chr c \<equiv> Class (\<lambda>d. d = c)"

abbreviation not_chr :: "char \<Rightarrow> rx" where
  "not_chr c \<equiv> Class (\<lambda>d. d \<noteq> c)"

text \<open>The white space that is skipped, and the larger class that the expression of \<open>Other\<close> excludes.\<close>

definition skipped :: "char \<Rightarrow> bool" where
  "skipped c \<longleftrightarrow> c \<in> {CHR '' '', CHR 0x09, CHR 0x0D, CHR 0x0A, CHR 0x0C}"

definition other_char :: "char \<Rightarrow> bool" where
  "other_char c \<longleftrightarrow> \<not> skipped c \<and> c \<noteq> CHR 0x0B \<and> c \<notin> {CHR ''{'', CHR ''}'', CHR ''/'', CHR 0x22}"

definition comment_body_rx :: rx where
  "comment_body_rx =
     Seq (Star (not_chr CHR ''*''))
      (Seq (Star (Seq (chr CHR ''*'') (Seq (not_chr CHR ''/'') (Star (not_chr CHR ''*'')))))
        (Seq (chr CHR ''*'') (chr CHR ''/'')))"

fun token_rx :: "asl_token \<Rightarrow> rx" where
  "token_rx BlockComment = Seq (chr CHR ''/'') (Seq (chr CHR ''*'') comment_body_rx)"
| "token_rx LineComment = Seq (chr CHR ''/'') (Seq (chr CHR ''/'') (Star (not_chr CHR 0x0A)))"
| "token_rx StringLiteral = Seq (chr CHR 0x22) (Seq (Star (not_chr CHR 0x22)) (chr CHR 0x22))"
| "token_rx OpenBrace = chr CHR ''{''"
| "token_rx CloseBrace = chr CHR ''}''"
| "token_rx Other = Class other_char"
| "token_rx Slash = chr CHR ''/''"

section \<open>The lexer\<close>

text \<open>
  \<open>comment_rest star s\<close> is what follows the block comment whose body \<open>s\<close> starts in; \<open>star\<close> says that a
  star of the group in the expression has just been read.
\<close>

fun comment_rest :: "bool \<Rightarrow> string \<Rightarrow> string option" where
  "comment_rest star [] = None"
| "comment_rest False (c # cs) = comment_rest (c = CHR ''*'') cs"
| "comment_rest True (c # cs) = (if c = CHR ''/'' then Some cs else comment_rest False cs)"

fun string_rest :: "string \<Rightarrow> string option" where
  "string_rest [] = None"
| "string_rest (c # cs) = (if c = CHR 0x22 then Some cs else string_rest cs)"

text \<open>The token at the start of a text that starts with no skipped character, and the text after it.\<close>

definition next_token :: "string \<Rightarrow> (asl_token \<times> string) option" where
  "next_token s =
     (case s of
        [] \<Rightarrow> None
      | c # cs \<Rightarrow>
          if c = CHR ''{'' then Some (OpenBrace, cs)
          else if c = CHR ''}'' then Some (CloseBrace, cs)
          else if c = CHR 0x22 then map_option (Pair StringLiteral) (string_rest cs)
          else if c = CHR ''/'' then
            (case cs of
               [] \<Rightarrow> Some (Slash, cs)
             | d # ds \<Rightarrow>
                 if d = CHR ''/'' then Some (LineComment, dropWhile (\<lambda>d. d \<noteq> CHR 0x0A) ds)
                 else if d = CHR ''*'' then
                   (case comment_rest False ds of None \<Rightarrow> Some (Slash, cs) | Some r \<Rightarrow> Some (BlockComment, r))
                 else Some (Slash, cs))
          else if other_char c then Some (Other, cs)
          else None)"

lemma comment_rest_length: "comment_rest b s = Some r \<Longrightarrow> length r < length s"
  by (induction b s rule: comment_rest.induct) (auto split: if_splits)

lemma string_rest_length: "string_rest s = Some r \<Longrightarrow> length r < length s"
  by (induction s) (auto split: if_splits)

lemma next_token_shorter: "next_token s = Some (t, r) \<Longrightarrow> length r < length s"
  by (auto simp: next_token_def le_imp_less_Suc length_dropWhile_le less_SucI
      dest!: comment_rest_length string_rest_length split: list.splits if_splits option.splits)

section \<open>Extraction\<close>

text \<open>The loop of \<open>extract_named_block\<close>: what follows the brace that closes the first one. \<open>err s\<close> is how
  many characters after the first an error at \<open>s\<close> covers.\<close>

function close_brace :: "(string \<Rightarrow> nat) \<Rightarrow> nat \<Rightarrow> string \<Rightarrow> string option outcome" where
  "close_brace err depth s =
     (case dropWhile skipped s of
        [] \<Rightarrow> Ret None
      | c # cs \<Rightarrow>
          (case next_token (c # cs) of
             None \<Rightarrow> close_brace err depth (drop (err (c # cs)) cs)
           | Some (t, r) \<Rightarrow>
               if t = OpenBrace then if depth = 2 ^ 32 - 1 then Halted else close_brace err (depth + 1) r
               else if t = CloseBrace then
                 if depth = 0 then Halted else if depth = 1 then Ret (Some r) else close_brace err (depth - 1) r
               else close_brace err depth r))"
  by pat_completeness auto
termination
proof (relation "measure (\<lambda>(err, depth, s). length s)")
  have shorter: "length (c # cs) \<le> length s" if "dropWhile skipped s = c # cs" for s c cs
    using length_dropWhile_le [of skipped s] that by simp
  show "((err, depth, drop (err (c # cs)) cs), err, depth, s) \<in> measure (\<lambda>(err, depth, s). length s)"
    if "dropWhile skipped s = c # cs" for err :: "string \<Rightarrow> nat" and depth s c cs
    using shorter [OF that] by simp
  show "((err, depth + 1, r), err, depth, s) \<in> measure (\<lambda>(err, depth, s). length s)"
    if "dropWhile skipped s = c # cs" "next_token (c # cs) = Some x" "(t, r) = x"
    for err :: "string \<Rightarrow> nat" and depth s c cs x t r
    using shorter [OF that(1)] next_token_shorter [of "c # cs" t r] that by simp
  show "((err, depth - 1, r), err, depth, s) \<in> measure (\<lambda>(err, depth, s). length s)"
    if "dropWhile skipped s = c # cs" "next_token (c # cs) = Some x" "(t, r) = x"
    for err :: "string \<Rightarrow> nat" and depth s c cs x t r
    using shorter [OF that(1)] next_token_shorter [of "c # cs" t r] that by simp
  show "((err, depth, r), err, depth, s) \<in> measure (\<lambda>(err, depth, s). length s)"
    if "dropWhile skipped s = c # cs" "next_token (c # cs) = Some x" "(t, r) = x"
    for err :: "string \<Rightarrow> nat" and depth s c cs x t r
    using shorter [OF that(1)] next_token_shorter [of "c # cs" t r] that by simp
qed simp

declare close_brace.simps [simp del]

fun find_str :: "string \<Rightarrow> string \<Rightarrow> nat option" where
  "find_str p s = (if take (length p) s = p then Some 0
     else case s of [] \<Rightarrow> None | c # cs \<Rightarrow> map_option Suc (find_str p cs))"

declare find_str.simps [simp del]

definition block_start :: "string \<Rightarrow> string \<Rightarrow> string \<Rightarrow> nat option" where
  "block_start source keyword name =
     (case (find_str (keyword @ ''('' @ name @ '')'') source, find_str (keyword @ '' ('' @ name @ '')'') source) of
        (None, None) \<Rightarrow> None
      | (Some i, None) \<Rightarrow> Some i
      | (None, Some j) \<Rightarrow> Some j
      | (Some i, Some j) \<Rightarrow> Some (min i j))"

definition extract_named_block :: "(string \<Rightarrow> nat) \<Rightarrow> string \<Rightarrow> string \<Rightarrow> string \<Rightarrow> string outcome" where
  "extract_named_block err source keyword name =
     (case block_start source keyword name of
        None \<Rightarrow> Halted
      | Some start \<Rightarrow>
          let rest = drop start source in
          (case find_str ''{'' rest of
             None \<Rightarrow> Halted
           | Some open_brace \<Rightarrow>
               obind (close_brace err 0 (drop open_brace rest)) (\<lambda>after.
                 case after of None \<Rightarrow> Halted | Some r \<Rightarrow> Ret (take (length rest - length r) rest))))"

definition extract_device_block :: "(string \<Rightarrow> nat) \<Rightarrow> string \<Rightarrow> string \<Rightarrow> string outcome" where
  "extract_device_block err source device_name = extract_named_block err source ''Device'' device_name"

section \<open>The lexer takes the longest match\<close>

lemma matches_Star_class: "matches (Star (Class P)) s \<longleftrightarrow> (\<forall>c \<in> set s. P c)"
proof
  assume "matches (Star (Class P)) s"
  then show "\<forall>c \<in> set s. P c"
    by (induction "Star (Class P)" s rule: matches.induct) auto
next
  show "\<forall>c \<in> set s. P c \<Longrightarrow> matches (Star (Class P)) s"
  proof (induction s)
    case (Cons c s)
    then have "matches (Star (Class P)) ([c] @ s)"
      by (intro match_star) simp_all
    then show ?case by simp
  qed (rule match_nil)
qed

abbreviation group_rx :: rx where
  "group_rx \<equiv> Seq (chr CHR ''*'') (Seq (not_chr CHR ''/'') (Star (not_chr CHR ''*'')))"

lemma comment_body_iff:
  "matches comment_body_rx p \<longleftrightarrow> (\<exists>a g. p = a @ g @ ''*/'' \<and> CHR ''*'' \<notin> set a \<and> matches (Star group_rx) g)"
  unfolding comment_body_rx_def by (simp only: matches_Seq matches_Class matches_Star_class) fastforce

lemma comment_rest_plain: "CHR ''*'' \<notin> set a \<Longrightarrow> comment_rest False (a @ s) = comment_rest False s"
  by (induction a) auto

lemma comment_rest_group: "matches (Star group_rx) g \<Longrightarrow> comment_rest False (g @ s) = comment_rest False s"
proof (induction "Star group_rx" g rule: matches.induct)
  case (match_star p t)
  then obtain c a where "p = CHR ''*'' # c # a" "c \<noteq> CHR ''/''" "CHR ''*'' \<notin> set a"
    by (auto simp: matches_Star_class)
  then show ?case
    using match_star by (simp add: comment_rest_plain)
qed simp

lemma comment_rest_complete: "matches comment_body_rx p \<Longrightarrow> comment_rest False (p @ s) = Some s"
  by (auto simp: comment_body_iff comment_rest_plain comment_rest_group)

lemma comment_body_Cons:
  assumes "matches comment_body_rx p"
  shows "c \<noteq> CHR ''*'' \<Longrightarrow> matches comment_body_rx (c # p)"
    and "c \<noteq> CHR ''/'' \<Longrightarrow> matches comment_body_rx (CHR ''*'' # c # p)"
proof -
  obtain a g where p: "p = a @ g @ ''*/''" "CHR ''*'' \<notin> set a" "matches (Star group_rx) g"
    using assms by (auto simp: comment_body_iff)
  show "c \<noteq> CHR ''*'' \<Longrightarrow> matches comment_body_rx (c # p)"
    unfolding comment_body_iff using p by (intro exI [of _ "c # a"] exI [of _ g]) auto
  assume "c \<noteq> CHR ''/''"
  then have "matches group_rx ([CHR ''*''] @ [c] @ a)"
    using p(2) by (intro match_seq match_class) (auto simp: matches_Star_class)
  then have "matches group_rx (CHR ''*'' # c # a)"
    by simp
  then have "matches (Star group_rx) ((CHR ''*'' # c # a) @ g)"
    by (rule match_star [OF _ p(3)])
  then show "matches comment_body_rx (CHR ''*'' # c # p)"
    unfolding comment_body_iff using p(1) by (intro exI [of _ "[]"] exI [of _ "(CHR ''*'' # c # a) @ g"]) simp
qed

lemma comment_rest_sound:
  "comment_rest star s = Some r \<Longrightarrow>
     \<exists>p. s = p @ r \<and> matches comment_body_rx (if star then CHR ''*'' # p else p)"
proof (induction star s rule: comment_rest.induct)
  case (2 c cs)
  then obtain p where p: "cs = p @ r" "matches comment_body_rx (if c = CHR ''*'' then CHR ''*'' # p else p)"
    by auto
  then have "matches comment_body_rx (c # p)"
    using comment_body_Cons(1) by (auto split: if_splits)
  with p(1) show ?case
    by (intro exI [of _ "c # p"]) simp
next
  case (3 c cs)
  show ?case
  proof (cases "c = CHR ''/''")
    case True
    have "matches comment_body_rx ''*/''"
      unfolding comment_body_iff by (intro exI [of _ "[]"]) (simp add: match_nil)
    with True 3 show ?thesis
      by (intro exI [of _ "''/''"]) simp
  next
    case False
    with 3 obtain p where "cs = p @ r" "matches comment_body_rx p"
      by auto
    with False show ?thesis
      using comment_body_Cons(2) by (intro exI [of _ "c # p"]) simp
  qed
qed simp

lemma string_rest_iff: "string_rest s = Some r \<longleftrightarrow> (\<exists>p. s = p @ CHR 0x22 # r \<and> CHR 0x22 \<notin> set p)"
proof (induction s)
  case (Cons c s)
  show ?case
  proof (cases "c = CHR 0x22")
    case True
    then show ?thesis
      by (auto simp: Cons_eq_append_conv)
  next
    case False
    with Cons show ?thesis
      by (auto simp: Cons_eq_append_conv)
  qed
qed simp

text \<open>The lexemes of each token, spelled out.\<close>

lemma token_lexemes:
  "matches (token_rx BlockComment) p \<longleftrightarrow> (\<exists>q. p = ''/*'' @ q \<and> matches comment_body_rx q)"
  "matches (token_rx LineComment) p \<longleftrightarrow> (\<exists>q. p = ''//'' @ q \<and> CHR 0x0A \<notin> set q)"
  "matches (token_rx StringLiteral) p \<longleftrightarrow> (\<exists>q. p = CHR 0x22 # q @ [CHR 0x22] \<and> CHR 0x22 \<notin> set q)"
  "matches (token_rx OpenBrace) p \<longleftrightarrow> p = ''{''"
  "matches (token_rx CloseBrace) p \<longleftrightarrow> p = ''}''"
  "matches (token_rx Slash) p \<longleftrightarrow> p = ''/''"
  "matches (token_rx Other) p \<longleftrightarrow> (\<exists>c. p = [c] \<and> other_char c)"
  by (auto simp: matches_Star_class)

lemma next_token_sound:
  assumes "next_token s = Some (t, r)"
  shows "\<exists>p. s = p @ r \<and> matches (token_rx t) p"
proof (cases s)
  case Nil
  with assms show ?thesis by (simp add: next_token_def)
next
  case (Cons c cs)
  consider "c = CHR ''/''" "cs \<noteq> []" "hd cs = CHR ''/''" | "c = CHR ''/''" "cs \<noteq> []" "hd cs = CHR ''*''"
    | "c = CHR ''/''" "cs = [] \<or> hd cs \<notin> {CHR ''/'', CHR ''*''}" | "c = CHR 0x22" | "c \<noteq> CHR ''/''" "c \<noteq> CHR 0x22"
    by blast
  then show ?thesis
  proof cases
    case 1
    then obtain ds where cs: "cs = CHR ''/'' # ds"
      by (cases cs) auto
    with assms Cons 1 have "t = LineComment" "r = dropWhile (\<lambda>d. d \<noteq> CHR 0x0A) ds"
      by (auto simp: next_token_def)
    with Cons 1(1) cs show ?thesis
      by (intro exI [of _ "''//'' @ takeWhile (\<lambda>d. d \<noteq> CHR 0x0A) ds"])
        (auto simp: matches_Star_class dest: set_takeWhileD)
  next
    case 2
    then obtain ds where cs: "cs = CHR ''*'' # ds"
      by (cases cs) auto
    show ?thesis
    proof (cases "comment_rest False ds")
      case None
      with assms Cons 2 cs show ?thesis
        by (auto simp: next_token_def)
    next
      case (Some r')
      then obtain q where q: "ds = q @ r'" "matches comment_body_rx q"
        using comment_rest_sound [OF Some] by auto
      have "t = BlockComment" "r = r'"
        using assms Cons 2 cs Some by (simp_all add: next_token_def)
      with Cons 2(1) cs q show ?thesis
        by (intro exI [of _ "''/*'' @ q"]) (auto simp only: token_lexemes append.simps)
    qed
  next
    case 3
    with assms Cons show ?thesis
      by (cases cs) (auto simp: next_token_def)
  next
    case 4
    with assms Cons obtain q where "cs = q @ CHR 0x22 # r" "CHR 0x22 \<notin> set q" "t = StringLiteral"
      by (auto simp: next_token_def string_rest_iff)
    with Cons 4 show ?thesis
      by (intro exI [of _ "CHR 0x22 # q @ [CHR 0x22]"]) (auto simp only: token_lexemes append.simps append_assoc)
  next
    case 5
    with assms Cons show ?thesis
      by (auto simp: next_token_def split: if_splits)
  qed
qed

lemma next_token_complete:
  assumes "matches (token_rx t) p"
  shows "\<exists>t' r'. next_token (p @ r) = Some (t', r') \<and> length r' \<le> length r \<and> (length r' = length r \<longrightarrow> t' = t)"
proof (cases t)
  case BlockComment
  with assms obtain q where "p = ''/*'' @ q" "matches comment_body_rx q"
    by (auto simp only: token_lexemes)
  with BlockComment show ?thesis
    by (simp add: next_token_def comment_rest_complete)
next
  case LineComment
  with assms obtain q where q: "p = ''//'' @ q" "CHR 0x0A \<notin> set q"
    by (auto simp only: token_lexemes)
  then have "dropWhile (\<lambda>d. d \<noteq> CHR 0x0A) (q @ r) = dropWhile (\<lambda>d. d \<noteq> CHR 0x0A) r"
    by (intro dropWhile_append2) auto
  with q(1) LineComment show ?thesis
    by (simp add: next_token_def length_dropWhile_le)
next
  case StringLiteral
  with assms obtain q where "p = CHR 0x22 # q @ [CHR 0x22]" "CHR 0x22 \<notin> set q"
    by (auto simp only: token_lexemes)
  then have "next_token (p @ r) = map_option (Pair StringLiteral) (string_rest (q @ CHR 0x22 # r))"
    "string_rest (q @ CHR 0x22 # r) = Some r"
    by (simp_all add: next_token_def string_rest_iff)
  with StringLiteral show ?thesis by simp
next
  case Slash
  with assms have p: "p = ''/''"
    by (simp only: token_lexemes)
  show ?thesis
  proof (cases r)
    case (Cons d ds)
    then show ?thesis
      using comment_rest_length [of False ds] length_dropWhile_le [of "\<lambda>d. d \<noteq> CHR 0x0A" ds] p Slash
      by (cases "comment_rest False ds") (auto simp: next_token_def le_imp_less_Suc)
  qed (simp add: next_token_def p Slash)
next
  case Other
  with assms show ?thesis
    by (auto simp: next_token_def other_char_def)
qed (use assms in \<open>auto simp: next_token_def\<close>)

section \<open>Balanced text\<close>

text \<open>
  ASL text in which braces match, as the grammar of the checked files has it: braces count only outside
  comments and strings, a slash on its own is not before a slash or a star, a line comment
  is ended by its line, and a block comment holds no star.
\<close>

inductive balanced :: "string \<Rightarrow> bool" where
  bal_nil: "balanced []"
| bal_skipped: "skipped c \<Longrightarrow> balanced s \<Longrightarrow> balanced (c # s)"
| bal_other: "other_char c \<Longrightarrow> balanced s \<Longrightarrow> balanced (c # s)"
| bal_slash: "balanced s \<Longrightarrow> s = [] \<or> hd s \<notin> {CHR ''/'', CHR ''*''} \<Longrightarrow> balanced (CHR ''/'' # s)"
| bal_line: "CHR 0x0A \<notin> set t \<Longrightarrow> balanced s \<Longrightarrow> balanced (''//'' @ t @ CHR 0x0A # s)"
| bal_comment: "CHR ''*'' \<notin> set t \<Longrightarrow> balanced s \<Longrightarrow> balanced (''/*'' @ t @ ''*/'' @ s)"
| bal_string: "CHR 0x22 \<notin> set t \<Longrightarrow> balanced s \<Longrightarrow> balanced (CHR 0x22 # t @ CHR 0x22 # s)"
| bal_block: "balanced b \<Longrightarrow> balanced s \<Longrightarrow> balanced (CHR ''{'' # b @ CHR ''}'' # s)"

lemma close_brace_skip: "skipped c \<Longrightarrow> close_brace err depth (c # s) = close_brace err depth s"
  by (subst (1 2) close_brace.simps) simp

lemma close_brace_token:
  assumes "next_token (c # s) = Some (t, r)" "\<not> skipped c"
  shows "close_brace err depth (c # s) =
    (if t = OpenBrace then if depth = 2 ^ 32 - 1 then Halted else close_brace err (depth + 1) r
     else if t = CloseBrace then
       if depth = 0 then Halted else if depth = 1 then Ret (Some r) else close_brace err (depth - 1) r
     else close_brace err depth r)"
  using assms by (subst close_brace.simps) simp

lemma not_skipped [simp]: "\<not> skipped CHR ''{''" "\<not> skipped CHR ''}''" "\<not> skipped CHR ''/''" "\<not> skipped CHR 0x22"
  by (simp_all add: skipped_def)

lemma next_token_simps [simp]:
  "next_token (CHR ''{'' # s) = Some (OpenBrace, s)" "next_token (CHR ''}'' # s) = Some (CloseBrace, s)"
  "other_char c \<Longrightarrow> next_token (c # s) = Some (Other, s)"
  by (auto simp: next_token_def other_char_def)

text \<open>Balanced text leaves the depth as it is, if what follows does not join its last character to a comment.\<close>

lemma close_brace_balanced_before:
  assumes "balanced b" "1 \<le> depth" "depth + length b < 2 ^ 32" "s = [] \<or> hd s \<notin> {CHR ''/'', CHR ''*''}"
  shows "close_brace err depth (b @ s) = close_brace err depth s"
  using assms
proof (induction arbitrary: depth s rule: balanced.induct)
  case (bal_skipped c b)
  then show ?case by (simp add: close_brace_skip)
next
  case (bal_other c b)
  moreover have "\<not> skipped c"
    using bal_other by (simp add: other_char_def)
  ultimately show ?case
    using close_brace_token [of c "b @ s" Other] by simp
next
  case (bal_slash b)
  have "next_token (CHR ''/'' # b @ s) = Some (Slash, b @ s)"
    using bal_slash(2) bal_slash.prems(3) by (cases b; cases s) (auto simp: next_token_def)
  then show ?case
    using close_brace_token bal_slash by simp
next
  case (bal_line t b)
  have "next_token (''//'' @ t @ CHR 0x0A # b @ s) = Some (LineComment, CHR 0x0A # b @ s)"
    using bal_line(1) by (simp add: next_token_def) (subst dropWhile_append2, auto)
  then show ?case
    using close_brace_token bal_line close_brace_skip [of "CHR 0x0A"] by (simp add: skipped_def)
next
  case (bal_comment t b)
  have "next_token (''/*'' @ t @ ''*/'' @ b @ s) = Some (BlockComment, b @ s)"
    using bal_comment(1) by (simp add: next_token_def comment_rest_plain)
  then show ?case
    using close_brace_token bal_comment by simp
next
  case (bal_string t b)
  have "string_rest (t @ CHR 0x22 # b @ s) = Some (b @ s)"
    using bal_string(1) by (auto simp: string_rest_iff)
  then have "next_token (CHR 0x22 # t @ CHR 0x22 # b @ s) = Some (StringLiteral, b @ s)"
    by (simp add: next_token_def)
  then show ?case
    using close_brace_token bal_string by simp
next
  case (bal_block c b)
  have "close_brace err depth (CHR ''{'' # c @ CHR ''}'' # b @ s) =
      close_brace err (depth + 1) (c @ CHR ''}'' # b @ s)"
    using close_brace_token [of "CHR ''{''"] bal_block.prems by simp
  also have "\<dots> = close_brace err (depth + 1) (CHR ''}'' # b @ s)"
    using bal_block.prems by (intro bal_block.IH(1)) simp_all
  also have "\<dots> = close_brace err depth (b @ s)"
    using close_brace_token [of "CHR ''}''"] bal_block.prems by simp
  also have "\<dots> = close_brace err depth s"
    using bal_block.prems by (intro bal_block.IH(2)) simp_all
  finally show ?case by simp
qed simp

lemma close_brace_balanced:
  assumes "balanced b" "1 \<le> depth" "depth + length b < 2 ^ 32"
  shows "close_brace err depth (b @ CHR ''}'' # s) = close_brace err depth (CHR ''}'' # s)"
  using assms by (intro close_brace_balanced_before) simp_all

lemma close_brace_plain:
  "\<forall>c \<in> set p. skipped c \<or> other_char c \<Longrightarrow> close_brace err depth (p @ s) = close_brace err depth s"
proof (induction p)
  case (Cons c p)
  show ?case
  proof (cases "skipped c")
    case True
    with Cons show ?thesis by (simp add: close_brace_skip)
  next
    case False
    with Cons show ?thesis
      using close_brace_token [of c "p @ s" Other] by simp
  qed
qed simp

text \<open>What is left after the closing brace is an end of the text.\<close>

lemma close_brace_suffix: "close_brace err depth s = Ret (Some r) \<Longrightarrow> \<exists>p. p \<noteq> [] \<and> s = p @ r"
proof (induction err depth s rule: close_brace.induct)
  case (1 err depth s)
  have skip: "takeWhile skipped s @ dropWhile skipped s = s"
    by simp
  show ?case
  proof (cases "dropWhile skipped s")
    case Nil
    with "1.prems" show ?thesis by (subst (asm) close_brace.simps) simp
  next
    case (Cons c cs)
    show ?thesis
    proof (cases "next_token (c # cs)")
      case None
      with "1.prems" Cons have "close_brace err depth (drop (err (c # cs)) cs) = Ret (Some r)"
        by (subst (asm) close_brace.simps) simp
      from "1.IH"(1) [OF Cons None this] obtain p where "drop (err (c # cs)) cs = p @ r"
        by blast
      then have "s = (takeWhile skipped s @ c # take (err (c # cs)) cs @ p) @ r"
        using skip Cons append_take_drop_id [of "err (c # cs)" cs] by (metis append.assoc append_Cons)
      then show ?thesis by blast
    next
      case (Some x)
      obtain t q where x: "next_token (c # cs) = Some (t, q)"
        using Some by (cases x) simp
      obtain l where l: "c # cs = l @ q"
        using next_token_sound [OF x] by blast
      have "\<exists>p. q = p @ r"
        using "1.prems" Cons x "1.IH"(2,3,4) [OF Cons x refl]
        by (subst (asm) close_brace.simps) (auto split: if_splits)
      then obtain p where "q = p @ r" ..
      moreover have "l \<noteq> []"
        using next_token_shorter [OF x] l by auto
      ultimately have "takeWhile skipped s @ l @ p \<noteq> []" "s = (takeWhile skipped s @ l @ p) @ r"
        using skip Cons l by simp_all
      then show ?thesis by blast
    qed
  qed
qed

lemma find_str_skip: "x \<noteq> c \<Longrightarrow> find_str [x] (c # s) = map_option Suc (find_str [x] s)"
  by (subst find_str.simps) simp

lemma find_str_first: "x \<notin> set g \<Longrightarrow> find_str [x] (g @ x # s) = Some (length g)"
proof (induction g)
  case Nil
  show ?case by (subst find_str.simps) simp
qed (simp add: find_str_skip)

text \<open>A well-formed block, with what the extraction returns for it.\<close>

lemma extract_balanced:
  assumes "block_start source keyword name = Some (length pre)"
    and "source = pre @ head @ ''{'' @ body @ ''}'' @ post" "CHR ''{'' \<notin> set head"
    and "balanced body" "length body < 2 ^ 32 - 1"
  shows "extract_named_block err source keyword name = Ret (head @ ''{'' @ body @ ''}'')"
proof -
  have "close_brace err 0 (''{'' @ body @ ''}'' @ post) = close_brace err 1 (body @ CHR ''}'' # post)"
    using close_brace_token [of "CHR ''{''"] by simp
  also have "\<dots> = close_brace err 1 (CHR ''}'' # post)"
    using assms(4,5) by (intro close_brace_balanced) simp_all
  also have "\<dots> = Ret (Some post)"
    using close_brace_token [of "CHR ''}''"] by simp
  finally have "close_brace err 0 (''{'' @ body @ ''}'' @ post) = Ret (Some post)" .
  then show ?thesis
    using assms(1-3) by (simp add: extract_named_block_def find_str_first)
qed

text \<open>The search finds the first occurrence.\<close>

lemma find_str_Nil: "find_str p [] = (if p = [] then Some 0 else None)"
  by (subst find_str.simps) simp

lemma find_str_Cons:
  "find_str p (c # s) = (if take (length p) (c # s) = p then Some 0 else map_option Suc (find_str p s))"
  by (subst find_str.simps) simp

lemma starts_iff: "take (length p) s = p \<longleftrightarrow> (\<exists>b. s = p @ b)"
  by (metis append_eq_conv_conj append_take_drop_id)

lemma find_str_occurs: "find_str p s = Some i \<Longrightarrow> i \<le> length s \<and> take (length p) (drop i s) = p"
proof (induction s arbitrary: i)
  case (Cons c s)
  then show ?case
    by (cases i) (auto simp: find_str_Cons split: if_splits)
qed (simp add: find_str_Nil split: if_splits)

lemma find_str_None: "find_str p s = None \<longleftrightarrow> (\<nexists>a b. s = a @ p @ b)"
proof (induction s)
  case (Cons c s)
  show ?case
  proof
    assume none: "find_str p (c # s) = None"
    then have "take (length p) (c # s) \<noteq> p" and s: "\<nexists>a b. s = a @ p @ b"
      using Cons.IH by (auto simp: find_str_Cons split: if_splits)
    moreover have "take (length p) (c # s) = p" if "c # s = p @ b" for b
      using that by simp
    ultimately show "\<nexists>a b. c # s = a @ p @ b"
      by (metis append_Nil append_Cons list.inject neq_Nil_conv)
  next
    assume "\<nexists>a b. c # s = a @ p @ b"
    then have "take (length p) (c # s) \<noteq> p" "\<nexists>a b. s = a @ p @ b"
      by (metis append_Nil append_take_drop_id, metis append_Cons)
    with Cons.IH show "find_str p (c # s) = None"
      by (simp add: find_str_Cons)
  qed
qed (auto simp: find_str_Nil)

text \<open>Text that shares no character with the pattern can be added at the end, or in front.\<close>

lemma find_str_append:
  assumes "p \<noteq> []" "set p \<inter> set t = {}"
  shows "find_str p (s @ t) = find_str p s"
proof (induction s)
  case Nil
  have "\<nexists>a b. t = a @ p @ b"
    using assms by (cases p) auto
  then show ?case
    using assms(1) by (simp add: find_str_Nil find_str_None)
next
  case (Cons c s)
  have "take (length p) ((c # s) @ t) = p \<longleftrightarrow> take (length p) (c # s) = p"
  proof
    assume "take (length p) ((c # s) @ t) = p"
    then obtain b where "(c # s) @ t = p @ b"
      unfolding starts_iff by blast
    then obtain us where "c # s = p @ us \<or> p = (c # s) @ us \<and> t = us @ b"
      using append_eq_append_conv2 [of "c # s" t p b] by blast
    with assms(2) show "take (length p) (c # s) = p"
      by (cases us) auto
  next
    assume "take (length p) (c # s) = p"
    then show "take (length p) ((c # s) @ t) = p"
      unfolding starts_iff by (metis append.assoc)
  qed
  with Cons.IH show ?case
    by (simp add: find_str_Cons)
qed

lemma find_str_prepend:
  assumes "p \<noteq> []" "hd p \<notin> set t"
  shows "find_str p (t @ s) = map_option ((+) (length t)) (find_str p s)"
  using assms(2)
proof (induction t)
  case (Cons c t)
  with assms(1) have "take (length p) (c # t @ s) \<noteq> p"
    by (cases p) auto
  with Cons show ?case
    by (simp add: find_str_Cons option.map_comp comp_def)
qed (cases "find_str p s"; simp)

section \<open>Blocks that are misread\<close>

text \<open>
  After its opening a comment is read in pairs: a star takes the next character with it, also when that is a star.
  So the stars before the closing slash end the comment only if their number is odd.
\<close>

lemma comment_rest_stars:
  assumes "CHR ''*'' \<notin> set a"
  shows "comment_rest False (a @ replicate n CHR ''*'' @ CHR ''/'' # s) = (if odd n then Some s else comment_rest False s)"
proof -
  have "comment_rest False (replicate n CHR ''*'' @ CHR ''/'' # s) = (if odd n then Some s else comment_rest False s)"
    by (induction n rule: induct_nat_012) simp_all
  with assms show ?thesis by (simp add: comment_rest_plain)
qed

text \<open>
  Two kinds of text. In the first, a comment behind an opening brace ends in an even number of stars and a slash, and another comment
  comes later; the text between the two, \<open>mid\<close>, may hold the closing brace. In the second, a comment before the block
  contains an opening brace.
\<close>

inductive misread :: "string \<Rightarrow> bool" where
  hidden: "CHR ''{'' \<notin> set head \<Longrightarrow> balanced b \<Longrightarrow> length b < 2 ^ 31 \<Longrightarrow> skipped w \<Longrightarrow>
    CHR ''*'' \<notin> set (a @ mid @ x # c) \<Longrightarrow> x \<noteq> CHR ''/'' \<Longrightarrow> even n \<Longrightarrow> 0 < n \<Longrightarrow>
    misread (head @ CHR ''{'' # b @ w # ''/*'' @ a @ replicate n CHR ''*'' @ ''/'' @ mid @ ''/*'' @ x # c @ ''*/'')"
| counted: "CHR ''{'' \<notin> set (head @ c) \<Longrightarrow> \<forall>x \<in> set (d @ gap). x \<noteq> CHR ''*'' \<and> (skipped x \<or> other_char x) \<Longrightarrow>
    balanced b \<Longrightarrow> length b < 2 ^ 31 \<Longrightarrow>
    misread ((head @ ''/*'' @ c) @ CHR ''{'' # d @ ''*/'' @ gap @ CHR ''{'' # b @ ''}'')"

text \<open>Either way the text after it is read one block too deep.\<close>

lemma close_brace_hidden:
  assumes "balanced b" "length b < 2 ^ 31" "skipped w" "CHR ''*'' \<notin> set (a @ mid @ x # c)" "x \<noteq> CHR ''/''" "even n"
  shows "close_brace err 0 (CHR ''{'' # b @ w # ''/*'' @ a @ replicate n CHR ''*'' @ ''/'' @ mid @ ''/*'' @ x # c @ ''*/'' @ post) =
    close_brace err 1 post"
proof -
  let ?body = "a @ replicate n CHR ''*'' @ ''/'' @ mid @ ''/*'' @ x # c @ ''*/'' @ post"
  have "comment_rest False ?body = comment_rest False ((mid @ ''/'') @ CHR ''*'' # x # c @ ''*/'' @ post)"
    using assms(4,6) comment_rest_stars [of a n "mid @ ''/*'' @ x # c @ ''*/'' @ post"] by simp
  also have "\<dots> = comment_rest False (c @ ''*/'' @ post)"
    using assms(4,5) by (subst comment_rest_plain) simp_all
  also have "\<dots> = Some post"
    using assms(4) by (subst comment_rest_plain) simp_all
  finally have token: "next_token (CHR ''/'' # CHR ''*'' # ?body) = Some (BlockComment, post)"
    by (simp add: next_token_def)
  have "hd (w # ''/*'' @ ?body) \<notin> {CHR ''/'', CHR ''*''}"
    using assms(3) by (auto simp: skipped_def)
  then have "close_brace err 1 (b @ w # ''/*'' @ ?body) = close_brace err 1 (w # ''/*'' @ ?body)"
    using assms(1,2) by (intro close_brace_balanced_before) simp_all
  also have "\<dots> = close_brace err 1 post"
    using token close_brace_token [of "CHR ''/''" "CHR ''*'' # ?body"] assms(3) by (simp add: close_brace_skip)
  finally show ?thesis
    using close_brace_token [of "CHR ''{''"] by simp
qed

lemma close_brace_counted:
  assumes "\<forall>x \<in> set (d @ gap). x \<noteq> CHR ''*'' \<and> (skipped x \<or> other_char x)" "balanced b" "length b < 2 ^ 31"
  shows "close_brace err 0 (CHR ''{'' # d @ ''*/'' @ gap @ CHR ''{'' # b @ ''}'' @ post) = close_brace err 1 post"
proof -
  let ?block = "CHR ''{'' # b @ ''}'' @ post"
  have star: "other_char CHR ''*''"
    by (simp add: other_char_def skipped_def)
  have "next_token (CHR ''/'' # gap @ ?block) = Some (Slash, gap @ ?block)"
    using assms(1) by (cases gap) (auto simp: next_token_def skipped_def other_char_def)
  moreover have "close_brace err 1 ((d @ ''*'') @ CHR ''/'' # gap @ ?block) = close_brace err 1 (CHR ''/'' # gap @ ?block)"
    using assms(1) star by (intro close_brace_plain) auto
  moreover have "close_brace err 1 (gap @ ?block) = close_brace err 1 ?block"
    using assms(1) by (intro close_brace_plain) auto
  moreover have "close_brace err 1 ?block = close_brace err 1 post"
    using close_brace_token [of "CHR ''{''"] close_brace_token [of "CHR ''}''"] close_brace_balanced [OF assms(2), of "Suc (Suc 0)" err post] assms(3)
    by simp
  ultimately show ?thesis
    using close_brace_token [of "CHR ''{''"] close_brace_token [of "CHR ''/''" "gap @ ?block"] by simp
qed

lemma misreadE:
  assumes "misread text"
  obtains h rest where "text = h @ CHR ''{'' # rest" "CHR ''{'' \<notin> set h"
    "\<And>err post. close_brace err 0 (CHR ''{'' # rest @ post) = close_brace err 1 post"
  using assms
proof cases
  case (hidden head b w a mid x c n)
  with close_brace_hidden [OF hidden(3-8)] show ?thesis
    by (intro that [of head "b @ w # ''/*'' @ a @ replicate n CHR ''*'' @ ''/'' @ mid @ ''/*'' @ x # c @ ''*/''"]) simp_all
next
  case (counted head c d gap b)
  with close_brace_counted [OF counted(3-5)] show ?thesis
    by (intro that [of "head @ ''/*'' @ c" "d @ ''*/'' @ gap @ CHR ''{'' # b @ ''}''"]) simp_all
qed

section \<open>Properties\<close>

text \<open>C32: the lexer takes the longest match. The next token is the one whose expression matches the longest
  start of the text, with what follows it, and there is none exactly if no expression matches a start
  of the text.\<close>

theorem lexer_longest_match:
  "(next_token s = Some (t, r) \<longleftrightarrow>
     (\<exists>p. s = p @ r \<and> matches (token_rx t) p \<and>
       (\<forall>t' p' r'. s = p' @ r' \<and> matches (token_rx t') p' \<longrightarrow> length p' \<le> length p))) \<and>
   (next_token s = None \<longleftrightarrow> (\<nexists>t' p' r'. s = p' @ r' \<and> matches (token_rx t') p'))"
proof -
  have none: "next_token s = None \<longleftrightarrow> (\<nexists>t' p' r'. s = p' @ r' \<and> matches (token_rx t') p')"
    using next_token_sound [of s] next_token_complete by (cases "next_token s") fastforce+
  have longest: "length p' \<le> length p"
    if "next_token s = Some (t, r)" "s = p @ r" "s = p' @ r'" "matches (token_rx t') p'" for p p' r' t'
  proof -
    have "length r \<le> length r'"
      using next_token_complete [OF that(4), of r'] that(1,3) by auto
    moreover have "length p + length r = length p' + length r'"
      using that(2,3) by (metis length_append)
    ultimately show ?thesis by linarith
  qed
  have "next_token s = Some (t, r)"
    if p: "s = p @ r" "matches (token_rx t) p"
      and max: "\<forall>t' p' r'. s = p' @ r' \<and> matches (token_rx t') p' \<longrightarrow> length p' \<le> length p" for p
  proof -
    obtain t0 r0 where t0: "next_token s = Some (t0, r0)" "length r0 \<le> length r" "length r0 = length r \<longrightarrow> t0 = t"
      using next_token_complete [OF p(2), of r] p(1) by auto
    obtain p0 where p0: "s = p0 @ r0" "matches (token_rx t0) p0"
      using next_token_sound [OF t0(1)] by blast
    have "length p0 \<le> length p"
      using max p0 by blast
    moreover have "length p + length r = length p0 + length r0"
      using p(1) p0(1) by (metis length_append)
    ultimately have "length r0 = length r"
      using t0(2) by linarith
    moreover have "r0 = r"
      using p(1) p0(1) \<open>length r0 = length r\<close> by (metis append_eq_append_conv)
    ultimately show ?thesis
      using t0 by simp
  qed
  with none longest next_token_sound [of s t r] show ?thesis by blast
qed

text \<open>C31: a block is extracted up to its matching brace. When the first occurrence of the keyword with the
  name is followed by a gap without braces and a brace block whose text is balanced (with fewer
  than 2^32 - 1 bytes), the extraction returns exactly the keyword, the gap and the block.\<close>

theorem extract_block:
  assumes "block_start source keyword name = Some (length pre)"
    and "source = pre @ head @ ''{'' @ body @ ''}'' @ post" "CHR ''{'' \<notin> set head"
    and "balanced body" "length body < 2 ^ 32 - 1"
  shows "extract_named_block err source keyword name = Ret (head @ ''{'' @ body @ ''}'')"
  by (rule extract_balanced [OF assms])

text \<open>C38: comments can hide braces from the count, or add to it. Let the first occurrence of a device start a text of one of two kinds,
  spelled out by \<open>misread\<close>: a comment inside the braces ends in a positive even number of stars and a slash (not counting the
  star that opens it), and another comment follows without a star between them; or a comment in front of the
  block contains an opening brace. Then whatever is extracted is longer than this text, even if the block's closing brace is
  part of it, as between the two comments; and if the braces after the text match, the extraction panics.\<close>

theorem extract_misreads_comments:
  assumes "block_start source ''Device'' name = Some (length pre)" "source = pre @ text @ post" "misread text"
  shows "(\<forall>t. extract_device_block err source name = Ret t \<longrightarrow> (\<exists>u. u \<noteq> [] \<and> t = text @ u)) \<and>
    (balanced post \<and> length post < 2 ^ 31 \<longrightarrow> extract_device_block err source name = Halted)"
proof -
  obtain h rest where parts: "text = h @ CHR ''{'' # rest" "CHR ''{'' \<notin> set h"
    and deeper: "\<And>post. close_brace err 0 (CHR ''{'' # rest @ post) = close_brace err 1 post"
    using misreadE [OF assms(3)] by metis
  have "find_str ''{'' (text @ post) = Some (length h)" "drop (length h) (text @ post) = CHR ''{'' # rest @ post"
    using parts by (simp_all add: find_str_first)
  moreover have "drop (length pre) (pre @ text @ post) = text @ post"
    by simp
  ultimately have extracted: "extract_device_block err source name = obind (close_brace err 1 post) (\<lambda>after.
      case after of None \<Rightarrow> Halted | Some r \<Rightarrow> Ret (take (length (text @ post) - length r) (text @ post)))"
    using assms(1,2) deeper [of post]
    by (simp add: extract_device_block_def extract_named_block_def Let_def del: length_append take_append drop_append)
  have "\<exists>u. u \<noteq> [] \<and> t = text @ u" if t: "extract_device_block err source name = Ret t" for t
  proof -
    obtain r where r: "close_brace err 1 post = Ret (Some r)" "t = take (length (text @ post) - length r) (text @ post)"
      using t unfolding extracted by (auto simp: obind_Ret_iff simp del: One_nat_def take_append length_append split: option.splits)
    obtain u where "u \<noteq> []" "post = u @ r"
      using close_brace_suffix [OF r(1)] by blast
    with r(2) show ?thesis by auto
  qed
  moreover have "close_brace err 1 post = Ret None" if "balanced post" "length post < 2 ^ 31"
    using close_brace_balanced_before [OF that(1), of 1 "[]" err] that(2) by (simp add: close_brace.simps [of err _ "[]"])
  ultimately show ?thesis
    by (simp add: extracted)
qed

section \<open>Witnesses\<close>

theorem lexer_longest_match_witness:
  "\<exists>p. ''/*}*/}'' = p @ ''}'' \<and> matches (token_rx BlockComment) p"
proof -
  have "next_token ''/*}*/}'' = Some (BlockComment, ''}'')"
    by (simp add: next_token_def)
  then show ?thesis
    using lexer_longest_match [of "''/*}*/}''" BlockComment "''}''"] by blast
qed

theorem extract_block_witness:
  "extract_named_block (\<lambda>_. 0) ''A{}Device(B) {/*}*/{x}}y'' ''Device'' ''B'' = Ret ''Device(B) {/*}*/{x}}''"
proof -
  have x: "other_char CHR ''x''"
    by (simp add: other_char_def skipped_def)
  have "balanced (CHR ''{'' # ''x'' @ CHR ''}'' # [])"
    using x by (intro balanced.intros) simp
  then have "balanced (''/*'' @ ''}'' @ ''*/'' @ ''{x}'')"
    by (intro bal_comment) simp_all
  moreover have "block_start ''A{}Device(B) {/*}*/{x}}y'' ''Device'' ''B'' = Some (length ''A{}'')"
    by (simp add: block_start_def find_str.simps)
  moreover have "''A{}Device(B) {/*}*/{x}}y'' =
      ''A{}'' @ ''Device(B) '' @ ''{'' @ (''/*'' @ ''}'' @ ''*/'' @ ''{x}'') @ ''}'' @ ''y''"
    by simp
  moreover have "CHR ''{'' \<notin> set ''Device(B) ''"
    by simp
  moreover have "length (''/*'' @ ''}'' @ ''*/'' @ ''{x}'') < 2 ^ 32 - 1"
    by simp
  ultimately have "extract_named_block (\<lambda>_. 0) ''A{}Device(B) {/*}*/{x}}y'' ''Device'' ''B'' =
      Ret (''Device(B) '' @ ''{'' @ (''/*'' @ ''}'' @ ''*/'' @ ''{x}'') @ ''}'')"
    by (intro extract_block)
  then show ?thesis by simp
qed

text \<open>A comment that ends in two stars and a slash, and one that contains a brace.\<close>

theorem extract_misreads_comments_witness:
  "extract_device_block (\<lambda>_. 0) ''Device(A){ /***/}/* */'' ''A'' = Halted \<and>
   extract_device_block (\<lambda>_. 0) ''Device(A)/* { */{}'' ''A'' = Halted"
proof -
  have "misread (''Device(A)'' @ CHR ''{'' # [] @ CHR '' '' # ''/*'' @ [] @ replicate 2 CHR ''*'' @ ''/'' @ ''}'' @ ''/*'' @ CHR '' '' # [] @ ''*/'')"
    by (intro hidden) (simp_all add: bal_nil skipped_def)
  then have first: "misread ''Device(A){ /***/}/* */''"
    by (simp add: eval_nat_numeral)
  have "misread ((''Device(A)'' @ ''/*'' @ '' '') @ CHR ''{'' # '' '' @ ''*/'' @ [] @ CHR ''{'' # [] @ ''}'')"
    by (intro counted) (simp_all add: bal_nil skipped_def)
  then have second: "misread ''Device(A)/* { */{}''"
    by simp
  have start: "block_start ''Device(A){ /***/}/* */'' ''Device'' ''A'' = Some (length ([] :: string))"
    "block_start ''Device(A)/* { */{}'' ''Device'' ''A'' = Some (length ([] :: string))"
    by (simp_all add: block_start_def find_str.simps)
  show ?thesis
    using extract_misreads_comments [OF start(1) _ first, of "[]" "\<lambda>_. 0"] extract_misreads_comments [OF start(2) _ second, of "[]" "\<lambda>_. 0"]
    by (simp add: bal_nil)
qed

end
