(* ===== verification/Asl_Checks.thy ===== *)
theory Asl_Checks
  imports Asl_Extract
begin

text \<open>
  The tests of common/tests/acpi/src/main.rs themselves: the search for the directory of the ACPI
  tables, the reading of a source and, per test, the block that is looked at and the strings of
  which one must occur in it. The file system is a parameter; a path is the list of its components.
  A panic is \<open>Halted\<close>.
\<close>

section \<open>Reading a source\<close>

type_synonym path = "string list"

record file_system =
  path_exists :: "path \<Rightarrow> bool"
  read_to_string :: "path \<Rightarrow> string option"

definition ACPI_SUBMODULE_PATH :: path where
  "ACPI_SUBMODULE_PATH = [''common'', ''cix-edk2-platforms'', ''Platform'', ''Radxa'', ''Orion'', ''O6'', ''Drivers'',
     ''AcpiPlatfomTables'']"

definition parent :: "path \<Rightarrow> path option" where
  "parent p = (if p = [] then None else Some (butlast p))"

definition acpi_tables_dir :: "file_system \<Rightarrow> path \<Rightarrow> path outcome" where
  "acpi_tables_dir fs manifest_dir =
     (let candidates =
        (case Option.bind (Option.bind (parent manifest_dir) parent) parent of
           None \<Rightarrow> [] | Some workspace_root \<Rightarrow> [workspace_root @ ACPI_SUBMODULE_PATH]) @
        [manifest_dir @ ACPI_SUBMODULE_PATH] in
      case find (path_exists fs) candidates of None \<Rightarrow> Halted | Some candidate \<Rightarrow> Ret candidate)"

definition read_asl :: "file_system \<Rightarrow> path \<Rightarrow> string \<Rightarrow> string outcome" where
  "read_asl fs manifest_dir filename = obind (acpi_tables_dir fs manifest_dir) (\<lambda>dir.
     case read_to_string fs (dir @ [filename]) of None \<Rightarrow> Halted | Some text \<Rightarrow> Ret text)"

section \<open>The tests\<close>

text \<open>What a test looks at: the whole file, or the block of a keyword and a name.\<close>

datatype asl_scope = WholeFile | DeviceBlock string | NamedBlock string string

record asl_test =
  test_module :: string
  test_name :: string
  test_file :: string
  test_scope :: asl_scope
  any_of :: "string list"

definition contains :: "string \<Rightarrow> string \<Rightarrow> bool" where
  "contains src p \<longleftrightarrow> find_str p src \<noteq> None"

definition scoped :: "(string \<Rightarrow> nat) \<Rightarrow> asl_scope \<Rightarrow> string \<Rightarrow> string outcome" where
  "scoped err sc src =
     (case sc of WholeFile \<Rightarrow> Ret src
      | DeviceBlock name \<Rightarrow> extract_device_block err src name
      | NamedBlock keyword name \<Rightarrow> extract_named_block err src keyword name)"

definition run_test :: "(string \<Rightarrow> nat) \<Rightarrow> (string \<Rightarrow> string outcome) \<Rightarrow> asl_test \<Rightarrow> unit outcome" where
  "run_test err read t = obind (read (test_file t)) (\<lambda>full. obind (scoped err (test_scope t) full) (\<lambda>src.
     if \<exists>p \<in> set (any_of t). contains src p then Ret () else Halted))"

definition ssdt_test :: "string \<Rightarrow> string \<Rightarrow> asl_test" where
  "ssdt_test name needle = \<lparr>test_module = ''tests'', test_name = name, test_file = ''Ssdt.asl'',
     test_scope = WholeFile, any_of = [needle]\<rparr>"

definition block_test :: "string \<Rightarrow> string \<Rightarrow> asl_scope \<Rightarrow> (string \<times> string list) \<Rightarrow> asl_test" where
  "block_test module file sc = (\<lambda>(test, needles). \<lparr>test_module = module, test_name = test,
     test_file = file, test_scope = sc, any_of = needles\<rparr>)"

definition quoted :: "string \<Rightarrow> string" where
  "quoted s = CHR 0x22 # s @ [CHR 0x22]"

definition ssdt_tests :: "asl_test list" where
  "ssdt_tests =
     [ssdt_test ''ssdt_includes_hardware_monitor'' (''include('' @ quoted ''HardwareMonitor.asl'' @ '')''),
      ssdt_test ''ssdt_includes_msft_mptf'' (''include('' @ quoted ''MSFTThermal.asl'' @ '')'')]"

definition hardware_monitor_tests :: "asl_test list" where
  "hardware_monitor_tests = map (block_test ''hardware_monitor'' ''HardwareMonitor.asl'' (DeviceBlock ''HWMN''))
     [(''device_node_exists'', [''Device(HWMN)'', ''Device (HWMN)'']),
      (''has_hid'', [''_HID'']), (''has_uid'', [''_UID'']),
      (''has_sta_method'', [''Method(_STA)'', ''Method (_STA)'']),
      (''has_set_fan_auto_method'', [''Method(SFAT'', ''Method (SFAT'']),
      (''has_set_fan_mute_method'', [''Method(SFMT'', ''Method (SFMT'']),
      (''has_set_fan_performance_method'', [''Method(SFPF'', ''Method (SFPF''])]"

definition has_uid_sta :: "(string \<times> string list) list" where
  "has_uid_sta = [(''has_uid'', [''_UID'']), (''has_sta'', [''_STA''])]"

definition has_dsm_method :: "string \<times> string list" where
  "has_dsm_method = (''has_dsm_method'', [''Method(_DSM'', ''Method (_DSM''])"

definition tmpt_tests :: "asl_test list" where
  "tmpt_tests = map (block_test ''tmpt'' ''MSFTThermal.asl'' (DeviceBlock ''TMPT''))
     ([(''device_node_exists'', [''Device(TMPT)'', ''Device (TMPT)'']), (''has_hid'', [''MSFT000A''])] @ has_uid_sta @
      [(''has_tmp_method'', [''Method(_TMP'', ''Method (_TMP'']), has_dsm_method])"

definition cio1_tests :: "asl_test list" where
  "cio1_tests = map (block_test ''cio1'' ''MSFTThermal.asl'' (DeviceBlock ''CIO1''))
     ([(''device_node_exists'', [''Device(CIO1)'', ''Device (CIO1)'']), (''has_hid'', [''MSFT000B''])] @ has_uid_sta @
      [has_dsm_method])"

definition mpct_tests :: "asl_test list" where
  "mpct_tests = map (block_test ''mpct'' ''MSFTThermal.asl'' (DeviceBlock ''MPCT''))
     ([(''device_node_exists'', [''Device(MPCT)'', ''Device (MPCT)'']), (''has_hid'', [''MSFT000D''])] @ has_uid_sta)"

definition tpol_tests :: "asl_test list" where
  "tpol_tests = map (block_test ''tpol'' ''MSFTThermal.asl'' (NamedBlock ''THERMALZone'' ''TPOL''))
     ([(''thermal_zone_exists'', [''THERMALZone(TPOL)'', ''THERMALZone (TPOL)'']), (''has_hid'', [''MSFT000E''])] @
      has_uid_sta @ [has_dsm_method])"

definition plcd_tests :: "asl_test list" where
  "plcd_tests = map (block_test ''plcd'' ''MSFTThermal.asl'' (DeviceBlock ''PLCD''))
     ([(''device_node_exists'', [''Device (PLCD)'', ''Device(PLCD)'']), (''has_hid'', [''MSFT000F''])] @ has_uid_sta)"

definition mpsc_tests :: "asl_test list" where
  "mpsc_tests = map (block_test ''mpsc'' ''MSFTThermal.asl'' (DeviceBlock ''MPSC''))
     ([(''device_node_exists'', [''Device(MPSC)'', ''Device (MPSC)'']), (''has_hid'', [''MSFT0010''])] @ has_uid_sta)"

definition mpsi_tests :: "asl_test list" where
  "mpsi_tests = map (block_test ''mpsi'' ''MSFTThermal.asl'' (DeviceBlock ''MPSI''))
     ([(''device_node_exists'', [''Device(MPSI)'', ''Device (MPSI)'']), (''has_hid'', [''MSFT0011''])] @ has_uid_sta)"

definition soc0_tests :: "asl_test list" where
  "soc0_tests = map (block_test ''soc0'' ''MSFTThermal.asl'' (DeviceBlock ''SOC0''))
     ([(''device_node_exists'', [''Device (SOC0)'', ''Device(SOC0)'']), (''has_hid'', [''CIXHA037''])] @ has_uid_sta)"

definition mtpt_tests :: "asl_test list" where
  "mtpt_tests = map (block_test ''mtpt'' ''MSFTThermal.asl'' (DeviceBlock ''MTPT''))
     ([(''device_node_exists'', [''Device (MTPT)'', ''Device(MTPT)'']), (''has_hid'', [''MSFT0012''])] @ has_uid_sta)"

definition acpi_tests :: "asl_test list" where
  "acpi_tests = ssdt_tests @ hardware_monitor_tests @ tmpt_tests @ cio1_tests @ mpct_tests @ tpol_tests @ plcd_tests @
     mpsc_tests @ mpsi_tests @ soc0_tests @ mtpt_tests"

lemmas test_lists = ssdt_tests_def ssdt_test_def hardware_monitor_tests_def tmpt_tests_def cio1_tests_def mpct_tests_def
  tpol_tests_def plcd_tests_def mpsc_tests_def mpsi_tests_def soc0_tests_def mtpt_tests_def block_test_def
  has_uid_sta_def has_dsm_method_def

section \<open>What an extracted block contains\<close>

text \<open>For a crate three levels below the workspace, the tables of the workspace are found first.\<close>

lemma tables_of_workspace:
  assumes "path_exists fs (root @ ACPI_SUBMODULE_PATH)"
  shows "acpi_tables_dir fs (root @ [a, b, c]) = Ret (root @ ACPI_SUBMODULE_PATH)"
  using assms by (simp add: acpi_tables_dir_def parent_def butlast_append)

lemma no_tables: "acpi_tables_dir fs dir = Halted \<longleftrightarrow>
    \<not> path_exists fs (dir @ ACPI_SUBMODULE_PATH) \<and>
    (length dir < 3 \<or> \<not> path_exists fs (take (length dir - 3) dir @ ACPI_SUBMODULE_PATH))"
proof -
  have "Option.bind (Option.bind (parent dir) parent) parent = (if length dir < 3 then None else Some (take (length dir - 3) dir))"
    by (cases dir rule: rev_cases; simp add: parent_def; cases "butlast dir" rule: rev_cases)
      (auto simp: parent_def butlast_conv_take)
  then show ?thesis
    by (simp add: acpi_tables_dir_def)
qed

lemma contains_iff: "contains s p \<longleftrightarrow> (\<exists>a b. s = a @ p @ b)"
  using find_str_None [of p s] by (auto simp: contains_def)

lemma contains_append: "contains s p \<Longrightarrow> contains (a @ s @ b) p"
  unfolding contains_iff by (metis append.assoc)

text \<open>The start of a block is an occurrence of one of the two spellings.\<close>

lemma block_start_occurs:
  assumes "block_start src keyword name = Some i"
  shows "i \<le> length src \<and> (\<exists>b. drop i src = keyword @ ''('' @ name @ '')'' @ b \<or> drop i src = keyword @ '' ('' @ name @ '')'' @ b)"
proof -
  have "find_str (keyword @ ''('' @ name @ '')'') src = Some i \<or> find_str (keyword @ '' ('' @ name @ '')'') src = Some i"
    using assms by (auto simp: block_start_def min_def split: option.splits if_splits)
  then show ?thesis
    using find_str_occurs [of _ src i] unfolding starts_iff by fastforce
qed

lemma close_brace_length: "close_brace err depth s = Ret (Some r) \<Longrightarrow> length r \<le> length s"
proof (induction err depth s rule: close_brace.induct)
  case (1 err depth s)
  show ?case
  proof (cases "dropWhile skipped s")
    case Nil
    with "1.prems" show ?thesis by (simp add: close_brace.simps [of err depth s])
  next
    case (Cons c cs)
    have le: "length (c # cs) \<le> length s"
      using length_dropWhile_le [of skipped s] Cons by simp
    show ?thesis
    proof (cases "next_token (c # cs)")
      case None
      with Cons "1.prems" have "close_brace err depth (drop (err (c # cs)) cs) = Ret (Some r)"
        by (simp add: close_brace.simps [of err depth s])
      from "1.IH"(1) [OF Cons None this] le show ?thesis by simp
    next
      case (Some x)
      obtain t q where x: "x = (t, q)"
        by (cases x)
      then have "length q < length (c # cs)"
        using next_token_shorter [of "c # cs" t q] Some by simp
      moreover have "length r \<le> length q"
        using "1.prems" "1.IH"(2-4) [OF Cons Some x [symmetric]] Cons Some x
        by (simp add: close_brace.simps [of err depth s] split: if_splits)
      ultimately show ?thesis using le by simp
    qed
  qed
qed

text \<open>An extracted block starts with the keyword and the name that were asked for.\<close>

lemma extract_starts:
  assumes "extract_named_block err src keyword name = Ret b" "CHR ''{'' \<notin> set keyword" "CHR ''{'' \<notin> set name"
  shows "\<exists>z. b = keyword @ ''('' @ name @ '')'' @ z \<or> b = keyword @ '' ('' @ name @ '')'' @ z"
proof -
  obtain i where i: "block_start src keyword name = Some i"
    using assms(1) by (auto simp: extract_named_block_def split: option.splits)
  obtain p z where p: "drop i src = p @ z" "p = keyword @ ''('' @ name @ '')'' \<or> p = keyword @ '' ('' @ name @ '')''"
    using block_start_occurs [OF i] by (metis append.assoc)
  have free: "CHR ''{'' \<notin> set p"
    using p(2) assms(2,3) by auto
  obtain k r where k: "find_str ''{'' z = Some k"
    and r: "close_brace err 0 (drop (length p + k) (drop i src)) = Ret (Some r)"
    and b: "b = take (length (drop i src) - length r) (drop i src)"
    using assms(1) i free p(1)
    by (auto simp: extract_named_block_def find_str_prepend obind_Ret_iff Let_def split: option.splits)
  have "length r \<le> length (drop i src) - (length p + k)"
    using close_brace_length [OF r] by simp
  then have "length p \<le> length (drop i src) - length r \<or> length (drop i src) < length p + k"
    by linarith
  moreover have "k \<le> length z"
    using find_str_occurs [OF k] by simp
  ultimately have "length p \<le> length (drop i src) - length r"
    using p(1) by simp
  then have "b = p @ take (length (drop i src) - length r - length p) z"
    unfolding b p(1) by simp
  with p(2) show ?thesis by auto
qed

section \<open>Properties\<close>

text \<open>The blocks that the tests named for the existence of their device look at.\<close>

definition existence_test :: "asl_test \<Rightarrow> bool" where
  "existence_test t \<longleftrightarrow> test_name t \<in> {''device_node_exists'', ''thermal_zone_exists''}"

definition scope_block :: "asl_scope \<Rightarrow> (string \<times> string) option" where
  "scope_block sc = (case sc of WholeFile \<Rightarrow> None | DeviceBlock name \<Rightarrow> Some (''Device'', name)
     | NamedBlock keyword name \<Rightarrow> Some (keyword, name))"

text \<open>The block starts at the first occurrence of its name, and its text is balanced.\<close>

definition well_formed_block :: "asl_scope \<Rightarrow> string \<Rightarrow> bool" where
  "well_formed_block sc src \<longleftrightarrow> (\<forall>keyword name. scope_block sc = Some (keyword, name) \<longrightarrow>
     (\<exists>pre head body post. block_start src keyword name = Some (length pre) \<and>
        src = pre @ head @ ''{'' @ body @ ''}'' @ post \<and>
        CHR ''{'' \<notin> set head \<and> balanced body \<and> length body < 2 ^ 32 - 1))"

lemma scoped_block: "scope_block sc = Some (keyword, name) \<Longrightarrow> scoped err sc src = extract_named_block err src keyword name"
  by (auto simp: scope_block_def scoped_def extract_device_block_def split: asl_scope.splits)

lemma existence_rows:
  "\<forall>t \<in> set acpi_tests. existence_test t \<longrightarrow> (case scope_block (test_scope t) of None \<Rightarrow> False
     | Some (keyword, name) \<Rightarrow> CHR ''{'' \<notin> set (keyword @ name) \<and>
         {keyword @ ''('' @ name @ '')'', keyword @ '' ('' @ name @ '')''} \<subseteq> set (any_of t))"
  by (simp add: acpi_tests_def test_lists existence_test_def scope_block_def)

lemma block_rows:
  "\<forall>t \<in> set acpi_tests. case scope_block (test_scope t) of None \<Rightarrow> True
     | Some (keyword, name) \<Rightarrow> keyword \<noteq> [] \<and> set (keyword @ name) \<inter> set ''/*'' = {}"
  by (simp add: acpi_tests_def test_lists scope_block_def)

text \<open>The tests for the existence of a device cannot fail on their own. Once the block has been
  extracted, the assertion holds: the extraction has already found the text that it looks for,
  and would have panicked without it.\<close>

theorem existence_tests_hold:
  assumes "t \<in> set acpi_tests" "existence_test t"
  shows "run_test err read t = obind (read (test_file t)) (\<lambda>src. obind (scoped err (test_scope t) src) (\<lambda>_. Ret ()))"
proof -
  obtain keyword name where block: "scope_block (test_scope t) = Some (keyword, name)"
    and free: "CHR ''{'' \<notin> set keyword" "CHR ''{'' \<notin> set name"
    and needles: "keyword @ ''('' @ name @ '')'' \<in> set (any_of t)" "keyword @ '' ('' @ name @ '')'' \<in> set (any_of t)"
    using existence_rows assms by (auto split: option.splits)
  have "\<exists>p \<in> set (any_of t). contains b p" if "extract_named_block err src keyword name = Ret b" for src b
  proof -
    from extract_starts [OF that free] obtain p z where "p \<in> set (any_of t)" "b = [] @ p @ z"
      using needles by (metis append.assoc append_Nil)
    then show ?thesis
      unfolding contains_iff by blast
  qed
  then have "obind (extract_named_block err src keyword name) (\<lambda>b. if \<exists>p \<in> set (any_of t). contains b p then Ret () else Halted) =
      obind (extract_named_block err src keyword name) (\<lambda>_. Ret ())" for src
    by (cases "extract_named_block err src keyword name") simp_all
  then show ?thesis
    unfolding run_test_def scoped_block [OF block] by simp
qed

text \<open>C37: what is commented out still passes. If a test passes on a source, and the block it looks at is
  well formed there, it passes on the source put into a comment as a whole.\<close>

theorem commented_source_passes:
  assumes "t \<in> set acpi_tests" "run_test err (\<lambda>_. Ret src) t = Ret ()"
    and "well_formed_block (test_scope t) src"
  shows "run_test err (\<lambda>_. Ret (''/*'' @ src @ ''*/'')) t = Ret ()"
proof (cases "scope_block (test_scope t)")
  case None
  then have "test_scope t = WholeFile"
    by (auto simp: scope_block_def split: asl_scope.splits)
  with assms(2) show ?thesis
    using contains_append [of src _ "''/*''" "''*/''"] by (auto simp: run_test_def scoped_def split: if_splits)
next
  case (Some x)
  obtain keyword name where x: "x = (keyword, name)"
    by (cases x)
  from assms(3) Some x obtain pre head body post
    where start: "block_start src keyword name = Some (length pre)" and src: "src = pre @ head @ ''{'' @ body @ ''}'' @ post"
    and block: "CHR ''{'' \<notin> set head" "balanced body" "length body < 2 ^ 32 - 1"
    unfolding well_formed_block_def by blast
  have pure: "keyword \<noteq> []" "set (keyword @ name) \<inter> set ''/*'' = {}"
    using block_rows assms(1) Some x by fastforce+
  have "find_str (keyword @ q) (''/*'' @ src @ ''*/'') = map_option ((+) 2) (find_str (keyword @ q) src)"
    if "set q \<inter> set ''/*'' = {}" for q
  proof -
    have "find_str (keyword @ q) (''/*'' @ src @ ''*/'') = map_option ((+) (length ''/*'')) (find_str (keyword @ q) (src @ ''*/''))"
      by (rule find_str_prepend) (use pure in \<open>cases keyword; auto\<close>)+
    also have "find_str (keyword @ q) (src @ ''*/'') = find_str (keyword @ q) src"
      by (rule find_str_append) (use pure that in auto)
    finally show ?thesis
      by (cases "find_str (keyword @ q) src") simp_all
  qed
  then have "block_start (''/*'' @ src @ ''*/'') keyword name = map_option ((+) 2) (block_start src keyword name)"
    using pure(2) by (auto simp: block_start_def split: option.splits)
  then have "block_start (''/*'' @ src @ ''*/'') keyword name = Some (length (''/*'' @ pre))"
    unfolding start by simp
  from extract_balanced [OF this _ block, of "post @ ''*/''" err]
  have "extract_named_block err (''/*'' @ src @ ''*/'') keyword name = Ret (head @ ''{'' @ body @ ''}'')"
    unfolding src by simp
  also have "\<dots> = extract_named_block err src keyword name"
    using extract_balanced [OF start src block] by simp
  finally have "extract_named_block err (''/*'' @ src @ ''*/'') keyword name = extract_named_block err src keyword name" .
  with assms(2) show ?thesis
    by (simp add: run_test_def scoped_block [OF Some [unfolded x]])
qed

section \<open>Witnesses\<close>

definition mtpt_exists :: asl_test where
  "mtpt_exists = block_test ''mtpt'' ''MSFTThermal.asl'' (DeviceBlock ''MTPT'')
     (''device_node_exists'', [''Device (MTPT)'', ''Device(MTPT)''])"

lemma mtpt_exists_listed: "mtpt_exists \<in> set acpi_tests"
  by (simp add: acpi_tests_def mtpt_tests_def mtpt_exists_def)

lemma mtpt_block: "test_scope mtpt_exists = DeviceBlock ''MTPT''" "existence_test mtpt_exists"
  by (simp_all add: mtpt_exists_def block_test_def existence_test_def)

lemma mtpt_extracted: "extract_device_block err ''Device (MTPT) {}'' ''MTPT'' = Ret ''Device (MTPT) {}''"
  by (simp add: extract_device_block_def extract_named_block_def block_start_def find_str.simps close_brace.simps
      next_token_def skipped_def)

theorem existence_tests_hold_witness:
  "run_test (\<lambda>_. 0) (\<lambda>_. Ret ''Device (MTPT) {}'') mtpt_exists = Ret ()"
  unfolding existence_tests_hold [OF mtpt_exists_listed mtpt_block(2)]
  by (simp add: mtpt_block(1) scoped_def mtpt_extracted)

theorem commented_source_passes_witness:
  "run_test (\<lambda>_. 0) (\<lambda>_. Ret ''/*Device (MTPT) {}*/'') mtpt_exists = Ret ()"
proof -
  have runs: "run_test (\<lambda>_. 0) (\<lambda>_. Ret ''Device (MTPT) {}'') mtpt_exists = Ret ()"
    unfolding run_test_def mtpt_block(1)
    by (simp add: scoped_def mtpt_extracted mtpt_exists_def block_test_def contains_def find_str.simps)
  have start: "block_start ''Device (MTPT) {}'' ''Device'' ''MTPT'' = Some 0"
    by (simp add: block_start_def find_str.simps)
  have "\<exists>pre head body post. block_start ''Device (MTPT) {}'' ''Device'' ''MTPT'' = Some (length pre) \<and>
      ''Device (MTPT) {}'' = pre @ head @ ''{'' @ body @ ''}'' @ post \<and>
      CHR ''{'' \<notin> set head \<and> balanced body \<and> length body < 2 ^ 32 - 1"
    by (rule exI [of _ "[]"], rule exI [of _ "''Device (MTPT) ''"], rule exI [of _ "[]"], rule exI [of _ "[]"])
      (simp add: start balanced.bal_nil)
  then have "well_formed_block (test_scope mtpt_exists) ''Device (MTPT) {}''"
    by (simp add: well_formed_block_def mtpt_block(1) scope_block_def)
  from commented_source_passes [OF mtpt_exists_listed runs this] show ?thesis by simp
qed

end
