(* ===== verification/Spec2Isabelle.thy ===== *)
theory Spec2Isabelle
  imports Flash_Image Fvb_Contract Ec_Session Dxe_Core Asl_Checks
begin

text \<open>
  A verification library for the firmware of the Radxa Orion O6 platform.

  The program. The repository builds the boot chain of the board. Most of it is submodules and
  configuration; its own code, modelled here, is
  \<^item> the NOR flash driver \<^verbatim>\<open>NorFlashStmmRuntimeDxe\<close> (C, under
    \<^verbatim>\<open>src/bootchain/modules/uefi/platform/OVERRIDE/Silicon/CIX/Sky1/Drivers/\<close>), which publishes
    the flash as a block device, as a disk, and, for the part that holds the UEFI variables, as a
    firmware volume;
  \<^item> the platform library \<^verbatim>\<open>PlatformLib\<close> (C and assembly, under
    \<^verbatim>\<open>src/bootchain/modules/uefi/platform/Library/\<close>), which describes memory and processor cores;
  \<^item> the secure partition (Rust, under \<^verbatim>\<open>src/bootchain/modules/secure-services/platform/\<close>), whose
    passthrough services forward commands of the operating system to the embedded controller over a
    UART;
  \<^item> the binary of the boot core: its log, panic handler and entry point (Rust, under
    \<^verbatim>\<open>src/bootchain/modules/uefi/platform/Drivers/PatinaDxeCore_ru/\<close>);
  \<^item> the checks of the platform's ACPI sources: the extraction of blocks and the tests on them (Rust,
    \<^verbatim>\<open>src/common/tests/acpi/src/main.rs\<close>).

  How the parts interact. The entry point \<open>NorFlashInitialise\<close> creates one instance per flash
  device; \<open>NorFlashCreateInstance\<close> has \<open>NorFlashFvbInitialize\<close> locate and validate the variable
  volume and installs the protocols, the firmware volume protocol only if the headers are valid.
  The three protocols then serve requests on the same device through the same instance: the
  volume protocol in blocks counted from \<open>StartLba\<close>, the block and the disk protocol from the
  start of the device. At the change to virtual addresses the driver converts the pointers in
  its instances, through which the operating system then calls the volume protocol. The platform
  library runs before and is independent of the driver, and so are the services, of which all
  three share one implementation; the partition's image lies in memory that the platform
  library's map reserves, and the registers of the partition and of the boot core in memory that
  it maps as device memory.

  Theories, in the order of the code, and the source they model.
  \<^item> \<^verbatim>\<open>Prelude\<close>: words, status codes, \<open>outcome\<close> (a value, a halt at an assertion or a panic, or
    undefined behaviour), little-endian numbers, byte ranges; the collections \<open>status_simps\<close>,
    \<open>range_simps\<close> and \<open>layout_simps\<close>.
  \<^item> \<^verbatim>\<open>Requests\<close>: servers of requests over a state, the states a server reaches, and the
    locales \<open>request_server\<close> (every served request keeps a relation), \<open>server_pair\<close> and
    \<open>simulation\<close> (every served request is a step of a specification).
  \<^item> \<^verbatim>\<open>Nor_Flash_Instance\<close>: the structures of the driver, and \<open>nor_flash_lib\<close> with its contract.
  \<^item> \<^verbatim>\<open>Edk2\<close>: what the driver takes from EDK II, the configuration values of this board, the pool.
  \<^item> \<^verbatim>\<open>Fvb_Header\<close>: NorFlashFvb.c, the headers of the variable volume: the layout checks, writing
    and validating. Lemmas: image and cast are inverse, the sum of a header, the acceptance
    condition \<open>volume_headers_valid\<close> that validation implements.
  \<^item> \<^verbatim>\<open>Fvb_Protocol\<close>: NorFlashFvb.c, the protocol. Lemmas: what each request does on every branch,
    within which block it stays, erasing as the abstract \<open>erase_spec\<close>.
  \<^item> \<^verbatim>\<open>Fvb_Contract\<close>: what the comments of NorFlashFvb.c document for reading, writing and erasing,
    as relations between a request and its outcome, and for which requests the code keeps it.
  \<^item> \<^verbatim>\<open>Fvb_Volume\<close>: the abstract volume a client relies on, a step relation over bytes counted from
    the start of the volume; the protocol refines it (locale \<open>simulation\<close> of \<^verbatim>\<open>Requests\<close>), and what
    requests keep is proved on the abstract volume.
  \<^item> \<^verbatim>\<open>Block_Io\<close>, \<^verbatim>\<open>Disk_Io\<close>: NorFlashBlockIoDxe.c and NorFlashDiskIoDxe.c.
  \<^item> \<^verbatim>\<open>Nor_Flash_Driver\<close>: NorFlashStmmRuntimeDxe.c, over a state that holds the globals, the
    instances by address, the cells of the pointer array and a log of service calls.
  \<^item> \<^verbatim>\<open>Nor_Flash_Boot\<close>: the entry point run on the board's device, and the next boot after a reset.
  \<^item> \<^verbatim>\<open>Nor_Flash_Runtime\<close>: the driver after its entry point as a state machine. The events are
    the memory notification, requests to the three protocols, allowed only where the protocol was
    installed, and the address change; \<open>driver_reached\<close> is the states they lead to. Lemmas: the type
    of the instance table is an invariant, no event faults, a block keeps its bytes; during boot an
    instance is what the entry point made it (\<open>driver_booted\<close>).
  \<^item> \<^verbatim>\<open>Nor_Flash_Virtual\<close>: calls through the function pointers of NorFlashFvb.h's protocol, before and
    after the address change: \<open>client_call\<close> reaches the code only if the pointer holds its current
    address, \<open>runtime_reached\<close> is the states after the change. Lemmas: what the handlers leave
    of an instance, that its pointers are current, and that a run of calls is a run of the
    protocol's functions.
  \<^item> \<^verbatim>\<open>Flash_Image\<close>: common/spi_flash_config_all.json, the files packaged around the volume. Lemmas: the
    volume is one of the images, which clients' requests do not leave, and a start on headers
    that are not valid.
  \<^item> \<^verbatim>\<open>Platform_Core\<close>: ArmPlatformLib.c and AArch64/ArmPlatformHelper.S.
  \<^item> \<^verbatim>\<open>Memory_Map\<close>: ArmPlatformLibMem.c. The map in closed form, \<open>tiles\<close> for contiguous regions,
    and the order of regions by address.
  \<^item> \<^verbatim>\<open>Ec_Uart\<close>: uart.rs, and the locale \<open>byte_link\<close> of a UART that delivers bytes in order.
  \<^item> \<^verbatim>\<open>Passthrough\<close>, \<^verbatim>\<open>Ec_Services\<close>: passthrough_service.rs, and battery.rs, thermal.rs and
    time_alarm.rs with the locale \<open>command_table\<close>.
  \<^item> \<^verbatim>\<open>Secure_Partition\<close>: the services' identities, main.rs, baremetal/mod.rs, panic.rs and
    interrupt.rs, and the manifest and the linker script.
  \<^item> \<^verbatim>\<open>Ec_Session\<close>: sequences of requests to the services, which share one UART and one controller.
    The locale \<open>controller_link\<close> extends \<open>byte_link\<close> with what the controller emits for the bytes it gets;
    \<open>exchange\<close> is the abstract run, over the requests made and the replies in flight. Lemmas: a session is a run
    of it, and frames in a row can be told apart.
  \<^item> \<^verbatim>\<open>Log_Levels\<close>: the levels of the crate \<^verbatim>\<open>log\<close>.
  \<^item> \<^verbatim>\<open>Dxe_Log\<close>, \<^verbatim>\<open>Dxe_Core\<close>: the log formatter of PatinaDxeCore_ru/src/lib.rs and the logger of its
    main.rs; the panic handler, the entry point and the constants.
  \<^item> \<^verbatim>\<open>Asl_Extract\<close>: common/tests/acpi/src/main.rs. The expressions of the tokens, the lexer as a
    function that takes the longest match, the search for the matching brace, and \<open>balanced\<close> text.
  \<^item> \<^verbatim>\<open>Asl_Checks\<close>: the same file, the search for the tables and the tests as a table of blocks and strings.
  \<^item> this theory: what involves several components.

  What is assumed. Code outside the repository is a parameter. \<open>nor_flash_lib\<close> holds the six
  functions of NorFlashLib over an arbitrary device state, and \<open>nor_flash_contract\<close> says, for a
  view \<open>c\<close> of the device as addressable bytes, which bytes a call may change, and what it has done
  when it succeeds; nothing says that a call succeeds. \<open>edk2\<close> holds constants and the
  library routines that sum and divide, and \<open>edk2_documented\<close> their documentation. The record
  \<open>boot_env\<close> decides statuses and handles of the service calls, \<open>memory_env\<close> and \<open>platform_env\<close>
  the configuration and the hardware registers, \<open>mmio\<close> the accesses to the UART, \<open>ffa_lib\<close> and
  \<open>sp_lib\<close> the message library and the message handler, \<open>emits\<close> and \<open>ans\<close> in \<^verbatim>\<open>Ec_Session\<close> what the controller
  has emitted for the bytes it was sent and its reply to a request, and \<open>heapless_string\<close> the log buffer, with its
  documentation \<open>heapless_documented\<close>, \<open>err\<close> in \<^verbatim>\<open>Asl_Extract\<close> the length of a lexer error,
  \<open>file_system\<close> the files that the source checks read, and the argument \<open>conv\<close> of the address
  change the addresses that memory has after it. Two data layouts are those of public specifications: the firmware volume
  and variable store headers, and the MCTP packet in \<^verbatim>\<open>mctp_packet\<close>; the sizes of register frames below are Arm's. Each hypothesis is shown to
  be satisfiable by the witnesses, on an array of bytes for the flash and a list of bytes for
  the UART.

  Integers have the width of the source and wrap as they do there. Loops are structural
  recursion, recursion with a measure (the 12 core bits, the arguments of a message, the flag of the
  panic handler, the rest of an ACPI source), or, where
  the code may wait for ever (polling the UART, receiving packets until the last, a panic handler
  entered again by the logger it calls), a partial
  function whose result \<open>None\<close> is that it does not return; the properties state that it does.
  No fuel is used.

  What is not modelled: debug output and post codes (except where printing dereferences a
  pointer), the contents of events and handles beyond their registration, concurrency (boot services are
  not reentrant at the task level used), the dispatch of messages to the services (the message
  handler is a crate), the Patina boot core itself (a crate that the binary configures), the tool that packages the flash image, the ACPI
  sources (a submodule; the tests that read them are modelled, not their outcome on them), build
  files and patches.
\<close>

section \<open>The three protocols on one device\<close>

interpretation protected: server_pair "fvb_serve L I"
    "\<lambda>r. (nor_flash_contract L c \<and> media_linked mem I \<and> ReadOnly (Media I)) \<and> buffer_ok r"
    "\<lambda>d d'. c d' = c d" "block_io_serve L debug mem I"
    "\<lambda>r. (nor_flash_contract L c \<and> media_linked mem I \<and> ReadOnly (Media I)) \<and> block_buffer_ok r"
  for L I c debug mem
  by unfold_locales (auto dest: fvb_serve_read_only block_io_serve_read_only)

text \<open>Write protection. While the media is read-only, no sequence of firmware volume and Block I/O
  requests, mixed in any order and with any arguments, changes a byte of the flash.\<close>

theorem driver_read_only_frozen:
  assumes "nor_flash_contract L c" "media_linked mem I" "ReadOnly (Media I)"
    and "reaches (case_sum (fvb_serve L I) (block_io_serve L debug mem I))
           (case_sum buffer_ok block_buffer_ok) d d'"
  shows "c d' = c d"
  using protected.both.reaches_keeps
      [where L = L and I = I and c = c and debug = debug and mem = mem and d = d and d' = d'] assms
  by simp

text \<open>C23: the protocols see the same bytes. What a firmware volume write that does not fail stores at an
  offset of a block of the volume, a disk read at the corresponding byte of the device and a
  block read of the corresponding device block return, when they succeed.\<close>

theorem protocols_agree:
  assumes "edk2_documented K" "nor_flash_contract L c" "volume_fits I" "media_linked mem I" "\<not> ReadOnly (Media I)"
    and "lba < Blocks I" "0 < unat num" "unat off + unat num \<le> bsize I"
    and "unat num \<le> length buf" "unat num \<le> length rbuf" "bsize I \<le> length bbuf"
    and "FvbWrite L I lba off num buf d = (s, n, d')" "\<not> EFI_ERROR s"
    and "unat disk_offset = (unat (StartLba I) + unat lba) * bsize I + unat off"
    and "NorFlashDiskIoReadDisk K L I disk_media disk_offset num rbuf d' = Ret (EFI_SUCCESS, rbuf', d1)"
    and "NorFlashBlockIoReadBlocks L mem (Some I) block_media (StartLba I + lba) (block_size I) addr bbuf d'
           = Ret (EFI_SUCCESS, bbuf', d2)"
  shows "take (unat num) rbuf' = take (unat num) buf \<and> slice (unat off) (unat num) bbuf' = take (unat num) buf"
proof -
  let ?base = "(unat (StartLba I) + unat lba) * bsize I"
  have off: "unat off < bsize I"
    using assms(7,8) by linarith
  have lba: "device_block I lba = unat (StartLba I) + unat lba"
    using device_block_in_volume [OF assms(3,6)] .
  have written: "c d' = write_range (c d) (?base + unat off) (take (unat num) buf)"
    using FvbWrite_within(2) [OF assms(2,9,5,7) off assms(8,12,13)] lba by simp
  have len: "length (take (unat num) buf) = unat num"
    using assms(9) by simp
  have "BlockSize (Media I) \<noteq> 0"
    using off by auto
  then have "rbuf' = read_range (c d') (unat disk_offset) (unat num) @ drop (unat num) rbuf"
    by (rule disk_read_contents(2) [OF assms(1,2) _ assms(10,15) refl])
  then have disk: "take (unat num) rbuf' = take (unat num) buf"
    using read_write_same [of "c d" "?base + unat off" "take (unat num) buf"] len
    by (simp add: written assms(14))
  have r: "NorFlashReadBlocks L I (StartLba I + lba) (block_size I) bbuf d' = (EFI_SUCCESS, bbuf', d2)"
    using assms(16) unfolding read_blocks_linked [OF assms(4)] by (auto split: if_splits)
  have "bbuf' = read_range (c d') ?base (bsize I) @ drop (bsize I) bbuf"
    using NorFlashReadBlocks_contract(3) [OF assms(2) r] assms(11) lba by (simp add: flash_addr_def)
  then have "slice (unat off) (unat num) bbuf' = slice (unat off) (unat num) (read_range (c d') ?base (bsize I))"
    using assms(8) by (simp add: slice_append_inside)
  also have "\<dots> = read_range (c d') (?base + unat off) (unat num)"
    by (rule slice_read_range [OF assms(8)])
  also have "\<dots> = take (unat num) buf"
    using read_write_same [of "c d" "?base + unat off" "take (unat num) buf"] len by (simp add: written)
  finally show ?thesis
    using disk by simp
qed

section \<open>The registers the components use\<close>

text \<open>
  The frames of registers behind the addresses that the code names, with the sizes of Arm's public specifications: a PL011 has a
  page of 4 KB, the distributor of the interrupt controller 64 KB, and a redistributor, of which there is one for each of the 12
  cores, at most four frames of 64 KB.
\<close>

definition register_frames :: "(u64 \<times> nat) list" where
  "register_frames = [(UART_BASE, 0x1000), (DXE_UART_BASE, 0x1000), (fst gic_bases, 0x10000), (snd gic_bases, 12 * 0x40000)]"

definition used_registers :: "u64 set" where
  "used_registers = {x. \<exists>(base, size) \<in> set register_frames. unat base \<le> unat x \<and> unat x < unat base + size}"

text \<open>C30: the registers are mapped as device memory, and the partition's manifest names the other UART. In
  every memory map that the platform library returns for this board, every address in the register frames of the two UARTs and
  of the interrupt controller, with the redistributors of all cores, which the partition and the boot core use, lies in exactly
  one region, the device region below system memory. Of these addresses the device region of
  the partition's manifest holds exactly those of the boot core's UART; the two registers that the partition
  accesses are among the others.\<close>

theorem device_registers_mapped:
  assumes "0x85000000 \<le> unat (mSystemMemoryEnd M)"
    and "unat (mSystemMemoryEnd M) + 1 < unat (PcdDramHighSpaceBase M)" "\<forall>n. hob_created M n"
    and "ArmPlatformGetVirtualMemoryMap (orion_memory M) hobs = Ret (Some table, hobs')"
    and "x \<in> used_registers"
  shows "filter (covers (unat x)) table = [region_entry (0x1000, 0x7FFFF000, ARM_MEMORY_REGION_ATTRIBUTE_DEVICE)] \<and>
    (in_device_region orion_o6_ec_sp x \<longleftrightarrow> unat DXE_UART_BASE \<le> unat x \<and> unat x < unat DXE_UART_BASE + 0x1000) \<and>
    {UART_DR, UART_FR} \<subseteq> used_registers \<and> \<not> in_device_region orion_o6_ec_sp UART_DR \<and> \<not> in_device_region orion_o6_ec_sp UART_FR"
proof -
  note frames = used_registers_def register_frames_def gic_bases_def in_device_region_def orion_o6_ec_sp_def
    UART_DR_def UART_FR_def UART_BASE_def DXE_UART_BASE_def GICD_BASE_def GICR_BASE_def
  have x: "0x1000 \<le> unat x" "unat x < 0x80000000"
    using assms(5) by (auto simp: frames)
  have region: "(in_device_region orion_o6_ec_sp x \<longleftrightarrow> unat DXE_UART_BASE \<le> unat x \<and> unat x < unat DXE_UART_BASE + 0x1000) \<and>
    {UART_DR, UART_FR} \<subseteq> used_registers \<and> \<not> in_device_region orion_o6_ec_sp UART_DR \<and> \<not> in_device_region orion_o6_ec_sp UART_FR"
    by (simp add: frames)
  obtain high where table: "table = map region_entry (planned_regions (orion_memory M) high) @ [end_of_table]"
    and ends: "unat (mSystemMemoryEnd (orion_memory M) + 1) = unat (mSystemMemoryEnd M) + 1"
      "frame_buffer_end (orion_memory M) = 0x85000000"
    by (rule orion_table [OF assms(1-4)])
  from ends have "filter (covers (unat x)) table =
      [region_entry (0x1000, 0x7FFFF000, ARM_MEMORY_REGION_ATTRIBUTE_DEVICE)]"
    using x assms(1,2)
    by (cases high)
      (simp_all add: table planned_regions_def region_entry_def covers_def end_of_table_def orion_memory_def)
  with region show ?thesis by simp
qed

section \<open>Witnesses\<close>

theorem driver_read_only_frozen_witness:
  "\<exists>I mem d. ReadOnly (Media I) \<and> reaches (case_sum (fvb_serve array_lib I) (block_io_serve array_lib True mem I))
     (case_sum buffer_ok block_buffer_ok) blank_flash d \<and> d = blank_flash"
proof -
  define I where "I = orion_instance\<lparr>Media := (Media orion_instance)\<lparr>ReadOnly := True\<rparr>\<rparr>"
  define mem :: media_mem where "mem = [0x8040 \<mapsto> Media I]"
  have linked: "media_linked mem I" and ro: "ReadOnly (Media I)"
    by (simp_all add: media_linked_def mem_def I_def)
  have "reaches (case_sum (fvb_serve array_lib I) (block_io_serve array_lib True mem I))
      (case_sum buffer_ok block_buffer_ok) blank_flash blank_flash"
    by (rule reaches.serve [OF reaches.start, of _ "Inl (WriteRequest 2 0x10 4 [1, 2, 3, 4])"])
      (simp_all add: FvbWrite_def ro)
  then show ?thesis
    using driver_read_only_frozen [OF array_lib_contract linked ro] ro by blast
qed

theorem protocols_agree_witness:
  "\<exists>rbuf bbuf d1 d2. NorFlashDiskIoReadDisk doc_edk2 array_lib orion_instance 0 0x382010 4 [0, 0, 0, 0]
       (write_range blank_flash 0x382010 [1, 2, 3, 4]) = Ret (EFI_SUCCESS, rbuf, d1) \<and>
     NorFlashBlockIoReadBlocks array_lib orion_media (Some orion_instance) 0 0x382 0x1000 0x9000
       (replicate 0x1000 0) (write_range blank_flash 0x382010 [1, 2, 3, 4]) = Ret (EFI_SUCCESS, bbuf, d2) \<and>
     slice 0x10 4 bbuf = take 4 rbuf"
proof -
  define zeros :: "u8 list" where "zeros = replicate 0x1000 0"
  have len: "length zeros = 0x1000"
    by (simp add: zeros_def)
  obtain rbuf d1 where r: "NorFlashDiskIoReadDisk doc_edk2 array_lib orion_instance 0 0x382010 4 [0, 0, 0, 0]
       (write_range blank_flash 0x382010 [1, 2, 3, 4]) = Ret (EFI_SUCCESS, rbuf, d1)"
    by (subst (asm) disk_read_eq [OF doc_edk2_documented])
      (simp_all add: array_lib_def array_read_def in_device_def flash_addr_def)
  obtain bbuf d2 where b: "NorFlashBlockIoReadBlocks array_lib orion_media (Some orion_instance) 0
       (StartLba orion_instance + 2) (block_size orion_instance) 0x9000 zeros
       (write_range blank_flash 0x382010 [1, 2, 3, 4]) = Ret (EFI_SUCCESS, bbuf, d2)"
    unfolding read_blocks_linked [OF orion_linked]
    by (simp add: array_lib_def array_read_def in_device_def flash_addr_def)
  have "take (unat (4 :: u64)) rbuf = take (unat (4 :: u64)) [1, 2, 3, 4] \<and>
      slice (unat (0x10 :: u64)) (unat (4 :: u64)) bbuf = take (unat (4 :: u64)) [1, 2, 3, 4]"
    by (rule protocols_agree [OF doc_edk2_documented array_lib_contract orion_volume_fits orion_linked
          _ _ _ _ _ _ _ orion_write _ _ r b])
      (simp_all add: len)
  moreover have "StartLba orion_instance + 2 = 0x382" "block_size orion_instance = 0x1000"
    by simp_all
  ultimately show ?thesis
    using r b by (simp add: zeros_def)
qed

theorem device_registers_mapped_witness:
  "\<exists>table hobs r. ArmPlatformGetVirtualMemoryMap sample_memory [] = Ret (Some table, hobs) \<and>
     filter (covers (unat UART_DR)) table = [r] \<and> filter (covers (unat (GICR_BASE + 0x2FFFFF))) table = [r] \<and>
     in_device_region orion_o6_ec_sp DXE_UART_BASE"
proof -
  obtain table hobs where t: "ArmPlatformGetVirtualMemoryMap sample_memory [] = Ret (Some table, hobs)"
    by (rule sample_memory_map)
  have mapped: "filter (covers (unat x)) table = [region_entry (0x1000, 0x7FFFF000, ARM_MEMORY_REGION_ATTRIBUTE_DEVICE)]"
    "in_device_region orion_o6_ec_sp x \<longleftrightarrow> unat DXE_UART_BASE \<le> unat x \<and> unat x < unat DXE_UART_BASE + 0x1000"
    if "x \<in> used_registers" for x
    using device_registers_mapped [OF _ _ _ t that] by (simp_all add: sample_env_def)
  have "UART_DR \<in> used_registers" "GICR_BASE + 0x2FFFFF \<in> used_registers" "DXE_UART_BASE \<in> used_registers"
    by (simp_all add: used_registers_def register_frames_def gic_bases_def UART_DR_def UART_BASE_def GICR_BASE_def
        GICD_BASE_def DXE_UART_BASE_def)
  with mapped t show ?thesis by (metis add.commute le_add1 less_add_same_cancel1 zero_less_numeral order_refl)
qed

end
